(* ===== verification/Prelude.thy ===== *)
theory Prelude
  imports
    Main
    "HOL-Library.Word"
    "HOL-Library.AList"
    "HOL-Library.List_Lexorder"
    "HOL-Library.Char_ord"
    "HOL-Library.Sublist"
    "HOL-Library.Multiset"
begin

text \<open>
  What every component shares: the error values of Go, the state-and-error computations the
  handlers are written in, the association lists that stand for Go maps, and the strings and
  decimal numbers the device names are made of.

  \<^item> An error value keeps its chain: \<open>Wrap m e\<close> is \<open>fmt.Errorf("m: %w", e)\<close>, \<open>Err m\<close> an error
    that hides its cause (\<open>%v\<close>, \<open>%s\<close>) or has none. The message is the constant part of the format
    string; interpolated values are left out. A panic (a nil dereference, an explicit
    \<open>panic\<close>) is not an error value: it passes every error check.
  \<^item> A computation of type \<open>('w, 'a) act\<close> takes the world and returns a result and the
    new world. State changes made before an error stay, as they do in the code.
  \<^item> A Go map is an association list. The order of the list is the order a \<open>range\<close> statement
    visits the entries in; Go leaves that order open, and the theorems hold for every order.
\<close>

named_theorems act_defs \<open>definitions of the basic computations\<close>
named_theorems act_simps \<open>rewriting of sequenced computations\<close>
named_theorems keeps_intros \<open>rules for computations that keep an assertion\<close>

section \<open>Errors and computations\<close>

datatype err =
    Err string
  | Wrap string err
  | NotExist
  | NotFound
  | AlreadyExists
  | Conflict

datatype fault = Failed err | Panicked string

type_synonym 'a res = "fault + 'a"
type_synonym ('w, 'a) act = "'w \<Rightarrow> 'a res \<times> 'w"

text \<open>\<open>apierrors.IsNotFound\<close> looks through wrapped errors, \<open>os.IsNotExist\<close> does not.\<close>

fun isNotFound :: "err \<Rightarrow> bool" where
  "isNotFound NotFound = True"
| "isNotFound (Wrap m e) = isNotFound e"
| "isNotFound _ = False"

fun isAlreadyExists :: "err \<Rightarrow> bool" where
  "isAlreadyExists AlreadyExists = True"
| "isAlreadyExists (Wrap m e) = isAlreadyExists e"
| "isAlreadyExists _ = False"

definition isNotExist :: "err \<Rightarrow> bool" where
  "isNotExist e \<longleftrightarrow> e = NotExist"

definition ret :: "'a \<Rightarrow> ('w, 'a) act" where
  [act_defs]: "ret x = (\<lambda>w. (Inr x, w))"

definition throw :: "err \<Rightarrow> ('w, 'a) act" where
  [act_defs]: "throw e = (\<lambda>w. (Inl (Failed e), w))"

definition panic :: "string \<Rightarrow> ('w, 'a) act" where
  [act_defs]: "panic m = (\<lambda>w. (Inl (Panicked m), w))"

definition seq :: "('w, 'a) act \<Rightarrow> ('a \<Rightarrow> ('w, 'b) act) \<Rightarrow> ('w, 'b) act" where
  [act_defs]: "seq m k = (\<lambda>w. case m w of (Inl f, w') \<Rightarrow> (Inl f, w') | (Inr x, w') \<Rightarrow> k x w')"

definition gets :: "('w \<Rightarrow> 'a) \<Rightarrow> ('w, 'a) act" where
  [act_defs]: "gets f = (\<lambda>w. (Inr (f w), w))"

definition modify :: "('w \<Rightarrow> 'w) \<Rightarrow> ('w, unit) act" where
  [act_defs]: "modify f = (\<lambda>w. (Inr (), f w))"

definition lift_res :: "'a res \<Rightarrow> ('w, 'a) act" where
  [act_defs]: "lift_res r = (\<lambda>w. (r, w))"

text \<open>\<open>wrapping m a\<close> is \<open>if err != nil { return fmt.Errorf("m: %w", err) }\<close>, \<open>hiding m a\<close> the
  same with \<open>%v\<close>, and \<open>attempt a\<close> hands the error to the code that follows.\<close>

fun wrap_res :: "string \<Rightarrow> 'a res \<Rightarrow> 'a res" where
  "wrap_res m (Inl (Failed e)) = Inl (Failed (Wrap m e))"
| "wrap_res m r = r"

fun hide_res :: "string \<Rightarrow> 'a res \<Rightarrow> 'a res" where
  "hide_res m (Inl (Failed e)) = Inl (Failed (Err m))"
| "hide_res m r = r"

definition wrapping :: "string \<Rightarrow> ('w, 'a) act \<Rightarrow> ('w, 'a) act" where
  [act_defs]: "wrapping m a = (\<lambda>w. apfst (wrap_res m) (a w))"

definition hiding :: "string \<Rightarrow> ('w, 'a) act \<Rightarrow> ('w, 'a) act" where
  [act_defs]: "hiding m a = (\<lambda>w. apfst (hide_res m) (a w))"

fun attempt_res :: "'a res \<Rightarrow> (err + 'a) res" where
  "attempt_res (Inl (Failed e)) = Inr (Inl e)"
| "attempt_res (Inl (Panicked m)) = Inl (Panicked m)"
| "attempt_res (Inr x) = Inr (Inr x)"

definition attempt :: "('w, 'a) act \<Rightarrow> ('w, err + 'a) act" where
  [act_defs]: "attempt a = (\<lambda>w. apfst attempt_res (a w))"

text \<open>\<open>for _, x := range xs\<close>, with and without a value per step.\<close>

fun each :: "('a \<Rightarrow> ('w, unit) act) \<Rightarrow> 'a list \<Rightarrow> ('w, unit) act" where
  "each f [] = ret ()"
| "each f (x # xs) = seq (f x) (\<lambda>_. each f xs)"

fun collect :: "('a \<Rightarrow> ('w, 'b) act) \<Rightarrow> 'a list \<Rightarrow> ('w, 'b list) act" where
  "collect f [] = ret []"
| "collect f (x # xs) = seq (f x) (\<lambda>y. seq (collect f xs) (\<lambda>ys. ret (y # ys)))"

text \<open>The same without a world, for functions that only return or fail.\<close>

definition res_seq :: "'a res \<Rightarrow> ('a \<Rightarrow> 'b res) \<Rightarrow> 'b res" where
  "res_seq r k = (case r of Inl f \<Rightarrow> Inl f | Inr x \<Rightarrow> k x)"

fun res_all :: "('a \<Rightarrow> 'b res) \<Rightarrow> 'a list \<Rightarrow> 'b list res" where
  "res_all f [] = Inr []"
| "res_all f (x # xs) = res_seq (f x) (\<lambda>y. res_seq (res_all f xs) (\<lambda>ys. Inr (y # ys)))"

text \<open>Dereferencing a pointer: \<open>None\<close> is nil.\<close>

definition deref :: "'a option \<Rightarrow> 'a res" where
  "deref p = (case p of None \<Rightarrow> Inl (Panicked ''nil pointer dereference'') | Some x \<Rightarrow> Inr x)"

lemma deref_simps [simp]:
  "deref (Some x) = Inr x"
  "deref None = Inl (Panicked ''nil pointer dereference'')"
  by (simp_all add: deref_def)

lemma res_seq_simps [simp]:
  "res_seq (Inr x) k = k x"
  "res_seq (Inl f) k = Inl f"
  by (simp_all add: res_seq_def)

lemma res_seq_Inr:
  "res_seq r k = Inr y \<longleftrightarrow> (\<exists>x. r = Inr x \<and> k x = Inr y)"
  by (cases r) auto

lemma res_all_Inr:
  "res_all f xs = Inr ys \<longleftrightarrow> list_all2 (\<lambda>x y. f x = Inr y) xs ys"
  by (induction xs arbitrary: ys) (auto simp: res_seq_Inr list_all2_Cons1)

lemma res_all_total: "(\<And>x. x \<in> set xs \<Longrightarrow> f x = Inr (g x)) \<Longrightarrow> res_all f xs = Inr (map g xs)"
  by (induction xs) auto

lemma res_all_cong_total: "\<forall>x \<in> set xs. f x = Inr (g x) \<Longrightarrow> res_all f xs = Inr (map g xs)"
  by (simp add: res_all_total)

section \<open>Rewriting sequenced computations\<close>

lemma seq_Inr:
  "seq m k w = (Inr y, w'') \<longleftrightarrow> (\<exists>x w'. m w = (Inr x, w') \<and> k x w' = (Inr y, w''))"
  by (auto simp: seq_def split: prod.splits sum.splits)

lemma seq_Inl:
  "seq m k w = (Inl f, w'') \<longleftrightarrow>
     m w = (Inl f, w'') \<or> (\<exists>x w'. m w = (Inr x, w') \<and> k x w' = (Inl f, w''))"
  by (auto simp: seq_def split: prod.splits sum.splits)

lemma seq_step: "m w = (Inr x, w') \<Longrightarrow> seq m k w = k x w'"
  by (simp add: seq_def)

lemma seq_stop: "m w = (Inl f, w') \<Longrightarrow> seq m k w = (Inl f, w')"
  by (simp add: seq_def)

lemma run_basic [act_simps]:
  "ret x w = (Inr x, w)"
  "throw e w = (Inl (Failed e), w)"
  "panic m w = (Inl (Panicked m), w)"
  "gets f w = (Inr (f w), w)"
  "modify g w = (Inr (), g w)"
  "lift_res r w = (r, w)"
  by (simp_all add: act_defs)

lemma seq_basic [act_simps]:
  "seq (ret x) k = k x"
  "seq (throw e) k = throw e"
  "seq (panic m) k = panic m"
  "seq (lift_res (Inr x)) k = k x"
  "seq (lift_res (Inl f)) k = lift_res (Inl f)"
  by (simp_all add: act_defs fun_eq_iff)

lemma seq_gets [act_simps]: "seq (gets f) k w = k (f w) w"
  by (simp add: act_defs)

lemma seq_modify [act_simps]: "seq (modify g) k w = k () (g w)"
  by (simp add: act_defs)

lemma seq_assoc: "seq (seq m k) h = seq m (\<lambda>x. seq (k x) h)"
  by (rule ext) (simp add: seq_def split: prod.splits sum.splits)

lemma wrap_res_Inr [simp]: "wrap_res m r = Inr x \<longleftrightarrow> r = Inr x"
  by (cases "(m, r)" rule: wrap_res.cases) auto

lemma hide_res_Inr [simp]: "hide_res m r = Inr x \<longleftrightarrow> r = Inr x"
  by (cases "(m, r)" rule: hide_res.cases) auto

lemma wrapping_Inr [act_simps]: "wrapping m a w = (Inr x, w') \<longleftrightarrow> a w = (Inr x, w')"
  by (cases "a w") (auto simp: wrapping_def)

lemma hiding_Inr [act_simps]: "hiding m a w = (Inr x, w') \<longleftrightarrow> a w = (Inr x, w')"
  by (cases "a w") (auto simp: hiding_def)

lemma snd_wrapping [act_simps]: "snd (wrapping m a w) = snd (a w)"
  by (simp add: wrapping_def)

lemma snd_hiding [act_simps]: "snd (hiding m a w) = snd (a w)"
  by (simp add: hiding_def)

lemma snd_attempt [act_simps]: "snd (attempt a w) = snd (a w)"
  by (simp add: attempt_def)

lemma attempt_Inr_Inr [act_simps]:
  "attempt a w = (Inr (Inr x), w') \<longleftrightarrow> a w = (Inr x, w')"
proof -
  have "attempt_res r = Inr (Inr x) \<longleftrightarrow> r = Inr x" for r :: "'a res"
    by (cases r rule: attempt_res.cases) auto
  then show ?thesis by (cases "a w") (auto simp: attempt_def)
qed

lemma attempt_Inr_Inl [act_simps]:
  "attempt a w = (Inr (Inl e), w') \<longleftrightarrow> a w = (Inl (Failed e), w')"
proof -
  have "attempt_res r = Inr (Inl e) \<longleftrightarrow> r = Inl (Failed e)" for r :: "'a res"
    by (cases r rule: attempt_res.cases) auto
  then show ?thesis by (cases "a w") (auto simp: attempt_def)
qed

section \<open>Assertions a computation keeps\<close>

text \<open>\<open>keeps P m\<close>: whatever \<open>m\<close> returns (a value, an error, a panic), \<open>P\<close> of the world is
  true afterwards if it was before. The rules decompose a handler along its statements.\<close>

definition keeps :: "('w \<Rightarrow> bool) \<Rightarrow> ('w, 'a) act \<Rightarrow> bool" where
  "keeps P m \<longleftrightarrow> (\<forall>w. P w \<longrightarrow> P (snd (m w)))"

lemma keepsD: "keeps P m \<Longrightarrow> P w \<Longrightarrow> P (snd (m w))"
  by (simp add: keeps_def)

lemma keeps_result: "keeps P m \<Longrightarrow> m w = (r, w') \<Longrightarrow> P w \<Longrightarrow> P w'"
  using keepsD [of P m w] by simp

lemma keeps_pure [keeps_intros, simp]:
  "keeps P (ret x)" "keeps P (throw e)" "keeps P (panic m)" "keeps P (gets f)" "keeps P (lift_res r)"
  by (simp_all add: keeps_def act_defs)

lemma keeps_modify [keeps_intros]: "(\<And>w. P w \<Longrightarrow> P (g w)) \<Longrightarrow> keeps P (modify g)"
  by (simp add: keeps_def act_defs)

lemma keeps_seq [keeps_intros]:
  assumes "keeps P m" and "\<And>x. keeps P (k x)"
  shows "keeps P (seq m k)"
proof (unfold keeps_def, intro allI impI)
  fix w assume "P w"
  with assms(1) have "P (snd (m w))" by (rule keepsD)
  then show "P (snd (seq m k w))"
    using assms(2) by (cases "m w") (auto simp: seq_def keeps_def split: sum.splits)
qed

lemma keeps_wrapping [keeps_intros]: "keeps P a \<Longrightarrow> keeps P (wrapping m a)"
  by (simp add: keeps_def act_simps)

lemma keeps_hiding [keeps_intros]: "keeps P a \<Longrightarrow> keeps P (hiding m a)"
  by (simp add: keeps_def act_simps)

lemma keeps_attempt [keeps_intros]: "keeps P a \<Longrightarrow> keeps P (attempt a)"
  by (simp add: keeps_def act_simps)

lemma keeps_if [keeps_intros]:
  "(b \<Longrightarrow> keeps P m) \<Longrightarrow> (\<not> b \<Longrightarrow> keeps P n) \<Longrightarrow> keeps P (if b then m else n)"
  by simp

lemma keeps_each [keeps_intros]: "(\<And>x. keeps P (f x)) \<Longrightarrow> keeps P (each f xs)"
  by (induction xs) (auto intro: keeps_intros)

lemma keeps_collect [keeps_intros]: "(\<And>x. keeps P (f x)) \<Longrightarrow> keeps P (collect f xs)"
  by (induction xs) (auto intro!: keeps_intros)

lemma keeps_option [keeps_intros]:
  "keeps P m \<Longrightarrow> (\<And>x. keeps P (f x)) \<Longrightarrow> keeps P (case p of None \<Rightarrow> m | Some x \<Rightarrow> f x)"
  by (cases p) auto

lemma keeps_sum [keeps_intros]:
  "(\<And>x. keeps P (f x)) \<Longrightarrow> (\<And>x. keeps P (g x)) \<Longrightarrow> keeps P (case p of Inl x \<Rightarrow> f x | Inr x \<Rightarrow> g x)"
  by (cases p) auto

lemma keeps_prod [keeps_intros]:
  "(\<And>x y. keeps P (f x y)) \<Longrightarrow> keeps P (case p of (x, y) \<Rightarrow> f x y)"
  by (cases p) auto

section \<open>Running a computation on a part of the world\<close>

text \<open>\<open>on get put m\<close> runs \<open>m\<close> on one field of a larger world.\<close>

definition on :: "('w \<Rightarrow> 's) \<Rightarrow> ('s \<Rightarrow> 'w \<Rightarrow> 'w) \<Rightarrow> ('s, 'a) act \<Rightarrow> ('w, 'a) act" where
  [act_defs]: "on get put m = (\<lambda>w. case m (get w) of (r, s) \<Rightarrow> (r, put s w))"

lemma keeps_on [keeps_intros]:
  "(\<And>w s r s'. P w \<Longrightarrow> m (get w) = (r, s') \<Longrightarrow> P (put s' w)) \<Longrightarrow> keeps P (on get put m)"
  by (auto simp: keeps_def on_def split: prod.splits)

lemma keeps_on_frame: "(\<And>w s. P w \<Longrightarrow> P (put s w)) \<Longrightarrow> keeps P (on get put m)"
  by (auto simp: keeps_def on_def split: prod.splits)

lemma on_Inr [act_simps]: "on get put m w = (Inr x, w') \<longleftrightarrow> (\<exists>s. m (get w) = (Inr x, s) \<and> w' = put s w)"
  by (auto simp: on_def split: prod.splits)

lemma on_Inl [act_simps]: "on get put m w = (Inl f, w') \<longleftrightarrow> (\<exists>s. m (get w) = (Inl f, s) \<and> w' = put s w)"
  by (auto simp: on_def split: prod.splits)

lemma lift_res_Inr [act_simps]: "lift_res r w = (x, w') \<longleftrightarrow> x = r \<and> w' = w"
  by (auto simp: lift_res_def)

section \<open>Go maps as association lists\<close>

lemma set_alist_update: "set (AList.update k v m) \<subseteq> insert (k, v) (set m)"
  by (induction m) auto

lemmas go_map_simps = AList.update_conv' AList.delete_conv' AList.dom_update
  AList.distinct_update AList.distinct_delete

lemma map_of_filter_value:
  "distinct (map fst m) \<Longrightarrow>
   map_of (filter (\<lambda>(k, v). P v) m) k = (case map_of m k of Some v \<Rightarrow> if P v then Some v else None | None \<Rightarrow> None)"
  by (induction m) (auto split: option.splits dest: map_of_SomeD simp: map_of_eq_None_iff image_iff)

lemma map_of_map_value: "map_of (map (\<lambda>(k, v). (k, f v)) m) k = map_option f (map_of m k)"
  by (induction m) auto

lemma map_of_graph: "map_of (map (\<lambda>k. (k, F k)) ks) k = (if k \<in> set ks then Some (F k) else None)"
  by (induction ks) auto

lemma distinct_fst_filter: "distinct (map fst m) \<Longrightarrow> distinct (map fst (filter P m))"
  by (induction m) auto

end
