(* ===== verification/GoStrings.thy ===== *)
theory GoStrings
  imports Prelude
begin

text \<open>
  The parts of Go's \<open>strings\<close>, \<open>strconv\<close> and \<open>fmt\<close> the driver uses, on \<open>string\<close> (a list of
  characters; the names and files the driver handles are ASCII), and the lemmas about decimal
  numbers and separators that the naming schemes rest on.
\<close>

named_theorems str_simps \<open>evaluation of string functions\<close>

section \<open>Decimal numbers\<close>

text \<open>A Go \<open>int\<close> has 64 bits; \<open>strconv.Atoi\<close> rejects what does not fit.\<close>

definition max_int :: int where
  "max_int = 9223372036854775807"

definition is_digit :: "char \<Rightarrow> bool" where
  "is_digit c \<longleftrightarrow> 48 \<le> (of_char c :: nat) \<and> (of_char c :: nat) \<le> 57"

definition digit_char :: "nat \<Rightarrow> char" where
  "digit_char d = char_of (48 + d)"

definition digit_val :: "char \<Rightarrow> nat" where
  "digit_val c = of_char c - 48"

fun nat_str :: "nat \<Rightarrow> string" where
  "nat_str n = (if n < 10 then [digit_char n] else nat_str (n div 10) @ [digit_char (n mod 10)])"

declare nat_str.simps [simp del]

definition int_str :: "int \<Rightarrow> string" where
  "int_str i = (if i < 0 then ''-'' @ nat_str (nat (- i)) else nat_str (nat i))"

definition digits_val :: "string \<Rightarrow> nat" where
  "digits_val s = foldl (\<lambda>n c. 10 * n + digit_val c) 0 s"

definition all_digits :: "string \<Rightarrow> bool" where
  "all_digits s \<longleftrightarrow> s \<noteq> [] \<and> list_all is_digit s"

text \<open>\<open>Atoi\<close> on a string of digits (the only strings it is given).\<close>

definition atoi_digits :: "string \<Rightarrow> int option" where
  "atoi_digits s = (if all_digits s \<and> int (digits_val s) \<le> max_int
                    then Some (int (digits_val s)) else None)"

lemma of_char_digit_char: "d < 10 \<Longrightarrow> (of_char (digit_char d) :: nat) = 48 + d"
  by (simp add: digit_char_def)

lemma is_digit_digit_char [simp]: "d < 10 \<Longrightarrow> is_digit (digit_char d)"
  by (simp add: is_digit_def of_char_digit_char)

lemma digit_val_digit_char [simp]: "d < 10 \<Longrightarrow> digit_val (digit_char d) = d"
  by (simp add: digit_val_def of_char_digit_char)

lemma nat_str_digits: "all_digits (nat_str n)"
proof (induction n rule: nat_str.induct)
  case (1 n)
  then show ?case
    by (cases "n < 10") (simp_all add: nat_str.simps [of n] all_digits_def)
qed

lemma nat_str_nonempty [simp]: "nat_str n \<noteq> []"
  using nat_str_digits [of n] by (simp add: all_digits_def)

lemma digits_val_snoc: "digits_val (s @ [c]) = 10 * digits_val s + digit_val c"
  by (simp add: digits_val_def)

lemma digits_val_nat_str [simp]: "digits_val (nat_str n) = n"
proof (induction n rule: nat_str.induct)
  case (1 n)
  show ?case
  proof (cases "n < 10")
    case True
    then show ?thesis by (simp add: nat_str.simps [of n] digits_val_def)
  next
    case False
    then have "nat_str n = nat_str (n div 10) @ [digit_char (n mod 10)]"
      by (simp add: nat_str.simps [of n])
    with 1 False show ?thesis by (simp add: digits_val_snoc)
  qed
qed

lemma nat_str_inject [simp]: "nat_str m = nat_str n \<longleftrightarrow> m = n"
  by (metis digits_val_nat_str)

lemma hd_nat_str_digit: "is_digit (hd (nat_str n))"
  using nat_str_digits [of n] by (cases "nat_str n") (auto simp: all_digits_def)

lemma not_digit_dash [simp]: "\<not> is_digit (CHR ''-'')"
  by (simp add: is_digit_def)

lemma dash_notin_digits: "all_digits s \<Longrightarrow> CHR ''-'' \<notin> set s"
  using not_digit_dash by (auto simp: all_digits_def list_all_iff)

lemma dash_notin_nat_str [simp]: "CHR ''-'' \<notin> set (nat_str n)"
  by (simp add: dash_notin_digits nat_str_digits)

lemma int_str_inject [simp]: "int_str i = int_str j \<longleftrightarrow> i = j"
proof -
  have neg: "CHR ''-'' # nat_str m \<noteq> nat_str n" for m n
    using dash_notin_nat_str [of n] by (metis list.set_intros(1))
  show ?thesis
    using neg neg [symmetric] by (auto simp: int_str_def split: if_splits)
qed

lemma atoi_int_str [simp]: "0 \<le> i \<Longrightarrow> i \<le> max_int \<Longrightarrow> atoi_digits (int_str i) = Some i"
  by (simp add: int_str_def atoi_digits_def nat_str_digits)

lemma int_str_digits: "0 \<le> i \<Longrightarrow> all_digits (int_str i)"
  by (simp add: int_str_def nat_str_digits)

section \<open>Splitting at a separator\<close>

text \<open>The part before and after the first and the last occurrence of a character.\<close>

fun cut_first :: "char \<Rightarrow> string \<Rightarrow> (string \<times> string) option" where
  "cut_first c [] = None"
| "cut_first c (x # xs) =
     (if x = c then Some ([], xs)
      else (case cut_first c xs of None \<Rightarrow> None | Some (a, b) \<Rightarrow> Some (x # a, b)))"

definition cut_last :: "char \<Rightarrow> string \<Rightarrow> (string \<times> string) option" where
  "cut_last c s = (case cut_first c (rev s) of None \<Rightarrow> None | Some (a, b) \<Rightarrow> Some (rev b, rev a))"

lemma cut_first_Some:
  "cut_first c s = Some (a, b) \<longleftrightarrow> s = a @ c # b \<and> c \<notin> set a"
proof (induction s arbitrary: a)
  case Nil
  then show ?case by simp
next
  case (Cons x xs)
  show ?case
  proof (cases a)
    case Nil
    then show ?thesis by (auto split: option.splits)
  next
    case (Cons y ys)
    have "cut_first c (x # xs) = Some (y # ys, b) \<longleftrightarrow> x = y \<and> x \<noteq> c \<and> cut_first c xs = Some (ys, b)"
      by (auto split: option.splits)
    with Cons show ?thesis by (auto simp: Cons.IH)
  qed
qed

lemma cut_last_Some:
  "cut_last c s = Some (a, b) \<longleftrightarrow> s = a @ c # b \<and> c \<notin> set b"
proof -
  have "cut_last c s = Some (a, b) \<longleftrightarrow> cut_first c (rev s) = Some (rev b, rev a)"
    by (auto simp: cut_last_def split: option.splits)
  also have "\<dots> \<longleftrightarrow> rev s = rev b @ c # rev a \<and> c \<notin> set b"
    by (simp add: cut_first_Some)
  also have "rev s = rev b @ c # rev a \<longleftrightarrow> s = a @ c # b"
    by (metis append.assoc append_Cons append_Nil rev.simps(2) rev_append rev_rev_ident)
  finally show ?thesis .
qed

lemma cut_last_append [simp]: "c \<notin> set b \<Longrightarrow> cut_last c (a @ c # b) = Some (a, b)"
  by (simp add: cut_last_Some)

lemma cut_first_append [simp]: "c \<notin> set a \<Longrightarrow> cut_first c (a @ c # b) = Some (a, b)"
  by (simp add: cut_first_Some)

lemma cut_first_None: "cut_first c s = None \<longleftrightarrow> c \<notin> set s"
  by (induction s) (auto split: option.splits)

text \<open>\<open>strings.Split\<close> at one character, and \<open>strings.Join\<close>.\<close>

fun split_at_char :: "char \<Rightarrow> string \<Rightarrow> string list" where
  "split_at_char c [] = [[]]"
| "split_at_char c (x # xs) =
     (if x = c then [] # split_at_char c xs
      else (case split_at_char c xs of [] \<Rightarrow> [[x]] | y # ys \<Rightarrow> (x # y) # ys))"

fun join_with :: "string \<Rightarrow> string list \<Rightarrow> string" where
  "join_with sep [] = []"
| "join_with sep [x] = x"
| "join_with sep (x # y # ys) = x @ sep @ join_with sep (y # ys)"

lemma split_at_char_nonempty [simp]: "split_at_char c s \<noteq> []"
  by (induction s) (auto split: list.splits)

lemma join_split: "join_with [c] (split_at_char c s) = s"
proof (induction s)
  case Nil
  then show ?case by simp
next
  case (Cons x xs)
  obtain y ys where "split_at_char c xs = y # ys"
    by (cases "split_at_char c xs") auto
  with Cons show ?case by (cases ys) auto
qed

section \<open>Trimming and letter case\<close>

definition trim_left :: "(char \<Rightarrow> bool) \<Rightarrow> string \<Rightarrow> string" where
  "trim_left p s = dropWhile p s"

definition trim_both :: "(char \<Rightarrow> bool) \<Rightarrow> string \<Rightarrow> string" where
  "trim_both p s = rev (dropWhile p (rev (dropWhile p s)))"

definition is_space :: "char \<Rightarrow> bool" where
  "is_space c \<longleftrightarrow> (of_char c :: nat) \<in> {9, 10, 11, 12, 13, 32}"

definition trim_space :: "string \<Rightarrow> string" where
  "trim_space s = trim_both is_space s"

definition is_upper :: "char \<Rightarrow> bool" where
  "is_upper c \<longleftrightarrow> 65 \<le> (of_char c :: nat) \<and> (of_char c :: nat) \<le> 90"

definition is_lower :: "char \<Rightarrow> bool" where
  "is_lower c \<longleftrightarrow> 97 \<le> (of_char c :: nat) \<and> (of_char c :: nat) \<le> 122"

definition lower_char :: "char \<Rightarrow> char" where
  "lower_char c = (if is_upper c then char_of ((of_char c :: nat) + 32) else c)"

definition trim_suffix :: "string \<Rightarrow> string \<Rightarrow> string" where
  "trim_suffix s suf = (if suffix suf s then take (length s - length suf) s else s)"

definition trim_prefix :: "string \<Rightarrow> string \<Rightarrow> string" where
  "trim_prefix s pre = (if prefix pre s then drop (length pre) s else s)"

lemma set_trim_both: "set (trim_both p s) \<subseteq> set s"
  by (auto simp: trim_both_def dest!: set_dropWhileD)

lemma set_trim_suffix: "set (trim_suffix s suf) \<subseteq> set s"
  by (auto simp: trim_suffix_def dest: in_set_takeD)

lemma lower_char_not_upper: "\<not> is_upper (lower_char c)"
proof (cases "is_upper c")
  case True
  then have "(of_char (lower_char c) :: nat) = of_char c + 32"
    by (simp add: lower_char_def is_upper_def)
  with True show ?thesis by (simp add: is_upper_def)
next
  case False
  then show ?thesis by (simp add: lower_char_def)
qed

lemma hd_trim_both: "trim_both p s \<noteq> [] \<Longrightarrow> \<not> p (hd (trim_both p s))"
proof -
  assume ne: "trim_both p s \<noteq> []"
  let ?t = "dropWhile p s"
  obtain u where u: "?t = trim_both p s @ u"
    unfolding trim_both_def
    by (metis rev_append rev_rev_ident takeWhile_dropWhile_id)
  with ne have "?t \<noteq> []" and "hd ?t = hd (trim_both p s)" by auto
  then show ?thesis by (metis hd_dropWhile)
qed

lemma last_trim_both: "trim_both p s \<noteq> [] \<Longrightarrow> \<not> p (last (trim_both p s))"
proof -
  assume ne: "trim_both p s \<noteq> []"
  then have "dropWhile p (rev (dropWhile p s)) \<noteq> []" by (simp add: trim_both_def)
  then have "\<not> p (hd (dropWhile p (rev (dropWhile p s))))" by (rule hd_dropWhile)
  with ne show ?thesis by (simp add: trim_both_def last_rev)
qed

text \<open>\<open>slices.Sort\<close> on strings compares bytes, as the lexicographic order on character codes.\<close>

definition sort_strings :: "string list \<Rightarrow> string list" where
  "sort_strings xs = sort xs"

lemma set_sort_strings [simp]: "set (sort_strings xs) = set xs"
  by (simp add: sort_strings_def)

lemma sorted_sort_strings [simp]: "sorted (sort_strings xs)"
  by (simp add: sort_strings_def)

lemma distinct_sort_strings [simp]: "distinct (sort_strings xs) = distinct xs"
  by (simp add: sort_strings_def)

lemma sort_strings_eq_iff: "sort_strings xs = sort_strings ys \<longleftrightarrow> mset xs = mset ys"
  unfolding sort_strings_def
  by (metis mset_sort properties_for_sort sorted_sort)

lemma length_sort_strings [simp]: "length (sort_strings xs) = length xs"
  by (simp add: sort_strings_def)

end
