(* ===== verification/MigNames.thy ===== *)
theory MigNames
  imports GoStrings
begin

text \<open>
  The names of MIG devices (\<open>cmd/hami-kubelet-plugin/mig.go\<close>): the tuples that identify a MIG
  device, the canonical name made from a tuple and a profile name, the parser that reads the
  tuple back from a name, and the two DNS normalisations. A regular expression of the code is
  modelled by the string function that does what the matcher does on it; the pattern of a MIG
  device name also has a declarative reading, \<open>mig_name_match\<close>, the parser is compared with.
\<close>

section \<open>Tuples\<close>

type_synonym GPUMinor = int
type_synonym DeviceName = string

record MigSpecTuple =
  ms_ParentMinor :: GPUMinor
  ms_ProfileID :: int
  ms_PlacementStart :: int

record MigLiveTuple =
  ml_ParentMinor :: GPUMinor
  ml_GIID :: int
  ml_CIID :: int
  ml_MigUUID :: string
  ml_ParentUUID :: string

section \<open>DNS normalisation\<close>

definition rfc1123_char :: "char \<Rightarrow> bool" where
  "rfc1123_char c \<longleftrightarrow> is_lower c \<or> is_digit c \<or> c = CHR ''-'' \<or> c = CHR ''.''"

definition toRFC1123Compliant :: "string \<Rightarrow> string" where
  "toRFC1123Compliant name0 =
     (let name1 = map lower_char name0;
          name2 = map (\<lambda>c. if rfc1123_char c then c else CHR ''-'') name1;
          name3 = trim_both (\<lambda>c. c = CHR ''-'') name2;
          name4 = trim_suffix name3 ''.''
      in if length name4 > 253 then take 253 name4 else name4)"

text \<open>\<open>ReplaceAllString\<close> of \<open>([a-z0-9])([A-Z])\<close> by \<open>$1-$2\<close>, from left to right.\<close>

fun hyphen_after_lower :: "string \<Rightarrow> string" where
  "hyphen_after_lower (c # d # r) =
     (if (is_lower c \<or> is_digit c) \<and> is_upper d then c # CHR ''-'' # d # hyphen_after_lower r
      else c # hyphen_after_lower (d # r))"
| "hyphen_after_lower s = s"

text \<open>\<open>ReplaceAllString\<close> of \<open>([A-Z]+)([A-Z][a-z])\<close> by \<open>$1-$2\<close>: the greedy first group takes a
  run of capitals but for the last one, which must be followed by a small letter.\<close>

function hyphen_in_capitals :: "string \<Rightarrow> string" where
  "hyphen_in_capitals s =
     (let run = takeWhile is_upper s; rest = dropWhile is_upper s
      in case s of [] \<Rightarrow> []
         | c # cs \<Rightarrow>
             if run = [] then c # hyphen_in_capitals cs
             else (case rest of [] \<Rightarrow> run
                   | l # r \<Rightarrow>
                       if 2 \<le> length run \<and> is_lower l
                       then butlast run @ CHR ''-'' # last run # l # hyphen_in_capitals r
                       else run @ l # hyphen_in_capitals r))"
  by pat_completeness auto
termination
proof (relation "measure length", goal_cases)
  case 1
  then show ?case by simp
next
  case (2 s run rest c cs)
  then show ?case by simp
next
  case (3 s run rest c cs l r)
  then have "length (l # r) \<le> length s" by (metis length_dropWhile_le)
  then show ?case by simp
next
  case (4 s run rest c cs l r)
  then have "length (l # r) \<le> length s" by (metis length_dropWhile_le)
  then show ?case by simp
qed

declare hyphen_in_capitals.simps [simp del]

definition camelToDNSName :: "string \<Rightarrow> string" where
  "camelToDNSName s = toRFC1123Compliant (hyphen_in_capitals (hyphen_after_lower s))"

section \<open>Canonical names\<close>

definition ToCanonicalName :: "MigSpecTuple \<Rightarrow> string \<Rightarrow> DeviceName" where
  "ToCanonicalName m profileName =
     (let pname = toRFC1123Compliant (filter (\<lambda>c. c \<noteq> CHR ''.'') profileName)
      in ''gpu-'' @ int_str (ms_ParentMinor m) @ ''-mig-'' @ pname @ ''-'' @
         int_str (ms_ProfileID m) @ ''-'' @ int_str (ms_PlacementStart m))"

text \<open>The submatches of \<open>^gpu-(\d+)-mig-(.+)-(\d+)-(\d+)$\<close>. A group of digits contains no hyphen,
  so the first group ends at the first hyphen and the last two start after the last two.\<close>

definition canonicalMigNameRegex :: "string \<Rightarrow> (string \<times> string \<times> string \<times> string) option" where
  "canonicalMigNameRegex n =
     (if prefix ''gpu-'' n then
        (case cut_first (CHR ''-'') (drop 4 n) of None \<Rightarrow> None
         | Some (m1, rest) \<Rightarrow>
             if all_digits m1 \<and> prefix ''mig-'' rest then
               (case cut_last (CHR ''-'') (drop 4 rest) of None \<Rightarrow> None
                | Some (a, m4) \<Rightarrow>
                    (case cut_last (CHR ''-'') a of None \<Rightarrow> None
                     | Some (m2, m3) \<Rightarrow>
                         if m2 \<noteq> [] \<and> CHR 0x0A \<notin> set m2 \<and> all_digits m3 \<and> all_digits m4
                         then Some (m1, m2, m3, m4) else None))
             else None)
      else None)"

definition NewMigSpecTupleFromCanonicalName :: "DeviceName \<Rightarrow> err + MigSpecTuple" where
  "NewMigSpecTupleFromCanonicalName n =
     (case canonicalMigNameRegex n of
        None \<Rightarrow> Inl (Err ''failed to match MIG device name regex'')
      | Some (m1, m2, m3, m4) \<Rightarrow>
          (case (atoi_digits m1, atoi_digits m3, atoi_digits m4) of
             (Some parentMinor, Some profileID, Some placementStart) \<Rightarrow>
               Inr \<lparr>ms_ParentMinor = parentMinor, ms_ProfileID = profileID,
                    ms_PlacementStart = placementStart\<rparr>
           | _ \<Rightarrow> Inl (Err ''integer parsing failed'')))"

section \<open>What the regular expression means\<close>

text \<open>The declarative reading of the pattern: some split of the name into the constant parts and
  four groups, the second of which is not empty and has no newline.\<close>

definition mig_name_match :: "string \<Rightarrow> string \<times> string \<times> string \<times> string \<Rightarrow> bool" where
  "mig_name_match n = (\<lambda>(m1, m2, m3, m4).
     n = ''gpu-'' @ m1 @ ''-mig-'' @ m2 @ ''-'' @ m3 @ ''-'' @ m4 \<and>
     all_digits m1 \<and> all_digits m3 \<and> all_digits m4 \<and> m2 \<noteq> [] \<and> CHR 0x0A \<notin> set m2)"

lemma regex_complete:
  assumes "mig_name_match n (m1, m2, m3, m4)"
  shows "canonicalMigNameRegex n = Some (m1, m2, m3, m4)"
proof -
  from assms have n: "n = ''gpu-'' @ m1 @ ''-mig-'' @ m2 @ ''-'' @ m3 @ ''-'' @ m4"
    and ok: "all_digits m1" "all_digits m3" "all_digits m4" "m2 \<noteq> []" "CHR 0x0A \<notin> set m2"
    by (simp_all add: mig_name_match_def)
  let ?tail = "m2 @ CHR ''-'' # m3 @ CHR ''-'' # m4"
  have "cut_first (CHR ''-'') (m1 @ CHR ''-'' # ''mig-'' @ ?tail) = Some (m1, ''mig-'' @ ?tail)"
    by (rule cut_first_append) (rule dash_notin_digits [OF ok(1)])
  moreover have "cut_last (CHR ''-'') ((m2 @ CHR ''-'' # m3) @ CHR ''-'' # m4)
      = Some (m2 @ CHR ''-'' # m3, m4)"
    by (rule cut_last_append) (rule dash_notin_digits [OF ok(3)])
  moreover have "cut_last (CHR ''-'') (m2 @ CHR ''-'' # m3) = Some (m2, m3)"
    by (rule cut_last_append) (rule dash_notin_digits [OF ok(2)])
  ultimately show ?thesis
    using ok by (simp add: canonicalMigNameRegex_def n)
qed

lemma regex_sound:
  assumes "canonicalMigNameRegex n = Some m"
  shows "mig_name_match n m"
  using assms
  by (auto simp: canonicalMigNameRegex_def mig_name_match_def prefix_def cut_first_Some cut_last_Some
      split: if_splits option.splits)

lemma mig_name_match_unique: "mig_name_match n m \<Longrightarrow> mig_name_match n m' \<Longrightarrow> m = m'"
  by (cases m; cases m') (metis option.inject regex_complete)

lemma regex_iff: "canonicalMigNameRegex n = Some m \<longleftrightarrow> mig_name_match n m"
  by (cases m) (auto intro: regex_complete dest: regex_sound)

section \<open>The normalised alphabet\<close>

lemma set_toRFC1123Compliant: "c \<in> set (toRFC1123Compliant s) \<Longrightarrow> rfc1123_char c"
proof -
  assume c: "c \<in> set (toRFC1123Compliant s)"
  let ?n2 = "map (\<lambda>c. if rfc1123_char c then c else CHR ''-'') (map lower_char s)"
  have "c \<in> set (trim_suffix (trim_both (\<lambda>c. c = CHR ''-'') ?n2) ''.'')"
    using c by (auto simp: toRFC1123Compliant_def Let_def split: if_splits dest: in_set_takeD)
  then have "c \<in> set ?n2" using set_trim_suffix set_trim_both by blast
  then show ?thesis by (auto simp: rfc1123_char_def split: if_splits)
qed

lemma length_toRFC1123Compliant: "length (toRFC1123Compliant s) \<le> 253"
  by (simp add: toRFC1123Compliant_def Let_def)

lemma hd_trim_suffix: "trim_suffix s suf \<noteq> [] \<Longrightarrow> hd (trim_suffix s suf) = hd s"
  by (cases s) (auto simp: trim_suffix_def split: if_splits)

lemma hd_toRFC1123Compliant:
  assumes "toRFC1123Compliant s \<noteq> []"
  shows "hd (toRFC1123Compliant s) \<noteq> CHR ''-''"
proof -
  let ?n3 = "trim_both (\<lambda>c. c = CHR ''-'')
      (map (\<lambda>c. if rfc1123_char c then c else CHR ''-'') (map lower_char s))"
  let ?n4 = "trim_suffix ?n3 ''.''"
  have ne: "?n4 \<noteq> []" and hd: "hd (toRFC1123Compliant s) = hd ?n4"
    using assms by (auto simp: toRFC1123Compliant_def Let_def split: if_splits)
  from ne have "hd ?n4 = hd ?n3" by (rule hd_trim_suffix)
  moreover have "?n3 \<noteq> []" using ne by (auto simp: trim_suffix_def)
  then have "hd ?n3 \<noteq> CHR ''-''" by (rule hd_trim_both)
  ultimately show ?thesis using hd by simp
qed

lemma newline_notin_rfc1123: "CHR 0x0A \<notin> set (toRFC1123Compliant s)"
  using set_toRFC1123Compliant [of "CHR 0x0A" s]
  by (auto simp: rfc1123_char_def is_lower_def is_digit_def)

definition valid_tuple :: "MigSpecTuple \<Rightarrow> bool" where
  "valid_tuple m \<longleftrightarrow> 0 \<le> ms_ParentMinor m \<and> ms_ParentMinor m \<le> max_int \<and>
     0 \<le> ms_ProfileID m \<and> ms_ProfileID m \<le> max_int \<and>
     0 \<le> ms_PlacementStart m \<and> ms_PlacementStart m \<le> max_int"

lemma match_ToCanonicalName:
  assumes "valid_tuple m" and "toRFC1123Compliant (filter (\<lambda>c. c \<noteq> CHR ''.'') p) \<noteq> []"
  shows "mig_name_match (ToCanonicalName m p)
    (int_str (ms_ParentMinor m), toRFC1123Compliant (filter (\<lambda>c. c \<noteq> CHR ''.'') p),
     int_str (ms_ProfileID m), int_str (ms_PlacementStart m))"
  using assms
  by (simp add: mig_name_match_def ToCanonicalName_def Let_def valid_tuple_def int_str_digits
      newline_notin_rfc1123)


section \<open>Properties\<close>

text \<open>C30: The canonical name of a MIG device can be read back: parsing it gives the tuple it was made
  from (parent minor, profile ID, placement start), for every tuple of non-negative 64-bit numbers and every
  profile name that is not empty after normalisation.\<close>

theorem canonical_name_roundtrip:
  assumes "valid_tuple m" and "toRFC1123Compliant (filter (\<lambda>c. c \<noteq> CHR ''.'') p) \<noteq> []"
  shows "NewMigSpecTupleFromCanonicalName (ToCanonicalName m p) = Inr m"
proof -
  from match_ToCanonicalName [OF assms] have "canonicalMigNameRegex (ToCanonicalName m p) =
      Some (int_str (ms_ParentMinor m), toRFC1123Compliant (filter (\<lambda>c. c \<noteq> CHR ''.'') p),
        int_str (ms_ProfileID m), int_str (ms_PlacementStart m))"
    by (rule regex_complete)
  with assms(1) show ?thesis
    by (simp add: NewMigSpecTupleFromCanonicalName_def valid_tuple_def)
qed

theorem canonical_name_roundtrip_witness:
  "NewMigSpecTupleFromCanonicalName
     (ToCanonicalName \<lparr>ms_ParentMinor = 0, ms_ProfileID = 9, ms_PlacementStart = 4\<rparr> ''3g.47gb'') =
   Inr \<lparr>ms_ParentMinor = 0, ms_ProfileID = 9, ms_PlacementStart = 4\<rparr>"
  by (rule canonical_name_roundtrip; code_simp)

text \<open>C31: The parser accepts exactly the names the regular expression of the code describes, a prefix,
  a number, a non-empty profile part and two numbers, whose numbers fit an int, and returns those
  numbers. A name has at most one such reading, whatever hyphens the profile part contains.\<close>

theorem parser_accepts_pattern:
  "NewMigSpecTupleFromCanonicalName n = Inr t \<longleftrightarrow>
     (\<exists>m1 m2 m3 m4. mig_name_match n (m1, m2, m3, m4) \<and>
        atoi_digits m1 = Some (ms_ParentMinor t) \<and> atoi_digits m3 = Some (ms_ProfileID t) \<and>
        atoi_digits m4 = Some (ms_PlacementStart t))"
proof -
  have "NewMigSpecTupleFromCanonicalName n = Inr t \<longleftrightarrow>
      (\<exists>m1 m2 m3 m4. canonicalMigNameRegex n = Some (m1, m2, m3, m4) \<and>
        atoi_digits m1 = Some (ms_ParentMinor t) \<and> atoi_digits m3 = Some (ms_ProfileID t) \<and>
        atoi_digits m4 = Some (ms_PlacementStart t))"
    by (cases t) (auto simp: NewMigSpecTupleFromCanonicalName_def split: option.splits)
  then show ?thesis by (simp add: regex_iff)
qed

text \<open>The DNS normalisation returns at most 253 characters, all of them small letters, digits,
  hyphens or dots, and never starts with a hyphen. It may end with one: the hyphens are trimmed
  before the dot.\<close>

theorem dns_name_shape:
  "list_all rfc1123_char (toRFC1123Compliant s) \<and> length (toRFC1123Compliant s) \<le> 253 \<and>
   take 1 (toRFC1123Compliant s) \<noteq> ''-'' \<and> toRFC1123Compliant ''a-.'' = ''a-''"
proof (intro conjI)
  show "list_all rfc1123_char (toRFC1123Compliant s)"
    using set_toRFC1123Compliant by (auto simp: list_all_iff)
  show "length (toRFC1123Compliant s) \<le> 253" by (rule length_toRFC1123Compliant)
  show "take 1 (toRFC1123Compliant s) \<noteq> ''-''"
    using hd_toRFC1123Compliant [of s] by (cases "toRFC1123Compliant s") auto
  show "toRFC1123Compliant ''a-.'' = ''a-''" by code_simp
qed

end
