(* ===== verification/ApiTypes.thy ===== *)
theory ApiTypes
  imports GoStrings
begin

text \<open>
  The data of the libraries the driver talks to, as far as the driver reads and writes it: the
  Kubernetes resource and core APIs, the kubelet plugin helper, CDI specifications and NVML's
  return codes. These are types of code outside the repository, so they carry no behaviour of
  their own here; a \<open>resource.Quantity\<close> is represented by what its observers \<open>Value\<close> and
  \<open>AsInt64\<close> answer.
\<close>

type_synonym QualifiedName = string

section \<open>Devices, capacities and counters of a ResourceSlice\<close>

datatype format = DecimalSI | BinarySI

record quantity =
  q_value :: int
  q_int64 :: "int option"
  q_format :: format

definition NewQuantity :: "int \<Rightarrow> format \<Rightarrow> quantity" where
  "NewQuantity v f = \<lparr>q_value = v, q_int64 = Some v, q_format = f\<rparr>"

lemma NewQuantity_sel [simp]:
  "q_value (NewQuantity v f) = v" "q_int64 (NewQuantity v f) = Some v" "q_format (NewQuantity v f) = f"
  by (simp_all add: NewQuantity_def)

record request_policy =
  rp_Default :: quantity
  rp_Min :: quantity
  rp_Max :: quantity
  rp_Step :: quantity

record device_capacity =
  dc_Value :: quantity
  dc_RequestPolicy :: "request_policy option"

datatype device_attribute = StringValue string | IntValue int | VersionValue string

type_synonym attributes = "(QualifiedName \<times> device_attribute) list"
type_synonym PartCapacityMap = "(QualifiedName \<times> device_capacity) list"
type_synonym counters = "(string \<times> quantity) list"

record counter_set =
  cs_Name :: string
  cs_Counters :: counters

record api_device =
  d_Name :: string
  d_Attributes :: attributes
  d_Capacity :: PartCapacityMap
  d_ConsumesCounters :: "counter_set list"
  d_AllowMultipleAllocations :: "bool option"

record slice =
  s_SharedCounters :: "counter_set list"
  s_Devices :: "api_device list"

section \<open>Resource claims\<close>

record allocation_result =
  ar_Request :: string
  ar_Driver :: string
  ar_Pool :: string
  ar_Device :: string
  ar_AdminAccess :: "bool option"
  ar_ConsumedCapacity :: "(QualifiedName \<times> quantity) list"

datatype config_source = FromClass | FromClaim | FromOther string

record allocation_config =
  ac_Source :: config_source
  ac_Requests :: "string list"
  ac_Opaque :: "(string \<times> string) option"   \<comment> \<open>driver name and raw parameters\<close>

record allocation =
  al_Results :: "allocation_result list"
  al_Config :: "allocation_config list"

record consumer_ref =
  cr_Resource :: string
  cr_Name :: string
  cr_UID :: string

record claim_status =
  st_Allocation :: "allocation option"
  st_ReservedFor :: "consumer_ref list"

record resource_claim =
  rc_Namespace :: string
  rc_Name :: string
  rc_UID :: string
  rc_Status :: claim_status

section \<open>Pods\<close>

record pod_claim =
  pc_Name :: string
  pc_ResourceClaimName :: "string option"
  pc_ResourceClaimTemplateName :: "string option"

record container =
  ct_Name :: string
  ct_Claims :: "string list"

record pod =
  pod_Namespace :: string
  pod_Name :: string
  pod_UID :: string
  pod_ResourceVersion :: string
  pod_Labels :: "(string \<times> string) list"
  pod_NodeName :: string
  pod_ResourceClaims :: "pod_claim list"
  pod_ClaimStatuses :: "(string \<times> string option) list"
  pod_Containers :: "container list"
  pod_InitContainers :: "container list"

section \<open>The kubelet plugin helper\<close>

record plugin_device =
  kd_Requests :: "string list"
  kd_PoolName :: string
  kd_DeviceName :: string
  kd_CDIDeviceIDs :: "string list"

record namespaced_object =
  no_UID :: string
  no_Namespace :: string
  no_Name :: string

section \<open>CDI specifications\<close>

record mount =
  m_ContainerPath :: string
  m_HostPath :: string
  m_Options :: "string list"

record device_node =
  dn_Path :: string
  dn_Type :: string
  dn_FileMode :: "int option"
  dn_Major :: int
  dn_Minor :: int

record container_edits =
  ce_Env :: "string list"
  ce_DeviceNodes :: "device_node list"
  ce_Mounts :: "mount list"

record cdi_device =
  cd_Name :: string
  cd_Edits :: container_edits

section \<open>NVML\<close>

datatype nvml_return =
    SUCCESS
  | ERROR_NOT_SUPPORTED
  | ERROR_INVALID_ARGUMENT
  | ERROR_NOT_FOUND
  | ERROR_TIMEOUT
  | ERROR_GPU_IS_LOST
  | ERROR_OTHER nat

end
