(* ===== verification/DeviceInfo.thy ===== *)
theory DeviceInfo
  imports MigNames ApiTypes
begin

text \<open>
  What the driver knows about one GPU, MIG device or passthrough device
  (\<open>cmd/hami-kubelet-plugin/deviceinfo.go\<close>, the MIG types of \<open>mig.go\<close>, \<open>HAMiGpuInfo\<close> of
  \<open>hami_core.go\<close>), the canonical names, and the device objects announced in ResourceSlices
  outside of DynamicMIG mode. \<open>semver\<close> stands for \<open>semver.MustParse(s).String()\<close> of the
  Masterminds library: \<open>None\<close> where \<open>MustParse\<close> panics.
\<close>

section \<open>Types\<close>

datatype HealthStatus = Healthy | Unhealthy | HealthUnset   \<comment> \<open>the zero value\<close>

record mig_profile_info =
  pi_C :: int
  pi_G :: int
  pi_GIProfileID :: int
  pi_CIProfileID :: int
  pi_CIEngProfileID :: int

record mig_profile =
  mp_String :: string
  mp_Info :: mig_profile_info

record gi_placement =
  gp_Start :: "32 word"
  gp_Size :: "32 word"

record gi_profile_info =
  gip_Id :: "32 word"
  gip_MultiprocessorCount :: "32 word"
  gip_CopyEngineCount :: "32 word"
  gip_DecoderCount :: "32 word"
  gip_EncoderCount :: "32 word"
  gip_JpegCount :: "32 word"
  gip_OfaCount :: "32 word"
  gip_MemorySizeMB :: "64 word"

record ci_profile_info =
  cip_Id :: "32 word"

record gi_info =
  gi_Id :: "32 word"
  gi_ProfileId :: "32 word"
  gi_Placement :: gi_placement

record ci_info =
  ci_Id :: "32 word"
  ci_ProfileId :: "32 word"

record MigProfileInfo =
  mpi_profile :: mig_profile
  mpi_placements :: "gi_placement list"

record GpuInfo =
  g_UUID :: string
  g_minor :: int
  g_migEnabled :: bool
  g_vfioEnabled :: bool
  g_memoryBytes :: "64 word"
  g_productName :: string
  g_brand :: string
  g_architecture :: string
  g_cudaComputeCapability :: string
  g_driverVersion :: string
  g_cudaDriverVersion :: string
  g_pcieBusID :: string
  g_pcieRootAttr :: "(QualifiedName \<times> device_attribute) option"
  g_migProfiles :: "MigProfileInfo list"
  g_addressingMode :: "string option"
  g_health :: HealthStatus
  g_maxCapacities :: PartCapacityMap
  g_memSliceCount :: int

text \<open>\<open>HAMiGpuInfo\<close> embeds \<open>GpuInfo\<close> and has no fields of its own.\<close>

datatype HAMiGpuInfo = HAMiGpuInfo (h_GpuInfo: GpuInfo)

record MigDeviceInfo =
  md_UUID :: string
  md_Profile :: string
  md_ParentUUID :: string
  md_GiProfileID :: int
  md_ParentMinor :: int
  md_CIID :: int
  md_GIID :: int
  md_PlacementStart :: int
  md_PlacementSize :: int
  md_gIInfo :: "gi_info option"
  md_cIInfo :: "ci_info option"
  md_parent :: "GpuInfo option"
  md_giProfileInfo :: "gi_profile_info option"
  md_ciProfileInfo :: "ci_profile_info option"
  md_pcieBusID :: string
  md_pcieRootAttr :: "(QualifiedName \<times> device_attribute) option"
  md_health :: HealthStatus

record VfioDeviceInfo =
  v_UUID :: string
  v_deviceID :: string
  v_vendorID :: string
  v_index :: int
  v_parent :: "GpuInfo option"
  v_productName :: string
  v_pcieBusID :: string
  v_pcieRootAttr :: "(QualifiedName \<times> device_attribute) option"
  v_numaNode :: int
  v_iommuGroup :: int
  v_addressableMemoryBytes :: "64 word"

record MigSpec =
  sp_Parent :: GpuInfo
  sp_Profile :: mig_profile
  sp_GIProfileInfo :: gi_profile_info
  sp_Placement :: gi_placement

section \<open>Names and tuples\<close>

definition Gpu_CanonicalName :: "GpuInfo \<Rightarrow> DeviceName" where
  "Gpu_CanonicalName d = ''gpu-'' @ int_str (g_minor d)"

definition Gpu_String :: "GpuInfo \<Rightarrow> string" where
  "Gpu_String d = Gpu_CanonicalName d @ ''-'' @ g_UUID d"

definition HAMiGpu_CanonicalName :: "HAMiGpuInfo \<Rightarrow> DeviceName" where
  "HAMiGpu_CanonicalName d = ''hami-gpu-'' @ int_str (g_minor (h_GpuInfo d))"

definition SpecTuple :: "MigDeviceInfo \<Rightarrow> MigSpecTuple" where
  "SpecTuple m = \<lparr>ms_ParentMinor = md_ParentMinor m, ms_ProfileID = md_GiProfileID m,
                  ms_PlacementStart = md_PlacementStart m\<rparr>"

definition LiveTuple :: "MigDeviceInfo \<Rightarrow> MigLiveTuple" where
  "LiveTuple m = \<lparr>ml_ParentMinor = md_ParentMinor m, ml_GIID = md_GIID m, ml_CIID = md_CIID m,
                  ml_MigUUID = md_UUID m, ml_ParentUUID = md_ParentUUID m\<rparr>"

definition MigDevice_CanonicalName :: "MigDeviceInfo \<Rightarrow> DeviceName" where
  "MigDevice_CanonicalName d = ToCanonicalName (SpecTuple d) (md_Profile d)"

definition MigSpec_Tuple :: "MigSpec \<Rightarrow> MigSpecTuple" where
  "MigSpec_Tuple m = \<lparr>ms_ParentMinor = g_minor (sp_Parent m),
                      ms_ProfileID = uint (gip_Id (sp_GIProfileInfo m)),
                      ms_PlacementStart = uint (gp_Start (sp_Placement m))\<rparr>"

definition MigSpec_CanonicalName :: "MigSpec \<Rightarrow> DeviceName" where
  "MigSpec_CanonicalName m = ToCanonicalName (MigSpec_Tuple m) (mp_String (sp_Profile m))"

definition Vfio_CanonicalName :: "VfioDeviceInfo \<Rightarrow> DeviceName" where
  "Vfio_CanonicalName d = ''gpu-vfio-'' @ int_str (v_index d)"

definition AddDetailAfterWalkingMigProfiles :: "GpuInfo \<Rightarrow> PartCapacityMap \<Rightarrow> int \<Rightarrow> GpuInfo" where
  "AddDetailAfterWalkingMigProfiles d maxcap memSliceCount =
     d\<lparr>g_maxCapacities := maxcap, g_memSliceCount := memSliceCount\<rparr>"

section \<open>Device objects\<close>

definition pciBusIDAttrName :: QualifiedName where
  "pciBusIDAttrName = ''resource.kubernetes.io/pciBusID''"

definition plain_cap :: "int \<Rightarrow> device_capacity" where
  "plain_cap v = \<lparr>dc_Value = NewQuantity v BinarySI, dc_RequestPolicy = None\<rparr>"

definition must_semver :: "(string \<Rightarrow> string option) \<Rightarrow> string \<Rightarrow> string res" where
  "must_semver semver s =
     (case semver s of None \<Rightarrow> Inl (Panicked ''semver.MustParse'') | Some v \<Rightarrow> Inr v)"

text \<open>The attributes the full GPU has in every mode (\<open>PartDevAttributes\<close> in \<open>partitions.go\<close>).\<close>

definition PartDevAttributes :: "(string \<Rightarrow> string option) \<Rightarrow> GpuInfo \<Rightarrow> attributes res" where
  "PartDevAttributes semver d =
     res_seq (must_semver semver (g_cudaComputeCapability d)) (\<lambda>cc.
     res_seq (must_semver semver (g_driverVersion d)) (\<lambda>dv.
     res_seq (must_semver semver (g_cudaDriverVersion d)) (\<lambda>cdv.
     Inr [(''type'', StringValue ''gpu''),
          (''uuid'', StringValue (g_UUID d)),
          (''productName'', StringValue (g_productName d)),
          (''brand'', StringValue (g_brand d)),
          (''architecture'', StringValue (g_architecture d)),
          (''cudaComputeCapability'', VersionValue cc),
          (''driverVersion'', VersionValue dv),
          (''cudaDriverVersion'', VersionValue cdv),
          (pciBusIDAttrName, StringValue (g_pcieBusID d))])))"

definition set_root_attr ::
    "(QualifiedName \<times> device_attribute) option \<Rightarrow> attributes \<Rightarrow> attributes" where
  "set_root_attr r a = (case r of None \<Rightarrow> a | Some (n, v) \<Rightarrow> AList.update n v a)"

definition set_addressing_mode :: "string option \<Rightarrow> attributes \<Rightarrow> attributes" where
  "set_addressing_mode r a =
     (case r of None \<Rightarrow> a | Some m \<Rightarrow> AList.update ''addressingMode'' (StringValue m) a)"

definition Gpu_GetDevice :: "(string \<Rightarrow> string option) \<Rightarrow> GpuInfo \<Rightarrow> api_device res" where
  "Gpu_GetDevice semver d =
     res_seq (PartDevAttributes semver d) (\<lambda>attrs.
     Inr \<lparr>d_Name = Gpu_CanonicalName d,
          d_Attributes = set_addressing_mode (g_addressingMode d) (set_root_attr (g_pcieRootAttr d) attrs),
          d_Capacity = [(''memory'', plain_cap (sint (g_memoryBytes d)))],
          d_ConsumesCounters = [], d_AllowMultipleAllocations = None\<rparr>)"

text \<open>\<open>cores\<close> and \<open>memory\<close> of a HAMi-Core GPU can be shared: a claim consumes a part of each, in
  the range and steps of the request policy.\<close>

definition HAMiGpu_Capacity :: "GpuInfo \<Rightarrow> PartCapacityMap" where
  "HAMiGpu_Capacity d =
     [(''cores'', \<lparr>dc_Value = NewQuantity 100 DecimalSI,
        dc_RequestPolicy = Some
          \<lparr>rp_Default = NewQuantity 100 DecimalSI, rp_Min = NewQuantity 0 DecimalSI,
           rp_Max = NewQuantity 100 DecimalSI, rp_Step = NewQuantity 1 DecimalSI\<rparr>\<rparr>),
      (''memory'', \<lparr>dc_Value = NewQuantity (sint (g_memoryBytes d)) BinarySI,
        dc_RequestPolicy = Some
          \<lparr>rp_Default = NewQuantity (sint (g_memoryBytes d)) BinarySI,
           rp_Min = NewQuantity 1048576 BinarySI,
           rp_Max = NewQuantity (sint (g_memoryBytes d)) BinarySI,
           rp_Step = NewQuantity 1048576 BinarySI\<rparr>\<rparr>)]"

definition HAMiGpu_GetDevice :: "(string \<Rightarrow> string option) \<Rightarrow> HAMiGpuInfo \<Rightarrow> api_device res" where
  "HAMiGpu_GetDevice semver h =
     (let d = h_GpuInfo h in
     res_seq (must_semver semver (g_cudaComputeCapability d)) (\<lambda>cc.
     res_seq (must_semver semver (g_driverVersion d)) (\<lambda>dv.
     res_seq (must_semver semver (g_cudaDriverVersion d)) (\<lambda>cdv.
     Inr \<lparr>d_Name = HAMiGpu_CanonicalName h,
          d_Attributes = set_root_attr (g_pcieRootAttr d)
            [(''type'', StringValue ''hami-gpu''),
             (''uuid'', StringValue (g_UUID d)),
             (''minor'', IntValue (g_minor d)),
             (''productName'', StringValue (g_productName d)),
             (''brand'', StringValue (g_brand d)),
             (''architecture'', StringValue (g_architecture d)),
             (''cudaComputeCapability'', VersionValue cc),
             (''driverVersion'', VersionValue dv),
             (''cudaDriverVersion'', VersionValue cdv),
             (''pcieBusID'', StringValue (g_pcieBusID d))],
          d_Capacity = HAMiGpu_Capacity d,
          d_ConsumesCounters = [], d_AllowMultipleAllocations = Some True\<rparr>))))"

text \<open>One capacity entry per memory slice from \<open>start\<close> up to \<open>start + size\<close>.\<close>

definition slice_indices :: "int \<Rightarrow> int \<Rightarrow> int list" where
  "slice_indices start n = [start..start + n - 1]"

definition MigDevice_GetDevice :: "(string \<Rightarrow> string option) \<Rightarrow> MigDeviceInfo \<Rightarrow> api_device res" where
  "MigDevice_GetDevice semver d =
     res_seq (deref (md_parent d)) (\<lambda>p.
     res_seq (must_semver semver (g_cudaComputeCapability p)) (\<lambda>cc.
     res_seq (must_semver semver (g_driverVersion p)) (\<lambda>dv.
     res_seq (must_semver semver (g_cudaDriverVersion p)) (\<lambda>cdv.
     res_seq (deref (md_giProfileInfo d)) (\<lambda>gip.
     Inr \<lparr>d_Name = MigDevice_CanonicalName d,
          d_Attributes = set_addressing_mode (g_addressingMode p) (set_root_attr (md_pcieRootAttr d)
            [(''type'', StringValue ''mig''),
             (''uuid'', StringValue (md_UUID d)),
             (''parentUUID'', StringValue (g_UUID p)),
             (''profile'', StringValue (md_Profile d)),
             (''productName'', StringValue (g_productName p)),
             (''brand'', StringValue (g_brand p)),
             (''architecture'', StringValue (g_architecture p)),
             (''cudaComputeCapability'', VersionValue cc),
             (''driverVersion'', VersionValue dv),
             (''cudaDriverVersion'', VersionValue cdv),
             (pciBusIDAttrName, StringValue (md_pcieBusID d))]),
          d_Capacity = fold (\<lambda>i c. AList.update (''memorySlice'' @ int_str i) (plain_cap 1) c)
            (slice_indices (md_PlacementStart d) (md_PlacementSize d))
            [(''multiprocessors'', plain_cap (uint (gip_MultiprocessorCount gip))),
             (''copyEngines'', plain_cap (uint (gip_CopyEngineCount gip))),
             (''decoders'', plain_cap (uint (gip_DecoderCount gip))),
             (''encoders'', plain_cap (uint (gip_EncoderCount gip))),
             (''jpegEngines'', plain_cap (uint (gip_JpegCount gip))),
             (''ofaEngines'', plain_cap (uint (gip_OfaCount gip))),
             (''memory'', plain_cap (sint (gip_MemorySizeMB gip * 1024 * 1024)))],
          d_ConsumesCounters = [], d_AllowMultipleAllocations = None\<rparr>)))))"

definition Vfio_GetDevice :: "VfioDeviceInfo \<Rightarrow> api_device" where
  "Vfio_GetDevice d =
     \<lparr>d_Name = Vfio_CanonicalName d,
      d_Attributes = set_root_attr (v_pcieRootAttr d)
        [(''type'', StringValue ''vfio''),
         (''uuid'', StringValue (v_UUID d)),
         (''deviceID'', StringValue (v_deviceID d)),
         (''vendorID'', StringValue (v_vendorID d)),
         (''numa'', IntValue (v_numaNode d)),
         (pciBusIDAttrName, StringValue (v_pcieBusID d)),
         (''productName'', StringValue (v_productName d))],
      d_Capacity = [(''addressableMemory'', plain_cap (sint (v_addressableMemoryBytes d)))],
      d_ConsumesCounters = [], d_AllowMultipleAllocations = None\<rparr>"

end
