(* ===== verification/Allocatable.thy ===== *)
theory Allocatable
  imports DeviceInfo
begin

text \<open>
  The devices this node can hand out (\<open>cmd/hami-kubelet-plugin/allocatable.go\<close>): the tagged
  pointer struct \<open>AllocatableDevice\<close>, its names, and the operations on the map from device name
  to device. \<open>wf_allocatable\<close> is the invariant of the map: one entry per name, filed under the
  canonical name.
\<close>

section \<open>One device\<close>

record AllocatableDevice =
  ad_HAMiGpu :: "HAMiGpuInfo option"
  ad_Gpu :: "GpuInfo option"
  ad_MigDynamic :: "MigSpec option"
  ad_MigStatic :: "MigDeviceInfo option"
  ad_Vfio :: "VfioDeviceInfo option"

type_synonym AllocatableDevices = "(DeviceName \<times> AllocatableDevice) list"
type_synonym AllocatableDeviceList = "AllocatableDevice list"

text \<open>The device type strings of \<open>types.go\<close> and \<open>hami_core.go\<close>. A prepared MIG device and a
  static one share the string ''mig''.\<close>

datatype DeviceType =
    HAMiGpuDeviceType | GpuDeviceType | MigStaticDeviceType | MigDynamicDeviceType
  | VfioDeviceType | UnknownDeviceType

fun DeviceType_string :: "DeviceType \<Rightarrow> string" where
  "DeviceType_string HAMiGpuDeviceType = ''hami-gpu''"
| "DeviceType_string GpuDeviceType = ''gpu''"
| "DeviceType_string MigStaticDeviceType = ''mig''"
| "DeviceType_string MigDynamicDeviceType = ''migdyn''"
| "DeviceType_string VfioDeviceType = ''vfio''"
| "DeviceType_string UnknownDeviceType = ''unknown''"

definition no_device :: AllocatableDevice where
  "no_device = \<lparr>ad_HAMiGpu = None, ad_Gpu = None, ad_MigDynamic = None, ad_MigStatic = None,
                ad_Vfio = None\<rparr>"

definition Type :: "AllocatableDevice \<Rightarrow> DeviceType" where
  "Type d =
     (if ad_HAMiGpu d \<noteq> None then HAMiGpuDeviceType
      else if ad_Gpu d \<noteq> None then GpuDeviceType
      else if ad_MigDynamic d \<noteq> None then MigDynamicDeviceType
      else if ad_MigStatic d \<noteq> None then MigStaticDeviceType
      else if ad_Vfio d \<noteq> None then VfioDeviceType
      else UnknownDeviceType)"

definition IsStaticOrDynMigDevice :: "AllocatableDevice \<Rightarrow> bool" where
  "IsStaticOrDynMigDevice d \<longleftrightarrow> Type d \<in> {MigStaticDeviceType, MigDynamicDeviceType}"

definition unexpected_type :: "'a res" where
  "unexpected_type = Inl (Panicked ''unexpected type for AllocatableDevice'')"

definition CanonicalName :: "AllocatableDevice \<Rightarrow> DeviceName res" where
  "CanonicalName d =
     (case Type d of
        HAMiGpuDeviceType \<Rightarrow> res_seq (deref (ad_HAMiGpu d)) (\<lambda>x. Inr (HAMiGpu_CanonicalName x))
      | GpuDeviceType \<Rightarrow> res_seq (deref (ad_Gpu d)) (\<lambda>x. Inr (Gpu_CanonicalName x))
      | MigStaticDeviceType \<Rightarrow> res_seq (deref (ad_MigStatic d)) (\<lambda>x. Inr (MigDevice_CanonicalName x))
      | MigDynamicDeviceType \<Rightarrow> res_seq (deref (ad_MigDynamic d)) (\<lambda>x. Inr (MigSpec_CanonicalName x))
      | VfioDeviceType \<Rightarrow> res_seq (deref (ad_Vfio d)) (\<lambda>x. Inr (Vfio_CanonicalName x))
      | UnknownDeviceType \<Rightarrow> unexpected_type)"

definition GetDevice :: "(string \<Rightarrow> string option) \<Rightarrow> AllocatableDevice \<Rightarrow> api_device res" where
  "GetDevice semver d =
     (case Type d of
        HAMiGpuDeviceType \<Rightarrow> res_seq (deref (ad_HAMiGpu d)) (HAMiGpu_GetDevice semver)
      | GpuDeviceType \<Rightarrow> res_seq (deref (ad_Gpu d)) (Gpu_GetDevice semver)
      | MigStaticDeviceType \<Rightarrow> res_seq (deref (ad_MigStatic d)) (MigDevice_GetDevice semver)
      | MigDynamicDeviceType \<Rightarrow>
          Inl (Panicked ''GetDevice() must currently not be called for MigDynamicDeviceType'')
      | VfioDeviceType \<Rightarrow> res_seq (deref (ad_Vfio d)) (\<lambda>x. Inr (Vfio_GetDevice x))
      | UnknownDeviceType \<Rightarrow> unexpected_type)"

definition UUID :: "AllocatableDevice \<Rightarrow> string res" where
  "UUID d =
     (case ad_HAMiGpu d of Some x \<Rightarrow> Inr (g_UUID (h_GpuInfo x)) | None \<Rightarrow>
      (case ad_Gpu d of Some x \<Rightarrow> Inr (g_UUID x) | None \<Rightarrow>
       (case ad_MigStatic d of Some x \<Rightarrow> Inr (md_UUID x) | None \<Rightarrow>
        (case ad_MigDynamic d of
           Some _ \<Rightarrow> Inl (Panicked ''unexpected UUID() call for AllocatableDevice of type MigDynamic'')
         | None \<Rightarrow>
          (case ad_Vfio d of Some x \<Rightarrow> Inr (v_UUID x) | None \<Rightarrow> unexpected_type)))))"

definition IsHealthy :: "AllocatableDevice \<Rightarrow> bool res" where
  "IsHealthy d =
     (case Type d of
        HAMiGpuDeviceType \<Rightarrow> res_seq (deref (ad_HAMiGpu d)) (\<lambda>x. Inr (g_health (h_GpuInfo x) = Healthy))
      | GpuDeviceType \<Rightarrow> res_seq (deref (ad_Gpu d)) (\<lambda>x. Inr (g_health x = Healthy))
      | MigStaticDeviceType \<Rightarrow> res_seq (deref (ad_MigStatic d)) (\<lambda>x. Inr (md_health x = Healthy))
      | MigDynamicDeviceType \<Rightarrow> Inr True
      | _ \<Rightarrow> unexpected_type)"

section \<open>The map of devices\<close>

text \<open>The PCI address \<open>getDevicesByGPUPCIBusID\<close> compares for a device: \<open>Inr None\<close> for a device of
  unknown type, a panic for a static MIG device without a parent.\<close>

definition device_bus :: "AllocatableDevice \<Rightarrow> string option res" where
  "device_bus d =
     (case Type d of
        HAMiGpuDeviceType \<Rightarrow> res_seq (deref (ad_HAMiGpu d)) (\<lambda>x. Inr (Some (g_pcieBusID (h_GpuInfo x))))
      | GpuDeviceType \<Rightarrow> res_seq (deref (ad_Gpu d)) (\<lambda>x. Inr (Some (g_pcieBusID x)))
      | MigStaticDeviceType \<Rightarrow>
          res_seq (deref (ad_MigStatic d)) (\<lambda>x.
          res_seq (deref (md_parent x)) (\<lambda>p. Inr (Some (g_pcieBusID p))))
      | MigDynamicDeviceType \<Rightarrow>
          res_seq (deref (ad_MigDynamic d)) (\<lambda>x. Inr (Some (g_pcieBusID (sp_Parent x))))
      | VfioDeviceType \<Rightarrow> res_seq (deref (ad_Vfio d)) (\<lambda>x. Inr (Some (v_pcieBusID x)))
      | UnknownDeviceType \<Rightarrow> Inr None)"

fun getDevicesByGPUPCIBusID :: "AllocatableDevices \<Rightarrow> string \<Rightarrow> AllocatableDeviceList res" where
  "getDevicesByGPUPCIBusID [] bus = Inr []"
| "getDevicesByGPUPCIBusID ((k, d) # ds) bus =
     res_seq (device_bus d) (\<lambda>b.
     res_seq (getDevicesByGPUPCIBusID ds bus) (\<lambda>r.
     Inr (if b = Some bus then d # r else r)))"

fun GetGPUByPCIeBusID :: "AllocatableDevices \<Rightarrow> string \<Rightarrow> AllocatableDevice option" where
  "GetGPUByPCIeBusID [] bus = None"
| "GetGPUByPCIeBusID ((k, d) # ds) bus =
     (if Type d = GpuDeviceType \<and> map_option g_pcieBusID (ad_Gpu d) = Some bus then Some d
      else GetGPUByPCIeBusID ds bus)"

definition GetGPUs :: "AllocatableDevices \<Rightarrow> AllocatableDeviceList" where
  "GetGPUs ds = filter (\<lambda>d. Type d = GpuDeviceType) (map snd ds)"

definition GetVfioDevices :: "AllocatableDevices \<Rightarrow> AllocatableDeviceList" where
  "GetVfioDevices ds = filter (\<lambda>d. Type d = VfioDeviceType) (map snd ds)"

text \<open>The \<open>UUIDProvider\<close> side of the map.\<close>

definition GpuUUIDs :: "AllocatableDevices \<Rightarrow> string list res" where
  "GpuUUIDs ds =
     res_seq (res_all UUID (filter (\<lambda>d. Type d = HAMiGpuDeviceType \<or> Type d = GpuDeviceType) (map snd ds)))
       (\<lambda>us. Inr (sort_strings us))"

definition MigDeviceUUIDs :: "bool \<Rightarrow> AllocatableDevices \<Rightarrow> string list res" where
  "MigDeviceUUIDs dynamicMIG ds =
     (if dynamicMIG then Inl (Panicked ''MigDeviceUUIDs() unexpectedly called (DynamicMIG is enabled)'')
      else res_seq (res_all UUID (filter (\<lambda>d. Type d = MigStaticDeviceType) (map snd ds)))
             (\<lambda>us. Inr (sort_strings us)))"

definition VfioDeviceUUIDs :: "AllocatableDevices \<Rightarrow> string list" where
  "VfioDeviceUUIDs ds =
     sort_strings (List.map_filter
       (\<lambda>d. if Type d = VfioDeviceType then map_option v_UUID (ad_Vfio d) else None) (map snd ds))"

definition UUIDs :: "AllocatableDevices \<Rightarrow> string list res" where
  "UUIDs ds = res_seq (res_all UUID (map snd ds)) (\<lambda>us. Inr (sort_strings us))"

text \<open>\<open>RemoveSiblingDevices\<close>: the siblings are collected first, then each GPU or passthrough device
  among them of another type is deleted under its canonical name. A HAMi-Core GPU (and a device of
  unknown type) leaves the address empty and is not returned early.\<close>

definition delete_sibling :: "AllocatableDevice \<Rightarrow> AllocatableDevice \<Rightarrow> AllocatableDevices \<Rightarrow> AllocatableDevices" where
  "delete_sibling device sibling ds =
     (if Type sibling = Type device then ds
      else (case Type sibling of
              GpuDeviceType \<Rightarrow>
                (case ad_Gpu sibling of Some g \<Rightarrow> AList.delete (Gpu_CanonicalName g) ds | None \<Rightarrow> ds)
            | VfioDeviceType \<Rightarrow>
                (case ad_Vfio sibling of Some v \<Rightarrow> AList.delete (Vfio_CanonicalName v) ds | None \<Rightarrow> ds)
            | _ \<Rightarrow> ds))"

definition RemoveSiblingDevices :: "AllocatableDevices \<Rightarrow> AllocatableDevice \<Rightarrow> AllocatableDevices res" where
  "RemoveSiblingDevices ds device =
     (let removeAt = (\<lambda>bus. res_seq (getDevicesByGPUPCIBusID ds bus)
                        (\<lambda>siblings. Inr (fold (delete_sibling device) siblings ds)))
      in case Type device of
           GpuDeviceType \<Rightarrow> res_seq (deref (ad_Gpu device)) (\<lambda>g. removeAt (g_pcieBusID g))
         | VfioDeviceType \<Rightarrow> res_seq (deref (ad_Vfio device)) (\<lambda>v. removeAt (v_pcieBusID v))
         | MigStaticDeviceType \<Rightarrow> Inr ds
         | MigDynamicDeviceType \<Rightarrow> Inr ds
         | _ \<Rightarrow> removeAt [])"

text \<open>\<open>wrapHAMiCoreGpu\<close> (\<open>hami_core.go\<close>) turns the full-GPU view into a HAMi-Core one. It copies the
  named fields only: \<open>vfioEnabled\<close> and what walking the MIG profiles adds are left at zero.\<close>

definition wrapHAMiCoreGpu :: "AllocatableDevice \<Rightarrow> AllocatableDevice res" where
  "wrapHAMiCoreGpu parentDev =
     res_seq (deref (ad_Gpu parentDev)) (\<lambda>g.
     Inr (parentDev\<lparr>ad_HAMiGpu := Some (HAMiGpuInfo
            (g\<lparr>g_vfioEnabled := False, g_maxCapacities := [], g_memSliceCount := 0\<rparr>)),
          ad_Gpu := None\<rparr>))"

section \<open>The invariant of the map\<close>

definition wf_allocatable :: "AllocatableDevices \<Rightarrow> bool" where
  "wf_allocatable ds \<longleftrightarrow> distinct (map fst ds) \<and> list_all (\<lambda>(k, d). CanonicalName d = Inr k) ds"

lemma wf_allocatable_name: "wf_allocatable ds \<Longrightarrow> (k, d) \<in> set ds \<Longrightarrow> CanonicalName d = Inr k"
  by (auto simp: wf_allocatable_def list_all_iff)

lemma wf_allocatable_distinct: "wf_allocatable ds \<Longrightarrow> distinct (map fst ds)"
  by (simp add: wf_allocatable_def)

lemma wf_delete: "wf_allocatable ds \<Longrightarrow> wf_allocatable (AList.delete k ds)"
  by (auto simp: wf_allocatable_def list_all_iff AList.delete_eq distinct_fst_filter)

lemma wf_update:
  assumes "wf_allocatable ds" and "CanonicalName d = Inr k"
  shows "wf_allocatable (AList.update k d ds)"
proof -
  have "set (AList.update k d ds) \<subseteq> insert (k, d) (set ds)"
    by (rule set_alist_update)
  with assms show ?thesis
    by (fastforce simp: wf_allocatable_def list_all_iff AList.distinct_update)
qed

lemma Type_Gpu: "Type d = GpuDeviceType \<Longrightarrow> \<exists>g. ad_Gpu d = Some g \<and> ad_HAMiGpu d = None"
  by (auto simp: Type_def split: if_splits)

lemma Type_Vfio: "Type d = VfioDeviceType \<Longrightarrow> \<exists>v. ad_Vfio d = Some v"
  by (auto simp: Type_def split: if_splits)

lemma Type_HAMiGpu: "Type d = HAMiGpuDeviceType \<longleftrightarrow> ad_HAMiGpu d \<noteq> None"
  by (auto simp: Type_def split: if_splits)

lemma Type_MigStatic: "Type d = MigStaticDeviceType \<Longrightarrow> \<exists>m. ad_MigStatic d = Some m"
  by (auto simp: Type_def split: if_splits)

lemma Type_MigDynamic: "Type d = MigDynamicDeviceType \<Longrightarrow> \<exists>m. ad_MigDynamic d = Some m"
  by (auto simp: Type_def split: if_splits)

lemmas Type_elims = Type_Gpu Type_Vfio Type_MigStatic Type_MigDynamic


section \<open>Removing siblings\<close>

definition passthrough_pair :: "DeviceType \<Rightarrow> DeviceType \<Rightarrow> bool" where
  "passthrough_pair s t \<longleftrightarrow> (s = GpuDeviceType \<and> t = VfioDeviceType) \<or> (s = VfioDeviceType \<and> t = GpuDeviceType)"

lemma delete_sibling_filter:
  assumes "Type device \<in> {GpuDeviceType, VfioDeviceType}"
  shows "delete_sibling device s ds =
    filter (\<lambda>e. \<not> (passthrough_pair (Type s) (Type device) \<and> CanonicalName s = Inr (fst e))) ds"
proof (cases "Type s")
  case GpuDeviceType
  with Type_Gpu assms show ?thesis
    by (fastforce simp: delete_sibling_def passthrough_pair_def CanonicalName_def AList.delete_eq intro!: filter_cong)
next
  case VfioDeviceType
  with Type_Vfio assms show ?thesis
    by (fastforce simp: delete_sibling_def passthrough_pair_def CanonicalName_def AList.delete_eq intro!: filter_cong)
qed (simp_all add: delete_sibling_def passthrough_pair_def)

lemma fold_delete_siblings:
  assumes "Type device \<in> {GpuDeviceType, VfioDeviceType}"
  shows "fold (delete_sibling device) ss ds =
    filter (\<lambda>e. \<not> (\<exists>s \<in> set ss. passthrough_pair (Type s) (Type device) \<and> CanonicalName s = Inr (fst e))) ds"
  by (induction ss arbitrary: ds) (auto simp: delete_sibling_filter [OF assms] intro: filter_cong)

lemma devices_by_bus:
  "getDevicesByGPUPCIBusID ds bus = Inr ss \<Longrightarrow>
   d \<in> set ss \<longleftrightarrow> (\<exists>k. (k, d) \<in> set ds) \<and> device_bus d = Inr (Some bus)"
proof (induction ds arbitrary: ss)
  case Nil
  then show ?case by simp
next
  case (Cons e ds)
  obtain k0 d0 where e: "e = (k0, d0)" by (cases e)
  from Cons.prems e obtain b ss0 where b: "device_bus d0 = Inr b"
    and ss0: "getDevicesByGPUPCIBusID ds bus = Inr ss0" and ss: "ss = (if b = Some bus then d0 # ss0 else ss0)"
    by (auto simp: res_seq_Inr)
  from Cons.IH [OF ss0] show ?case unfolding ss e using b by auto
qed

lemma wf_allocatable_same_name:
  assumes "wf_allocatable ds" and "(k, d) \<in> set ds" and "(k', s) \<in> set ds" and "CanonicalName s = Inr k"
  shows "s = d"
  using assms wf_allocatable_name [OF assms(1,3)] wf_allocatable_distinct [OF assms(1)]
  by (metis Inr_inject eq_key_imp_eq_value)

text \<open>C32: Once a GPU is handed out in one form, its other form is taken out of the map: after
  RemoveSiblingDevices for a GPU (or a passthrough device) the map lacks exactly the passthrough
  devices (or GPUs) at the same PCI address, in the same order otherwise, and every entry is still
  filed under its canonical name.\<close>

theorem siblings_removed:
  assumes "wf_allocatable ds" and "RemoveSiblingDevices ds device = Inr ds'"
    and "Type device \<in> {GpuDeviceType, VfioDeviceType}"
  shows "ds' = filter (\<lambda>(k, d). \<not> (passthrough_pair (Type d) (Type device) \<and>
      device_bus d = device_bus device)) ds \<and> wf_allocatable ds'"
proof -
  obtain bus ss where bus: "device_bus device = Inr (Some bus)"
    and ss: "getDevicesByGPUPCIBusID ds bus = Inr ss" and ds': "ds' = fold (delete_sibling device) ss ds"
    using assms(2,3) Type_Gpu [of device] Type_Vfio [of device]
    by (auto simp: RemoveSiblingDevices_def device_bus_def res_seq_Inr)
  have "ds' = filter (\<lambda>(k, d). \<not> (passthrough_pair (Type d) (Type device) \<and> device_bus d = device_bus device)) ds"
    unfolding ds' fold_delete_siblings [OF assms(3)]
  proof (rule filter_cong [OF refl], clarify)
    fix k d assume d: "(k, d) \<in> set ds"
    show "(\<not> (\<exists>s \<in> set ss. passthrough_pair (Type s) (Type device) \<and> CanonicalName s = Inr (fst (k, d)))) =
        (\<not> (passthrough_pair (Type d) (Type device) \<and> device_bus d = device_bus device))"
    proof (cases "passthrough_pair (Type d) (Type device) \<and> device_bus d = device_bus device")
      case True
      then have "d \<in> set ss" using d bus devices_by_bus [OF ss, of d] by auto
      with True wf_allocatable_name [OF assms(1) d] show ?thesis by auto
    next
      case False
      have "s = d" if "s \<in> set ss" "CanonicalName s = Inr k" for s
        using that wf_allocatable_same_name [OF assms(1) d] devices_by_bus [OF ss, of s] by blast
      with False bus devices_by_bus [OF ss, of d] show ?thesis by auto
    qed
  qed
  moreover from this have "wf_allocatable ds'"
    using assms(1) by (auto simp: wf_allocatable_def list_all_iff distinct_fst_filter)
  ultimately show ?thesis by blast
qed

end
