(* ===== verification/Prepared.thy ===== *)
theory Prepared
  imports Allocatable
begin

text \<open>
  What preparing a claim leaves behind (\<open>cmd/hami-kubelet-plugin/prepared.go\<close>, the prepared HAMi
  GPU of \<open>hami_core.go\<close>): prepared devices, the groups they form under one configuration, and the
  UUIDs a group answers with as a \<open>UUIDProvider\<close>.
\<close>

section \<open>Types\<close>

record PreparedHAMiGpu =
  phg_Info :: "HAMiGpuInfo option"
  phg_Device :: "plugin_device option"

record PreparedGpu =
  pg_Info :: "GpuInfo option"
  pg_Device :: "plugin_device option"

record PreparedMigDevice =
  pm_Concrete :: "MigLiveTuple option"
  pm_Device :: "plugin_device option"

record PreparedVfioDevice =
  pv_Info :: "VfioDeviceInfo option"
  pv_Device :: "plugin_device option"

record PreparedDevice =
  pd_HAMiGpu :: "PreparedHAMiGpu option"
  pd_Gpu :: "PreparedGpu option"
  pd_Mig :: "PreparedMigDevice option"
  pd_Vfio :: "PreparedVfioDevice option"

type_synonym PreparedDeviceList = "PreparedDevice list"

record DeviceConfigState =
  dcs_MpsControlDaemonID :: string
  dcs_containerEdits :: "container_edits option"

record PreparedDeviceGroup =
  grp_Devices :: PreparedDeviceList
  grp_ConfigState :: DeviceConfigState

type_synonym PreparedDevices = "PreparedDeviceGroup list"

definition no_prepared :: PreparedDevice where
  "no_prepared = \<lparr>pd_HAMiGpu = None, pd_Gpu = None, pd_Mig = None, pd_Vfio = None\<rparr>"

section \<open>One prepared device\<close>

datatype PreparedType = PreparedHAMiGpuType | PreparedGpuType | PreparedMigDeviceType
  | PreparedVfioType | PreparedUnknownType

definition PreparedDevice_Type :: "PreparedDevice \<Rightarrow> PreparedType" where
  "PreparedDevice_Type d =
     (if pd_HAMiGpu d \<noteq> None then PreparedHAMiGpuType
      else if pd_Gpu d \<noteq> None then PreparedGpuType
      else if pd_Mig d \<noteq> None then PreparedMigDeviceType
      else if pd_Vfio d \<noteq> None then PreparedVfioType
      else PreparedUnknownType)"

definition PreparedDevice_CanonicalName :: "PreparedDevice \<Rightarrow> DeviceName res" where
  "PreparedDevice_CanonicalName d =
     (case PreparedDevice_Type d of
        PreparedHAMiGpuType \<Rightarrow>
          res_seq (deref (pd_HAMiGpu d)) (\<lambda>p. res_seq (deref (phg_Info p)) (\<lambda>i. Inr (HAMiGpu_CanonicalName i)))
      | PreparedGpuType \<Rightarrow>
          res_seq (deref (pd_Gpu d)) (\<lambda>p. res_seq (deref (pg_Info p)) (\<lambda>i. Inr (Gpu_CanonicalName i)))
      | PreparedMigDeviceType \<Rightarrow>
          res_seq (deref (pd_Mig d)) (\<lambda>p. res_seq (deref (pm_Device p)) (\<lambda>i. Inr (kd_DeviceName i)))
      | PreparedVfioType \<Rightarrow>
          res_seq (deref (pd_Vfio d)) (\<lambda>p. res_seq (deref (pv_Info p)) (\<lambda>i. Inr (Vfio_CanonicalName i)))
      | PreparedUnknownType \<Rightarrow> unexpected_type)"

section \<open>Lists, groups and the whole claim\<close>

definition HAMiGpus :: "PreparedDeviceList \<Rightarrow> PreparedDeviceList" where
  "HAMiGpus l = filter (\<lambda>d. PreparedDevice_Type d = PreparedHAMiGpuType) l"

definition Gpus :: "PreparedDeviceList \<Rightarrow> PreparedDeviceList" where
  "Gpus l = filter (\<lambda>d. PreparedDevice_Type d = PreparedGpuType) l"

definition MigDevices :: "PreparedDeviceList \<Rightarrow> PreparedDeviceList" where
  "MigDevices l = filter (\<lambda>d. PreparedDevice_Type d = PreparedMigDeviceType) l"

definition VfioDevices :: "PreparedDeviceList \<Rightarrow> PreparedDeviceList" where
  "VfioDevices l = filter (\<lambda>d. PreparedDevice_Type d = PreparedVfioType) l"

text \<open>The kubelet device of one prepared device; \<open>Inr None\<close> for one of unknown type, which the
  \<open>switch\<close> skips.\<close>

definition plugin_device_of :: "PreparedDevice \<Rightarrow> plugin_device option res" where
  "plugin_device_of d =
     (case PreparedDevice_Type d of
        PreparedHAMiGpuType \<Rightarrow>
          res_seq (deref (pd_HAMiGpu d)) (\<lambda>p. res_seq (deref (phg_Device p)) (\<lambda>x. Inr (Some x)))
      | PreparedGpuType \<Rightarrow>
          res_seq (deref (pd_Gpu d)) (\<lambda>p. res_seq (deref (pg_Device p)) (\<lambda>x. Inr (Some x)))
      | PreparedMigDeviceType \<Rightarrow>
          res_seq (deref (pd_Mig d)) (\<lambda>p. res_seq (deref (pm_Device p)) (\<lambda>x. Inr (Some x)))
      | PreparedVfioType \<Rightarrow>
          res_seq (deref (pd_Vfio d)) (\<lambda>p. res_seq (deref (pv_Device p)) (\<lambda>x. Inr (Some x)))
      | PreparedUnknownType \<Rightarrow> Inr None)"

definition Group_GetDevices :: "PreparedDeviceGroup \<Rightarrow> plugin_device list res" where
  "Group_GetDevices g =
     res_seq (res_all plugin_device_of (grp_Devices g)) (\<lambda>ds. Inr (List.map_filter id ds))"

definition GetDevices :: "PreparedDevices \<Rightarrow> plugin_device list res" where
  "GetDevices ps = res_seq (res_all Group_GetDevices ps) (\<lambda>dss. Inr (concat dss))"

text \<open>\<open>GetDeviceNames\<close> names full GPUs and MIG devices only.\<close>

definition device_name_of :: "PreparedDevice \<Rightarrow> DeviceName option res" where
  "device_name_of d =
     (case PreparedDevice_Type d of
        PreparedGpuType \<Rightarrow>
          res_seq (deref (pd_Gpu d)) (\<lambda>p. res_seq (deref (pg_Info p)) (\<lambda>i. Inr (Some (Gpu_CanonicalName i))))
      | PreparedMigDeviceType \<Rightarrow>
          res_seq (deref (pd_Mig d)) (\<lambda>p. res_seq (deref (pm_Device p)) (\<lambda>x. Inr (Some (kd_DeviceName x))))
      | _ \<Rightarrow> Inr None)"

definition Group_GetDeviceNames :: "PreparedDeviceGroup \<Rightarrow> DeviceName list res" where
  "Group_GetDeviceNames g =
     res_seq (res_all device_name_of (grp_Devices g)) (\<lambda>ds. Inr (List.map_filter id ds))"

definition GetDeviceNames :: "PreparedDevices \<Rightarrow> DeviceName list res" where
  "GetDeviceNames ps = res_seq (res_all Group_GetDeviceNames ps) (\<lambda>dss. Inr (concat dss))"

section \<open>UUIDs\<close>

definition List_HAMiGpuUUIDs :: "PreparedDeviceList \<Rightarrow> string list res" where
  "List_HAMiGpuUUIDs l =
     res_seq (res_all (\<lambda>d. res_seq (deref (pd_HAMiGpu d)) (\<lambda>p. res_seq (deref (phg_Info p))
                 (\<lambda>i. Inr (g_UUID (h_GpuInfo i))))) (HAMiGpus l))
       (\<lambda>us. Inr (sort_strings us))"

definition List_GpuUUIDs :: "PreparedDeviceList \<Rightarrow> string list res" where
  "List_GpuUUIDs l =
     res_seq (res_all (\<lambda>d. res_seq (deref (pd_Gpu d)) (\<lambda>p. res_seq (deref (pg_Info p))
                 (\<lambda>i. Inr (g_UUID i)))) (Gpus l))
       (\<lambda>us. Inr (sort_strings us))"

definition List_MigDeviceUUIDs :: "PreparedDeviceList \<Rightarrow> string list res" where
  "List_MigDeviceUUIDs l =
     res_seq (res_all (\<lambda>d. res_seq (deref (pd_Mig d)) (\<lambda>p. res_seq (deref (pm_Concrete p))
                 (\<lambda>c. Inr (ml_MigUUID c)))) (MigDevices l))
       (\<lambda>us. Inr (sort_strings us))"

definition List_VfioDeviceUUIDs :: "PreparedDeviceList \<Rightarrow> string list res" where
  "List_VfioDeviceUUIDs l =
     res_seq (res_all (\<lambda>d. res_seq (deref (pd_Vfio d)) (\<lambda>p. res_seq (deref (pv_Info p))
                 (\<lambda>i. Inr (v_UUID i)))) (VfioDevices l))
       (\<lambda>us. Inr (sort_strings us))"

definition List_UUIDs :: "PreparedDeviceList \<Rightarrow> string list res" where
  "List_UUIDs l =
     res_seq (List_GpuUUIDs l) (\<lambda>g. res_seq (List_MigDeviceUUIDs l) (\<lambda>m.
     res_seq (List_VfioDeviceUUIDs l) (\<lambda>v. Inr (sort_strings ((g @ m) @ v)))))"

definition Group_HAMIGpuUUIDs :: "PreparedDeviceGroup \<Rightarrow> string list res" where
  "Group_HAMIGpuUUIDs g = List_UUIDs (HAMiGpus (grp_Devices g))"

definition Group_GpuUUIDs :: "PreparedDeviceGroup \<Rightarrow> string list res" where
  "Group_GpuUUIDs g = List_UUIDs (Gpus (grp_Devices g))"

definition Group_MigDeviceUUIDs :: "PreparedDeviceGroup \<Rightarrow> string list res" where
  "Group_MigDeviceUUIDs g = List_UUIDs (MigDevices (grp_Devices g))"

definition Group_VfioDeviceUUIDs :: "PreparedDeviceGroup \<Rightarrow> string list res" where
  "Group_VfioDeviceUUIDs g = List_UUIDs (VfioDevices (grp_Devices g))"

definition Group_UUIDs :: "PreparedDeviceGroup \<Rightarrow> string list res" where
  "Group_UUIDs g =
     res_seq (Group_GpuUUIDs g) (\<lambda>x. res_seq (Group_MigDeviceUUIDs g) (\<lambda>y.
     res_seq (Group_VfioDeviceUUIDs g) (\<lambda>z. Inr (sort_strings ((x @ y) @ z)))))"

definition Devices_GpuUUIDs :: "PreparedDevices \<Rightarrow> string list res" where
  "Devices_GpuUUIDs d =
     res_seq (res_all Group_GpuUUIDs d) (\<lambda>uss. Inr (sort_strings (concat uss)))"

definition Devices_MigDeviceUUIDs :: "PreparedDevices \<Rightarrow> string list res" where
  "Devices_MigDeviceUUIDs d =
     res_seq (res_all Group_MigDeviceUUIDs d) (\<lambda>uss. Inr (sort_strings (concat uss)))"

definition Devices_VfioDeviceUUIDs :: "PreparedDevices \<Rightarrow> string list res" where
  "Devices_VfioDeviceUUIDs d =
     res_seq (res_all Group_VfioDeviceUUIDs d) (\<lambda>uss. Inr (sort_strings (concat uss)))"

definition Devices_UUIDs :: "PreparedDevices \<Rightarrow> string list res" where
  "Devices_UUIDs d =
     res_seq (Devices_GpuUUIDs d) (\<lambda>x. res_seq (Devices_MigDeviceUUIDs d) (\<lambda>y.
     res_seq (Devices_VfioDeviceUUIDs d) (\<lambda>z. Inr (sort_strings ((x @ y) @ z)))))"

end
