(* ===== verification/FileSys.thy ===== *)
theory FileSys
  imports GoStrings
begin

text \<open>
  The part of the file system the driver works on, for Go's \<open>os\<close> and \<open>path/filepath\<close>. A path is
  the list of its components below the root; a node is a regular file with its content, a
  directory, or something else (a symbolic link, a device: never followed). Every call may fail for
  reasons outside the model (permissions, I/O; never \<open>ENOENT\<close>): \<open>fs_fault\<close> decides, call by call,
  whether it does and what a \<open>RemoveAll\<close> had removed by then. Permission bits are left out.
\<close>

section \<open>Paths\<close>

type_synonym path = "string list"

text \<open>\<open>filepath.Join\<close> of an absolute directory and further elements: split at slashes, clean.\<close>

fun clean_step :: "string \<Rightarrow> path \<Rightarrow> path" where
  "clean_step s p = (if s = '''' \<or> s = ''.'' then p else if s = ''..'' then butlast p else p @ [s])"

definition join_path :: "path \<Rightarrow> string list \<Rightarrow> path" where
  "join_path dir elems = fold clean_step (concat (map (split_at_char (CHR ''/'')) elems)) dir"

definition path_string :: "path \<Rightarrow> string" where
  "path_string p = ''/'' @ join_with ''/'' p"

text \<open>\<open>filepath.IsLocal\<close>: relative, not empty, never above its start. \<open>filepath.Base\<close>.\<close>

fun local_depth :: "nat \<Rightarrow> string list \<Rightarrow> bool" where
  "local_depth n [] = True"
| "local_depth n (s # ss) =
     (if s = '''' \<or> s = ''.'' then local_depth n ss
      else if s = ''..'' then (case n of 0 \<Rightarrow> False | Suc m \<Rightarrow> local_depth m ss)
      else local_depth (Suc n) ss)"

definition filepath_IsLocal :: "string \<Rightarrow> bool" where
  "filepath_IsLocal p \<longleftrightarrow> p \<noteq> [] \<and> hd p \<noteq> CHR ''/'' \<and> local_depth 0 (split_at_char (CHR ''/'') p)"

definition filepath_Base :: "string \<Rightarrow> string" where
  "filepath_Base p =
     (let q = rev (dropWhile (\<lambda>c. c = CHR ''/'') (rev p))
      in if p = [] then ''.''
         else if q = [] then ''/''
         else last (split_at_char (CHR ''/'') q))"

lemma split_no_slash: "c \<notin> set s \<Longrightarrow> split_at_char c s = [s]"
  by (induction s) auto

text \<open>A name that is one component of a path.\<close>

definition component :: "string \<Rightarrow> bool" where
  "component s \<longleftrightarrow> s \<noteq> '''' \<and> s \<noteq> ''.'' \<and> s \<noteq> ''..'' \<and> CHR ''/'' \<notin> set s"

lemma join_component: "component s \<Longrightarrow> join_path p [s] = p @ [s]"
  by (simp add: join_path_def component_def split_no_slash)

lemma join_components: "list_all component ss \<Longrightarrow> join_path p ss = p @ ss"
  by (induction ss arbitrary: p) (simp_all add: join_path_def component_def split_no_slash)

lemma last_split_no_sep: "c \<notin> set (last (split_at_char c s))"
  by (induction s) (auto split: list.splits)

section \<open>Nodes\<close>

datatype node = RegFile string | Dir | Other

record fs =
  fs_nodes :: "(path \<times> node) list"
  fs_clock :: nat
  fs_fault :: "nat \<Rightarrow> (string \<times> (path \<Rightarrow> bool)) option"

definition node_at :: "fs \<Rightarrow> path \<Rightarrow> node option" where
  "node_at w p = (if p = [] then Some Dir else map_of (fs_nodes w) p)"

text \<open>What resolving the directory part of a path meets: nothing in the way, a missing directory or
  something that is not a directory.\<close>

fun walk :: "fs \<Rightarrow> path \<Rightarrow> path \<Rightarrow> err option" where
  "walk w d [] = None"
| "walk w d [s] = None"
| "walk w d (s # t # r) =
     (case node_at w (d @ [s]) of
        None \<Rightarrow> Some NotExist
      | Some Dir \<Rightarrow> walk w (d @ [s]) (t # r)
      | Some _ \<Rightarrow> Some (Err ''not a directory''))"

definition lookup_node :: "fs \<Rightarrow> path \<Rightarrow> err + node" where
  "lookup_node w p =
     (case walk w [] p of Some e \<Rightarrow> Inl e
      | None \<Rightarrow> (case node_at w p of None \<Rightarrow> Inl NotExist | Some n \<Rightarrow> Inr n))"

section \<open>Calls\<close>

text \<open>Every call ticks the clock; a fault ends it.\<close>

definition tick :: "fs \<Rightarrow> fs" where
  "tick w = w\<lparr>fs_clock := Suc (fs_clock w)\<rparr>"

definition fs_call :: "((path \<Rightarrow> bool) \<Rightarrow> fs \<Rightarrow> fs) \<Rightarrow> (fs, 'a) act \<Rightarrow> (fs, 'a) act" where
  "fs_call partial body = (\<lambda>w.
     case fs_fault w (fs_clock w) of
       Some (m, gone) \<Rightarrow> (Inl (Failed (Err m)), partial gone (tick w))
     | None \<Rightarrow> body (tick w))"

definition put_node :: "path \<Rightarrow> node \<Rightarrow> fs \<Rightarrow> fs" where
  "put_node p n w = w\<lparr>fs_nodes := AList.update p n (fs_nodes w)\<rparr>"

definition remove_nodes :: "(path \<Rightarrow> bool) \<Rightarrow> fs \<Rightarrow> fs" where
  "remove_nodes sel w = w\<lparr>fs_nodes := filter (\<lambda>e. \<not> sel (fst e)) (fs_nodes w)\<rparr>"

text \<open>A \<open>RemoveAll\<close> that stops half way has removed some nodes, each with all that was below it.\<close>

definition remove_partly :: "path \<Rightarrow> (path \<Rightarrow> bool) \<Rightarrow> fs \<Rightarrow> fs" where
  "remove_partly p gone w =
     remove_nodes (\<lambda>q. prefix p q \<and> list_all (\<lambda>(q', _). prefix q q' \<longrightarrow> gone q') (fs_nodes w)) w"

definition os_RemoveAll :: "path \<Rightarrow> (fs, unit) act" where
  "os_RemoveAll p = fs_call (remove_partly p)
     (\<lambda>w. case walk w [] p of
            Some NotExist \<Rightarrow> (Inr (), w)
          | Some e \<Rightarrow> (Inl (Failed e), w)
          | None \<Rightarrow> (Inr (), remove_nodes (prefix p) w))"

definition os_Remove :: "path \<Rightarrow> (fs, unit) act" where
  "os_Remove p = fs_call (\<lambda>gone. id)
     (\<lambda>w. case lookup_node w p of
            Inl e \<Rightarrow> (Inl (Failed e), w)
          | Inr n \<Rightarrow>
              if n = Dir \<and> list_ex (\<lambda>(q, _). strict_prefix p q) (fs_nodes w)
              then (Inl (Failed (Err ''directory not empty'')), w)
              else (Inr (), remove_nodes (\<lambda>q. q = p) w))"

text \<open>\<open>MkdirAll\<close> makes the missing directories from the top down.\<close>

fun mkdirs :: "path \<Rightarrow> path \<Rightarrow> (fs, unit) act" where
  "mkdirs d [] w = (Inr (), w)"
| "mkdirs d (s # r) w =
     (case node_at w (d @ [s]) of
        None \<Rightarrow> mkdirs (d @ [s]) r (put_node (d @ [s]) Dir w)
      | Some Dir \<Rightarrow> mkdirs (d @ [s]) r w
      | Some _ \<Rightarrow> (Inl (Failed (Err ''not a directory'')), w))"

definition os_MkdirAll :: "path \<Rightarrow> (fs, unit) act" where
  "os_MkdirAll p = fs_call (\<lambda>gone. id) (mkdirs [] p)"

definition os_Chmod :: "path \<Rightarrow> (fs, unit) act" where
  "os_Chmod p = fs_call (\<lambda>gone. id)
     (\<lambda>w. case lookup_node w p of Inl e \<Rightarrow> (Inl (Failed e), w) | Inr _ \<Rightarrow> (Inr (), w))"

definition os_WriteFile :: "path \<Rightarrow> string \<Rightarrow> (fs, unit) act" where
  "os_WriteFile p content = fs_call (\<lambda>gone. id)
     (\<lambda>w. case lookup_node w p of
            Inl NotExist \<Rightarrow>
              if walk w [] p = None then (Inr (), put_node p (RegFile content) w)
              else (Inl (Failed NotExist), w)
          | Inl e \<Rightarrow> (Inl (Failed e), w)
          | Inr (RegFile _) \<Rightarrow> (Inr (), put_node p (RegFile content) w)
          | Inr _ \<Rightarrow> (Inl (Failed (Err ''not a regular file'')), w))"

definition os_ReadFile :: "path \<Rightarrow> (fs, string) act" where
  "os_ReadFile p = fs_call (\<lambda>gone. id)
     (\<lambda>w. case lookup_node w p of
            Inl e \<Rightarrow> (Inl (Failed e), w)
          | Inr (RegFile s) \<Rightarrow> (Inr s, w)
          | Inr _ \<Rightarrow> (Inl (Failed (Err ''not a regular file'')), w))"

definition os_Lstat :: "path \<Rightarrow> (fs, node) act" where
  "os_Lstat p = fs_call (\<lambda>gone. id)
     (\<lambda>w. case lookup_node w p of Inl e \<Rightarrow> (Inl (Failed e), w) | Inr n \<Rightarrow> (Inr n, w))"

definition children :: "fs \<Rightarrow> path \<Rightarrow> string list" where
  "children w d =
     sort_strings (remdups (map (\<lambda>e. last (fst e))
       (filter (\<lambda>e. fst e \<noteq> [] \<and> butlast (fst e) = d) (fs_nodes w))))"

text \<open>\<open>ReadDir\<close> lists the entries by name, each with its kind.\<close>

definition os_ReadDir :: "path \<Rightarrow> (fs, (string \<times> node) list) act" where
  "os_ReadDir d = fs_call (\<lambda>gone. id)
     (\<lambda>w. case lookup_node w d of
            Inl e \<Rightarrow> (Inl (Failed e), w)
          | Inr Dir \<Rightarrow> (Inr (map (\<lambda>s. (s, the (node_at w (d @ [s])))) (children w d)), w)
          | Inr _ \<Rightarrow> (Inl (Failed (Err ''not a directory'')), w))"

section \<open>What the calls change\<close>

lemma tick_nodes [simp]: "fs_nodes (tick w) = fs_nodes w"
  by (simp add: tick_def)

lemma tick_node_at [simp]: "node_at (tick w) p = node_at w p"
  by (simp add: node_at_def)

lemma tick_walk [simp]: "walk (tick w) d p = walk w d p"
  by (induction w d p rule: walk.induct) (simp_all split: option.splits node.splits)

lemma tick_lookup [simp]: "lookup_node (tick w) p = lookup_node w p"
  by (simp add: lookup_node_def split: option.split)

lemma tick_children [simp]: "children (tick w) d = children w d"
  by (simp add: children_def)

text \<open>Everything that is asked of the file system depends on the nodes only.\<close>

lemma same_nodes:
  assumes "fs_nodes w' = fs_nodes w"
  shows "node_at w' p = node_at w p" "walk w' d p = walk w d p" "lookup_node w' p = lookup_node w p"
    "children w' d = children w d"
proof -
  show n: "node_at w' p = node_at w p" for p by (simp add: node_at_def assms)
  show wk: "walk w' d p = walk w d p" for d p
  proof (induction p arbitrary: d)
    case Nil
    then show ?case by simp
  next
    case (Cons s r)
    then show ?case by (cases r) (simp_all add: n split: option.splits node.splits)
  qed
  show "lookup_node w' p = lookup_node w p" by (simp add: lookup_node_def n wk split: option.split)
  show "children w' d = children w d" by (simp add: children_def assms)
qed

lemma remove_nodes_nodes [simp]: "fs_nodes (remove_nodes sel w) = filter (\<lambda>e. \<not> sel (fst e)) (fs_nodes w)"
  by (simp add: remove_nodes_def)

lemma node_at_remove: "node_at (remove_nodes sel w) p = (if p \<noteq> [] \<and> sel p then None else node_at w p)"
proof -
  have "map_of (filter (\<lambda>e. \<not> sel (fst e)) m) p = (if sel p then None else map_of m p)" for m :: "(path \<times> node) list"
    by (induction m) auto
  then show ?thesis by (simp add: node_at_def)
qed

lemma node_at_put: "p \<noteq> [] \<Longrightarrow> node_at (put_node p n w) q = (if q = p then Some n else node_at w q)"
  by (simp add: node_at_def put_node_def AList.update_conv')

text \<open>Queries leave the nodes alone.\<close>

lemma fs_call_nodes:
  assumes "\<And>w. fs_nodes (snd (body w)) = fs_nodes w" and "\<And>g w. fs_nodes (partial g w) = fs_nodes w"
  shows "fs_nodes (snd (fs_call partial body w)) = fs_nodes w"
  using assms by (auto simp: fs_call_def Let_def split: option.splits)

lemma query_nodes [simp]:
  "fs_nodes (snd (os_Lstat p w)) = fs_nodes w"
  "fs_nodes (snd (os_ReadDir p w)) = fs_nodes w"
  "fs_nodes (snd (os_ReadFile p w)) = fs_nodes w"
  "fs_nodes (snd (os_Chmod p w)) = fs_nodes w"
  unfolding os_Lstat_def os_ReadDir_def os_ReadFile_def os_Chmod_def
  by (rule fs_call_nodes; auto split: sum.splits node.splits)+

lemma query_result:
  "os_Lstat p w = (Inr n, w') \<Longrightarrow> lookup_node w p = Inr n"
  "os_ReadDir d w = (Inr es, w') \<Longrightarrow>
     lookup_node w d = Inr Dir \<and> es = map (\<lambda>s. (s, the (node_at w (d @ [s])))) (children w d)"
  "os_ReadFile p w = (Inr s, w') \<Longrightarrow> lookup_node w p = Inr (RegFile s)"
  by (auto simp: os_Lstat_def os_ReadDir_def os_ReadFile_def fs_call_def
      split: option.splits sum.splits node.splits)

text \<open>A failed query either met a fault or found nothing usable; without fault injection the error is
  that of the lookup.\<close>

lemma remove_none: "fs_nodes w = fs_nodes (remove_nodes (\<lambda>q. prefix p q \<and> (\<lambda>_. False) q) w)"
  by (simp add: case_prod_beta)

lemma remove_all: "fs_nodes (remove_nodes (prefix p) w) = fs_nodes (remove_nodes (\<lambda>q. prefix p q \<and> (\<lambda>_. True) q) w)"
  by (simp add: case_prod_beta)

text \<open>Whatever the outcome, \<open>RemoveAll\<close> removes nodes at or below the path only, and removes all of
  them when it succeeds and the way to the path is there.\<close>

lemma RemoveAll_cases:
  assumes "os_RemoveAll p w = (r, w')"
  shows "\<exists>gone. fs_nodes w' = fs_nodes (remove_nodes (\<lambda>q. prefix p q \<and> gone q) w)"
proof (cases "fs_fault w (fs_clock w)")
  case (Some f)
  with assms have "\<exists>g. fs_nodes w' = fs_nodes (remove_partly p g (tick w))"
    by (cases f) (auto simp: os_RemoveAll_def fs_call_def)
  then show ?thesis unfolding remove_partly_def by auto
next
  case None
  show ?thesis
  proof (cases "walk w [] p")
    case None': None
    with assms None have "fs_nodes w' = fs_nodes (remove_nodes (prefix p) w)"
      by (auto simp: os_RemoveAll_def fs_call_def)
    then show ?thesis by (intro exI [of _ "\<lambda>_. True"]) (simp only: remove_all)
  next
    case (Some e)
    with assms None have "fs_nodes w' = fs_nodes w"
      by (cases e) (auto simp: os_RemoveAll_def fs_call_def)
    then show ?thesis by (intro exI [of _ "\<lambda>_. False"]) (simp only: remove_none [of w p])
  qed
qed

lemma RemoveAll_ok:
  assumes "os_RemoveAll p w = (Inr (), w')"
  shows "walk w [] p = Some NotExist \<and> fs_nodes w' = fs_nodes w \<or>
    walk w [] p = None \<and> fs_nodes w' = fs_nodes (remove_nodes (prefix p) w)"
proof (cases "fs_fault w (fs_clock w)")
  case (Some f)
  with assms show ?thesis by (cases f) (simp add: os_RemoveAll_def fs_call_def)
next
  case None
  show ?thesis
  proof (cases "walk w [] p")
    case None': None
    with assms None show ?thesis by (auto simp: os_RemoveAll_def fs_call_def)
  next
    case (Some e)
    with assms None show ?thesis by (cases e) (auto simp: os_RemoveAll_def fs_call_def)
  qed
qed

section \<open>Well-formed file systems\<close>

text \<open>Every node has a usable name and lies in a directory. All calls keep this.\<close>

definition wf_fs :: "fs \<Rightarrow> bool" where
  "wf_fs w \<longleftrightarrow> list_all (\<lambda>(p, n). p \<noteq> [] \<and> list_all component p \<and> node_at w (butlast p) = Some Dir) (fs_nodes w)"

lemma wf_fsD:
  "wf_fs w \<Longrightarrow> (p, n) \<in> set (fs_nodes w) \<Longrightarrow> p \<noteq> [] \<and> list_all component p \<and> node_at w (butlast p) = Some Dir"
  by (auto simp: wf_fs_def list_all_iff)

lemma node_at_in: "node_at w p = Some n \<Longrightarrow> p \<noteq> [] \<Longrightarrow> (p, n) \<in> set (fs_nodes w)"
  by (simp add: node_at_def map_of_SomeD)

lemma wf_parent:
  assumes "wf_fs w" and "node_at w (p @ [s]) = Some n"
  shows "node_at w p = Some Dir" "component s" "list_all component p"
  using wf_fsD [OF assms(1) node_at_in [OF assms(2)]] by simp_all

lemma wf_ancestor:
  assumes "wf_fs w" and "node_at w (d @ r) = Some n" and "r \<noteq> []"
  shows "node_at w d = Some Dir"
  using assms(2,3)
proof (induction r arbitrary: n rule: rev_induct)
  case Nil
  then show ?case by simp
next
  case (snoc s r)
  then have "node_at w (d @ r) = Some Dir"
    using wf_parent(1) [OF assms(1), of "d @ r" s] by simp
  with snoc.IH show ?case by (cases "r = []") auto
qed

lemma walk_snoc:
  "walk w d (a @ [s]) = (case walk w d a of Some e \<Rightarrow> Some e
     | None \<Rightarrow> if a = [] then None
         else (case node_at w (d @ a) of None \<Rightarrow> Some NotExist | Some Dir \<Rightarrow> None
               | Some _ \<Rightarrow> Some (Err ''not a directory'')))"
proof (induction a arbitrary: d)
  case Nil
  then show ?case by simp
next
  case (Cons t a)
  show ?case
  proof (cases a)
    case Nil
    then show ?thesis by (simp split: option.splits node.splits)
  next
    case (Cons u a')
    then show ?thesis using Cons.IH [of "d @ [t]"] by (simp split: option.splits node.splits)
  qed
qed

lemma wf_walk:
  assumes "wf_fs w" and "node_at w p = Some n"
  shows "walk w [] p = None"
  using assms(2)
proof (induction p arbitrary: n rule: rev_induct)
  case Nil
  then show ?case by simp
next
  case (snoc s p)
  then have "node_at w p = Some Dir" using wf_parent(1) [OF assms(1)] by blast
  with snoc.IH [of Dir] show ?case by (simp add: walk_snoc)
qed

lemma wf_lookup:
  assumes "wf_fs w"
  shows "lookup_node w p = Inr n \<longleftrightarrow> node_at w p = Some n"
  using wf_walk [OF assms, of p n] by (auto simp: lookup_node_def split: option.splits)

lemma lookup_child:
  assumes "lookup_node w d = Inr Dir"
  shows "lookup_node w (d @ [s]) = (case node_at w (d @ [s]) of None \<Rightarrow> Inl NotExist | Some n \<Rightarrow> Inr n)"
proof -
  have "walk w [] d = None" "node_at w d = Some Dir"
    using assms by (auto simp: lookup_node_def split: option.splits)
  then have "walk w [] (d @ [s]) = None" by (simp add: walk_snoc)
  then show ?thesis by (simp add: lookup_node_def)
qed

lemma wf_below_missing:
  assumes "wf_fs w" and "walk w [] p = Some e" and "(q, n) \<in> set (fs_nodes w)"
  shows "\<not> prefix p q"
proof
  assume "prefix p q"
  then obtain r where q: "q = p @ r" by (auto simp: prefix_def)
  obtain n' where "node_at w q = Some n'"
    using assms(3) wf_fsD [OF assms(1,3)] by (cases "map_of (fs_nodes w) q") (auto simp: node_at_def map_of_eq_None_iff image_iff)
  then have "\<exists>n. node_at w p = Some n"
    using wf_ancestor [OF assms(1), of p r n'] q by (cases "r = []") auto
  with wf_walk [OF assms(1)] assms(2) show False by auto
qed

lemma wf_remove:
  assumes "wf_fs w" and "\<And>q q'. sel q \<Longrightarrow> prefix q q' \<Longrightarrow> node_at w q' \<noteq> None \<Longrightarrow> q' \<noteq> [] \<Longrightarrow> sel q'"
  shows "wf_fs (remove_nodes sel w)"
  unfolding wf_fs_def list_all_iff
proof (clarsimp)
  fix p n assume p: "(p, n) \<in> set (fs_nodes w)" "\<not> sel p"
  from wf_fsD [OF assms(1) p(1)] have w: "p \<noteq> []" "list_all component p" "node_at w (butlast p) = Some Dir" by auto
  have "node_at w p \<noteq> None" using p(1) w(1) by (simp add: node_at_def map_of_eq_None_iff) force
  then have "\<not> sel (butlast p)"
    using assms(2) [of "butlast p" p] p(2) w(1) by (auto simp: prefixeq_butlast)
  with w show "p \<noteq> [] \<and> (\<forall>x\<in>set p. component x) \<and> node_at (remove_nodes sel w) (butlast p) = Some Dir"
    by (simp add: node_at_remove list_all_iff)
qed

lemma wf_put:
  assumes "wf_fs w" and "component s" and "list_all component d" and "node_at w d = Some Dir"
    and "node_at w (d @ [s]) = Some Dir \<Longrightarrow> n = Dir"
  shows "wf_fs (put_node (d @ [s]) n w)"
  unfolding wf_fs_def list_all_iff
proof (clarsimp)
  fix p n' assume "(p, n') \<in> set (fs_nodes (put_node (d @ [s]) n w))"
  then have p: "p = d @ [s] \<or> (p, n') \<in> set (fs_nodes w)"
    using set_alist_update [of "d @ [s]" n "fs_nodes w"] by (auto simp: put_node_def)
  then have w: "p \<noteq> [] \<and> list_all component p \<and> node_at w (butlast p) = Some Dir"
    using wf_fsD [OF assms(1)] assms(2-4) by auto
  with assms(5) show "p \<noteq> [] \<and> (\<forall>x\<in>set p. component x) \<and> node_at (put_node (d @ [s]) n w) (butlast p) = Some Dir"
    by (auto simp: node_at_put list_all_iff)
qed

lemma wf_nodes: "fs_nodes w' = fs_nodes w \<Longrightarrow> wf_fs w' \<longleftrightarrow> wf_fs w"
proof -
  assume n: "fs_nodes w' = fs_nodes w"
  then have "node_at w' = node_at w" by (intro ext same_nodes(1))
  with n show ?thesis by (simp add: wf_fs_def)
qed

lemma wf_tick [simp]: "wf_fs (tick w) \<longleftrightarrow> wf_fs w"
  by (rule wf_nodes) simp

lemma wf_RemoveAll:
  assumes "wf_fs w"
  shows "wf_fs (snd (os_RemoveAll p w))"
proof -
  have "wf_fs (remove_partly p g (tick w))" for g
    unfolding remove_partly_def
    by (rule wf_remove) (use assms in \<open>auto simp: list_all_iff intro: prefix_order.trans\<close>)
  moreover have "wf_fs (remove_nodes (prefix p) (tick w))"
    by (rule wf_remove) (use assms in \<open>auto intro: prefix_order.trans\<close>)
  ultimately show ?thesis
  proof (cases "fs_fault w (fs_clock w)")
    case None
    moreover have "wf_fs (tick w)" using assms by simp
    ultimately show ?thesis
      using \<open>wf_fs (remove_nodes (prefix p) (tick w))\<close>
      by (cases "walk w [] p"; cases "the (walk w [] p)") (simp_all add: os_RemoveAll_def fs_call_def)
  next
    case (Some f)
    with \<open>\<And>g. wf_fs (remove_partly p g (tick w))\<close> show ?thesis
      by (cases f) (simp add: os_RemoveAll_def fs_call_def)
  qed
qed

section \<open>Removing nodes\<close>

definition removed :: "(path \<Rightarrow> bool) \<Rightarrow> fs \<Rightarrow> fs \<Rightarrow> bool" where
  "removed sel w w' \<longleftrightarrow> fs_nodes w' = filter (\<lambda>e. \<not> sel (fst e)) (fs_nodes w)"

lemma removed_none: "fs_nodes w' = fs_nodes w \<Longrightarrow> removed (\<lambda>_. False) w w'"
  by (simp add: removed_def)

lemma removed_trans: "removed s w w1 \<Longrightarrow> removed t w1 w2 \<Longrightarrow> removed (\<lambda>q. s q \<or> t q) w w2"
  by (simp add: removed_def)

lemma removed_cong: "removed s w w' \<Longrightarrow> (\<And>q. s q = t q) \<Longrightarrow> removed t w w'"
  by (simp add: removed_def)

lemma removed_cong_nodes:
  "removed s w w' \<Longrightarrow> (\<And>q n. (q, n) \<in> set (fs_nodes w) \<Longrightarrow> s q = t q) \<Longrightarrow> removed t w w'"
  by (auto simp: removed_def intro: filter_cong)

lemma node_at_removed: "removed sel w w' \<Longrightarrow> node_at w' p = (if p \<noteq> [] \<and> sel p then None else node_at w p)"
proof -
  assume "removed sel w w'"
  then have "fs_nodes w' = fs_nodes (remove_nodes sel w)" by (simp add: removed_def)
  then have "node_at w' p = node_at (remove_nodes sel w) p" by (rule same_nodes(1))
  then show ?thesis by (simp add: node_at_remove)
qed

lemma removed_RemoveAll:
  assumes "os_RemoveAll p w = (r, w')"
  shows "\<exists>sel. removed sel w w' \<and> (\<forall>q. sel q \<longrightarrow> prefix p q)"
  using RemoveAll_cases [OF assms]
  by (auto simp: removed_def intro: exI [where x = "\<lambda>q. prefix p q \<and> g q" for g])

lemma removed_RemoveAll_ok:
  assumes "wf_fs w" and "os_RemoveAll p w = (Inr (), w')"
  shows "removed (prefix p) w w'"
  using RemoveAll_ok [OF assms(2)]
proof
  assume "walk w [] p = Some NotExist \<and> fs_nodes w' = fs_nodes w"
  then show ?thesis
    using removed_none [of w' w] wf_below_missing [OF assms(1)] by (blast intro: removed_cong_nodes)
next
  assume "walk w [] p = None \<and> fs_nodes w' = fs_nodes (remove_nodes (prefix p) w)"
  then show ?thesis by (simp add: removed_def)
qed

lemma Lstat_cases:
  assumes "os_Lstat p w = (r, w')"
  shows "fs_nodes w' = fs_nodes w \<and> (\<forall>n. r = Inr n \<longrightarrow> lookup_node w p = Inr n) \<and>
    (r = Inl (Failed NotExist) \<longrightarrow> lookup_node w p = Inl NotExist)"
  using query_nodes(1) [of p w] query_result(1) [of p w] assms
  by (auto simp: os_Lstat_def fs_call_def split: option.splits sum.splits)

lemma ReadDir_cases:
  assumes "os_ReadDir d w = (r, w')"
  shows "fs_nodes w' = fs_nodes w \<and>
    (\<forall>es. r = Inr es \<longrightarrow> lookup_node w d = Inr Dir \<and> es = map (\<lambda>s. (s, the (node_at w (d @ [s])))) (children w d)) \<and>
    (r = Inl (Failed NotExist) \<longrightarrow> lookup_node w d = Inl NotExist)"
  using query_nodes(2) [of d w] query_result(2) [of d w] assms
  by (auto simp: os_ReadDir_def fs_call_def split: option.splits sum.splits node.splits)

lemma in_children:
  assumes "wf_fs w"
  shows "s \<in> set (children w d) \<longleftrightarrow> node_at w (d @ [s]) \<noteq> None"
proof -
  have *: "q \<noteq> [] \<and> butlast q = d \<and> last q = s \<longleftrightarrow> q = d @ [s]" for q
    by (cases q rule: rev_cases) auto
  have "s \<in> set (children w d) \<longleftrightarrow> (\<exists>e \<in> set (fs_nodes w). fst e \<noteq> [] \<and> butlast (fst e) = d \<and> last (fst e) = s)"
    by (auto simp: children_def)
  also have "\<dots> \<longleftrightarrow> d @ [s] \<in> fst ` set (fs_nodes w)"
    unfolding * by (metis (no_types, lifting) image_iff)
  also have "\<dots> \<longleftrightarrow> node_at w (d @ [s]) \<noteq> None"
    by (simp add: node_at_def map_of_eq_None_iff)
  finally show ?thesis .
qed

lemma distinct_children [simp]: "distinct (children w d)"
  by (simp add: children_def)

end
