(* ===== verification/HamiCore.thy ===== *)
theory HamiCore
  imports Prepared FileSys "HOL-Library.Signed_Division"
begin

text \<open>
  HAMi-Core (\<open>cmd/hami-kubelet-plugin/hami_core.go\<close>): finding the Pod and container a claim is
  for, labelling the Pod for the monitor, setting up the shared cache directory with the
  environment that limits memory and cores, and removing it when the claim is released. The
  Kubernetes client, the informer's lister and \<open>retry.RetryOnConflict\<close> are parameters over a state
  \<open>'k\<close>; the file system is that of \<open>FileSys\<close>.
\<close>

section \<open>The manager\<close>

record pod_patch =
  pp_uid :: string
  pp_resourceVersion :: string
  pp_labels :: "(string \<times> string) list"

record 'k clientset =
  pods_get :: "string \<Rightarrow> string \<Rightarrow> ('k, pod) act"
  pods_patch :: "string \<Rightarrow> string \<Rightarrow> pod_patch \<Rightarrow> ('k, unit) act"

record 'k HAMiCoreManager =
  hostHookPath :: path
  containerHookPath :: path
  nodeName :: string
  hm_clientset :: "'k clientset option"
  podLister :: "(string \<Rightarrow> string \<Rightarrow> ('k, pod) act) option"
  retryOnConflict :: "('k, unit) act \<Rightarrow> ('k, unit) act"

record 'k hami_world =
  hw_kube :: 'k
  hw_fs :: fs

abbreviation hami_kube :: "('k, 'a) act \<Rightarrow> ('k hami_world, 'a) act" where
  "hami_kube \<equiv> on hw_kube (\<lambda>k. hw_kube_update (\<lambda>_. k))"

abbreviation hami_fs :: "(fs, 'a) act \<Rightarrow> ('k hami_world, 'a) act" where
  "hami_fs \<equiv> on hw_fs (\<lambda>s. hw_fs_update (\<lambda>_. s))"

definition hookPath :: path where
  "hookPath = [''usr'', ''local'']"

text \<open>Without a client set there is no informer, hence no lister; the life of the informer is in
  \<open>HamiInformer\<close>.\<close>

definition NewHAMiCoreManager ::
    "path \<Rightarrow> 'k clientset option \<Rightarrow> string \<Rightarrow> (string \<Rightarrow> string \<Rightarrow> ('k, pod) act) \<Rightarrow>
     (('k, unit) act \<Rightarrow> ('k, unit) act) \<Rightarrow> 'k HAMiCoreManager" where
  "NewHAMiCoreManager hostHook cs node lister retry =
     \<lparr>hostHookPath = join_path [] hostHook, containerHookPath = hookPath, nodeName = node, hm_clientset = cs,
      podLister = (case cs of None \<Rightarrow> None | Some _ \<Rightarrow> Some lister), retryOnConflict = retry\<rparr>"

definition hamiMonitorNodeLabel :: string where
  "hamiMonitorNodeLabel = ''hami.io/vgpu-node''"

definition hamiCoreClaimMarkerPrefix :: string where
  "hamiCoreClaimMarkerPrefix = ''.claim-''"

section \<open>Claim, Pod and container\<close>

definition getConsumableCapacityMap ::
    "resource_claim \<Rightarrow> (string \<times> (QualifiedName \<times> quantity) list) list res" where
  "getConsumableCapacityMap claim =
     res_seq (deref (st_Allocation (rc_Status claim))) (\<lambda>al.
     Inr (foldl (\<lambda>resMap result.
            let devName = ar_Device result;
                old = (case map_of resMap devName of None \<Rightarrow> [] | Some m \<Rightarrow> m)
            in AList.update devName (foldl (\<lambda>m (k, q). AList.update k q m) old (ar_ConsumedCapacity result)) resMap)
          [] (al_Results al)))"

fun claim_alias :: "pod \<Rightarrow> string \<Rightarrow> pod_claim list \<Rightarrow> string option" where
  "claim_alias p claimName [] = None"
| "claim_alias p claimName (pc # pcs) =
     (if pc_ResourceClaimName pc = Some claimName then Some (pc_Name pc)
      else if pc_ResourceClaimTemplateName pc = None then claim_alias p claimName pcs
      else if list_ex (\<lambda>(n, c). n = pc_Name pc \<and> c = Some claimName) (pod_ClaimStatuses p)
      then Some (pc_Name pc)
      else claim_alias p claimName pcs)"

definition podClaimAliasForResourceClaim :: "pod \<Rightarrow> string \<Rightarrow> err + string" where
  "podClaimAliasForResourceClaim p claimName =
     (case claim_alias p claimName (pod_ResourceClaims p) of
        None \<Rightarrow> Inl (Err ''pod does not reference ResourceClaim'')
      | Some a \<Rightarrow> Inr a)"

fun containerNameForPodClaimAlias :: "container list \<Rightarrow> string \<Rightarrow> string" where
  "containerNameForPodClaimAlias [] claimAlias = ''''"
| "containerNameForPodClaimAlias (c # cs) claimAlias =
     (if claimAlias \<in> set (ct_Claims c) then ct_Name c else containerNameForPodClaimAlias cs claimAlias)"

definition find_pod :: "'k HAMiCoreManager \<Rightarrow> (string \<Rightarrow> string \<Rightarrow> ('k, pod) act) \<Rightarrow> string \<Rightarrow> string \<Rightarrow> ('k, pod) act" where
  "find_pod m lister ns name =
     seq (attempt (lister ns name)) (\<lambda>r.
     case r of
       Inr p \<Rightarrow> ret p
     | Inl e \<Rightarrow>
         if isNotFound e then
           (case hm_clientset m of
              Some cs \<Rightarrow> wrapping ''get pod after local cache miss'' (pods_get cs ns name)
            | None \<Rightarrow> throw (Wrap ''pod not found in local cache'' e))
         else throw (Wrap ''pod not found in local cache'' e))"

definition check_pod ::
    "'k HAMiCoreManager \<Rightarrow> resource_claim \<Rightarrow> consumer_ref \<Rightarrow> pod \<Rightarrow> (pod \<times> string) res" where
  "check_pod m claim consumer p =
     (if pod_UID p \<noteq> cr_UID consumer then Inl (Failed (Err ''pod UID does not match claim consumer UID''))
      else if nodeName m = '''' \<or> pod_NodeName p \<noteq> nodeName m
      then Inl (Failed (Err ''pod is assigned to another node''))
      else (case podClaimAliasForResourceClaim p (rc_Name claim) of
              Inl e \<Rightarrow> Inl (Failed e)
            | Inr claimAlias \<Rightarrow>
                let regular = containerNameForPodClaimAlias (pod_Containers p) claimAlias;
                    containerName = (if regular = '''' then containerNameForPodClaimAlias (pod_InitContainers p) claimAlias
                                     else regular)
                in if containerName = '''' then Inl (Failed (Err ''no container references PodResourceClaim''))
                   else Inr (p, containerName)))"

definition resolveClaimToPod :: "'k HAMiCoreManager \<Rightarrow> resource_claim \<Rightarrow> ('k, pod \<times> string) act" where
  "resolveClaimToPod m claim =
     (case podLister m of
        None \<Rightarrow> throw (Err ''pod lister not initialized'')
      | Some lister \<Rightarrow>
          (case st_ReservedFor (rc_Status claim) of
             [] \<Rightarrow> throw (Err ''claim has no ReservedFor entries'')
           | consumer # _ \<Rightarrow>
               if cr_Resource consumer \<noteq> ''pods'' then throw (Err ''reservedFor[0] is not a Pod'')
               else seq (find_pod m lister (rc_Namespace claim) (cr_Name consumer))
                      (\<lambda>p. lift_res (check_pod m claim consumer p))))"

section \<open>The monitor label\<close>

definition label_attempt :: "'k HAMiCoreManager \<Rightarrow> 'k clientset \<Rightarrow> pod \<Rightarrow> ('k, unit) act" where
  "label_attempt m cs p =
     seq (pods_get cs (pod_Namespace p) (pod_Name p)) (\<lambda>live.
     if pod_UID live \<noteq> pod_UID p then throw (Err ''pod UID changed'')
     else if pod_NodeName live \<noteq> nodeName m then throw (Err ''pod is assigned to another node'')
     else
       let current = (case map_of (pod_Labels live) hamiMonitorNodeLabel of None \<Rightarrow> '''' | Some l \<Rightarrow> l)
       in if current \<noteq> '''' then
            (if current \<noteq> nodeName m then throw (Err ''conflicting label'') else ret ())
          else pods_patch cs (pod_Namespace p) (pod_Name p)
                 \<lparr>pp_uid = pod_UID live, pp_resourceVersion = pod_ResourceVersion live,
                  pp_labels = [(hamiMonitorNodeLabel, nodeName m)]\<rparr>)"

definition ensurePodMonitorLabel :: "'k HAMiCoreManager \<Rightarrow> pod \<Rightarrow> ('k, unit) act" where
  "ensurePodMonitorLabel m p =
     (case hm_clientset m of
        None \<Rightarrow> throw (Err ''pod client and node name are required for vGPUmonitor labeling'')
      | Some cs \<Rightarrow>
          if nodeName m = '''' then throw (Err ''pod client and node name are required for vGPUmonitor labeling'')
          else wrapping ''label Pod for vGPUmonitor'' (retryOnConflict m (label_attempt m cs p)))"

section \<open>The cache directory and the container edits\<close>

definition cache_dir :: "path \<Rightarrow> string \<Rightarrow> string \<Rightarrow> path" where
  "cache_dir root podUID containerName =
     join_path root [''vgpu'', ''containers'', podUID @ ''_'' @ containerName]"

definition marker_name :: "string \<Rightarrow> string" where
  "marker_name claimUID = hamiCoreClaimMarkerPrefix @ claimUID"

definition setup_cache_dir :: "path \<Rightarrow> string \<Rightarrow> (fs, unit) act" where
  "setup_cache_dir dir claimUID =
     seq (wrapping ''remove cache directory'' (os_RemoveAll dir)) (\<lambda>_.
     seq (wrapping ''create cache directory'' (os_MkdirAll dir)) (\<lambda>_.
     seq (wrapping ''chmod cache directory'' (os_Chmod dir)) (\<lambda>_.
     wrapping ''record claim ownership'' (os_WriteFile (join_path dir [marker_name claimUID]) ''''))))"

text \<open>The limits of one device: from the claim's consumed capacity where that is an \<open>int64\<close>, else the
  defaults, 60 percent of the cores and all of the memory.\<close>

definition consumed_int ::
    "(string \<times> (QualifiedName \<times> quantity) list) list \<Rightarrow> string \<Rightarrow> QualifiedName \<Rightarrow> int option" where
  "consumed_int devCapMap name cap =
     (case map_of devCapMap name of None \<Rightarrow> None
      | Some caps \<Rightarrow> (case map_of caps cap of None \<Rightarrow> None | Some q \<Rightarrow> q_int64 q))"

definition sm_limit_env :: "int \<Rightarrow> int option \<Rightarrow> string" where
  "sm_limit_env idx v = ''CUDA_DEVICE_SM_LIMIT_'' @ int_str idx @ ''='' @
     (case v of Some n \<Rightarrow> int_str n | None \<Rightarrow> ''60'')"

definition memory_limit_env :: "int \<Rightarrow> int option \<Rightarrow> 64 word \<Rightarrow> string" where
  "memory_limit_env idx v memoryBytes = ''CUDA_DEVICE_MEMORY_LIMIT_'' @ int_str idx @ ''='' @
     (case v of Some n \<Rightarrow> int_str ((n sdiv 1024) sdiv 1024) | None \<Rightarrow> int_str (uint ((memoryBytes div 1024) div 1024))) @ ''m''"

fun limit_envs ::
    "(string \<times> (QualifiedName \<times> quantity) list) list \<Rightarrow> int \<Rightarrow> AllocatableDevices \<Rightarrow> string list res" where
  "limit_envs devCapMap idx [] = Inr []"
| "limit_envs devCapMap idx ((name, dev) # devs) =
     res_seq (deref (ad_HAMiGpu dev)) (\<lambda>h.
     res_seq (limit_envs devCapMap (idx + 1) devs) (\<lambda>r.
     Inr (sm_limit_env idx (consumed_int devCapMap name ''cores'') #
          memory_limit_env idx (consumed_int devCapMap name ''memory'') (g_memoryBytes (h_GpuInfo h)) # r)))"

definition hami_mounts :: "'k HAMiCoreManager \<Rightarrow> path \<Rightarrow> path \<Rightarrow> mount list" where
  "hami_mounts m dir hostDir =
     [\<lparr>m_ContainerPath = path_string dir, m_HostPath = path_string hostDir,
       m_Options = [''rw'', ''nosuid'', ''nodev'', ''bind'']\<rparr>,
      \<lparr>m_ContainerPath = path_string (join_path hookPath [''vgpu'', ''libvgpu.so'']),
       m_HostPath = path_string (join_path (hostHookPath m) [''vgpu'', ''libvgpu.so'']),
       m_Options = [''ro'', ''nosuid'', ''nodev'', ''bind'']\<rparr>,
      \<lparr>m_ContainerPath = ''/etc/ld.so.preload'',
       m_HostPath = path_string (join_path (hostHookPath m) [''vgpu'', ''ld.so.preload'']),
       m_Options = [''ro'', ''nosuid'', ''nodev'', ''bind'']\<rparr>,
      \<lparr>m_ContainerPath = ''/tmp/vgpulock'', m_HostPath = ''/tmp/vgpulock'',
       m_Options = [''rw'', ''nosuid'', ''nodev'', ''bind'']\<rparr>]"

definition GetCDIContainerEdits ::
    "'k HAMiCoreManager \<Rightarrow> resource_claim \<Rightarrow> AllocatableDevices \<Rightarrow> ('k hami_world, container_edits) act" where
  "GetCDIContainerEdits m claim devs =
     seq (hami_kube (wrapping ''resolve claim to pod/container'' (resolveClaimToPod m claim))) (\<lambda>(p, containerName).
     seq (hami_kube (ensurePodMonitorLabel m p)) (\<lambda>_.
     let hostDir = cache_dir (hostHookPath m) (pod_UID p) containerName;
         dir = cache_dir (containerHookPath m) (pod_UID p) containerName;
         cacheFile = join_path dir [rc_UID claim @ ''.cache'']
     in seq (hami_fs (setup_cache_dir dir (rc_UID claim))) (\<lambda>_.
        seq (lift_res (getConsumableCapacityMap claim)) (\<lambda>devCapMap.
        seq (lift_res (limit_envs devCapMap 0 devs)) (\<lambda>envs.
        ret \<lparr>ce_Env = (''CUDA_DEVICE_MEMORY_SHARED_CACHE='' @ path_string cacheFile) # envs,
             ce_DeviceNodes = [],
             ce_Mounts = hami_mounts m dir hostDir\<rparr>)))))"

section \<open>Releasing a claim\<close>

definition valid_claim_uid :: "string \<Rightarrow> bool" where
  "valid_claim_uid uid \<longleftrightarrow> filepath_IsLocal uid \<and> filepath_Base uid = uid \<and> uid \<noteq> ''.''"

fun owned_by :: "path \<Rightarrow> string list \<Rightarrow> (fs, bool) act" where
  "owned_by directory [] = ret False"
| "owned_by directory (name # names) =
     seq (attempt (os_Lstat (join_path directory [name]))) (\<lambda>r.
     case r of
       Inl e \<Rightarrow> if isNotExist e then owned_by directory names
                else throw (Wrap ''inspect claim ownership'' e)
     | Inr n \<Rightarrow> (case n of RegFile _ \<Rightarrow> ret True
                 | _ \<Rightarrow> throw (Err ''claim ownership path is not a regular file'')))"

definition owner_names :: "string \<Rightarrow> string list" where
  "owner_names claimUID = [marker_name claimUID, claimUID @ ''.cache'']"

definition release_entry :: "path \<Rightarrow> string \<Rightarrow> string \<times> node \<Rightarrow> (fs, unit) act" where
  "release_entry containersPath claimUID = (\<lambda>(name, n).
     if n \<noteq> Dir then ret ()
     else let directory = join_path containersPath [name]
          in seq (owned_by directory (owner_names claimUID)) (\<lambda>owned.
             if \<not> owned then ret ()
             else wrapping ''failed to remove container cache directory'' (os_RemoveAll directory)))"

definition HAMi_Unprepare :: "path \<Rightarrow> string \<Rightarrow> PreparedDeviceList \<Rightarrow> (fs, unit) act" where
  "HAMi_Unprepare root claimUID pl =
     (if \<not> valid_claim_uid claimUID then throw (Err ''invalid claim UID for cache cleanup'')
      else
        seq (wrapping ''remove legacy claim cache directory'' (os_RemoveAll (join_path root [''vgpu'', ''claims'', claimUID]))) (\<lambda>_.
        let containersPath = join_path root [''vgpu'', ''containers'']
        in seq (attempt (os_ReadDir containersPath)) (\<lambda>r.
           case r of
             Inl e \<Rightarrow> if isNotExist e then ret () else throw (Wrap ''failed to list containers path'' e)
           | Inr es \<Rightarrow> each (release_entry containersPath claimUID) es)))"

end
