(* ===== verification/HamiPods.thy ===== *)
theory HamiPods
  imports HamiCore
begin

text \<open>
  Which Pod and container a HAMi-Core claim is prepared for, and the label that makes the Pod visible to the
  monitor. The API server is a store of Pods behind the client set; \<open>kube_ok\<close> states what the driver
  relies on: a get reports the stored Pod, and a merge patch that carries a UID and a resource version
  applies only to that very version.
\<close>

section \<open>The API server\<close>

type_synonym pod_store = "string \<times> string \<rightharpoonup> pod"

definition merge_labels :: "(string \<times> string) list \<Rightarrow> (string \<times> string) list \<Rightarrow> (string \<times> string) list" where
  "merge_labels old new = foldl (\<lambda>m (k, v). AList.update k v m) old new"

definition patch_applies :: "pod_patch \<Rightarrow> pod \<Rightarrow> bool" where
  "patch_applies q p \<longleftrightarrow> pp_uid q = pod_UID p \<and> pp_resourceVersion q = pod_ResourceVersion p"

definition kube_ok :: "'k clientset \<Rightarrow> ('k \<Rightarrow> pod_store) \<Rightarrow> bool" where
  "kube_ok cs store \<longleftrightarrow>
     (\<forall>ns n k. store (snd (pods_get cs ns n k)) = store k \<and>
        (\<forall>p. fst (pods_get cs ns n k) = Inr p \<longrightarrow> store k (ns, n) = Some p)) \<and>
     (\<forall>ns n q k. case pods_patch cs ns n q k of
         (Inl _, k') \<Rightarrow> store k' = store k
       | (Inr _, k') \<Rightarrow> (\<exists>p v. store k (ns, n) = Some p \<and> patch_applies q p \<and>
           store k' = (store k)((ns, n) \<mapsto>
             p\<lparr>pod_Labels := merge_labels (pod_Labels p) (pp_labels q), pod_ResourceVersion := v\<rparr>)))"

lemma kube_get:
  assumes "kube_ok cs store" and "pods_get cs ns n k = (r, k')"
  shows "store k' = store k" "r = Inr p \<Longrightarrow> store k (ns, n) = Some p"
proof -
  have "store (snd (pods_get cs ns n k)) = store k \<and>
      (\<forall>p. fst (pods_get cs ns n k) = Inr p \<longrightarrow> store k (ns, n) = Some p)"
    using assms(1) by (simp add: kube_ok_def)
  with assms(2) show "store k' = store k" "r = Inr p \<Longrightarrow> store k (ns, n) = Some p" by auto
qed

lemma kube_patch:
  assumes "kube_ok cs store" and "pods_patch cs ns n q k = (r, k')"
  shows "if isl r then store k' = store k
    else \<exists>p v. store k (ns, n) = Some p \<and> patch_applies q p \<and>
      store k' = (store k)((ns, n) \<mapsto>
        p\<lparr>pod_Labels := merge_labels (pod_Labels p) (pp_labels q), pod_ResourceVersion := v\<rparr>)"
proof -
  have "case pods_patch cs ns n q k of
         (Inl _, k') \<Rightarrow> store k' = store k
       | (Inr _, k') \<Rightarrow> (\<exists>p v. store k (ns, n) = Some p \<and> patch_applies q p \<and>
           store k' = (store k)((ns, n) \<mapsto>
             p\<lparr>pod_Labels := merge_labels (pod_Labels p) (pp_labels q), pod_ResourceVersion := v\<rparr>))"
    using assms(1) by (simp add: kube_ok_def)
  with assms(2) show ?thesis by (simp split: sum.splits)
qed

text \<open>\<open>retry.RetryOnConflict\<close> runs the function again after a conflict, a bounded number of times.\<close>

fun isConflict :: "err \<Rightarrow> bool" where
  "isConflict Conflict = True"
| "isConflict (Wrap m e) = isConflict e"
| "isConflict _ = False"

fun retries :: "nat \<Rightarrow> ('k, unit) act \<Rightarrow> ('k, unit) act" where
  "retries 0 f = f"
| "retries (Suc n) f = (\<lambda>k. case f k of
     (Inl (Failed e), k') \<Rightarrow> if isConflict e then retries n f k' else (Inl (Failed e), k')
   | res \<Rightarrow> res)"

section \<open>The label\<close>

definition label_of :: "pod \<Rightarrow> string" where
  "label_of p = (case map_of (pod_Labels p) hamiMonitorNodeLabel of None \<Rightarrow> '''' | Some l \<Rightarrow> l)"

text \<open>How the store may change: at most the one Pod, only by giving it the label it did not have.\<close>

definition labelled :: "string \<times> string \<Rightarrow> string \<Rightarrow> pod_store \<Rightarrow> pod_store \<Rightarrow> bool" where
  "labelled at node s s' \<longleftrightarrow> s' = s \<or>
     (\<exists>p p'. s at = Some p \<and> label_of p = '''' \<and> s' = s(at \<mapsto> p') \<and> label_of p' = node \<and>
        pod_UID p' = pod_UID p \<and> pod_NodeName p' = pod_NodeName p \<and>
        (\<forall>k. k \<noteq> hamiMonitorNodeLabel \<longrightarrow> map_of (pod_Labels p') k = map_of (pod_Labels p) k))"

definition has_label :: "string \<times> string \<Rightarrow> string \<Rightarrow> string \<Rightarrow> pod_store \<Rightarrow> bool" where
  "has_label at node uid s \<longleftrightarrow>
     (\<exists>p. s at = Some p \<and> pod_UID p = uid \<and> pod_NodeName p = node \<and> label_of p = node)"

lemma label_attempt_result:
  assumes "kube_ok cs store" and "label_attempt m cs p k = (r, k')"
  shows "labelled (pod_Namespace p, pod_Name p) (nodeName m) (store k) (store k')"
    "r = Inr () \<Longrightarrow> nodeName m \<noteq> '''' \<Longrightarrow>
       has_label (pod_Namespace p, pod_Name p) (nodeName m) (pod_UID p) (store k')"
    "isl r \<Longrightarrow> store k' = store k"
proof -
  let ?at = "(pod_Namespace p, pod_Name p)"
  obtain x k1 where g: "pods_get cs (pod_Namespace p) (pod_Name p) k = (x, k1)" by fastforce
  note G = kube_get [OF assms(1) g]
  have all: "labelled ?at (nodeName m) (store k) (store k') \<and>
      (r = Inr () \<and> nodeName m \<noteq> '''' \<longrightarrow> has_label ?at (nodeName m) (pod_UID p) (store k')) \<and>
      (isl r \<longrightarrow> store k' = store k)"
  proof (cases x)
    case (Inl f)
    with assms(2) g G(1) show ?thesis by (auto simp: label_attempt_def seq_def labelled_def)
  next
    case (Inr live)
    with G have live: "store k ?at = Some live" by simp
    show ?thesis
    proof (cases "pod_UID live = pod_UID p \<and> pod_NodeName live = nodeName m \<and> label_of live = ''''")
      case False
      then have "k' = k1 \<and> (r = Inr () \<longrightarrow>
          pod_UID live = pod_UID p \<and> pod_NodeName live = nodeName m \<and> label_of live = nodeName m)"
        using assms(2) g Inr
        by (auto simp: label_attempt_def seq_def throw_def ret_def Let_def label_of_def split: if_splits option.splits)
      with G(1) live show ?thesis by (auto simp: labelled_def has_label_def)
    next
      case True
      let ?q = "\<lparr>pp_uid = pod_UID live, pp_resourceVersion = pod_ResourceVersion live,
        pp_labels = [(hamiMonitorNodeLabel, nodeName m)]\<rparr>"
      have "label_of live = ''''" using True by simp
      then have run: "pods_patch cs (pod_Namespace p) (pod_Name p) ?q k1 = (r, k')"
        using assms(2) g Inr True
        by (simp add: label_attempt_def seq_def Let_def label_of_def)
      show ?thesis
      proof (cases "isl r")
        case True
        with kube_patch [OF assms(1) run] G(1) show ?thesis by (auto simp: labelled_def)
      next
        case False
        with kube_patch [OF assms(1) run] obtain v where "store k' = (store k)(?at \<mapsto>
            live\<lparr>pod_Labels := AList.update hamiMonitorNodeLabel (nodeName m) (pod_Labels live),
                 pod_ResourceVersion := v\<rparr>)"
          using G(1) live by (auto simp: merge_labels_def)
        with True live False show ?thesis
          by (auto simp: labelled_def has_label_def label_of_def AList.update_conv')
      qed
    qed
  qed
  then show "labelled ?at (nodeName m) (store k) (store k')"
    "r = Inr () \<Longrightarrow> nodeName m \<noteq> '''' \<Longrightarrow> has_label ?at (nodeName m) (pod_UID p) (store k')"
    "isl r \<Longrightarrow> store k' = store k" by auto
qed

lemma retries_result:
  assumes "kube_ok cs store" and "retries n (label_attempt m cs p) k = (r, k')"
  shows "labelled (pod_Namespace p, pod_Name p) (nodeName m) (store k) (store k') \<and>
    (r = Inr () \<and> nodeName m \<noteq> '''' \<longrightarrow>
       has_label (pod_Namespace p, pod_Name p) (nodeName m) (pod_UID p) (store k'))"
  using assms(2)
proof (induction n arbitrary: k)
  case 0
  then show ?case using label_attempt_result [OF assms(1)] by auto
next
  case (Suc n)
  obtain x k1 where one: "label_attempt m cs p k = (x, k1)" by fastforce
  note O = label_attempt_result [OF assms(1) one]
  show ?case
  proof (cases "\<exists>e. x = Inl (Failed e) \<and> isConflict e")
    case True
    then have "retries n (label_attempt m cs p) k1 = (r, k')" using Suc.prems one by auto
    with Suc.IH O(3) True show ?thesis by fastforce
  next
    case False
    then have "r = x \<and> k' = k1" using Suc.prems one by (auto split: sum.splits fault.splits)
    with O show ?thesis by auto
  qed
qed


section \<open>Claim, Pod, container\<close>

lemma container_of_alias:
  "containerNameForPodClaimAlias cs a \<noteq> '''' \<Longrightarrow>
   \<exists>c \<in> set cs. ct_Name c = containerNameForPodClaimAlias cs a \<and> a \<in> set (ct_Claims c)"
  by (induction cs) (auto split: if_splits)

lemma claim_alias_sound:
  "claim_alias p name pcs = Some a \<Longrightarrow>
   \<exists>pc \<in> set pcs. pc_Name pc = a \<and> (pc_ResourceClaimName pc = Some name \<or>
     (a, Some name) \<in> set (pod_ClaimStatuses p))"
  by (induction p name pcs rule: claim_alias.induct) (auto simp: list_ex_iff split: if_splits)

text \<open>C20: A claim that resolves names the right container: the Pod is the one that reserved the claim
  first, with the same UID, it is assigned to this very node, it references the claim (by name or through
  a template whose status names it), and the container, regular or init, lists that reference.\<close>

theorem resolved_container_uses_claim:
  assumes "resolveClaimToPod m claim k = (Inr (p, ctr), k')"
  shows "\<exists>consumer rest nm c.
    st_ReservedFor (rc_Status claim) = consumer # rest \<and> cr_Resource consumer = ''pods'' \<and>
    pod_UID p = cr_UID consumer \<and> nodeName m \<noteq> '''' \<and> pod_NodeName p = nodeName m \<and>
    list_ex (\<lambda>pc. pc_Name pc = nm \<and> (pc_ResourceClaimName pc = Some (rc_Name claim) \<or>
       (nm, Some (rc_Name claim)) \<in> set (pod_ClaimStatuses p))) (pod_ResourceClaims p) \<and>
    c \<in> set (pod_Containers p @ pod_InitContainers p) \<and> ct_Name c = ctr \<and> ctr \<noteq> '''' \<and> nm \<in> set (ct_Claims c)"
proof -
  from assms obtain consumer rest where res: "st_ReservedFor (rc_Status claim) = consumer # rest"
    and pods: "cr_Resource consumer = ''pods''" and chk: "check_pod m claim consumer p = Inr (p, ctr)"
    by (auto simp: resolveClaimToPod_def throw_def seq_Inr lift_res_def check_pod_def Let_def
        split: option.splits list.splits if_splits sum.splits)
  from chk obtain nm where uid: "pod_UID p = cr_UID consumer" "nodeName m \<noteq> ''''" "pod_NodeName p = nodeName m"
    and al: "claim_alias p (rc_Name claim) (pod_ResourceClaims p) = Some nm" and ne: "ctr \<noteq> ''''"
    and ctr: "ctr = (if containerNameForPodClaimAlias (pod_Containers p) nm = ''''
      then containerNameForPodClaimAlias (pod_InitContainers p) nm
      else containerNameForPodClaimAlias (pod_Containers p) nm)"
    by (auto simp: check_pod_def podClaimAliasForResourceClaim_def Let_def split: if_splits option.splits)
  from ctr ne obtain c where "c \<in> set (pod_Containers p @ pod_InitContainers p)" "ct_Name c = ctr" "nm \<in> set (ct_Claims c)"
    using container_of_alias [of "pod_Containers p" nm] container_of_alias [of "pod_InitContainers p" nm]
    by (auto split: if_splits)
  with res pods uid claim_alias_sound [OF al] ne show ?thesis by (auto simp: list_ex_iff)
qed


section \<open>A sample cluster\<close>

definition ref_clientset :: "pod_store clientset" where
  "ref_clientset = \<lparr>
     pods_get = (\<lambda>ns n k. (case k (ns, n) of None \<Rightarrow> Inl (Failed NotFound) | Some p \<Rightarrow> Inr p, k)),
     pods_patch = (\<lambda>ns n q k. case k (ns, n) of
        None \<Rightarrow> (Inl (Failed NotFound), k)
      | Some p \<Rightarrow> if patch_applies q p
          then (Inr (), k((ns, n) \<mapsto> p\<lparr>pod_Labels := merge_labels (pod_Labels p) (pp_labels q),
                                        pod_ResourceVersion := pod_ResourceVersion p @ ''+''\<rparr>))
          else (Inl (Failed Conflict), k))\<rparr>"

lemma ref_clientset_ok: "kube_ok ref_clientset (\<lambda>k. k)"
  by (auto simp: kube_ok_def ref_clientset_def split: option.splits)

definition sample_pod :: pod where
  "sample_pod = \<lparr>pod_Namespace = ''ns'', pod_Name = ''p'', pod_UID = ''pu'', pod_ResourceVersion = ''1'',
     pod_Labels = [], pod_NodeName = ''node-a'',
     pod_ResourceClaims = [\<lparr>pc_Name = ''gpu'', pc_ResourceClaimName = None, pc_ResourceClaimTemplateName = Some ''t''\<rparr>],
     pod_ClaimStatuses = [(''gpu'', Some ''p-gpu'')],
     pod_Containers = [\<lparr>ct_Name = ''side'', ct_Claims = []\<rparr>],
     pod_InitContainers = [\<lparr>ct_Name = ''train'', ct_Claims = [''gpu'']\<rparr>]\<rparr>"

definition sample_manager :: "pod_store HAMiCoreManager" where
  "sample_manager = \<lparr>hostHookPath = [''h''], containerHookPath = [''h''], nodeName = ''node-a'',
     hm_clientset = Some ref_clientset,
     podLister = Some (\<lambda>ns n k. (Inl (Failed NotFound), k)), retryOnConflict = retries 5\<rparr>"

definition sample_claim :: resource_claim where
  "sample_claim = \<lparr>rc_Namespace = ''ns'', rc_Name = ''p-gpu'', rc_UID = ''u1'',
     rc_Status = \<lparr>st_Allocation = None,
       st_ReservedFor = [\<lparr>cr_Resource = ''pods'', cr_Name = ''p'', cr_UID = ''pu''\<rparr>]\<rparr>\<rparr>"

definition sample_store :: pod_store where
  "sample_store = [(''ns'', ''p'') \<mapsto> sample_pod]"

lemmas sample_cluster_defs = sample_store_def sample_pod_def sample_manager_def ref_clientset_def sample_claim_def


theorem resolved_container_uses_claim_witness:
  "fst (resolveClaimToPod sample_manager sample_claim sample_store) = Inr (sample_pod, ''train'') \<and>
   (\<exists>c. c \<in> set (pod_Containers sample_pod @ pod_InitContainers sample_pod) \<and> ct_Name c = ''train'')"
proof -
  have "resolveClaimToPod sample_manager sample_claim sample_store = (Inr (sample_pod, ''train''), sample_store)"
    by (simp add: resolveClaimToPod_def find_pod_def check_pod_def podClaimAliasForResourceClaim_def
        seq_def attempt_def wrapping_def lift_res_def Let_def sample_cluster_defs)
  from resolved_container_uses_claim [OF this] this show ?thesis by auto
qed

end
