(* ===== verification/HamiCache.thy ===== *)
theory HamiCache
  imports HamiCore
begin

text \<open>
  What preparing and releasing a claim does to the cache directories of HAMi-Core. A released
  claim loses exactly the container directories that carry its marker (or its cache file) and its
  legacy directory; a failed release removes nothing else; a prepared claim finds its container
  directory empty but for the marker.
\<close>

section \<open>Which claim UIDs pass the check\<close>

lemma local_component: "component s \<Longrightarrow> filepath_IsLocal s"
  by (cases s) (auto simp: component_def filepath_IsLocal_def split_no_slash)

lemma base_component:
  assumes "component s"
  shows "filepath_Base s = s"
proof -
  have "CHR ''/'' \<notin> set (rev s)" "s \<noteq> []" using assms by (auto simp: component_def)
  then have "dropWhile (\<lambda>c. c = CHR ''/'') (rev s) = rev s"
    by (cases "rev s") auto
  with assms show ?thesis
    by (simp add: filepath_Base_def component_def split_no_slash)
qed

lemma base_no_slash:
  assumes "filepath_Base s = s" and "s \<noteq> []" and "hd s \<noteq> CHR ''/''"
  shows "CHR ''/'' \<notin> set s"
proof -
  let ?q = "rev (dropWhile (\<lambda>c. c = CHR ''/'') (rev s))"
  have "?q \<noteq> []"
  proof
    assume "?q = []"
    then have "\<forall>c \<in> set s. c = CHR ''/''" by (simp add: dropWhile_eq_Nil_conv)
    with assms(2,3) show False by (cases s) auto
  qed
  then have "filepath_Base s = last (split_at_char (CHR ''/'') ?q)"
    using assms(2) by (simp only: filepath_Base_def Let_def if_False)
  then show ?thesis using last_split_no_sep [of "CHR ''/''" ?q] assms(1) by simp
qed

lemma valid_claim_uid_component: "valid_claim_uid u \<longleftrightarrow> component u"
proof
  assume v: "valid_claim_uid u"
  then have "CHR ''/'' \<notin> set u"
    by (intro base_no_slash) (auto simp: valid_claim_uid_def filepath_IsLocal_def)
  moreover from this v have "u \<noteq> ''..''"
    by (auto simp: valid_claim_uid_def filepath_IsLocal_def split_no_slash)
  ultimately show "component u"
    using v by (auto simp: valid_claim_uid_def filepath_IsLocal_def component_def)
next
  assume "component u"
  then show "valid_claim_uid u"
    by (simp add: valid_claim_uid_def local_component base_component) (simp add: component_def)
qed

lemma component_underscore:
  assumes "CHR ''/'' \<notin> set s" and "CHR ''_'' \<in> set s"
  shows "component s"
  using assms by (auto simp: component_def)

lemma component_owner_names:
  assumes "component u"
  shows "list_all component (owner_names u)"
  using assms
  by (cases u; cases "tl u")
    (auto simp: owner_names_def marker_name_def hamiCoreClaimMarkerPrefix_def component_def)

section \<open>Ownership\<close>

fun is_reg :: "node option \<Rightarrow> bool" where
  "is_reg (Some (RegFile _)) = True"
| "is_reg _ = False"

definition owned_at :: "fs \<Rightarrow> path \<Rightarrow> string \<Rightarrow> bool" where
  "owned_at w d u = list_ex (\<lambda>s. is_reg (node_at w (d @ [s]))) (owner_names u)"

lemma owned_by_result:
  assumes "owned_by d names w = (r, w')" and "lookup_node w d = Inr Dir" and "list_all component names"
  shows "fs_nodes w' = fs_nodes w \<and>
    (\<forall>b. r = Inr b \<longrightarrow> b = list_ex (\<lambda>s. is_reg (node_at w (d @ [s]))) names)"
  using assms
proof (induction names arbitrary: w)
  case Nil
  then show ?case by (auto simp: ret_def)
next
  case (Cons s ss)
  obtain x w1 where l: "os_Lstat (join_path d [s]) w = (x, w1)" by fastforce
  have s: "join_path d [s] = d @ [s]" using Cons.prems(3) by (simp add: join_component)
  note L = Lstat_cases [OF l, unfolded s]
  have child: "lookup_node w (d @ [s]) = (case node_at w (d @ [s]) of None \<Rightarrow> Inl NotExist | Some n \<Rightarrow> Inr n)"
    by (rule lookup_child [OF Cons.prems(2)])
  show ?case
  proof (cases x)
    case (Inr n)
    with L child have "node_at w (d @ [s]) = Some n" by (auto split: option.splits)
    with Cons.prems(1) l L Inr show ?thesis
      by (cases n) (auto simp: seq_def attempt_def ret_def throw_def)
  next
    case (Inl f)
    show ?thesis
    proof (cases "f = Failed NotExist")
      case True
      with L Inl child have none: "node_at w (d @ [s]) = None" by (auto split: option.splits)
      have "owned_by d ss w1 = (r, w')"
        using Cons.prems(1) l Inl True by (simp add: seq_def attempt_def isNotExist_def)
      moreover have "lookup_node w1 d = Inr Dir"
        using L Cons.prems(2) same_nodes(3) [of w1 w d] by simp
      ultimately have "fs_nodes w' = fs_nodes w1 \<and>
          (\<forall>b. r = Inr b \<longrightarrow> b = list_ex (\<lambda>s. is_reg (node_at w1 (d @ [s]))) ss)"
        using Cons.IH Cons.prems(3) by simp
      moreover have "node_at w1 = node_at w" using L same_nodes(1) [of w1 w] by blast
      ultimately show ?thesis using L none by simp
    next
      case False
      then show ?thesis
        using Cons.prems(1) l Inl L
        by (cases f) (auto simp: seq_def attempt_def throw_def isNotExist_def)
    qed
  qed
qed

section \<open>Releasing\<close>

lemma removed_wf:
  assumes "wf_fs w" and "os_RemoveAll p w = (r, w')"
  shows "wf_fs w'"
  using wf_RemoveAll [OF assms(1), of p] assms(2) by simp

definition entry_bad :: "fs \<Rightarrow> path \<Rightarrow> string \<Rightarrow> string \<times> node \<Rightarrow> path \<Rightarrow> bool" where
  "entry_bad w cp u = (\<lambda>(s, n) q. n = Dir \<and> owned_at w (cp @ [s]) u \<and> prefix (cp @ [s]) q)"

lemma release_entry_removes:
  assumes run: "release_entry cp u (s, n) w = (r, w')"
    and wf: "wf_fs w" and u: "component u" and s: "node_at w (cp @ [s]) = Some n"
  shows "wf_fs w' \<and> (\<exists>sel. removed sel w w' \<and> (\<forall>q. sel q \<longrightarrow> entry_bad w cp u (s, n) q) \<and>
    (r = Inr () \<longrightarrow> (\<forall>q. sel q = entry_bad w cp u (s, n) q)))"
proof (cases "n = Dir")
  case False
  with run have "r = Inr ()" "w' = w" by (simp_all add: release_entry_def ret_def)
  with wf False show ?thesis
    by (auto simp: entry_bad_def intro!: exI [of _ "\<lambda>_. False"] removed_none)
next
  case True
  let ?d = "cp @ [s]"
  have d: "join_path cp [s] = ?d" using wf_parent(2) [OF wf s] by (rule join_component)
  obtain x w1 where o: "owned_by ?d (owner_names u) w = (x, w1)" by fastforce
  have "lookup_node w ?d = Inr Dir" using wf_lookup [OF wf] s True by simp
  note O = owned_by_result [OF o this component_owner_names [OF u]]
  show ?thesis
  proof (cases "x = Inr True")
    case False
    then have "w' = w1 \<and> (r = Inr () \<longrightarrow> x = Inr False)"
      using run True d o by (cases x) (auto simp: release_entry_def seq_def ret_def Let_def)
    then have "fs_nodes w' = fs_nodes w" "r = Inr () \<longrightarrow> \<not> owned_at w ?d u"
      using O by (auto simp: owned_at_def)
    then show ?thesis
      using wf wf_nodes [of w' w]
      by (auto simp: entry_bad_def intro!: exI [of _ "\<lambda>_. False"] removed_none)
  next
    case own: True
    then have ow: "owned_at w ?d u" using O by (auto simp: owned_at_def)
    obtain y w2 where rm: "os_RemoveAll ?d w1 = (y, w2)" by fastforce
    have w': "w' = w2" and y: "r = Inr () \<longrightarrow> y = Inr ()"
      using run True d o own rm by (auto simp: release_entry_def seq_def Let_def wrapping_def)
    have n1: "fs_nodes w1 = fs_nodes w" and wf1: "wf_fs w1" using O wf wf_nodes [of w1 w] by auto
    have same: "removed sel w1 w2 = removed sel w w2" for sel by (simp add: removed_def n1)
    have bad: "entry_bad w cp u (s, n) q = prefix ?d q" for q using True ow by (simp add: entry_bad_def)
    have wf2: "wf_fs w2" by (rule removed_wf [OF wf1 rm])
    show ?thesis
    proof (cases "r = Inr ()")
      case True
      then have "removed (prefix ?d) w1 w2" using removed_RemoveAll_ok [OF wf1] rm y by simp
      with wf2 show ?thesis unfolding w' same bad by blast
    next
      case False
      with removed_RemoveAll [OF rm] wf2 show ?thesis unfolding w' same bad by blast
    qed
  qed
qed

lemma each_release_removes:
  assumes "each (release_entry cp u) es w = (r, w')"
    and "wf_fs w" and "component u" and "distinct (map fst es)"
    and "\<forall>(s, n) \<in> set es. node_at w (cp @ [s]) = Some n"
  shows "wf_fs w' \<and> (\<exists>sel. removed sel w w' \<and> (\<forall>q. sel q \<longrightarrow> (\<exists>e \<in> set es. entry_bad w cp u e q)) \<and>
    (r = Inr () \<longrightarrow> (\<forall>q. sel q = (\<exists>e \<in> set es. entry_bad w cp u e q))))"
  using assms
proof (induction es arbitrary: w)
  case Nil
  then show ?case by (auto simp: ret_def intro!: exI [of _ "\<lambda>_. False"] removed_none)
next
  case (Cons e es)
  obtain s n where e: "e = (s, n)" by (cases e)
  obtain r1 w1 where one: "release_entry cp u (s, n) w = (r1, w1)" by fastforce
  have "node_at w (cp @ [s]) = Some n" using Cons.prems(5) e by simp
  from release_entry_removes [OF one Cons.prems(2,3) this] obtain sel1 where wf1: "wf_fs w1"
    and rm1: "removed sel1 w w1" and sel1: "\<forall>q. sel1 q \<longrightarrow> entry_bad w cp u (s, n) q"
    and ok1: "r1 = Inr () \<longrightarrow> (\<forall>q. sel1 q = entry_bad w cp u (s, n) q)" by blast
  show ?case
  proof (cases r1)
    case (Inl f)
    then have "r = Inl f" "w' = w1" using Cons.prems(1) one e by (simp_all add: seq_def)
    with wf1 rm1 sel1 e show ?thesis by (auto intro!: exI [of _ sel1])
  next
    case (Inr x)
    have rest: "each (release_entry cp u) es w1 = (r, w')"
      using Cons.prems(1) one e Inr by (simp add: seq_def)
    have keep: "node_at w1 (cp @ s' # t) = node_at w (cp @ s' # t)" if "s' \<noteq> s" for s' t
      using sel1 that node_at_removed [OF rm1, of "cp @ s' # t"] by (auto simp: entry_bad_def)
    have fresh: "s' \<noteq> s" if "(s', n') \<in> set es" for s' n'
      using Cons.prems(4) e that by (force simp: image_iff)
    have bad: "entry_bad w1 cp u e' q = entry_bad w cp u e' q" if "e' \<in> set es" for e' q
      using fresh [of "fst e'" "snd e'"] that keep
      by (auto simp: entry_bad_def owned_at_def split: prod.splits)
    have "\<forall>(s', n') \<in> set es. node_at w1 (cp @ [s']) = Some n'"
      using Cons.prems(5) fresh keep by fastforce
    with Cons.IH [OF rest wf1 Cons.prems(3)] Cons.prems(4) obtain sel2 where wf': "wf_fs w'"
      and rm2: "removed sel2 w1 w'" and sel2: "\<forall>q. sel2 q \<longrightarrow> (\<exists>e \<in> set es. entry_bad w1 cp u e q)"
      and ok2: "r = Inr () \<longrightarrow> (\<forall>q. sel2 q = (\<exists>e \<in> set es. entry_bad w1 cp u e q))" by auto
    have sel2': "\<forall>q. sel2 q \<longrightarrow> (\<exists>e \<in> set es. entry_bad w cp u e q)"
      using sel2 bad by blast
    have ok2': "r = Inr () \<longrightarrow> (\<forall>q. sel2 q = (\<exists>e \<in> set es. entry_bad w cp u e q))"
      using ok2 bad by blast
    have "removed (\<lambda>q. sel1 q \<or> sel2 q) w w'" by (rule removed_trans [OF rm1 rm2])
    moreover have "r = Inr () \<longrightarrow> (\<forall>q. (sel1 q \<or> sel2 q) = (\<exists>e' \<in> set (e # es). entry_bad w cp u e' q))"
      using ok1 ok2' Inr e by auto
    moreover have "\<forall>q. sel1 q \<or> sel2 q \<longrightarrow> (\<exists>e' \<in> set (e # es). entry_bad w cp u e' q)"
      using sel1 sel2' e by auto
    ultimately show ?thesis using wf' by blast
  qed
qed

definition containers_dir :: "path \<Rightarrow> path" where
  "containers_dir root = root @ [''vgpu'', ''containers'']"

definition legacy_dir :: "path \<Rightarrow> string \<Rightarrow> path" where
  "legacy_dir root u = root @ [''vgpu'', ''claims'', u]"

text \<open>What belongs to a claim: the legacy directory and the container directories it owns.\<close>

definition belongs :: "path \<Rightarrow> string \<Rightarrow> fs \<Rightarrow> path \<Rightarrow> bool" where
  "belongs root u w q \<longleftrightarrow> prefix (legacy_dir root u) q \<or>
     list_ex (\<lambda>s. node_at w (containers_dir root @ [s]) = Some Dir \<and>
       owned_at w (containers_dir root @ [s]) u \<and> prefix (containers_dir root @ [s]) q)
     (children w (containers_dir root))"

lemma join_vgpu:
  "component s \<Longrightarrow> join_path root [''vgpu'', ''claims'', s] = root @ [''vgpu'', ''claims'', s]"
  "join_path root [''vgpu'', ''containers''] = root @ [''vgpu'', ''containers'']"
  by (subst join_components; simp add: component_def)+

lemma legacy_not_container: "\<not> prefix (legacy_dir root u) (containers_dir root @ q)"
  by (simp add: legacy_dir_def containers_dir_def)

lemma HAMi_Unprepare_removes:
  assumes run: "HAMi_Unprepare root u pl w = (r, w')" and wf: "wf_fs w" and u: "component u"
  shows "wf_fs w' \<and> (\<exists>sel. removed sel w w' \<and> (\<forall>q. sel q \<longrightarrow> belongs root u w q) \<and>
    (r = Inr () \<longrightarrow> (\<forall>q. sel q = belongs root u w q)))"
proof -
  let ?l = "legacy_dir root u" and ?c = "containers_dir root"
  obtain x w1 where rm: "os_RemoveAll ?l w = (x, w1)" by fastforce
  from removed_RemoveAll [OF rm] obtain sel1 where rm1: "removed sel1 w w1" and sel1: "\<forall>q. sel1 q \<longrightarrow> prefix ?l q"
    by blast
  have wf1: "wf_fs w1" by (rule removed_wf [OF wf rm])
  have keep: "node_at w1 (?c @ q) = node_at w (?c @ q)" for q
    using sel1 node_at_removed [OF rm1, of "?c @ q"] legacy_not_container by auto
  have run': "HAMi_Unprepare root u pl w = seq (wrapping ''remove legacy claim cache directory'' (os_RemoveAll ?l)) (\<lambda>_.
        seq (attempt (os_ReadDir ?c)) (\<lambda>r.
           case r of
             Inl e \<Rightarrow> if isNotExist e then ret () else throw (Wrap ''failed to list containers path'' e)
           | Inr es \<Rightarrow> each (release_entry ?c u) es)) w"
    unfolding HAMi_Unprepare_def legacy_dir_def containers_dir_def
    using u by (simp add: valid_claim_uid_component join_vgpu Let_def)
  show ?thesis
  proof (cases x)
    case (Inl f)
    then have "w' = w1" "r \<noteq> Inr ()" using run run' rm by (cases f; auto simp: seq_def wrapping_def)+
    with wf1 rm1 sel1 show ?thesis by (auto simp: belongs_def)
  next
    case (Inr y)
    have rm1': "removed (prefix ?l) w w1" using removed_RemoveAll_ok [OF wf] rm Inr by simp
    obtain z w2 where rd: "os_ReadDir ?c w1 = (z, w2)" by fastforce
    note R = ReadDir_cases [OF rd]
    have n2: "fs_nodes w2 = fs_nodes w1" and wf2: "wf_fs w2" using R wf1 wf_nodes [of w2 w1] by auto
    have ch: "set (children w2 ?c) = set (children w ?c)"
      using in_children [OF wf2] in_children [OF wf] keep same_nodes(1) [OF n2] by auto
    have rest: "seq (attempt (\<lambda>_. (z, w2))) (\<lambda>r. case r of
             Inl e \<Rightarrow> if isNotExist e then ret () else throw (Wrap ''failed to list containers path'' e)
           | Inr es \<Rightarrow> each (release_entry ?c u) es) w1 = (r, w')"
      using run run' rm Inr rd by (simp add: seq_def wrapping_def attempt_def)
    show ?thesis
    proof (cases z)
      case (Inl f)
      have w': "w' = w2" and ok: "r = Inr () \<longrightarrow> f = Failed NotExist"
        using rest Inl by (cases f; auto simp: seq_def attempt_def ret_def throw_def isNotExist_def split: if_splits)+
      have none: "node_at w (?c @ [s]) = None" if "f = Failed NotExist" for s
      proof -
        have "lookup_node w1 ?c = Inl NotExist" using R that Inl by simp
        then have "node_at w1 ?c \<noteq> Some Dir" using wf_lookup [OF wf1, of ?c Dir] by simp
        then have "node_at w1 (?c @ [s]) = None"
          using wf_parent(1) [OF wf1, of ?c s] by (cases "node_at w1 (?c @ [s])") auto
        then show ?thesis by (simp add: keep)
      qed
      have "removed (prefix ?l) w w'" using rm1' n2 w' by (simp add: removed_def)
      moreover have "r = Inr () \<longrightarrow> (\<forall>q. prefix ?l q = belongs root u w q)"
        using ok none by (auto simp: belongs_def list_ex_iff)
      ultimately show ?thesis using wf2 w' by (auto simp: belongs_def)
    next
      case (Inr es)
      have es: "es = map (\<lambda>s. (s, the (node_at w1 (?c @ [s])))) (children w1 ?c)" using R Inr by simp
      have loop: "each (release_entry ?c u) es w2 = (r, w')"
        using rest Inr by (simp add: seq_def attempt_def)
      have "map fst es = children w1 ?c" by (simp add: es comp_def)
      then have dist: "distinct (map fst es)" by simp
      have nodes: "\<forall>(s, n) \<in> set es. node_at w2 (?c @ [s]) = Some n"
        using in_children [OF wf1, of _ ?c] by (auto simp: es same_nodes(1) [OF n2])
      have bad: "(\<exists>e \<in> set es. entry_bad w2 ?c u e q) \<longleftrightarrow>
          list_ex (\<lambda>s. node_at w (?c @ [s]) = Some Dir \<and> owned_at w (?c @ [s]) u \<and> prefix (?c @ [s]) q) (children w ?c)" for q
      proof -
        have o: "owned_at w2 (?c @ [s]) u = owned_at w (?c @ [s]) u" for s
          using keep same_nodes(1) [OF n2] by (simp add: owned_at_def)
        have k: "node_at w1 (?c @ [s]) = node_at w (?c @ [s])" for s using keep by simp
        have c1: "set (children w1 ?c) = set (children w ?c)" using ch same_nodes(4) [OF n2] by simp
        show ?thesis
          unfolding list_ex_iff es using in_children [OF wf, of _ ?c]
          by (auto simp: entry_bad_def o k c1 intro!: bexI)
      qed
      from each_release_removes [OF loop wf2 u dist nodes] obtain sel2 where wf': "wf_fs w'"
        and rm2: "removed sel2 w2 w'" and sel2: "\<forall>q. sel2 q \<longrightarrow> (\<exists>e \<in> set es. entry_bad w2 ?c u e q)"
        and ok2: "r = Inr () \<longrightarrow> (\<forall>q. sel2 q = (\<exists>e \<in> set es. entry_bad w2 ?c u e q))" by blast
      have "removed sel2 w1 w'" using rm2 n2 by (simp add: removed_def)
      from removed_trans [OF rm1' this] wf' sel2 ok2 show ?thesis
        unfolding bad by (auto simp: belongs_def intro!: exI [of _ "\<lambda>q. prefix ?l q \<or> sel2 q"])
    qed
  qed
qed

section \<open>Setting up\<close>

lemma mkdirs_ok:
  assumes "mkdirs d p w = (Inr (), w')" and "wf_fs w" and "node_at w d = Some Dir"
    and "list_all component (d @ p)"
  shows "wf_fs w' \<and> (\<forall>q. node_at w' q = (if prefix d q \<and> prefix q (d @ p) then Some Dir else node_at w q))"
  using assms
proof (induction p arbitrary: d w)
  case Nil
  then show ?case by (auto dest: prefix_order.antisym)
next
  case (Cons s r)
  obtain w1 where w1: "w1 = (case node_at w (d @ [s]) of None \<Rightarrow> put_node (d @ [s]) Dir w | Some _ \<Rightarrow> w)"
    by simp
  have run: "mkdirs (d @ [s]) r w1 = (Inr (), w')" and dir: "node_at w (d @ [s]) \<in> {None, Some Dir}"
    using Cons.prems(1) by (auto simp: w1 split: option.splits node.splits)
  have wf1: "wf_fs w1"
    using Cons.prems wf_put [OF Cons.prems(2), of s d Dir] by (auto simp: w1 split: option.split)
  have n1: "node_at w1 q = (if q = d @ [s] then Some Dir else node_at w q)" for q
    using dir by (auto simp: w1 node_at_put split: option.split)
  have "wf_fs w' \<and> (\<forall>q. node_at w' q = (if prefix (d @ [s]) q \<and> prefix q ((d @ [s]) @ r) then Some Dir else node_at w1 q))"
    using Cons.prems(4) by (intro Cons.IH [OF run wf1]) (simp_all add: n1)
  moreover have "prefix d q \<and> prefix q (d @ s # r) \<longleftrightarrow> q = d \<or> (prefix (d @ [s]) q \<and> prefix q (d @ s # r))" for q
  proof
    assume a: "prefix d q \<and> prefix q (d @ s # r)"
    then obtain t where t: "q = d @ t" by (auto simp: prefix_def)
    with a have "prefix t (s # r)" by simp
    with t show "q = d \<or> (prefix (d @ [s]) q \<and> prefix q (d @ s # r))" by (cases t) auto
  qed (auto simp: prefix_def)
  ultimately show ?case using Cons.prems(3) n1 by auto
qed

lemma MkdirAll_ok:
  assumes "os_MkdirAll p w = (Inr (), w')" and "wf_fs w" and "list_all component p"
  shows "wf_fs w' \<and> (\<forall>q. node_at w' q = (if prefix q p then Some Dir else node_at w q))"
proof -
  have "mkdirs [] p (tick w) = (Inr (), w')"
    using assms(1) by (auto simp: os_MkdirAll_def fs_call_def split: option.splits)
  from mkdirs_ok [OF this] assms(2,3) show ?thesis by (simp add: node_at_def)
qed

lemma WriteFile_ok:
  assumes "os_WriteFile (d @ [s]) c w = (Inr (), w')" and "wf_fs w" and "list_all component d" and "component s"
    and "node_at w d = Some Dir"
  shows "wf_fs w' \<and> (\<forall>q. node_at w' q = (if q = d @ [s] then Some (RegFile c) else node_at w q))"
proof -
  have put: "w' = put_node (d @ [s]) (RegFile c) (tick w)" and kind: "lookup_node w (d @ [s]) \<noteq> Inr Dir"
    using assms(1)
    by (auto simp: os_WriteFile_def fs_call_def split: option.splits sum.splits err.splits node.splits if_splits)
  have "node_at w (d @ [s]) \<noteq> Some Dir" using kind wf_lookup [OF assms(2)] by simp
  then have "wf_fs w'" using assms unfolding put by (intro wf_put) simp_all
  then show ?thesis by (simp add: put node_at_put)
qed

lemma setup_cache_dir_ok:
  assumes run: "setup_cache_dir dir u w = (Inr (), w')" and wf: "wf_fs w"
    and dir: "dir \<noteq> []" "list_all component dir" and u: "component u"
  shows "wf_fs w' \<and> (\<forall>q. node_at w' q =
    (if q = dir @ [marker_name u] then Some (RegFile '''')
     else if prefix q dir then Some Dir
     else if prefix dir q then None
     else node_at w q))"
proof -
  have mk: "component (marker_name u)" using component_owner_names [OF u] by (simp add: owner_names_def)
  from run obtain w1 w2 w3 where rm: "os_RemoveAll dir w = (Inr (), w1)" and md: "os_MkdirAll dir w1 = (Inr (), w2)"
    and ch: "os_Chmod dir w2 = (Inr (), w3)" and wr: "os_WriteFile (dir @ [marker_name u]) '''' w3 = (Inr (), w')"
    by (auto simp: setup_cache_dir_def seq_Inr wrapping_Inr join_component [OF mk])
  have wf1: "wf_fs w1" by (rule removed_wf [OF wf rm])
  have n1: "node_at w1 q = (if q \<noteq> [] \<and> prefix dir q then None else node_at w q)" for q
    by (rule node_at_removed [OF removed_RemoveAll_ok [OF wf rm]])
  have n2: "wf_fs w2" "node_at w2 q = (if prefix q dir then Some Dir else node_at w1 q)" for q
    using MkdirAll_ok [OF md wf1 dir(2)] by auto
  have eq: "fs_nodes w3 = fs_nodes w2" using query_nodes(4) [of dir w2] ch by simp
  have n3: "wf_fs w3" "node_at w3 q = node_at w2 q" for q
    using n2(1) wf_nodes [OF eq] same_nodes(1) [OF eq] by auto
  have "wf_fs w' \<and> (\<forall>q. node_at w' q = (if q = dir @ [marker_name u] then Some (RegFile '''') else node_at w3 q))"
    using WriteFile_ok [OF wr n3(1) dir(2) mk] n2 n3 by simp
  with n1 n2 n3 dir show ?thesis by auto
qed

lemma cache_dir_split:
  assumes "CHR ''/'' \<notin> set podUID" and "CHR ''/'' \<notin> set ctr"
  shows "cache_dir root podUID ctr = containers_dir root @ [podUID @ ''_'' @ ctr]"
    "component (podUID @ ''_'' @ ctr)"
proof -
  show c: "component (podUID @ ''_'' @ ctr)"
    using assms by (intro component_underscore) auto
  then show "cache_dir root podUID ctr = containers_dir root @ [podUID @ ''_'' @ ctr]"
    unfolding cache_dir_def containers_dir_def
    by (subst join_components) (simp_all add: component_def)
qed

lemma limit_envs_length: "limit_envs cm i devs = Inr es \<Longrightarrow> length es = 2 * length devs"
  by (induction cm i devs arbitrary: es rule: limit_envs.induct) (auto simp: res_seq_Inr)

lemma GetCDIContainerEdits_ok:
  assumes "GetCDIContainerEdits m claim devs w = (Inr edits, w')"
  shows "\<exists>p ctr k1 al envs.
    resolveClaimToPod m claim (hw_kube w) = (Inr (p, ctr), k1) \<and>
    ensurePodMonitorLabel m p k1 = (Inr (), hw_kube w') \<and>
    setup_cache_dir (cache_dir (containerHookPath m) (pod_UID p) ctr) (rc_UID claim) (hw_fs w) = (Inr (), hw_fs w') \<and>
    getConsumableCapacityMap claim = Inr al \<and> limit_envs al 0 devs = Inr envs \<and>
    ce_Env edits = (''CUDA_DEVICE_MEMORY_SHARED_CACHE='' @
      path_string (join_path (cache_dir (containerHookPath m) (pod_UID p) ctr) [rc_UID claim @ ''.cache''])) # envs \<and>
    ce_Mounts edits = hami_mounts m (cache_dir (containerHookPath m) (pod_UID p) ctr)
      (cache_dir (hostHookPath m) (pod_UID p) ctr)"
proof -
  let ?dir = "\<lambda>p ctr. cache_dir (containerHookPath m) (pod_UID p) ctr"
  from assms obtain p ctr k1 k2 s3 al envs where
    r: "resolveClaimToPod m claim (hw_kube w) = (Inr (p, ctr), k1)"
    and l: "ensurePodMonitorLabel m p k1 = (Inr (), k2)"
    and s: "setup_cache_dir (?dir p ctr) (rc_UID claim) (hw_fs w) = (Inr (), s3)"
    and al: "getConsumableCapacityMap claim = Inr al" and en: "limit_envs al 0 devs = Inr envs"
    and w': "w' = w\<lparr>hw_kube := k2, hw_fs := s3\<rparr>"
    and e: "edits = \<lparr>ce_Env = (''CUDA_DEVICE_MEMORY_SHARED_CACHE='' @
        path_string (join_path (?dir p ctr) [rc_UID claim @ ''.cache''])) # envs,
      ce_DeviceNodes = [], ce_Mounts = hami_mounts m (?dir p ctr) (cache_dir (hostHookPath m) (pod_UID p) ctr)\<rparr>"
    by (auto simp: GetCDIContainerEdits_def seq_Inr on_Inr wrapping_Inr Let_def lift_res_def ret_def)
  then show ?thesis by (intro exI conjI) auto
qed


section \<open>A sample cache\<close>

text \<open>Two claims of two containers, one with a legacy directory, and a directory that belongs to no one.\<close>

definition sample_cache :: fs where
  "sample_cache = \<lparr>fs_nodes =
     [([''h''], Dir), ([''h'', ''vgpu''], Dir), ([''h'', ''vgpu'', ''claims''], Dir),
      ([''h'', ''vgpu'', ''claims'', ''u1''], Dir),
      ([''h'', ''vgpu'', ''containers''], Dir),
      ([''h'', ''vgpu'', ''containers'', ''p_a''], Dir),
      ([''h'', ''vgpu'', ''containers'', ''p_a'', ''.claim-u1''], RegFile ''''),
      ([''h'', ''vgpu'', ''containers'', ''p_b''], Dir),
      ([''h'', ''vgpu'', ''containers'', ''p_b'', ''.claim-u2''], RegFile ''''),
      ([''h'', ''vgpu'', ''containers'', ''p_c''], Dir)],
     fs_clock = 0, fs_fault = (\<lambda>_. None)\<rparr>"

lemma sample_cache_wf: "wf_fs sample_cache"
  unfolding sample_cache_def by code_simp

lemma sample_release: "fst (HAMi_Unprepare [''h''] ''u1'' [] sample_cache) = Inr ()"
  unfolding sample_cache_def by code_simp

section \<open>Properties of the cache\<close>

text \<open>C19: Releasing a claim removes exactly what belongs to it. A UID that is not a plain path
  component is refused before anything is touched. A release that succeeds removes the claim's legacy
  directory and the container directories carrying its marker or cache file, with everything below,
  and nothing else; one that fails half way has removed nothing outside them.\<close>

theorem release_removes_exactly_own:
  assumes "wf_fs w" and "HAMi_Unprepare root u pl w = (r, w')"
  shows "if valid_claim_uid u then
      (if r = Inr () then node_at w' q = (if belongs root u w q then None else node_at w q)
       else node_at w' q = node_at w q \<or> belongs root u w q)
    else isl r \<and> w' = w"
proof (cases "valid_claim_uid u")
  case False
  with assms(2) show ?thesis by (auto simp: HAMi_Unprepare_def throw_def)
next
  case True
  then have "component u" by (simp add: valid_claim_uid_component)
  from HAMi_Unprepare_removes [OF assms(2,1) this] obtain sel where sel: "removed sel w w'"
    "\<forall>q. sel q \<longrightarrow> belongs root u w q" "r = Inr () \<longrightarrow> (\<forall>q. sel q = belongs root u w q)" by blast
  have "\<not> belongs root u w []"
    by (auto simp: belongs_def legacy_dir_def containers_dir_def list_ex_iff)
  with sel(2,3) True node_at_removed [OF sel(1), of q] show ?thesis by auto
qed

theorem release_removes_exactly_own_witness:
  "node_at (snd (HAMi_Unprepare [''h''] ''u1'' [] sample_cache)) [''h'', ''vgpu'', ''containers'', ''p_a''] = None \<and>
   node_at (snd (HAMi_Unprepare [''h''] ''u1'' [] sample_cache)) [''h'', ''vgpu'', ''containers'', ''p_b''] = Some Dir"
proof (cases "HAMi_Unprepare [''h''] ''u1'' [] sample_cache")
  case (Pair r w')
  have r: "r = Inr ()" using sample_release Pair by simp
  have b: "belongs [''h''] ''u1'' sample_cache [''h'', ''vgpu'', ''containers'', ''p_a'']"
    "\<not> belongs [''h''] ''u1'' sample_cache [''h'', ''vgpu'', ''containers'', ''p_b'']"
    "node_at sample_cache [''h'', ''vgpu'', ''containers'', ''p_b''] = Some Dir" "valid_claim_uid ''u1''"
    unfolding sample_cache_def by code_simp+
  show ?thesis
    using release_removes_exactly_own [OF sample_cache_wf Pair, of "[''h'', ''vgpu'', ''containers'', ''p_a'']"]
      release_removes_exactly_own [OF sample_cache_wf Pair, of "[''h'', ''vgpu'', ''containers'', ''p_b'']"] b r Pair
    by simp
qed


section \<open>Setting up and releasing\<close>

lemma owned_at_belongs:
  assumes "node_at w (containers_dir root @ [s]) = Some Dir" and "owned_at w (containers_dir root @ [s]) u"
    and "wf_fs w" and "prefix (containers_dir root @ [s]) q"
  shows "belongs root u w q"
  using assms in_children [OF assms(3), of s "containers_dir root"]
  by (auto simp: belongs_def list_ex_iff)

text \<open>C22: Preparing and then releasing a claim leaves nothing behind: once the cache directory of a
  container has been set up for a claim and the claim is released, no path at or below that directory
  exists, and the directories of other containers that the claim does not own are as they were
  before.\<close>

theorem cache_setup_release:
  assumes "wf_fs w" and "list_all component root" and "valid_claim_uid u"
    and "CHR ''/'' \<notin> set podUID" and "CHR ''/'' \<notin> set ctr"
    and "setup_cache_dir (cache_dir root podUID ctr) u w = (Inr (), w1)"
    and "HAMi_Unprepare root u pl w1 = (Inr (), w2)"
  shows "if prefix (cache_dir root podUID ctr) q then node_at w2 q = None
    else prefix q (cache_dir root podUID ctr) \<or> belongs root u w1 q \<or> node_at w2 q = node_at w q"
proof -
  let ?n = "podUID @ ''_'' @ ctr"
  let ?D = "containers_dir root @ [?n]"
  have D: "cache_dir root podUID ctr = ?D" "component ?n"
    using cache_dir_split [OF assms(4,5)] by simp_all
  have u: "component u" using assms(3) by (simp add: valid_claim_uid_component)
  have comps: "list_all component ?D"
    using assms(2) D(2) by (simp add: containers_dir_def component_def)
  have set: "wf_fs w1 \<and> (\<forall>q. node_at w1 q =
      (if q = ?D @ [marker_name u] then Some (RegFile '''')
       else if prefix q ?D then Some Dir else if prefix ?D q then None else node_at w q))"
    using setup_cache_dir_ok [OF assms(6) [unfolded D(1)] assms(1) _ comps u] by simp
  obtain sel where sel: "removed sel w1 w2" "\<forall>q. sel q = belongs root u w1 q"
    using HAMi_Unprepare_removes [OF assms(7) conjunct1 [OF set] u] by auto
  have w2: "node_at w2 q = (if q \<noteq> [] \<and> belongs root u w1 q then None else node_at w1 q)" for q
    using node_at_removed [OF sel(1), of q] sel(2) by simp
  have "node_at w1 ?D = Some Dir" and "owned_at w1 ?D u"
    using set by (auto simp: owned_at_def owner_names_def)
  then have "belongs root u w1 q" if "prefix ?D q" for q
    using owned_at_belongs set that by blast
  moreover have "q \<noteq> []" if "prefix ?D q" for q using that by auto
  moreover have "node_at w1 q = node_at w q" if "\<not> prefix ?D q" "\<not> prefix q ?D" for q
    using set that by auto
  ultimately show ?thesis unfolding D(1) using w2 [of q] by auto
qed

definition empty_cache :: fs where
  "empty_cache = \<lparr>fs_nodes = [([''h''], Dir)], fs_clock = 0, fs_fault = (\<lambda>_. None)\<rparr>"

definition prepared_cache :: fs where
  "prepared_cache = snd (setup_cache_dir (cache_dir [''h''] ''p'' ''a'') ''u1'' empty_cache)"

theorem cache_setup_release_witness:
  "node_at prepared_cache [''h'', ''vgpu'', ''containers'', ''p_a'', ''.claim-u1''] = Some (RegFile '''') \<and>
   node_at (snd (HAMi_Unprepare [''h''] ''u1'' [] prepared_cache))
     [''h'', ''vgpu'', ''containers'', ''p_a'', ''.claim-u1''] = None"
proof (intro conjI)
  show "node_at prepared_cache [''h'', ''vgpu'', ''containers'', ''p_a'', ''.claim-u1''] = Some (RegFile '''')"
    unfolding prepared_cache_def empty_cache_def by code_simp
  have wf: "wf_fs empty_cache" and root: "list_all component [''h'']" "valid_claim_uid ''u1''"
    and sep: "CHR ''/'' \<notin> set ''p''" "CHR ''/'' \<notin> set ''a''"
    unfolding empty_cache_def by code_simp+
  have "fst (setup_cache_dir (cache_dir [''h''] ''p'' ''a'') ''u1'' empty_cache) = Inr ()"
    "fst (HAMi_Unprepare [''h''] ''u1'' [] prepared_cache) = Inr ()"
    unfolding prepared_cache_def empty_cache_def by code_simp+
  then have runs: "setup_cache_dir (cache_dir [''h''] ''p'' ''a'') ''u1'' empty_cache = (Inr (), prepared_cache)"
    "HAMi_Unprepare [''h''] ''u1'' [] prepared_cache = (Inr (), snd (HAMi_Unprepare [''h''] ''u1'' [] prepared_cache))"
    by (simp_all add: prepared_cache_def prod_eq_iff)
  have "prefix (cache_dir [''h''] ''p'' ''a'') [''h'', ''vgpu'', ''containers'', ''p_a'', ''.claim-u1'']" by code_simp
  with cache_setup_release [OF wf root sep runs, of "[''h'', ''vgpu'', ''containers'', ''p_a'', ''.claim-u1'']"]
  show "node_at (snd (HAMi_Unprepare [''h''] ''u1'' [] prepared_cache))
      [''h'', ''vgpu'', ''containers'', ''p_a'', ''.claim-u1''] = None" by simp
qed

end
