(* ===== verification/HamiLimits.thy ===== *)
theory HamiLimits
  imports HamiPods HamiCache
begin

text \<open>
  The memory and core limits of a HAMi-Core container: how \<open>GetCDIContainerEdits\<close> numbers the devices of a group
  and which of the capacities a claim consumes become the limit of a device.
\<close>

section \<open>The capacity a claim states for a device\<close>

text \<open>The quantity of the last allocation result for the device that states this capacity.\<close>

definition stated_capacity :: "allocation_result list \<Rightarrow> string \<Rightarrow> QualifiedName \<Rightarrow> quantity option" where
  "stated_capacity results name cap =
     map_of (rev (concat (map ar_ConsumedCapacity (filter (\<lambda>r. ar_Device r = name) results)))) cap"

lemma map_of_fold_update:
  "map_of (foldl (\<lambda>m (k, q). AList.update k q m) old caps) cap =
     (case map_of (rev caps) cap of Some q \<Rightarrow> Some q | None \<Rightarrow> map_of old cap)"
proof (induction caps rule: rev_induct)
  case (snoc c caps)
  then show ?case by (cases c) (auto simp: AList.update_conv' split: option.split)
qed simp

lemma getConsumableCapacityMap_stated:
  assumes "getConsumableCapacityMap claim = Inr m" and "st_Allocation (rc_Status claim) = Some al"
  shows "(case map_of m name of None \<Rightarrow> None | Some caps \<Rightarrow> map_of caps cap) = stated_capacity (al_Results al) name cap"
proof -
  let ?add = "\<lambda>resMap result.
      let devName = ar_Device result; old = (case map_of resMap devName of None \<Rightarrow> [] | Some m \<Rightarrow> m)
      in AList.update devName (foldl (\<lambda>m (k, q). AList.update k q m) old (ar_ConsumedCapacity result)) resMap"
  have "(case map_of (foldl ?add [] rs) name of None \<Rightarrow> None | Some caps \<Rightarrow> map_of caps cap) = stated_capacity rs name cap" for rs
  proof (induction rs rule: rev_induct)
    case (snoc r rs)
    then show ?case
      by (auto simp: Let_def AList.update_conv' map_of_fold_update stated_capacity_def map_add_def split: option.splits)
  qed (simp add: stated_capacity_def)
  moreover have "m = foldl ?add [] (al_Results al)"
    using assms by (simp add: getConsumableCapacityMap_def deref_def res_seq_def)
  ultimately show ?thesis by blast
qed

section \<open>The environment of a group\<close>

lemma limit_envs_at:
  assumes "limit_envs m k devs = Inr envs"
  shows "length envs = 2 * length devs \<and> (\<forall>i < length devs. \<exists>h. ad_HAMiGpu (snd (devs ! i)) = Some h \<and>
     envs ! (2 * i) = sm_limit_env (k + int i) (consumed_int m (fst (devs ! i)) ''cores'') \<and>
     envs ! (2 * i + 1) = memory_limit_env (k + int i) (consumed_int m (fst (devs ! i)) ''memory'') (g_memoryBytes (h_GpuInfo h)))"
  using assms
proof (induction m k devs arbitrary: envs rule: limit_envs.induct)
  case (2 m k name dev devs)
  from 2(2) obtain h r where h: "ad_HAMiGpu dev = Some h" and r: "limit_envs m (k + 1) devs = Inr r"
    and envs: "envs = sm_limit_env k (consumed_int m name ''cores'') #
      memory_limit_env k (consumed_int m name ''memory'') (g_memoryBytes (h_GpuInfo h)) # r"
    by (auto simp: res_seq_Inr deref_def split: option.splits)
  from 2(1) [OF r] have IH: "length r = 2 * length devs" "\<forall>i < length devs. \<exists>h. ad_HAMiGpu (snd (devs ! i)) = Some h \<and>
     r ! (2 * i) = sm_limit_env (k + 1 + int i) (consumed_int m (fst (devs ! i)) ''cores'') \<and>
     r ! (2 * i + 1) = memory_limit_env (k + 1 + int i) (consumed_int m (fst (devs ! i)) ''memory'') (g_memoryBytes (h_GpuInfo h))"
    by simp_all
  have "\<exists>h. ad_HAMiGpu (snd (((name, dev) # devs) ! i)) = Some h \<and>
     envs ! (2 * i) = sm_limit_env (k + int i) (consumed_int m (fst (((name, dev) # devs) ! i)) ''cores'') \<and>
     envs ! (2 * i + 1) = memory_limit_env (k + int i) (consumed_int m (fst (((name, dev) # devs) ! i)) ''memory'') (g_memoryBytes (h_GpuInfo h))"
    if "i < length ((name, dev) # devs)" for i
  proof (cases i)
    case 0
    with h envs show ?thesis by simp
  next
    case (Suc j)
    with that have "j < length devs" by simp
    with IH(2) have "\<exists>h. ad_HAMiGpu (snd (devs ! j)) = Some h \<and>
       r ! (2 * j) = sm_limit_env (k + 1 + int j) (consumed_int m (fst (devs ! j)) ''cores'') \<and>
       r ! (2 * j + 1) = memory_limit_env (k + 1 + int j) (consumed_int m (fst (devs ! j)) ''memory'') (g_memoryBytes (h_GpuInfo h))"
      by blast
    moreover have "k + int i = k + 1 + int j" "2 * i = Suc (Suc (2 * j))" "2 * i + 1 = Suc (Suc (2 * j + 1))" using Suc by simp_all
    ultimately show ?thesis by (simp only: envs Suc nth_Cons_Suc)
  qed
  moreover have "length envs = 2 * length ((name, dev) # devs)" using IH(1) envs by simp
  ultimately show ?case by blast
qed simp

lemma quotient_floor: "(q :: int) * k + r = n \<Longrightarrow> 0 \<le> r \<Longrightarrow> r < k \<Longrightarrow> q * k \<le> n \<and> n < (q + 1) * k"
  by (auto simp: distrib_right)

lemma mebibyte_floor:
  fixes n :: int
  shows "n div 1024 div 1024 * 1048576 \<le> n \<and> n < (n div 1024 div 1024 + 1) * 1048576"
proof -
  have "n div 1024 div 1024 = n div 1048576" by (simp add: zdiv_zmult2_eq [symmetric])
  with quotient_floor [OF div_mult_mod_eq [of n 1048576]] show ?thesis by simp
qed

lemma whole_mebibytes:
  "0 \<le> n \<Longrightarrow> (n sdiv 1024) sdiv 1024 * 1048576 \<le> n \<and> n < ((n sdiv 1024) sdiv 1024 + 1) * (1048576 :: int)"
proof -
  assume n: "0 \<le> n"
  have "a sdiv 1024 = a div 1024" if "0 \<le> a" for a :: int
    using that by (cases "a = 0") (simp_all add: signed_divide_int_eq_divide_int)
  with n have "(n sdiv 1024) sdiv 1024 = n div 1024 div 1024" by simp
  with mebibyte_floor [of n] show ?thesis by (simp only: simp_thms)
qed

section \<open>Properties\<close>

text \<open>What a device is limited to: the stated capacity where it is an \<open>int64\<close>, else a default.\<close>

definition limit_of :: "allocation_result list \<Rightarrow> string \<Rightarrow> QualifiedName \<Rightarrow> int \<Rightarrow> int" where
  "limit_of results name cap dflt =
     (case Option.bind (stated_capacity results name cap) q_int64 of Some n \<Rightarrow> n | None \<Rightarrow> dflt)"

lemma GetCDIContainerEdits_env:
  assumes "GetCDIContainerEdits m claim devs w = (Inr e, w')"
  shows "\<exists>capmap envs. getConsumableCapacityMap claim = Inr capmap \<and> limit_envs capmap 0 devs = Inr envs \<and>
    tl (ce_Env e) = envs \<and> ce_Env e \<noteq> []"
  using assms
  by (clarsimp simp: GetCDIContainerEdits_def Let_def seq_Inr lift_res_Inr ret_def split: prod.splits)
     (rule exI, rule conjI, erule sym, simp)

text \<open>C37: The limits of a HAMi-Core container are those of the claim. Preparing a group of devices gives two
  variables per device after the cache file, numbered by the position of the device in the group: the cores the
  claim consumes on it (60 by default) and its memory in whole MiB (all of the device by default), where the last
  allocation result that states the capacity for this device decides. So the memory limit is never above what
  was stated for the device, and less than one MiB below it.\<close>

theorem container_limits:
  assumes "GetCDIContainerEdits m claim devs w = (Inr e, w')" and "st_Allocation (rc_Status claim) = Some al"
    and "i < length devs" and "devs ! i = (name, dev)"
  shows "length (ce_Env e) = 1 + 2 * length devs \<and>
     (\<exists>h mib. let cores = limit_of (al_Results al) name ''cores'' 60;
                memory = limit_of (al_Results al) name ''memory'' (uint (g_memoryBytes (h_GpuInfo h))) in
        ad_HAMiGpu dev = Some h \<and>
        ce_Env e ! (2 * i + 1) = ''CUDA_DEVICE_SM_LIMIT_'' @ int_str (int i) @ ''='' @ int_str cores \<and>
        ce_Env e ! (2 * i + 2) = ''CUDA_DEVICE_MEMORY_LIMIT_'' @ int_str (int i) @ ''='' @ int_str mib @ ''m'' \<and>
        (0 \<le> memory \<longrightarrow> mib * 1048576 \<le> memory \<and> memory < (mib + 1) * 1048576))"
proof -
  from GetCDIContainerEdits_env [OF assms(1)] obtain capmap envs where capmap: "getConsumableCapacityMap claim = Inr capmap"
    and envs: "limit_envs capmap 0 devs = Inr envs" and env: "tl (ce_Env e) = envs" "ce_Env e \<noteq> []" by blast
  have consumed: "consumed_int capmap name cap = Option.bind (stated_capacity (al_Results al) name cap) q_int64" for cap
  proof -
    have "consumed_int capmap name cap =
        Option.bind (case map_of capmap name of None \<Rightarrow> None | Some caps \<Rightarrow> map_of caps cap) q_int64"
      by (simp add: consumed_int_def split: option.split)
    then show ?thesis by (simp only: getConsumableCapacityMap_stated [OF capmap assms(2)])
  qed
  from limit_envs_at [OF envs] assms(3,4) obtain h where len: "length envs = 2 * length devs"
    and h: "ad_HAMiGpu dev = Some h"
    and sm: "envs ! (2 * i) = sm_limit_env (int i) (consumed_int capmap name ''cores'')"
    and mem: "envs ! (2 * i + 1) = memory_limit_env (int i) (consumed_int capmap name ''memory'') (g_memoryBytes (h_GpuInfo h))"
    by fastforce
  let ?memory = "limit_of (al_Results al) name ''memory'' (uint (g_memoryBytes (h_GpuInfo h)))"
  have sixty: "int_str 60 = ''60''" by code_simp
  have "envs ! (2 * i) = ''CUDA_DEVICE_SM_LIMIT_'' @ int_str (int i) @ ''='' @ int_str (limit_of (al_Results al) name ''cores'' 60)"
    by (simp add: sm sm_limit_env_def consumed limit_of_def sixty split: option.split)
  moreover have "\<exists>mib. envs ! (2 * i + 1) = ''CUDA_DEVICE_MEMORY_LIMIT_'' @ int_str (int i) @ ''='' @ int_str mib @ ''m'' \<and>
      (0 \<le> ?memory \<longrightarrow> mib * 1048576 \<le> ?memory \<and> ?memory < (mib + 1) * 1048576)"
  proof (cases "Option.bind (stated_capacity (al_Results al) name ''memory'') q_int64")
    case (Some n)
    with whole_mebibytes [of n] show ?thesis
      by (intro exI [of _ "(n sdiv 1024) sdiv 1024"]) (simp add: mem [simplified] memory_limit_env_def consumed limit_of_def)
  next
    case None
    let ?b = "uint (g_memoryBytes (h_GpuInfo h))"
    have "uint (g_memoryBytes (h_GpuInfo h) div 1024 div 1024) = ?b div 1024 div 1024" by (simp add: uint_div_distrib)
    with None mebibyte_floor [of ?b] show ?thesis
      by (intro exI [of _ "?b div 1024 div 1024"]) (simp add: mem [simplified] memory_limit_env_def consumed limit_of_def)
  qed
  moreover obtain c where "ce_Env e = c # envs" using env by (cases "ce_Env e") simp_all
  ultimately show ?thesis using len h by (auto simp: Let_def)
qed

section \<open>A sample claim\<close>

definition half_gpu :: allocation_result where
  "half_gpu = \<lparr>ar_Request = ''r'', ar_Driver = ''hami-core-gpu.project-hami.io'', ar_Pool = ''node-a'', ar_Device = ''hami-gpu-0'',
     ar_AdminAccess = None, ar_ConsumedCapacity = [(''memory'', NewQuantity 536870912 BinarySI)]\<rparr>"

definition half_claim :: resource_claim where
  "half_claim = sample_claim\<lparr>rc_Status := (rc_Status sample_claim)\<lparr>st_Allocation :=
     Some \<lparr>al_Results = [half_gpu], al_Config = []\<rparr>\<rparr>\<rparr>"

definition whole_gpu :: GpuInfo where
  "whole_gpu = \<lparr>g_UUID = ''GPU-a'', g_minor = 0, g_migEnabled = False, g_vfioEnabled = False, g_memoryBytes = 1073741824,
     g_productName = '''', g_brand = '''', g_architecture = '''', g_cudaComputeCapability = '''', g_driverVersion = '''',
     g_cudaDriverVersion = '''', g_pcieBusID = '''', g_pcieRootAttr = None, g_migProfiles = [], g_addressingMode = None,
     g_health = Healthy, g_maxCapacities = [], g_memSliceCount = 0\<rparr>"

definition half_devices :: AllocatableDevices where
  "half_devices = [(''hami-gpu-0'', no_device\<lparr>ad_HAMiGpu := Some (HAMiGpuInfo whole_gpu)\<rparr>)]"

lemma half_run:
  "\<exists>e w'. GetCDIContainerEdits sample_manager half_claim half_devices \<lparr>hw_kube = sample_store, hw_fs = empty_cache\<rparr> = (Inr e, w')"
proof -
  have resolve: "resolveClaimToPod sample_manager half_claim sample_store = (Inr (sample_pod, ''train''), sample_store)"
    by (simp add: resolveClaimToPod_def find_pod_def check_pod_def podClaimAliasForResourceClaim_def half_claim_def
        seq_def attempt_def wrapping_def lift_res_def Let_def sample_cluster_defs)
  obtain k where label: "ensurePodMonitorLabel sample_manager sample_pod sample_store = (Inr (), k)"
    by (auto simp: ensurePodMonitorLabel_def label_attempt_def seq_def wrapping_def sample_cluster_defs
        patch_applies_def numeral_eq_Suc split: prod.splits sum.splits)
  have "fst (setup_cache_dir (cache_dir [''h''] ''pu'' ''train'') ''u1'' empty_cache) = Inr ()"
    unfolding empty_cache_def by code_simp
  then obtain f where dir: "setup_cache_dir (cache_dir [''h''] ''pu'' ''train'') ''u1'' empty_cache = (Inr (), f)"
    by (metis prod.collapse)
  have ids: "containerHookPath sample_manager = [''h'']" "pod_UID sample_pod = ''pu''" "rc_UID half_claim = ''u1''"
    "st_Allocation (rc_Status half_claim) = Some \<lparr>al_Results = [half_gpu], al_Config = []\<rparr>"
    by (simp_all add: sample_manager_def sample_pod_def half_claim_def sample_claim_def)
  show ?thesis
    by (simp add: GetCDIContainerEdits_def Let_def seq_def on_def wrapping_def resolve label ids dir lift_res_def ret_def
        getConsumableCapacityMap_def deref_def res_seq_def half_devices_def)
qed

theorem container_limits_witness:
  "\<exists>e w'. GetCDIContainerEdits sample_manager half_claim half_devices \<lparr>hw_kube = sample_store, hw_fs = empty_cache\<rparr> = (Inr e, w') \<and>
     ce_Env e ! 1 = ''CUDA_DEVICE_SM_LIMIT_0=60'' \<and> ce_Env e ! 2 = ''CUDA_DEVICE_MEMORY_LIMIT_0=512m''"
proof -
  obtain e w' where run: "GetCDIContainerEdits sample_manager half_claim half_devices
      \<lparr>hw_kube = sample_store, hw_fs = empty_cache\<rparr> = (Inr e, w')" using half_run by blast
  have al: "st_Allocation (rc_Status half_claim) = Some \<lparr>al_Results = [half_gpu], al_Config = []\<rparr>"
    by (simp add: half_claim_def)
  have lim: "limit_of [half_gpu] ''hami-gpu-0'' ''memory'' d = 536870912" "limit_of [half_gpu] ''hami-gpu-0'' ''cores'' 60 = 60" for d
    by (simp_all add: limit_of_def stated_capacity_def half_gpu_def)
  from container_limits [OF run al, of 0 "''hami-gpu-0''" "no_device\<lparr>ad_HAMiGpu := Some (HAMiGpuInfo whole_gpu)\<rparr>"]
  obtain mib where env: "ce_Env e ! 1 = ''CUDA_DEVICE_SM_LIMIT_'' @ int_str 0 @ ''='' @ int_str 60"
    "ce_Env e ! 2 = ''CUDA_DEVICE_MEMORY_LIMIT_'' @ int_str 0 @ ''='' @ int_str mib @ ''m''"
    and mib: "mib * 1048576 \<le> 536870912" "536870912 < (mib + 1) * 1048576"
    by (auto simp: half_devices_def Let_def lim numeral_eq_Suc)
  have "mib \<le> 512" "511 < mib" using mib by simp_all
  then have "mib = 512" by simp
  moreover have "int_str 0 = ''0''" "int_str 60 = ''60''" "int_str 512 = ''512''" by code_simp+
  ultimately show ?thesis using run env by simp
qed

end
