(* ===== verification/HamiInformer.thy ===== *)
theory HamiInformer
  imports HamiCore
begin

text \<open>
  The Pod informer of the HAMi-Core manager (\<open>NewHAMiCoreManager\<close>, \<open>WaitForPodCacheSync\<close>,
  \<open>waitForPodCacheSyncAtStartup\<close> and \<open>Stop\<close> in \<open>hami_core.go\<close>): its stop channel, the \<open>sync.Once\<close> around
  the shutdown, and the bounded wait at startup. The informer factory, the cache and the contexts are
  parameters over the state \<open>'k\<close>; closing a closed channel panics, as in Go.
\<close>

section \<open>The informer\<close>

text \<open>\<open>if_stopCh\<close> is None for a nil channel, else whether it is closed; \<open>if_factory\<close> and \<open>if_synced\<close> are the
  factory and the \<open>HasSynced\<close> of the Pod informer, present when there is a client set.\<close>

record 'k informer =
  if_stopOnce :: bool
  if_stopCh :: "bool option"
  if_factory :: bool
  if_synced :: bool
  if_kube :: 'k

abbreviation informer_kube :: "('k, 'a) act \<Rightarrow> ('k informer, 'a) act" where
  "informer_kube \<equiv> on if_kube (\<lambda>k. if_kube_update (\<lambda>_. k))"

text \<open>\<open>start\<close> is the start of the factory for the Pods of one node, given by the field selector.\<close>

definition pod_selector :: "string \<Rightarrow> string" where
  "pod_selector node = ''spec.nodeName='' @ node"

definition new_informer :: "'k clientset option \<Rightarrow> (string \<Rightarrow> 'k \<Rightarrow> 'k) \<Rightarrow> string \<Rightarrow> 'k \<Rightarrow> 'k informer" where
  "new_informer cs start node k =
     (case cs of
        None \<Rightarrow> \<lparr>if_stopOnce = False, if_stopCh = Some False, if_factory = False, if_synced = False, if_kube = k\<rparr>
      | Some _ \<Rightarrow> \<lparr>if_stopOnce = False, if_stopCh = Some False, if_factory = True, if_synced = True,
                   if_kube = start (pod_selector node) k\<rparr>)"

text \<open>\<open>waitSync\<close> is \<open>cache.WaitForCacheSync\<close> until the context given to it ends.\<close>

definition WaitForPodCacheSync :: "('k, bool) act \<Rightarrow> ('k informer, bool) act" where
  "WaitForPodCacheSync waitSync =
     seq (gets if_synced) (\<lambda>hasSynced. if \<not> hasSynced then ret True else informer_kube waitSync)"

definition close_channel :: "('k informer, unit) act" where
  "close_channel =
     seq (gets if_stopCh) (\<lambda>ch.
     if ch = Some False then modify (if_stopCh_update (\<lambda>_. Some True)) else panic ''close of nil or closed channel'')"

text \<open>\<open>shutdown\<close> is the factory's, which waits for the informer's goroutines.\<close>

definition Informer_Stop :: "('k \<Rightarrow> 'k) \<Rightarrow> ('k informer, unit) act" where
  "Informer_Stop shutdown =
     seq (gets if_stopOnce) (\<lambda>stopped.
     if stopped then ret ()
     else
       seq (modify (if_stopOnce_update (\<lambda>_. True))) (\<lambda>_.
       seq (gets if_stopCh) (\<lambda>ch.
       seq (if ch \<noteq> None then close_channel else ret ()) (\<lambda>_.
       seq (gets if_factory) (\<lambda>factory.
       if factory then informer_kube (modify shutdown) else ret ())))))"

text \<open>\<open>waitSync\<close> waits at most thirty seconds or until the process ends, \<open>ctxErr\<close> is the error of the process's context
  after that.\<close>

definition waitForPodCacheSyncAtStartup ::
    "('k, bool) act \<Rightarrow> ('k, err option) act \<Rightarrow> ('k \<Rightarrow> 'k) \<Rightarrow> ('k informer, unit) act" where
  "waitForPodCacheSyncAtStartup waitSync ctxErr shutdown =
     seq (WaitForPodCacheSync waitSync) (\<lambda>synced.
     seq (informer_kube ctxErr) (\<lambda>err.
     case err of
       Some e \<Rightarrow> seq (Informer_Stop shutdown) (\<lambda>_. throw e)
     | None \<Rightarrow> ret ()))"

section \<open>Stopping\<close>

text \<open>A manager that has not been stopped has an open channel.\<close>

definition stoppable :: "'k informer \<Rightarrow> bool" where
  "stoppable i \<longleftrightarrow> (\<not> if_stopOnce i \<longrightarrow> if_stopCh i = Some False)"

definition stopped :: "('k \<Rightarrow> 'k) \<Rightarrow> 'k informer \<Rightarrow> 'k informer" where
  "stopped shutdown i =
     (if if_stopOnce i then i
      else i\<lparr>if_stopOnce := True, if_stopCh := Some True, if_kube := (if if_factory i then shutdown (if_kube i) else if_kube i)\<rparr>)"

lemma new_informer_stoppable [simp]: "stoppable (new_informer cs start node k)"
  by (simp add: stoppable_def new_informer_def split: option.split)

lemma stopped_stoppable [simp]: "stoppable (stopped shutdown i)"
  by (simp add: stoppable_def stopped_def)

lemma stopped_stopped [simp]: "stopped shutdown (stopped shutdown' i) = stopped shutdown' i"
  by (simp add: stopped_def)

lemma Informer_Stop_stoppable: "stoppable i \<Longrightarrow> Informer_Stop shutdown i = (Inr (), stopped shutdown i)"
  by (cases "if_stopOnce i") (auto simp: Informer_Stop_def stopped_def stoppable_def close_channel_def act_defs on_def)

lemma each_Stop:
  "stoppable i \<Longrightarrow> each (\<lambda>_. Informer_Stop shutdown) xs i = (Inr (), if xs = [] then i else stopped shutdown i)"
  by (induction xs arbitrary: i) (auto simp: Informer_Stop_stoppable seq_def ret_def)

text \<open>The Pod informer of HAMi-Core is stopped once. Startup fails if and only if waiting fails or the
  process's context has ended; a context that has ended stops the informer, a cache that did not sync in
  time does not and is no error. However often the manager is stopped afterwards, by the failed start,
  the shutdown or both, no stop fails or closes the channel twice, and the factory is shut down exactly once.\<close>

theorem informer_stopped_once:
  assumes "WaitForPodCacheSync waitSync (new_informer cs start node k) = (Inr synced, i1)"
    and "informer_kube ctxErr i1 = (Inr err, i2)"
  shows "case waitForPodCacheSyncAtStartup waitSync ctxErr shutdown (new_informer cs start node k) of (r, i) \<Rightarrow>
     r = (case err of Some e \<Rightarrow> Inl (Failed e) | None \<Rightarrow> Inr ()) \<and> i = (if err = None then i2 else stopped shutdown i2) \<and>
     each (\<lambda>_. Informer_Stop shutdown) (replicate (Suc n) ()) i = (Inr (), stopped shutdown i2) \<and>
     if_kube (stopped shutdown i2) = (if cs = None then if_kube i2 else shutdown (if_kube i2))"
proof -
  have same: "if_stopOnce i2 = False \<and> if_stopCh i2 = Some False \<and> if_factory i2 = (cs \<noteq> None)"
    using assms by (auto simp: WaitForPodCacheSync_def new_informer_def act_defs on_def
        split: option.splits if_splits prod.splits)
  then have i2: "stoppable i2" by (simp add: stoppable_def)
  have startup: "waitForPodCacheSyncAtStartup waitSync ctxErr shutdown (new_informer cs start node k) =
      (case err of Some e \<Rightarrow> (Inl (Failed e), stopped shutdown i2) | None \<Rightarrow> (Inr (), i2))"
    using assms i2
    by (simp add: waitForPodCacheSyncAtStartup_def seq_def ret_def throw_def Informer_Stop_stoppable split: option.split)
  have kube: "if_kube (stopped shutdown i2) = (if cs = None then if_kube i2 else shutdown (if_kube i2))"
    using same by (simp add: stopped_def)
  show ?thesis unfolding startup using i2 kube
    by (cases err) (simp_all add: each_Stop del: replicate_Suc each.simps)
qed

text \<open>The number of shutdowns as the state of the libraries: a cache that does not sync and a process that is
  cancelled while it waits.\<close>

theorem informer_stopped_once_witness:
  "case waitForPodCacheSyncAtStartup (ret False) (ret (Some (Err ''context canceled''))) Suc
      (new_informer (Some \<lparr>pods_get = (\<lambda>ns n. throw NotFound), pods_patch = (\<lambda>ns n p. ret ())\<rparr>) (\<lambda>sel k. k) ''n1'' (0 :: nat)) of (r, i) \<Rightarrow>
     r = Inl (Failed (Err ''context canceled'')) \<and>
     if_kube (snd (each (\<lambda>_. Informer_Stop Suc) (replicate (Suc 2) ()) i)) = 1"
proof -
  let ?cs = "Some \<lparr>pods_get = (\<lambda>ns n. throw NotFound), pods_patch = (\<lambda>ns n p. ret ())\<rparr> :: nat clientset option"
  let ?i = "new_informer ?cs (\<lambda>sel k. k) ''n1'' 0"
  have sync: "WaitForPodCacheSync (ret False) ?i = (Inr False, ?i)"
    by (simp add: WaitForPodCacheSync_def new_informer_def act_defs on_def)
  have ctx: "informer_kube (ret (Some (Err ''context canceled''))) ?i = (Inr (Some (Err ''context canceled'')), ?i)"
    by (simp add: act_defs on_def)
  have "if_kube (stopped Suc ?i) = 1" by (simp add: stopped_def new_informer_def)
  with informer_stopped_once [OF sync ctx, of Suc 2] show ?thesis
    by (auto split: prod.splits simp del: replicate_Suc each.simps)
qed

end
