(* ===== verification/Json.thy ===== *)
theory Json
  imports Prepared "HOL-Library.Monad_Syntax"
begin

text \<open>
  How \<open>encoding/json\<close> writes and reads the types of the checkpoint, following the \<open>json\<close> tags of
  the structs: exported fields only, \<open>omitempty\<close> where tagged, a nil pointer as null, map entries in
  the order of their keys, and on reading a missing field or null as the zero value. A document is
  its tree: the text it is printed as plays no part. The two structs of Kubernetes inside a
  checkpoint (the claim status and the kubelet device) are encoded by a \<open>codec\<close>, a parameter, as is
  the checksum of \<open>k8s.io/kubernetes/pkg/kubelet/checkpointmanager/checksum\<close>. A nil slice and an
  empty one are not distinguished; the code never does.

  \<open>stored\<close> is what is left of a value after writing and reading it back: the unexported fields
  are zero again. The round-trip lemma of each type says so.
\<close>

named_theorems json_roundtrip \<open>reading back what was written\<close>

datatype json =
    JNull
  | JBool bool
  | JNum int
  | JStr string
  | JArr "json list"
  | JObj "(string \<times> json) list"

record codec =
  k_status :: "claim_status \<Rightarrow> json"
  k_unstatus :: "json \<Rightarrow> claim_status option"
  k_device :: "plugin_device \<Rightarrow> json"
  k_undevice :: "json \<Rightarrow> plugin_device option"
  k_sum :: "json \<Rightarrow> 64 word"
  k_verify :: "64 word \<Rightarrow> json \<Rightarrow> err option"

text \<open>What the checkpoint relies on of the libraries: reading back a status or device gives it
  again (and neither is written as null), and a checksum verifies on the data it was made from.\<close>

definition codec_ok :: "codec \<Rightarrow> bool" where
  "codec_ok K \<longleftrightarrow>
     (\<forall>s. k_unstatus K (k_status K s) = Some s \<and> k_status K s \<noteq> JNull) \<and>
     (\<forall>d. k_undevice K (k_device K d) = Some d \<and> k_device K d \<noteq> JNull) \<and>
     (\<forall>j. k_verify K (k_sum K j) j = None)"

lemma codec_okD:
  assumes "codec_ok K"
  shows "k_unstatus K (k_status K s) = Some s" "k_undevice K (k_device K d) = Some d"
    "k_device K d \<noteq> JNull" "k_verify K (k_sum K j) j = None"
  using assms by (auto simp: codec_ok_def)

section \<open>Fields\<close>

definition enc_ptr :: "('a \<Rightarrow> json) \<Rightarrow> 'a option \<Rightarrow> json" where
  "enc_ptr f p = (case p of None \<Rightarrow> JNull | Some x \<Rightarrow> f x)"

definition omit_str :: "string \<Rightarrow> string \<Rightarrow> (string \<times> json) list" where
  "omit_str k s = (if s = [] then [] else [(k, JStr s)])"

definition omit_list :: "string \<Rightarrow> ('a \<Rightarrow> json) \<Rightarrow> 'a list \<Rightarrow> (string \<times> json) list" where
  "omit_list k f xs = (if xs = [] then [] else [(k, JArr (map f xs))])"

definition omit_ptr :: "string \<Rightarrow> ('a \<Rightarrow> json) \<Rightarrow> 'a option \<Rightarrow> (string \<times> json) list" where
  "omit_ptr k f p = (case p of None \<Rightarrow> [] | Some x \<Rightarrow> [(k, f x)])"

text \<open>A map is written with its keys sorted, and left out when nil or empty.\<close>

definition enc_entries :: "('a \<Rightarrow> json) \<Rightarrow> (string \<times> 'a) list \<Rightarrow> (string \<times> json) list" where
  "enc_entries f m =
     map (\<lambda>k. (k, f (the (map_of m k)))) (sort_strings (remdups (map fst m)))"

definition omit_map ::
    "string \<Rightarrow> ('a \<Rightarrow> json) \<Rightarrow> (string \<times> 'a) list option \<Rightarrow> (string \<times> json) list" where
  "omit_map k f m = (case m of None \<Rightarrow> [] | Some [] \<Rightarrow> [] | Some m' \<Rightarrow> [(k, JObj (enc_entries f m'))])"

fun dec_obj :: "json \<Rightarrow> (string \<times> json) list option" where
  "dec_obj (JObj fs) = Some fs"
| "dec_obj JNull = Some []"
| "dec_obj _ = None"

fun dec_str :: "json option \<Rightarrow> string option" where
  "dec_str None = Some []"
| "dec_str (Some JNull) = Some []"
| "dec_str (Some (JStr s)) = Some s"
| "dec_str _ = None"

fun dec_num :: "json option \<Rightarrow> int option" where
  "dec_num None = Some 0"
| "dec_num (Some JNull) = Some 0"
| "dec_num (Some (JNum n)) = Some n"
| "dec_num _ = None"

fun dec_ptr :: "(json \<Rightarrow> 'a option) \<Rightarrow> json option \<Rightarrow> 'a option option" where
  "dec_ptr f None = Some None"
| "dec_ptr f (Some JNull) = Some None"
| "dec_ptr f (Some j) = map_option Some (f j)"

fun dec_list :: "(json \<Rightarrow> 'a option) \<Rightarrow> json option \<Rightarrow> 'a list option" where
  "dec_list f None = Some []"
| "dec_list f (Some JNull) = Some []"
| "dec_list f (Some (JArr js)) = those (map f js)"
| "dec_list f _ = None"

fun dec_map :: "(json \<Rightarrow> 'a option) \<Rightarrow> json option \<Rightarrow> (string \<times> 'a) list option option" where
  "dec_map f None = Some None"
| "dec_map f (Some JNull) = Some None"
| "dec_map f (Some (JObj fs)) =
     map_option Some (those (map (\<lambda>(k, j). map_option (Pair k) (f j)) fs))"
| "dec_map f _ = None"

lemma those_map_Some: "(\<And>x. x \<in> set xs \<Longrightarrow> f x = Some (g x)) \<Longrightarrow> those (map f xs) = Some (map g xs)"
  by (induction xs) auto

lemma dec_ptr_enc_ptr [json_roundtrip]:
  assumes "\<And>x. p = Some x \<Longrightarrow> f x \<noteq> JNull" and "\<And>x. p = Some x \<Longrightarrow> g (f x) = Some (h x)"
  shows "dec_ptr g (Some (enc_ptr f p)) = Some (map_option h p)"
proof (cases p)
  case None
  then show ?thesis by (simp add: enc_ptr_def)
next
  case (Some x)
  with assms have "f x \<noteq> JNull" "g (f x) = Some (h x)" by auto
  with Some show ?thesis by (cases "f x") (auto simp: enc_ptr_def)
qed

lemma dec_list_JArr [json_roundtrip]:
  "(\<And>x. x \<in> set xs \<Longrightarrow> g (f x) = Some (h x)) \<Longrightarrow> dec_list g (Some (JArr (map f xs))) = Some (map h xs)"
  by (simp add: those_map_Some comp_def)

section \<open>Entries of a map\<close>

definition stored_entries :: "('a \<Rightarrow> 'b) \<Rightarrow> (string \<times> 'a) list \<Rightarrow> (string \<times> 'b) list" where
  "stored_entries h m =
     map (\<lambda>k. (k, h (the (map_of m k)))) (sort_strings (remdups (map fst m)))"

lemma keys_stored_entries: "map fst (stored_entries h m) = sort_strings (remdups (map fst m))"
  by (simp add: stored_entries_def comp_def)

lemma distinct_stored_entries [simp]: "distinct (map fst (stored_entries h m))"
  by (simp add: keys_stored_entries)

lemma map_of_stored_entries: "map_of (stored_entries h m) k = map_option h (map_of m k)"
proof -
  have "map_of (stored_entries h m) k =
      (if k \<in> set (map fst m) then Some (h (the (map_of m k))) else None)"
    unfolding stored_entries_def by (subst map_of_graph) simp
  also have "k \<in> set (map fst m) \<longleftrightarrow> map_of m k \<noteq> None"
    by (simp add: map_of_eq_None_iff)
  also have "(if map_of m k \<noteq> None then Some (h (the (map_of m k))) else None) = map_option h (map_of m k)"
    by (cases "map_of m k") simp_all
  finally show ?thesis .
qed

lemma sort_remdups_idem:
  "sort_strings (remdups (sort_strings (remdups xs))) = sort_strings (remdups xs)"
  by (simp add: sort_strings_def remdups_id_iff_distinct [THEN iffD2] sorted_sort_id)

lemma enc_stored_entries:
  assumes "\<And>x. f (h x) = f' x"
  shows "enc_entries f (stored_entries h m) = enc_entries f' m"
proof -
  have "map_of m k \<noteq> None" if "k \<in> set (sort_strings (remdups (map fst m)))" for k
    using that by (auto simp: map_of_eq_None_iff)
  then show ?thesis
    using assms
    by (auto simp: enc_entries_def keys_stored_entries sort_remdups_idem map_of_stored_entries
        option.map_sel)
qed

lemma dec_map_enc_entries:
  assumes "\<And>x. g (f x) = Some (h x)"
  shows "dec_map g (Some (JObj (enc_entries f m))) = Some (Some (stored_entries h m))"
  using assms
  by (simp add: enc_entries_def stored_entries_def comp_def those_map_Some)

lemma enc_entries_Nil [simp]: "enc_entries f [] = []"
  by (simp add: enc_entries_def sort_strings_def)

lemma stored_entries_Nil [simp]: "stored_entries h [] = []"
  by (simp add: stored_entries_def sort_strings_def)

lemma stored_entries_eq_Nil [simp]: "stored_entries h m = [] \<longleftrightarrow> m = []"
proof
  assume "stored_entries h m = []"
  then have "sort_strings (remdups (map fst m)) = []" by (simp add: stored_entries_def)
  then have "set (sort_strings (remdups (map fst m))) = {}" by simp
  then show "m = []" by simp
qed simp

text \<open>A nil map and an empty one are both left out, and read back as nil.\<close>

definition stored_map :: "('a \<Rightarrow> 'b) \<Rightarrow> (string \<times> 'a) list option \<Rightarrow> (string \<times> 'b) list option" where
  "stored_map h m = (case m of None \<Rightarrow> None | Some [] \<Rightarrow> None | Some m' \<Rightarrow> Some (stored_entries h m'))"

lemma omit_map_cases:
  "omit_map k f m = (if m = None \<or> m = Some [] then [] else [(k, JObj (enc_entries f (the m)))])"
  by (auto simp: omit_map_def split: option.splits list.splits)

lemma stored_map_cases:
  "stored_map h m = (if m = None \<or> m = Some [] then None else Some (stored_entries h (the m)))"
  by (auto simp: stored_map_def split: option.splits list.splits)

lemma omit_stored_map:
  "(\<And>x. f (h x) = f' x) \<Longrightarrow> omit_map k f (stored_map h m) = omit_map k f' m"
  by (auto simp: omit_map_cases stored_map_cases enc_stored_entries)

end
