(* ===== verification/Checkpoint.thy ===== *)
theory Checkpoint
  imports Json
begin

text \<open>
  The checkpoint: which claims are being prepared or have been prepared on this node
  (\<open>cmd/hami-kubelet-plugin/checkpointv.go\<close>, \<open>checkpoint.go\<close>). Two versions of the format are
  written side by side so that an older plugin can read the file; each has a checksum.
\<close>

section \<open>Types\<close>

type_synonym ClaimCheckpointState = string

definition ClaimCheckpointStateUnset :: ClaimCheckpointState where
  "ClaimCheckpointStateUnset = ''''"

definition ClaimCheckpointStatePrepareStarted :: ClaimCheckpointState where
  "ClaimCheckpointStatePrepareStarted = ''PrepareStarted''"

definition ClaimCheckpointStatePrepareCompleted :: ClaimCheckpointState where
  "ClaimCheckpointStatePrepareCompleted = ''PrepareCompleted''"

abbreviation "Started \<equiv> ClaimCheckpointStatePrepareStarted"
abbreviation "Completed \<equiv> ClaimCheckpointStatePrepareCompleted"

lemma states_distinct [simp]:
  "Started \<noteq> Completed" "Completed \<noteq> Started" "Started \<noteq> []" "Completed \<noteq> []"
  by (simp_all add: ClaimCheckpointStatePrepareStarted_def ClaimCheckpointStatePrepareCompleted_def)

record PreparedClaimV2 =
  c_CheckpointState :: ClaimCheckpointState
  c_Status :: claim_status
  c_PreparedDevices :: PreparedDevices
  c_Name :: string
  c_Namespace :: string

type_synonym PreparedClaim = PreparedClaimV2
type_synonym PreparedClaimsByUID = "(string \<times> PreparedClaimV2) list"

record PreparedClaimV1 =
  c1_Status :: claim_status
  c1_PreparedDevices :: PreparedDevices

record CheckpointV2 =
  c2_Checksum :: "64 word"
  c2_PreparedClaims :: "PreparedClaimsByUID option"
  c2_NodeBootID :: string

record CheckpointV1 =
  v1_PreparedClaims :: "(string \<times> PreparedClaimV1) list option"

record Checkpoint =
  cp_Checksum :: "64 word"
  cp_V1 :: "CheckpointV1 option"
  cp_V2 :: "CheckpointV2 option"

definition empty_V2 :: CheckpointV2 where
  "empty_V2 = \<lparr>c2_Checksum = 0, c2_PreparedClaims = None, c2_NodeBootID = []\<rparr>"

definition entries :: "'a list option \<Rightarrow> 'a list" where
  "entries m = (case m of None \<Rightarrow> [] | Some es \<Rightarrow> es)"

lemma entries_simps [simp]: "entries None = []" "entries (Some es) = es"
  by (simp_all add: entries_def)

section \<open>Versions\<close>

definition V1_ToV2 :: "CheckpointV1 \<Rightarrow> CheckpointV2" where
  "V1_ToV2 v1 =
     \<lparr>c2_Checksum = 0,
      c2_PreparedClaims = Some (map (\<lambda>(uid, c).
        (uid, \<lparr>c_CheckpointState = Completed, c_Status = c1_Status c,
               c_PreparedDevices = c1_PreparedDevices c, c_Name = [], c_Namespace = []\<rparr>))
        (entries (v1_PreparedClaims v1))),
      c2_NodeBootID = []\<rparr>"

definition V2_ToV1 :: "CheckpointV2 \<Rightarrow> CheckpointV1" where
  "V2_ToV1 v2 =
     \<lparr>v1_PreparedClaims = Some (map (\<lambda>(uid, c).
        (uid, \<lparr>c1_Status = c_Status c, c1_PreparedDevices = c_PreparedDevices c\<rparr>))
        (filter (\<lambda>(uid, c). c_CheckpointState c = Completed) (entries (c2_PreparedClaims v2))))\<rparr>"

text \<open>The returned checkpoint always has a V2 part with a map that is not nil, so it is returned as
  such: \<open>latest\<close> has no V1 part and checksum 0.\<close>

definition latest_V2 :: "Checkpoint \<Rightarrow> CheckpointV2" where
  "latest_V2 cp =
     (let v2 = (case cp_V2 cp of Some v2 \<Rightarrow> v2
                | None \<Rightarrow> (case cp_V1 cp of Some v1 \<Rightarrow> V1_ToV2 v1 | None \<Rightarrow> empty_V2))
      in case c2_PreparedClaims v2 of None \<Rightarrow> v2\<lparr>c2_PreparedClaims := Some []\<rparr> | Some _ \<Rightarrow> v2)"

definition ToLatestVersion :: "Checkpoint \<Rightarrow> Checkpoint" where
  "ToLatestVersion cp = \<lparr>cp_Checksum = 0, cp_V1 = None, cp_V2 = Some (latest_V2 cp)\<rparr>"

definition GetNodeBootID :: "Checkpoint \<Rightarrow> string" where
  "GetNodeBootID cp = (case cp_V2 cp of Some v2 \<Rightarrow> c2_NodeBootID v2 | None \<Rightarrow> [])"

section \<open>The claims of a checkpoint\<close>

definition claims :: "Checkpoint \<Rightarrow> string \<rightharpoonup> PreparedClaim" where
  "claims cp = map_of (entries (c2_PreparedClaims (latest_V2 cp)))"

lemma claims_latest [simp]: "claims (ToLatestVersion cp) = claims cp"
  by (auto simp: claims_def ToLatestVersion_def latest_V2_def Let_def split: option.splits)

section \<open>JSON\<close>

definition zero_gpu :: GpuInfo where
  "zero_gpu = \<lparr>g_UUID = [], g_minor = 0, g_migEnabled = False, g_vfioEnabled = False,
     g_memoryBytes = 0, g_productName = [], g_brand = [], g_architecture = [],
     g_cudaComputeCapability = [], g_driverVersion = [], g_cudaDriverVersion = [], g_pcieBusID = [],
     g_pcieRootAttr = None, g_migProfiles = [], g_addressingMode = None, g_health = HealthUnset,
     g_maxCapacities = [], g_memSliceCount = 0\<rparr>"

definition zero_vfio :: VfioDeviceInfo where
  "zero_vfio = \<lparr>v_UUID = [], v_deviceID = [], v_vendorID = [], v_index = 0, v_parent = None,
     v_productName = [], v_pcieBusID = [], v_pcieRootAttr = None, v_numaNode = 0, v_iommuGroup = 0,
     v_addressableMemoryBytes = 0\<rparr>"

definition enc_GpuInfo :: "GpuInfo \<Rightarrow> json" where
  "enc_GpuInfo g = JObj [(''uuid'', JStr (g_UUID g))]"

definition dec_GpuInfo :: "json \<Rightarrow> GpuInfo option" where
  "dec_GpuInfo j = do { fs \<leftarrow> dec_obj j; u \<leftarrow> dec_str (map_of fs ''uuid''); Some (zero_gpu\<lparr>g_UUID := u\<rparr>) }"

definition enc_HAMiGpuInfo :: "HAMiGpuInfo \<Rightarrow> json" where
  "enc_HAMiGpuInfo h = enc_GpuInfo (h_GpuInfo h)"

definition dec_HAMiGpuInfo :: "json \<Rightarrow> HAMiGpuInfo option" where
  "dec_HAMiGpuInfo j = map_option HAMiGpuInfo (dec_GpuInfo j)"

definition enc_VfioDeviceInfo :: "VfioDeviceInfo \<Rightarrow> json" where
  "enc_VfioDeviceInfo v = JObj [(''uuid'', JStr (v_UUID v))]"

definition dec_VfioDeviceInfo :: "json \<Rightarrow> VfioDeviceInfo option" where
  "dec_VfioDeviceInfo j =
     do { fs \<leftarrow> dec_obj j; u \<leftarrow> dec_str (map_of fs ''uuid''); Some (zero_vfio\<lparr>v_UUID := u\<rparr>) }"

definition enc_MigLiveTuple :: "MigLiveTuple \<Rightarrow> json" where
  "enc_MigLiveTuple m = JObj
     [(''parentMinor'', JNum (ml_ParentMinor m)), (''giId'', JNum (ml_GIID m)),
      (''ciId'', JNum (ml_CIID m)), (''migUUID'', JStr (ml_MigUUID m)),
      (''parentUUID'', JStr (ml_ParentUUID m))]"

definition dec_MigLiveTuple :: "json \<Rightarrow> MigLiveTuple option" where
  "dec_MigLiveTuple j =
     do { fs \<leftarrow> dec_obj j;
          pm \<leftarrow> dec_num (map_of fs ''parentMinor''); gi \<leftarrow> dec_num (map_of fs ''giId'');
          ci \<leftarrow> dec_num (map_of fs ''ciId''); u \<leftarrow> dec_str (map_of fs ''migUUID'');
          pu \<leftarrow> dec_str (map_of fs ''parentUUID'');
          Some \<lparr>ml_ParentMinor = pm, ml_GIID = gi, ml_CIID = ci, ml_MigUUID = u, ml_ParentUUID = pu\<rparr> }"

text \<open>A prepared device holds a pointer to the device's information and one to the kubelet device.\<close>

definition enc_pair :: "codec \<Rightarrow> string \<Rightarrow> ('a \<Rightarrow> json) \<Rightarrow> 'a option \<Rightarrow> plugin_device option \<Rightarrow> json" where
  "enc_pair K field f info dev = JObj [(field, enc_ptr f info), (''device'', enc_ptr (k_device K) dev)]"

definition dec_pair ::
    "codec \<Rightarrow> string \<Rightarrow> (json \<Rightarrow> 'a option) \<Rightarrow> ('a option \<Rightarrow> plugin_device option \<Rightarrow> 'b) \<Rightarrow> json \<Rightarrow> 'b option" where
  "dec_pair K field f mk j =
     do { fs \<leftarrow> dec_obj j; i \<leftarrow> dec_ptr f (map_of fs field);
          d \<leftarrow> dec_ptr (k_undevice K) (map_of fs ''device''); Some (mk i d) }"

definition enc_PreparedDevice :: "codec \<Rightarrow> PreparedDevice \<Rightarrow> json" where
  "enc_PreparedDevice K d = JObj
     ([(''hami-gpu'', enc_ptr (\<lambda>p. enc_pair K ''info'' enc_HAMiGpuInfo (phg_Info p) (phg_Device p)) (pd_HAMiGpu d)),
       (''gpu'', enc_ptr (\<lambda>p. enc_pair K ''info'' enc_GpuInfo (pg_Info p) (pg_Device p)) (pd_Gpu d)),
       (''mig'', enc_ptr (\<lambda>p. enc_pair K ''concrete'' enc_MigLiveTuple (pm_Concrete p) (pm_Device p)) (pd_Mig d))] @
      omit_ptr ''vfio'' (\<lambda>p. enc_pair K ''info'' enc_VfioDeviceInfo (pv_Info p) (pv_Device p)) (pd_Vfio d))"

definition dec_PreparedDevice :: "codec \<Rightarrow> json \<Rightarrow> PreparedDevice option" where
  "dec_PreparedDevice K j =
     do { fs \<leftarrow> dec_obj j;
          h \<leftarrow> dec_ptr (dec_pair K ''info'' dec_HAMiGpuInfo (\<lambda>i d. \<lparr>phg_Info = i, phg_Device = d\<rparr>)) (map_of fs ''hami-gpu'');
          g \<leftarrow> dec_ptr (dec_pair K ''info'' dec_GpuInfo (\<lambda>i d. \<lparr>pg_Info = i, pg_Device = d\<rparr>)) (map_of fs ''gpu'');
          m \<leftarrow> dec_ptr (dec_pair K ''concrete'' dec_MigLiveTuple (\<lambda>i d. \<lparr>pm_Concrete = i, pm_Device = d\<rparr>)) (map_of fs ''mig'');
          v \<leftarrow> dec_ptr (dec_pair K ''info'' dec_VfioDeviceInfo (\<lambda>i d. \<lparr>pv_Info = i, pv_Device = d\<rparr>)) (map_of fs ''vfio'');
          Some \<lparr>pd_HAMiGpu = h, pd_Gpu = g, pd_Mig = m, pd_Vfio = v\<rparr> }"

definition enc_Group :: "codec \<Rightarrow> PreparedDeviceGroup \<Rightarrow> json" where
  "enc_Group K g = JObj
     [(''devices'', JArr (map (enc_PreparedDevice K) (grp_Devices g))),
      (''configState'', JObj [(''mpsControlDaemonID'', JStr (dcs_MpsControlDaemonID (grp_ConfigState g)))])]"

definition dec_Group :: "codec \<Rightarrow> json \<Rightarrow> PreparedDeviceGroup option" where
  "dec_Group K j =
     do { fs \<leftarrow> dec_obj j;
          ds \<leftarrow> dec_list (dec_PreparedDevice K) (map_of fs ''devices'');
          cs \<leftarrow> (case map_of fs ''configState'' of None \<Rightarrow> Some [] | Some c \<Rightarrow> dec_obj c);
          i \<leftarrow> dec_str (map_of cs ''mpsControlDaemonID'');
          Some \<lparr>grp_Devices = ds,
                grp_ConfigState = \<lparr>dcs_MpsControlDaemonID = i, dcs_containerEdits = None\<rparr>\<rparr> }"

definition zero_status :: claim_status where
  "zero_status = \<lparr>st_Allocation = None, st_ReservedFor = []\<rparr>"

definition dec_status :: "codec \<Rightarrow> json option \<Rightarrow> claim_status option" where
  "dec_status K j = (case j of None \<Rightarrow> Some zero_status | Some s \<Rightarrow> k_unstatus K s)"

definition enc_ClaimV2 :: "codec \<Rightarrow> PreparedClaimV2 \<Rightarrow> json" where
  "enc_ClaimV2 K c = JObj
     ([(''checkpointState'', JStr (c_CheckpointState c)), (''status'', k_status K (c_Status c))] @
      omit_list ''preparedDevices'' (enc_Group K) (c_PreparedDevices c) @
      omit_str ''name'' (c_Name c) @ omit_str ''namespace'' (c_Namespace c))"

definition dec_ClaimV2 :: "codec \<Rightarrow> json \<Rightarrow> PreparedClaimV2 option" where
  "dec_ClaimV2 K j =
     do { fs \<leftarrow> dec_obj j;
          s \<leftarrow> dec_str (map_of fs ''checkpointState''); t \<leftarrow> dec_status K (map_of fs ''status'');
          p \<leftarrow> dec_list (dec_Group K) (map_of fs ''preparedDevices'');
          n \<leftarrow> dec_str (map_of fs ''name''); ns \<leftarrow> dec_str (map_of fs ''namespace'');
          Some \<lparr>c_CheckpointState = s, c_Status = t, c_PreparedDevices = p, c_Name = n, c_Namespace = ns\<rparr> }"

definition enc_ClaimV1 :: "codec \<Rightarrow> PreparedClaimV1 \<Rightarrow> json" where
  "enc_ClaimV1 K c = JObj
     ((''status'', k_status K (c1_Status c)) # omit_list ''preparedDevices'' (enc_Group K) (c1_PreparedDevices c))"

definition dec_ClaimV1 :: "codec \<Rightarrow> json \<Rightarrow> PreparedClaimV1 option" where
  "dec_ClaimV1 K j =
     do { fs \<leftarrow> dec_obj j; t \<leftarrow> dec_status K (map_of fs ''status'');
          p \<leftarrow> dec_list (dec_Group K) (map_of fs ''preparedDevices'');
          Some \<lparr>c1_Status = t, c1_PreparedDevices = p\<rparr> }"

definition enc_V2 :: "codec \<Rightarrow> CheckpointV2 \<Rightarrow> json" where
  "enc_V2 K v = JObj
     ((''checksum'', JNum (uint (c2_Checksum v))) #
      omit_map ''preparedClaims'' (enc_ClaimV2 K) (c2_PreparedClaims v) @
      omit_str ''nodeBootID'' (c2_NodeBootID v))"

definition dec_V2 :: "codec \<Rightarrow> json \<Rightarrow> CheckpointV2 option" where
  "dec_V2 K j =
     do { fs \<leftarrow> dec_obj j; c \<leftarrow> dec_num (map_of fs ''checksum'');
          m \<leftarrow> dec_map (dec_ClaimV2 K) (map_of fs ''preparedClaims'');
          b \<leftarrow> dec_str (map_of fs ''nodeBootID'');
          Some \<lparr>c2_Checksum = word_of_int c, c2_PreparedClaims = m, c2_NodeBootID = b\<rparr> }"

definition enc_V1 :: "codec \<Rightarrow> CheckpointV1 \<Rightarrow> json" where
  "enc_V1 K v = JObj (omit_map ''preparedClaims'' (enc_ClaimV1 K) (v1_PreparedClaims v))"

definition dec_V1 :: "codec \<Rightarrow> json \<Rightarrow> CheckpointV1 option" where
  "dec_V1 K j =
     do { fs \<leftarrow> dec_obj j; m \<leftarrow> dec_map (dec_ClaimV1 K) (map_of fs ''preparedClaims'');
          Some \<lparr>v1_PreparedClaims = m\<rparr> }"

definition enc_Checkpoint :: "codec \<Rightarrow> Checkpoint \<Rightarrow> json" where
  "enc_Checkpoint K cp = JObj
     ((''checksum'', JNum (uint (cp_Checksum cp))) #
      omit_ptr ''v1'' (enc_V1 K) (cp_V1 cp) @ omit_ptr ''v2'' (enc_V2 K) (cp_V2 cp))"

definition dec_Checkpoint :: "codec \<Rightarrow> json \<Rightarrow> Checkpoint option" where
  "dec_Checkpoint K j =
     do { fs \<leftarrow> dec_obj j; c \<leftarrow> dec_num (map_of fs ''checksum'');
          v1 \<leftarrow> dec_ptr (dec_V1 K) (map_of fs ''v1''); v2 \<leftarrow> dec_ptr (dec_V2 K) (map_of fs ''v2'');
          Some \<lparr>cp_Checksum = word_of_int c, cp_V1 = v1, cp_V2 = v2\<rparr> }"

section \<open>Checksums, marshalling and verification\<close>

definition SetChecksumV1 :: "codec \<Rightarrow> Checkpoint \<Rightarrow> Checkpoint" where
  "SetChecksumV1 K cp =
     cp\<lparr>cp_Checksum := k_sum K (enc_Checkpoint K (cp\<lparr>cp_V2 := None, cp_Checksum := 0\<rparr>))\<rparr>"

definition SetChecksumV2 :: "codec \<Rightarrow> Checkpoint \<Rightarrow> Checkpoint res" where
  "SetChecksumV2 K cp =
     res_seq (deref (cp_V2 cp)) (\<lambda>v2.
     Inr (cp\<lparr>cp_V2 := Some (v2\<lparr>c2_Checksum := k_sum K (enc_V2 K (v2\<lparr>c2_Checksum := 0\<rparr>))\<rparr>)\<rparr>))"

definition MarshalCheckpoint :: "codec \<Rightarrow> Checkpoint \<Rightarrow> json res" where
  "MarshalCheckpoint K cp0 =
     (let cp1 = ToLatestVersion cp0;
          cp2 = cp1\<lparr>cp_V1 := map_option V2_ToV1 (cp_V2 cp1)\<rparr>;
          cp3 = SetChecksumV1 K cp2
      in res_seq (SetChecksumV2 K cp3) (\<lambda>cp4. Inr (enc_Checkpoint K cp4)))"

definition UnmarshalCheckpoint :: "codec \<Rightarrow> json \<Rightarrow> err + Checkpoint" where
  "UnmarshalCheckpoint K data =
     (case dec_Checkpoint K data of None \<Rightarrow> Inl (Err ''json: cannot unmarshal'') | Some cp \<Rightarrow> Inr cp)"

definition VerifyChecksumV1 :: "codec \<Rightarrow> Checkpoint \<Rightarrow> err option" where
  "VerifyChecksumV1 K cp =
     k_verify K (cp_Checksum cp) (enc_Checkpoint K (cp\<lparr>cp_V2 := None, cp_Checksum := 0\<rparr>))"

definition VerifyChecksumV2 :: "codec \<Rightarrow> Checkpoint \<Rightarrow> err option" where
  "VerifyChecksumV2 K cp =
     (case cp_V2 cp of None \<Rightarrow> None
      | Some v2 \<Rightarrow> k_verify K (c2_Checksum v2) (enc_V2 K (v2\<lparr>c2_Checksum := 0\<rparr>)))"

definition VerifyChecksum :: "codec \<Rightarrow> Checkpoint \<Rightarrow> err option" where
  "VerifyChecksum K cp =
     (case VerifyChecksumV1 K cp of Some e \<Rightarrow> Some e | None \<Rightarrow> VerifyChecksumV2 K cp)"

text \<open>How a checkpoint object takes in the bytes of a file: the manager unmarshals, then verifies.\<close>

definition load_checkpoint :: "codec \<Rightarrow> json \<Rightarrow> err + Checkpoint" where
  "load_checkpoint K data =
     (case UnmarshalCheckpoint K data of Inl e \<Rightarrow> Inl e
      | Inr cp \<Rightarrow> (case VerifyChecksum K cp of Some e \<Rightarrow> Inl e | None \<Rightarrow> Inr cp))"

end
