(* ===== verification/CheckpointStore.thy ===== *)
theory CheckpointStore
  imports Checkpoint
begin

text \<open>
  What survives a trip through the checkpoint file. \<open>stored_*\<close> is the value read back: the same
  value with its unexported fields zeroed. Every encoder is shown to be inverted up to \<open>stored_*\<close>,
  and a stored value to be encoded as the original, which is why the checksums made before
  writing verify after reading.
\<close>

named_theorems not_null \<open>encodings other than null\<close>
named_theorems enc_stored \<open>a stored value is written as the original was\<close>

section \<open>Devices\<close>

definition stored_GpuInfo :: "GpuInfo \<Rightarrow> GpuInfo" where
  "stored_GpuInfo g = zero_gpu\<lparr>g_UUID := g_UUID g\<rparr>"

definition stored_HAMiGpuInfo :: "HAMiGpuInfo \<Rightarrow> HAMiGpuInfo" where
  "stored_HAMiGpuInfo h = HAMiGpuInfo (stored_GpuInfo (h_GpuInfo h))"

definition stored_VfioDeviceInfo :: "VfioDeviceInfo \<Rightarrow> VfioDeviceInfo" where
  "stored_VfioDeviceInfo v = zero_vfio\<lparr>v_UUID := v_UUID v\<rparr>"

definition stored_HAMi :: "PreparedHAMiGpu \<Rightarrow> PreparedHAMiGpu" where
  "stored_HAMi p = \<lparr>phg_Info = map_option stored_HAMiGpuInfo (phg_Info p), phg_Device = phg_Device p\<rparr>"

definition stored_Gpu :: "PreparedGpu \<Rightarrow> PreparedGpu" where
  "stored_Gpu p = \<lparr>pg_Info = map_option stored_GpuInfo (pg_Info p), pg_Device = pg_Device p\<rparr>"

definition stored_Vfio :: "PreparedVfioDevice \<Rightarrow> PreparedVfioDevice" where
  "stored_Vfio p = \<lparr>pv_Info = map_option stored_VfioDeviceInfo (pv_Info p), pv_Device = pv_Device p\<rparr>"

definition stored_PreparedDevice :: "PreparedDevice \<Rightarrow> PreparedDevice" where
  "stored_PreparedDevice d =
     \<lparr>pd_HAMiGpu = map_option stored_HAMi (pd_HAMiGpu d), pd_Gpu = map_option stored_Gpu (pd_Gpu d),
      pd_Mig = pd_Mig d, pd_Vfio = map_option stored_Vfio (pd_Vfio d)\<rparr>"

definition stored_Group :: "PreparedDeviceGroup \<Rightarrow> PreparedDeviceGroup" where
  "stored_Group g =
     \<lparr>grp_Devices = map stored_PreparedDevice (grp_Devices g),
      grp_ConfigState = (grp_ConfigState g)\<lparr>dcs_containerEdits := None\<rparr>\<rparr>"

abbreviation stored_devices :: "PreparedDevices \<Rightarrow> PreparedDevices" where
  "stored_devices ps \<equiv> map stored_Group ps"

lemma enc_not_null [not_null, simp]:
  "enc_GpuInfo g \<noteq> JNull" "enc_HAMiGpuInfo h \<noteq> JNull" "enc_VfioDeviceInfo v \<noteq> JNull"
  "enc_MigLiveTuple m \<noteq> JNull" "enc_pair K f e i d \<noteq> JNull" "enc_PreparedDevice K p \<noteq> JNull"
  "enc_Group K g' \<noteq> JNull" "enc_ClaimV2 K c2 \<noteq> JNull" "enc_ClaimV1 K c1 \<noteq> JNull"
  "enc_V2 K v2 \<noteq> JNull" "enc_V1 K v1 \<noteq> JNull"
  by (simp_all add: enc_GpuInfo_def enc_HAMiGpuInfo_def enc_VfioDeviceInfo_def enc_MigLiveTuple_def
      enc_pair_def enc_PreparedDevice_def enc_Group_def enc_ClaimV2_def enc_ClaimV1_def enc_V2_def
      enc_V1_def)

lemma dec_GpuInfo_enc [json_roundtrip]: "dec_GpuInfo (enc_GpuInfo g) = Some (stored_GpuInfo g)"
  by (simp add: dec_GpuInfo_def enc_GpuInfo_def stored_GpuInfo_def)

lemma dec_HAMiGpuInfo_enc [json_roundtrip]:
  "dec_HAMiGpuInfo (enc_HAMiGpuInfo h) = Some (stored_HAMiGpuInfo h)"
  by (simp add: dec_HAMiGpuInfo_def enc_HAMiGpuInfo_def stored_HAMiGpuInfo_def json_roundtrip)

lemma dec_VfioDeviceInfo_enc [json_roundtrip]:
  "dec_VfioDeviceInfo (enc_VfioDeviceInfo v) = Some (stored_VfioDeviceInfo v)"
  by (simp add: dec_VfioDeviceInfo_def enc_VfioDeviceInfo_def stored_VfioDeviceInfo_def)

lemma dec_MigLiveTuple_enc [json_roundtrip]: "dec_MigLiveTuple (enc_MigLiveTuple m) = Some m"
  by (simp add: dec_MigLiveTuple_def enc_MigLiveTuple_def)

lemma dec_pair_enc:
  assumes "codec_ok K" and "field \<noteq> ''device''"
    and "\<And>x. f x \<noteq> JNull" and "\<And>x. g (f x) = Some (h x)"
  shows "dec_pair K field g mk (enc_pair K field f i d) = Some (mk (map_option h i) d)"
proof -
  have "dec_ptr g (Some (enc_ptr f i)) = Some (map_option h i)"
    by (rule dec_ptr_enc_ptr) (use assms in auto)
  moreover have "dec_ptr (k_undevice K) (Some (enc_ptr (k_device K) d)) = Some (map_option (\<lambda>x. x) d)"
    by (rule dec_ptr_enc_ptr) (use assms(1) in \<open>auto simp: codec_okD\<close>)
  ultimately show ?thesis
    using assms(2) by (simp add: dec_pair_def enc_pair_def option.map_ident)
qed

lemma dec_omit_ptr [json_roundtrip]:
  assumes "\<And>x. f x \<noteq> JNull" and "\<And>x. p = Some x \<Longrightarrow> g (f x) = Some (h x)"
  shows "dec_ptr g (map_of (omit_ptr k f p) k) = Some (map_option h p)"
proof (cases p)
  case None
  then show ?thesis by (simp add: omit_ptr_def)
next
  case (Some x)
  with assms have "f x \<noteq> JNull" "g (f x) = Some (h x)" by auto
  with Some show ?thesis by (cases "f x") (auto simp: omit_ptr_def)
qed

lemma dec_PreparedDevice_enc:
  assumes "codec_ok K"
  shows "dec_PreparedDevice K (enc_PreparedDevice K d) = Some (stored_PreparedDevice d)"
proof -
  note pair = dec_pair_enc [OF assms]
  have h: "dec_ptr (dec_pair K ''info'' dec_HAMiGpuInfo (\<lambda>i d. \<lparr>phg_Info = i, phg_Device = d\<rparr>))
      (Some (enc_ptr (\<lambda>p. enc_pair K ''info'' enc_HAMiGpuInfo (phg_Info p) (phg_Device p)) (pd_HAMiGpu d)))
    = Some (map_option stored_HAMi (pd_HAMiGpu d))"
    by (rule dec_ptr_enc_ptr) (simp_all add: pair json_roundtrip stored_HAMi_def)
  have g: "dec_ptr (dec_pair K ''info'' dec_GpuInfo (\<lambda>i d. \<lparr>pg_Info = i, pg_Device = d\<rparr>))
      (Some (enc_ptr (\<lambda>p. enc_pair K ''info'' enc_GpuInfo (pg_Info p) (pg_Device p)) (pd_Gpu d)))
    = Some (map_option stored_Gpu (pd_Gpu d))"
    by (rule dec_ptr_enc_ptr) (simp_all add: pair json_roundtrip stored_Gpu_def)
  have m: "dec_ptr (dec_pair K ''concrete'' dec_MigLiveTuple (\<lambda>i d. \<lparr>pm_Concrete = i, pm_Device = d\<rparr>))
      (Some (enc_ptr (\<lambda>p. enc_pair K ''concrete'' enc_MigLiveTuple (pm_Concrete p) (pm_Device p)) (pd_Mig d)))
    = Some (map_option (\<lambda>p. p) (pd_Mig d))"
    by (rule dec_ptr_enc_ptr) (simp_all add: pair [where h = "\<lambda>x. x"] json_roundtrip option.map_ident)
  have v: "dec_ptr (dec_pair K ''info'' dec_VfioDeviceInfo (\<lambda>i d. \<lparr>pv_Info = i, pv_Device = d\<rparr>))
      (map_of (omit_ptr ''vfio'' (\<lambda>p. enc_pair K ''info'' enc_VfioDeviceInfo (pv_Info p) (pv_Device p))
        (pd_Vfio d)) ''vfio'')
    = Some (map_option stored_Vfio (pd_Vfio d))"
    by (rule dec_omit_ptr) (simp_all add: pair json_roundtrip stored_Vfio_def)
  show ?thesis
    using h g m v
    by (simp add: dec_PreparedDevice_def enc_PreparedDevice_def stored_PreparedDevice_def option.map_ident)
qed

lemma dec_Group_enc:
  assumes "codec_ok K"
  shows "dec_Group K (enc_Group K g) = Some (stored_Group g)"
proof -
  have "dec_list (dec_PreparedDevice K) (Some (JArr (map (enc_PreparedDevice K) (grp_Devices g))))
      = Some (map stored_PreparedDevice (grp_Devices g))"
    by (rule dec_list_JArr) (simp add: dec_PreparedDevice_enc [OF assms])
  then show ?thesis by (simp add: dec_Group_def enc_Group_def stored_Group_def)
qed

lemma enc_stored_info [enc_stored]:
  "enc_GpuInfo (stored_GpuInfo g) = enc_GpuInfo g"
  "enc_HAMiGpuInfo (stored_HAMiGpuInfo h) = enc_HAMiGpuInfo h"
  "enc_VfioDeviceInfo (stored_VfioDeviceInfo v) = enc_VfioDeviceInfo v"
  by (simp_all add: enc_GpuInfo_def stored_GpuInfo_def enc_HAMiGpuInfo_def stored_HAMiGpuInfo_def
      enc_VfioDeviceInfo_def stored_VfioDeviceInfo_def)

lemma enc_ptr_stored: "(\<And>x. f (h x) = f x) \<Longrightarrow> enc_ptr f (map_option h p) = enc_ptr f p"
  by (cases p) (simp_all add: enc_ptr_def)

lemma enc_pair_stored:
  "(\<And>x. f (h x) = f x) \<Longrightarrow> enc_pair K k f (map_option h i) d = enc_pair K k f i d"
  by (simp add: enc_pair_def enc_ptr_stored)

lemma omit_ptr_stored: "(\<And>x. f (h x) = f' x) \<Longrightarrow> omit_ptr k f (map_option h p) = omit_ptr k f' p"
  by (cases p) (simp_all add: omit_ptr_def)

lemma omit_list_stored: "(\<And>x. f (h x) = f x) \<Longrightarrow> omit_list k f (map h xs) = omit_list k f xs"
  by (simp add: omit_list_def comp_def)

lemma enc_stored_PreparedDevice [enc_stored]:
  "enc_PreparedDevice K (stored_PreparedDevice d) = enc_PreparedDevice K d"
  unfolding enc_PreparedDevice_def stored_PreparedDevice_def
  by (simp add: enc_ptr_stored omit_ptr_stored enc_pair_stored enc_stored stored_HAMi_def stored_Gpu_def
      stored_Vfio_def)

lemma enc_stored_Group [enc_stored]: "enc_Group K (stored_Group g) = enc_Group K g"
  by (simp add: enc_Group_def stored_Group_def enc_stored)

section \<open>Claims and checkpoints\<close>

definition stored_ClaimV2 :: "PreparedClaimV2 \<Rightarrow> PreparedClaimV2" where
  "stored_ClaimV2 c = c\<lparr>c_PreparedDevices := stored_devices (c_PreparedDevices c)\<rparr>"

definition stored_ClaimV1 :: "PreparedClaimV1 \<Rightarrow> PreparedClaimV1" where
  "stored_ClaimV1 c = c\<lparr>c1_PreparedDevices := stored_devices (c1_PreparedDevices c)\<rparr>"

definition stored_V2 :: "CheckpointV2 \<Rightarrow> CheckpointV2" where
  "stored_V2 v = v\<lparr>c2_PreparedClaims := stored_map stored_ClaimV2 (c2_PreparedClaims v)\<rparr>"

definition stored_V1 :: "CheckpointV1 \<Rightarrow> CheckpointV1" where
  "stored_V1 v = v\<lparr>v1_PreparedClaims := stored_map stored_ClaimV1 (v1_PreparedClaims v)\<rparr>"

definition stored_Checkpoint :: "Checkpoint \<Rightarrow> Checkpoint" where
  "stored_Checkpoint cp =
     cp\<lparr>cp_V1 := map_option stored_V1 (cp_V1 cp), cp_V2 := map_option stored_V2 (cp_V2 cp)\<rparr>"

lemma enc_stored_claim [enc_stored]:
  "enc_ClaimV2 K (stored_ClaimV2 c2) = enc_ClaimV2 K c2"
  "enc_ClaimV1 K (stored_ClaimV1 c1) = enc_ClaimV1 K c1"
  by (simp_all add: enc_ClaimV2_def stored_ClaimV2_def enc_ClaimV1_def stored_ClaimV1_def
      omit_list_stored enc_stored)

lemma enc_stored_version [enc_stored]:
  "enc_V2 K (stored_V2 v2) = enc_V2 K v2"
  "enc_V1 K (stored_V1 v1) = enc_V1 K v1"
  by (simp_all add: enc_V2_def stored_V2_def enc_V1_def stored_V1_def omit_stored_map enc_stored)

lemma enc_stored_Checkpoint [enc_stored]:
  "enc_Checkpoint K (stored_Checkpoint cp) = enc_Checkpoint K cp"
  by (simp add: enc_Checkpoint_def stored_Checkpoint_def omit_ptr_stored enc_stored)

lemma dec_ClaimV2_enc:
  assumes "codec_ok K"
  shows "dec_ClaimV2 K (enc_ClaimV2 K c) = Some (stored_ClaimV2 c)"
proof -
  have "those (map (dec_Group K \<circ> enc_Group K) (c_PreparedDevices c)) = Some (stored_devices (c_PreparedDevices c))"
    by (rule those_map_Some) (simp add: dec_Group_enc [OF assms])
  then show ?thesis
    by (simp add: dec_ClaimV2_def enc_ClaimV2_def dec_status_def codec_okD [OF assms] omit_list_def
        omit_str_def stored_ClaimV2_def)
qed

lemma dec_ClaimV1_enc:
  assumes "codec_ok K"
  shows "dec_ClaimV1 K (enc_ClaimV1 K c) = Some (stored_ClaimV1 c)"
proof -
  have "those (map (dec_Group K \<circ> enc_Group K) (c1_PreparedDevices c)) = Some (stored_devices (c1_PreparedDevices c))"
    by (rule those_map_Some) (simp add: dec_Group_enc [OF assms])
  then show ?thesis
    by (simp add: dec_ClaimV1_def enc_ClaimV1_def dec_status_def codec_okD [OF assms] omit_list_def
        stored_ClaimV1_def)
qed

lemma dec_V2_enc:
  assumes "codec_ok K"
  shows "dec_V2 K (enc_V2 K v) = Some (stored_V2 v)"
proof -
  have "dec_map (dec_ClaimV2 K) (Some (JObj (enc_entries (enc_ClaimV2 K) m)))
      = Some (Some (stored_entries stored_ClaimV2 m))" for m
    by (rule dec_map_enc_entries) (rule dec_ClaimV2_enc [OF assms])
  then show ?thesis
    by (simp add: dec_V2_def enc_V2_def omit_map_cases omit_str_def stored_V2_def stored_map_cases)
qed

lemma dec_V1_enc:
  assumes "codec_ok K"
  shows "dec_V1 K (enc_V1 K v) = Some (stored_V1 v)"
proof -
  have "dec_map (dec_ClaimV1 K) (Some (JObj (enc_entries (enc_ClaimV1 K) m)))
      = Some (Some (stored_entries stored_ClaimV1 m))" for m
    by (rule dec_map_enc_entries) (rule dec_ClaimV1_enc [OF assms])
  then show ?thesis
    by (simp add: dec_V1_def enc_V1_def omit_map_cases stored_V1_def stored_map_cases)
qed

lemma dec_Checkpoint_enc:
  assumes "codec_ok K"
  shows "dec_Checkpoint K (enc_Checkpoint K cp) = Some (stored_Checkpoint cp)"
proof -
  have v2: "dec_ptr (dec_V2 K) (Some (enc_V2 K v)) = Some (Some (stored_V2 v))" for v
    using dec_ptr_enc_ptr [of "Some v" "enc_V2 K" "dec_V2 K" stored_V2]
    by (simp add: enc_ptr_def dec_V2_enc [OF assms])
  have v1: "dec_ptr (dec_V1 K) (Some (enc_V1 K v)) = Some (Some (stored_V1 v))" for v
    using dec_ptr_enc_ptr [of "Some v" "enc_V1 K" "dec_V1 K" stored_V1]
    by (simp add: enc_ptr_def dec_V1_enc [OF assms])
  show ?thesis
    by (cases "cp_V1 cp"; cases "cp_V2 cp")
      (simp_all add: dec_Checkpoint_def enc_Checkpoint_def omit_ptr_def v1 v2 stored_Checkpoint_def)
qed

section \<open>Values read from a file\<close>

text \<open>Whatever a decoder returns is already in the stored form: reading yields no unexported
  field. So a value that was read does not change when it is written and read again.\<close>

named_theorems dec_stored \<open>a decoded value is in the stored form\<close>

lemma dec_info_stored [dec_stored]:
  "dec_GpuInfo j = Some g \<Longrightarrow> stored_GpuInfo g = g"
  "dec_HAMiGpuInfo j = Some h \<Longrightarrow> stored_HAMiGpuInfo h = h"
  "dec_VfioDeviceInfo j = Some v \<Longrightarrow> stored_VfioDeviceInfo v = v"
  by (auto simp: dec_GpuInfo_def stored_GpuInfo_def dec_HAMiGpuInfo_def stored_HAMiGpuInfo_def
      dec_VfioDeviceInfo_def stored_VfioDeviceInfo_def split: Option.bind_splits)

lemma dec_ptr_stored:
  assumes "dec_ptr f j = Some p" and "\<And>j x. f j = Some x \<Longrightarrow> h x = x"
  shows "map_option h p = p"
  using assms by (cases "(f, j)" rule: dec_ptr.cases) auto

lemma those_map_stored:
  assumes "those (map f js) = Some xs" and "\<And>j x. f j = Some x \<Longrightarrow> h x = x"
  shows "map h xs = xs"
  using assms(1)
proof (induction js arbitrary: xs)
  case Nil
  then show ?case by simp
next
  case (Cons j js)
  then show ?case using assms(2) by (auto split: option.splits)
qed

lemma dec_list_stored:
  assumes "dec_list f j = Some xs" and "\<And>j x. f j = Some x \<Longrightarrow> h x = x"
  shows "map h xs = xs"
  using assms by (cases "(f, j)" rule: dec_list.cases) (auto intro: those_map_stored)

lemma dec_pair_stored:
  assumes "dec_pair K field f mk j = Some p" and "\<And>j x. f j = Some x \<Longrightarrow> h x = x"
  shows "\<exists>i d. p = mk i d \<and> map_option h i = i"
  using assms by (auto simp: dec_pair_def split: Option.bind_splits intro: dec_ptr_stored)

lemma dec_PreparedDevice_stored [dec_stored]:
  assumes "dec_PreparedDevice K j = Some d"
  shows "stored_PreparedDevice d = d"
proof -
  from assms obtain x1 x2 x3 x4 where
    h: "dec_ptr (dec_pair K ''info'' dec_HAMiGpuInfo (\<lambda>i d. \<lparr>phg_Info = i, phg_Device = d\<rparr>)) x1 = Some (pd_HAMiGpu d)"
    and g: "dec_ptr (dec_pair K ''info'' dec_GpuInfo (\<lambda>i d. \<lparr>pg_Info = i, pg_Device = d\<rparr>)) x2 = Some (pd_Gpu d)"
    and v: "dec_ptr (dec_pair K ''info'' dec_VfioDeviceInfo (\<lambda>i d. \<lparr>pv_Info = i, pv_Device = d\<rparr>)) x4 = Some (pd_Vfio d)"
    by (auto simp: dec_PreparedDevice_def split: Option.bind_splits)
  have "map_option stored_HAMi (pd_HAMiGpu d) = pd_HAMiGpu d"
    by (rule dec_ptr_stored [OF h])
      (auto simp: stored_HAMi_def dest!: dec_pair_stored [where h = stored_HAMiGpuInfo] intro: dec_stored)
  moreover have "map_option stored_Gpu (pd_Gpu d) = pd_Gpu d"
    by (rule dec_ptr_stored [OF g])
      (auto simp: stored_Gpu_def dest!: dec_pair_stored [where h = stored_GpuInfo] intro: dec_stored)
  moreover have "map_option stored_Vfio (pd_Vfio d) = pd_Vfio d"
    by (rule dec_ptr_stored [OF v])
      (auto simp: stored_Vfio_def dest!: dec_pair_stored [where h = stored_VfioDeviceInfo] intro: dec_stored)
  ultimately show ?thesis by (simp add: stored_PreparedDevice_def)
qed

lemma dec_Group_stored [dec_stored]:
  assumes "dec_Group K j = Some g"
  shows "stored_Group g = g"
proof -
  from assms obtain x i where
    ds: "dec_list (dec_PreparedDevice K) x = Some (grp_Devices g)"
    and cs: "grp_ConfigState g = \<lparr>dcs_MpsControlDaemonID = i, dcs_containerEdits = None\<rparr>"
    by (auto simp: dec_Group_def split: Option.bind_splits)
  from ds have "map stored_PreparedDevice (grp_Devices g) = grp_Devices g"
    by (rule dec_list_stored) (rule dec_PreparedDevice_stored)
  with cs show ?thesis by (simp add: stored_Group_def)
qed

lemma dec_ClaimV2_stored [dec_stored]: "dec_ClaimV2 K j = Some c \<Longrightarrow> stored_ClaimV2 c = c"
  by (auto simp: dec_ClaimV2_def stored_ClaimV2_def split: Option.bind_splits
      elim!: dec_list_stored dec_Group_stored)

lemma dec_ClaimV1_stored [dec_stored]: "dec_ClaimV1 K j = Some c \<Longrightarrow> stored_ClaimV1 c = c"
  by (auto simp: dec_ClaimV1_def stored_ClaimV1_def split: Option.bind_splits
      elim!: dec_list_stored dec_Group_stored)

lemma those_entries:
  assumes "those (map (\<lambda>(k, j). map_option (Pair k) (f j)) fs) = Some m" and "(k, c) \<in> set m"
  shows "\<exists>j. f j = Some c"
  using assms
proof (induction fs arbitrary: m)
  case Nil
  then show ?case by simp
next
  case (Cons a fs)
  then show ?case by (cases a) (auto split: option.splits)
qed

lemma dec_map_entry:
  assumes "dec_map f j = Some (Some m)" and "(k, c) \<in> set m"
  shows "\<exists>j. f j = Some c"
  using assms by (cases "(f, j)" rule: dec_map.cases) (auto intro: those_entries)

lemma dec_V2_claim:
  assumes "dec_V2 K j = Some v" and "(u, c) \<in> set (entries (c2_PreparedClaims v))"
  shows "stored_ClaimV2 c = c"
proof -
  from assms(1) obtain x where "dec_map (dec_ClaimV2 K) x = Some (c2_PreparedClaims v)"
    by (auto simp: dec_V2_def split: Option.bind_splits)
  with assms(2) show ?thesis
    by (cases "c2_PreparedClaims v") (auto dest: dec_map_entry dec_stored)
qed

lemma dec_V1_claim:
  assumes "dec_V1 K j = Some v" and "(u, c) \<in> set (entries (v1_PreparedClaims v))"
  shows "stored_ClaimV1 c = c"
proof -
  from assms(1) obtain x where "dec_map (dec_ClaimV1 K) x = Some (v1_PreparedClaims v)"
    by (auto simp: dec_V1_def split: Option.bind_splits)
  with assms(2) show ?thesis
    by (cases "v1_PreparedClaims v") (auto dest: dec_map_entry dec_stored)
qed

end
