(* ===== verification/CheckpointOps.thy ===== *)
theory CheckpointOps
  imports CheckpointStore
begin

text \<open>
  Reading and writing the checkpoint (\<open>getCheckpoint\<close>, \<open>updateCheckpoint\<close>, \<open>createCheckpoint\<close>,
  \<open>deleteClaimFromCheckpoint\<close>, \<open>initCheckpoint\<close> of \<open>cmd/hami-kubelet-plugin/device_state.go\<close>) over
  the kubelet's checkpoint manager and a file lock, which are parameters: \<open>'c\<close> is their state.
  The locale \<open>claim_store\<close> is the contract the device state relies on: what is read is what was
  last written, and a failed write changes nothing.
\<close>

section \<open>The checkpoint manager and the lock\<close>

record 'c checkpoint_manager =
  cm_list :: "('c, string list) act"
  cm_get :: "string \<Rightarrow> (json \<Rightarrow> err + Checkpoint) \<Rightarrow> ('c, Checkpoint) act"
  cm_create :: "string \<Rightarrow> json res \<Rightarrow> ('c, unit) act"
  cplock_acquire :: "('c, unit) act"
  cplock_release :: "'c \<Rightarrow> 'c"

definition DriverPluginCheckpointFileBasename :: string where
  "DriverPluginCheckpointFileBasename = ''checkpoint.json''"

text \<open>What the library documents. \<open>blob\<close> is the content of the checkpoint file: reading hands it to
  the checkpoint object, writing replaces it with what the object marshals to or leaves it alone,
  nothing else touches it.\<close>

definition manager_ok :: "'c checkpoint_manager \<Rightarrow> ('c \<Rightarrow> json option) \<Rightarrow> bool" where
  "manager_ok M blob \<longleftrightarrow>
     (\<forall>c. blob (snd (cplock_acquire M c)) = blob c \<and> blob (cplock_release M c) = blob c) \<and>
     (\<forall>c. blob (snd (cm_list M c)) = blob c \<and>
        (\<forall>ns. fst (cm_list M c) = Inr ns \<longrightarrow>
           (DriverPluginCheckpointFileBasename \<in> set ns \<longleftrightarrow> blob c \<noteq> None))) \<and>
     (\<forall>c load. blob (snd (cm_get M DriverPluginCheckpointFileBasename load c)) = blob c \<and>
        (\<forall>cp. fst (cm_get M DriverPluginCheckpointFileBasename load c) = Inr cp \<longrightarrow>
           (\<exists>j. blob c = Some j \<and> load j = Inr cp))) \<and>
     (\<forall>c r. case cm_create M DriverPluginCheckpointFileBasename r c of
         (Inr _, c') \<Rightarrow> (\<exists>j. r = Inr j \<and> blob c' = Some j)
       | (Inl _, c') \<Rightarrow> blob c' = blob c)"

lemma manager_okD:
  assumes "manager_ok M blob"
  shows "blob (snd (cplock_acquire M c)) = blob c" "blob (cplock_release M c) = blob c"
    "blob (snd (cm_list M c)) = blob c"
    "blob (snd (cm_get M DriverPluginCheckpointFileBasename load c)) = blob c"
  using assms by (simp_all add: manager_ok_def)

lemma manager_list:
  "manager_ok M blob \<Longrightarrow> cm_list M c = (Inr ns, c') \<Longrightarrow>
   blob c' = blob c \<and> (DriverPluginCheckpointFileBasename \<in> set ns \<longleftrightarrow> blob c \<noteq> None)"
  unfolding manager_ok_def by (metis fst_conv snd_conv)

lemma manager_get:
  "manager_ok M blob \<Longrightarrow> cm_get M DriverPluginCheckpointFileBasename load c = (Inr cp, c') \<Longrightarrow>
   blob c' = blob c \<and> (\<exists>j. blob c = Some j \<and> load j = Inr cp)"
  unfolding manager_ok_def by (metis fst_conv snd_conv)

lemma manager_create:
  assumes "manager_ok M blob" and "cm_create M DriverPluginCheckpointFileBasename r c = (x, c')"
  shows "case x of Inr _ \<Rightarrow> (\<exists>j. r = Inr j \<and> blob c' = Some j) | Inl _ \<Rightarrow> blob c' = blob c"
proof -
  have "case cm_create M DriverPluginCheckpointFileBasename r c of
         (Inr _, c') \<Rightarrow> (\<exists>j. r = Inr j \<and> blob c' = Some j) | (Inl _, c') \<Rightarrow> blob c' = blob c"
    using assms(1) by (simp add: manager_ok_def)
  with assms(2) show ?thesis by (simp split: sum.splits)
qed

section \<open>The operations\<close>

text \<open>Holding the lock: the release is deferred, so it runs whatever the body does.\<close>

definition locked :: "'c checkpoint_manager \<Rightarrow> ('c, 'a) act \<Rightarrow> ('c, 'a) act" where
  "locked M body =
     seq (wrapping ''error acquiring cplock'' (cplock_acquire M))
       (\<lambda>_ c. case body c of (r, c') \<Rightarrow> (r, cplock_release M c'))"

definition createCheckpoint :: "'c checkpoint_manager \<Rightarrow> codec \<Rightarrow> Checkpoint \<Rightarrow> ('c, unit) act" where
  "createCheckpoint M K cp =
     locked M (cm_create M DriverPluginCheckpointFileBasename (MarshalCheckpoint K cp))"

definition getCheckpoint :: "'c checkpoint_manager \<Rightarrow> codec \<Rightarrow> ('c, Checkpoint) act" where
  "getCheckpoint M K =
     locked M (seq (cm_get M DriverPluginCheckpointFileBasename (load_checkpoint K))
       (\<lambda>cp. ret (ToLatestVersion cp)))"

definition updateCheckpoint ::
    "'c checkpoint_manager \<Rightarrow> codec \<Rightarrow> (Checkpoint \<Rightarrow> Checkpoint res) \<Rightarrow> ('c, unit) act" where
  "updateCheckpoint M K mutate =
     locked M (seq (wrapping ''updateCheckpoint: unable to get checkpoint''
         (cm_get M DriverPluginCheckpointFileBasename (load_checkpoint K)))
       (\<lambda>cp. seq (lift_res (mutate (ToLatestVersion cp)))
       (\<lambda>cp'. wrapping ''unable to create checkpoint''
         (cm_create M DriverPluginCheckpointFileBasename (MarshalCheckpoint K cp')))))"

text \<open>The mutations. Assigning to a nil map panics; \<open>ToLatestVersion\<close> has made the map.\<close>

definition on_V2 :: "(CheckpointV2 \<Rightarrow> CheckpointV2 res) \<Rightarrow> Checkpoint \<Rightarrow> Checkpoint res" where
  "on_V2 f cp = res_seq (deref (cp_V2 cp)) (\<lambda>v2. res_seq (f v2) (\<lambda>v2'. Inr (cp\<lparr>cp_V2 := Some v2'\<rparr>)))"

definition set_claim :: "string \<Rightarrow> PreparedClaim \<Rightarrow> Checkpoint \<Rightarrow> Checkpoint res" where
  "set_claim uid pc = on_V2 (\<lambda>v2.
     case c2_PreparedClaims v2 of
       None \<Rightarrow> Inl (Panicked ''assignment to entry in nil map'')
     | Some m \<Rightarrow> Inr (v2\<lparr>c2_PreparedClaims := Some (AList.update uid pc m)\<rparr>))"

definition drop_claim :: "string \<Rightarrow> Checkpoint \<Rightarrow> Checkpoint res" where
  "drop_claim uid = on_V2 (\<lambda>v2.
     Inr (v2\<lparr>c2_PreparedClaims := map_option (AList.delete uid) (c2_PreparedClaims v2)\<rparr>))"

definition set_boot :: "string \<Rightarrow> Checkpoint \<Rightarrow> Checkpoint res" where
  "set_boot b = on_V2 (\<lambda>v2. Inr (v2\<lparr>c2_NodeBootID := b\<rparr>))"

definition deleteClaimFromCheckpoint ::
    "'c checkpoint_manager \<Rightarrow> codec \<Rightarrow> namespaced_object \<Rightarrow> ('c, unit) act" where
  "deleteClaimFromCheckpoint M K claimRef =
     wrapping ''unable to update checkpoint'' (updateCheckpoint M K (drop_claim (no_UID claimRef)))"

definition initCheckpoint :: "'c checkpoint_manager \<Rightarrow> codec \<Rightarrow> string \<Rightarrow> ('c, unit) act" where
  "initCheckpoint M K currentBootID =
     (let fresh = wrapping ''unable to create fresh checkpoint''
            (createCheckpoint M K \<lparr>cp_Checksum = 0, cp_V1 = None,
               cp_V2 = Some (empty_V2\<lparr>c2_NodeBootID := currentBootID\<rparr>)\<rparr>)
      in seq (wrapping ''unable to list checkpoints'' (cm_list M)) (\<lambda>checkpoints.
         if DriverPluginCheckpointFileBasename \<in> set checkpoints then
           seq (wrapping ''unable to get checkpoint'' (getCheckpoint M K)) (\<lambda>cp.
           let storedBootID = GetNodeBootID cp
           in if storedBootID = currentBootID then ret ()
              else if storedBootID = '''' then
                wrapping ''unable to update checkpoint'' (updateCheckpoint M K (set_boot currentBootID))
              else fresh)
         else fresh))"

section \<open>What is in the file\<close>

text \<open>The contents of a checkpoint the code goes by: the boot ID and the claims.\<close>

type_synonym contents = "string \<times> (string \<rightharpoonup> PreparedClaim)"

definition contents_of :: "Checkpoint \<Rightarrow> contents" where
  "contents_of cp = (c2_NodeBootID (latest_V2 cp), claims cp)"

definition stored_contents :: "contents \<Rightarrow> contents" where
  "stored_contents = (\<lambda>(b, m). (b, map_option stored_ClaimV2 \<circ> m))"

definition sealed :: "codec \<Rightarrow> Checkpoint \<Rightarrow> Checkpoint" where
  "sealed K cp =
     (let v2 = latest_V2 cp;
          cp3 = SetChecksumV1 K \<lparr>cp_Checksum = 0, cp_V1 = Some (V2_ToV1 v2), cp_V2 = Some v2\<rparr>
      in cp3\<lparr>cp_V2 := Some (v2\<lparr>c2_Checksum := k_sum K (enc_V2 K (v2\<lparr>c2_Checksum := 0\<rparr>))\<rparr>)\<rparr>)"

lemma MarshalCheckpoint_sealed: "MarshalCheckpoint K cp = Inr (enc_Checkpoint K (sealed K cp))"
  by (simp add: MarshalCheckpoint_def sealed_def SetChecksumV2_def SetChecksumV1_def
      ToLatestVersion_def Let_def)

lemma VerifyChecksum_sealed:
  assumes "codec_ok K"
  shows "VerifyChecksum K (stored_Checkpoint (sealed K cp)) = None"
proof -
  let ?cp = "sealed K cp"
  have "(stored_Checkpoint ?cp)\<lparr>cp_V2 := None, cp_Checksum := 0\<rparr>
      = stored_Checkpoint (?cp\<lparr>cp_V2 := None, cp_Checksum := 0\<rparr>)"
    by (simp add: stored_Checkpoint_def)
  then have "VerifyChecksumV1 K (stored_Checkpoint ?cp) = None"
    by (simp add: VerifyChecksumV1_def enc_stored)
      (simp add: sealed_def SetChecksumV1_def stored_Checkpoint_def Let_def codec_okD [OF assms])
  moreover have "(stored_V2 v)\<lparr>c2_Checksum := 0\<rparr> = stored_V2 (v\<lparr>c2_Checksum := 0\<rparr>)" for v
    by (simp add: stored_V2_def)
  then have "VerifyChecksumV2 K (stored_Checkpoint ?cp) = None"
    by (simp add: VerifyChecksumV2_def stored_Checkpoint_def sealed_def Let_def enc_stored)
      (simp add: stored_V2_def codec_okD [OF assms])
  ultimately show ?thesis by (simp add: VerifyChecksum_def)
qed

lemma load_marshalled:
  assumes "codec_ok K"
  shows "load_checkpoint K (enc_Checkpoint K (sealed K cp)) = Inr (stored_Checkpoint (sealed K cp))"
  by (simp add: load_checkpoint_def UnmarshalCheckpoint_def dec_Checkpoint_enc [OF assms]
      VerifyChecksum_sealed [OF assms])

lemma map_of_stored_map:
  "map_of (entries (stored_map f m)) k = map_option f (map_of (entries m) k)"
  by (auto simp: stored_map_cases map_of_stored_entries entries_def split: option.splits)

lemma latest_claims: "entries (c2_PreparedClaims (latest_V2 cp)) = entries (c2_PreparedClaims
    (case cp_V2 cp of Some v2 \<Rightarrow> v2 | None \<Rightarrow> (case cp_V1 cp of Some v1 \<Rightarrow> V1_ToV2 v1 | None \<Rightarrow> empty_V2)))"
  by (auto simp: latest_V2_def Let_def split: option.splits)

lemma latest_boot: "cp_V2 cp = Some v \<Longrightarrow> c2_NodeBootID (latest_V2 cp) = c2_NodeBootID v"
  by (auto simp: latest_V2_def Let_def split: option.splits)

lemma contents_stored_sealed:
  "contents_of (stored_Checkpoint (sealed K cp)) = stored_contents (contents_of cp)"
proof -
  let ?v = "latest_V2 cp"
  have "claims (stored_Checkpoint (sealed K cp)) u = map_option stored_ClaimV2 (claims cp u)" for u
    unfolding claims_def
    by (subst latest_claims) (simp add: stored_Checkpoint_def sealed_def stored_V2_def Let_def map_of_stored_map)
  moreover have "c2_NodeBootID (latest_V2 (stored_Checkpoint (sealed K cp))) = c2_NodeBootID ?v"
  proof -
    have "cp_V2 (stored_Checkpoint (sealed K cp))
        = Some (stored_V2 (?v\<lparr>c2_Checksum := k_sum K (enc_V2 K (?v\<lparr>c2_Checksum := 0\<rparr>))\<rparr>))"
      by (simp add: stored_Checkpoint_def sealed_def Let_def)
    from latest_boot [OF this] show ?thesis by (simp add: stored_V2_def)
  qed
  ultimately show ?thesis
    by (auto simp: contents_of_def stored_contents_def fun_eq_iff)
qed

lemma contents_latest [simp]: "contents_of (ToLatestVersion cp) = contents_of cp"
  by (auto simp: contents_of_def ToLatestVersion_def latest_V2_def Let_def claims_def
      split: option.splits)

lemma map_of_map_claims: "map_of (map (\<lambda>(u, c). (u, f c)) m) = map_option f \<circ> map_of m"
  by (rule ext) (simp add: map_of_map_value)

text \<open>The claims of a checkpoint that was read are in the stored form.\<close>

lemma load_stored:
  assumes "load_checkpoint K j = Inr cp"
  shows "stored_contents (contents_of cp) = contents_of cp"
proof -
  from assms have "dec_Checkpoint K j = Some cp"
    by (auto simp: load_checkpoint_def UnmarshalCheckpoint_def split: sum.splits option.splits)
  then obtain x1 x2 where v1: "dec_ptr (dec_V1 K) x1 = Some (cp_V1 cp)"
    and v2: "dec_ptr (dec_V2 K) x2 = Some (cp_V2 cp)"
    by (auto simp: dec_Checkpoint_def split: Option.bind_splits)
  have ptr: "\<exists>j. f j = Some y" if "dec_ptr f x = Some (Some y)" for f :: "json \<Rightarrow> 'b option" and x y
    using that by (cases "(f, x)" rule: dec_ptr.cases) auto
  have "stored_ClaimV2 c = c" if "claims cp u = Some c" for u c
  proof -
    from that have "(u, c) \<in> set (entries (c2_PreparedClaims (case cp_V2 cp of Some v2 \<Rightarrow> v2
        | None \<Rightarrow> (case cp_V1 cp of Some v1 \<Rightarrow> V1_ToV2 v1 | None \<Rightarrow> empty_V2))))"
      unfolding claims_def latest_claims by (rule map_of_SomeD)
    moreover have "stored_ClaimV2 c = c" if "(u, c) \<in> set (entries (c2_PreparedClaims v))"
      and "cp_V2 cp = Some v" for v
      using that v2 ptr dec_V2_claim by metis
    moreover have "stored_ClaimV2 c = c" if uc: "(u, c) \<in> set (entries (c2_PreparedClaims (V1_ToV2 v)))"
      and v: "cp_V1 cp = Some v" for v
    proof -
      obtain j where j: "dec_V1 K j = Some v" using v v1 ptr by metis
      from uc obtain c1 where c1: "(u, c1) \<in> set (entries (v1_PreparedClaims v))"
        and c: "c_PreparedDevices c = c1_PreparedDevices c1" by (auto simp: V1_ToV2_def)
      from dec_V1_claim [OF j c1] have "stored_devices (c1_PreparedDevices c1) = c1_PreparedDevices c1"
        unfolding stored_ClaimV1_def
        by (metis PreparedClaimV1.ext_inject PreparedClaimV1.surjective PreparedClaimV1.update_convs(2))
      with c show ?thesis by (simp add: stored_ClaimV2_def)
    qed
    ultimately show ?thesis
      by (auto simp: empty_V2_def split: option.splits)
  qed
  then have "map_option stored_ClaimV2 (claims cp u) = claims cp u" for u
    by (cases "claims cp u") auto
  then show ?thesis by (auto simp: stored_contents_def contents_of_def fun_eq_iff)
qed

section \<open>The mutations on the contents\<close>

lemma latest_V2_of_latest:
  "cp_V2 (ToLatestVersion cp) = Some (latest_V2 cp)"
  "\<exists>m. c2_PreparedClaims (latest_V2 cp) = Some m \<and> claims cp = map_of m"
  by (auto simp: ToLatestVersion_def claims_def latest_V2_def Let_def split: option.splits)

lemma contents_of_V2:
  "cp_V2 cp = Some v \<Longrightarrow> contents_of cp = (c2_NodeBootID v, map_of (entries (c2_PreparedClaims v)))"
  by (simp add: contents_of_def latest_boot claims_def latest_claims)

lemma mutation_contents:
  "set_claim u pc (ToLatestVersion cp) = Inr cp1 \<Longrightarrow>
     contents_of cp1 = (fst (contents_of cp), (snd (contents_of cp))(u \<mapsto> pc))"
  "drop_claim u (ToLatestVersion cp) = Inr cp1 \<Longrightarrow>
     contents_of cp1 = (fst (contents_of cp), (snd (contents_of cp))(u := None))"
  "set_boot b (ToLatestVersion cp) = Inr cp1 \<Longrightarrow> contents_of cp1 = (b, snd (contents_of cp))"
proof -
  obtain m where m: "c2_PreparedClaims (latest_V2 cp) = Some m" "claims cp = map_of m"
    using latest_V2_of_latest(2) by blast
  show "set_claim u pc (ToLatestVersion cp) = Inr cp1 \<Longrightarrow>
     contents_of cp1 = (fst (contents_of cp), (snd (contents_of cp))(u \<mapsto> pc))"
    using m by (auto simp: set_claim_def on_V2_def latest_V2_of_latest(1) contents_of_V2)
      (auto simp: contents_of_def AList.update_conv')
  show "drop_claim u (ToLatestVersion cp) = Inr cp1 \<Longrightarrow>
     contents_of cp1 = (fst (contents_of cp), (snd (contents_of cp))(u := None))"
    using m by (auto simp: drop_claim_def on_V2_def latest_V2_of_latest(1) contents_of_V2)
      (auto simp: contents_of_def AList.delete_conv')
  show "set_boot b (ToLatestVersion cp) = Inr cp1 \<Longrightarrow> contents_of cp1 = (b, snd (contents_of cp))"
    using m by (auto simp: set_boot_def on_V2_def latest_V2_of_latest(1) contents_of_V2)
      (auto simp: contents_of_def)
qed

lemma mutation_total:
  "\<exists>cp1. set_claim u pc (ToLatestVersion cp) = Inr cp1"
  "\<exists>cp1. drop_claim u (ToLatestVersion cp) = Inr cp1"
  "\<exists>cp1. set_boot b (ToLatestVersion cp) = Inr cp1"
  using latest_V2_of_latest [of cp] by (auto simp: set_claim_def drop_claim_def set_boot_def on_V2_def)

section \<open>The contract of the store\<close>

text \<open>\<open>'e\<close> is an environment (manager, codec, observer of the file), \<open>legal\<close> one whose libraries
  keep their promises, \<open>contents\<close> what the file holds (\<open>None\<close> if it cannot be read).\<close>

locale claim_store =
  fixes legal :: "'e \<Rightarrow> bool"
    and contents :: "'e \<Rightarrow> 'c \<Rightarrow> contents option"
    and fetch :: "'e \<Rightarrow> ('c, Checkpoint) act"
    and update :: "'e \<Rightarrow> (Checkpoint \<Rightarrow> Checkpoint res) \<Rightarrow> ('c, unit) act"
  assumes fetch_same: "legal e \<Longrightarrow> contents e (snd (fetch e c)) = contents e c"
    and fetch_reads: "legal e \<Longrightarrow> fetch e c = (Inr cp, c') \<Longrightarrow> contents e c = Some (contents_of cp)"
    and contents_stored: "legal e \<Longrightarrow> contents e c = Some s \<Longrightarrow> stored_contents s = s"
    and update_fails: "legal e \<Longrightarrow> update e f c = (Inl x, c') \<Longrightarrow> contents e c' = contents e c"
    and update_ok: "legal e \<Longrightarrow> update e f c = (Inr (), c') \<Longrightarrow>
      \<exists>cp0 cp1. contents e c = Some (contents_of cp0) \<and> f (ToLatestVersion cp0) = Inr cp1 \<and>
        contents e c' = Some (stored_contents (contents_of cp1))"
begin

lemma stored_lookup:
  "legal e \<Longrightarrow> contents e c = Some (b, m) \<Longrightarrow> map_option stored_ClaimV2 (m u) = m u"
  by (drule (1) contents_stored) (auto simp: stored_contents_def dest: fun_cong [where x = u])

text \<open>A written claim is found again; every other claim and the boot ID stay.\<close>

lemma set_claim_stores:
  assumes "legal e" and "update e (set_claim u pc) c = (Inr (), c')"
  shows "\<exists>b m. contents e c = Some (b, m) \<and> contents e c' = Some (b, m(u \<mapsto> stored_ClaimV2 pc))"
proof -
  obtain cp0 cp1 where c: "contents e c = Some (contents_of cp0)"
    and f: "set_claim u pc (ToLatestVersion cp0) = Inr cp1"
    and c': "contents e c' = Some (stored_contents (contents_of cp1))"
    using update_ok [OF assms] by blast
  obtain b m where bm: "contents_of cp0 = (b, m)" by fastforce
  have "stored_contents (b, m(u \<mapsto> pc)) = (b, m(u \<mapsto> stored_ClaimV2 pc))"
    using stored_lookup [OF assms(1) c [unfolded bm]] by (auto simp: stored_contents_def fun_eq_iff)
  with c c' mutation_contents(1) [OF f] bm show ?thesis by simp
qed

lemma drop_claim_stores:
  assumes "legal e" and "update e (drop_claim u) c = (Inr (), c')"
  shows "\<exists>b m. contents e c = Some (b, m) \<and> contents e c' = Some (b, m(u := None))"
proof -
  obtain cp0 cp1 where c: "contents e c = Some (contents_of cp0)"
    and f: "drop_claim u (ToLatestVersion cp0) = Inr cp1"
    and c': "contents e c' = Some (stored_contents (contents_of cp1))"
    using update_ok [OF assms] by blast
  obtain b m where bm: "contents_of cp0 = (b, m)" by fastforce
  have "stored_contents (b, m(u := None)) = (b, m(u := None))"
    using stored_lookup [OF assms(1) c [unfolded bm]] by (auto simp: stored_contents_def fun_eq_iff)
  with c c' mutation_contents(2) [OF f] bm show ?thesis by simp
qed

lemma set_boot_stores:
  assumes "legal e" and "update e (set_boot b') c = (Inr (), c')"
  shows "\<exists>b m. contents e c = Some (b, m) \<and> contents e c' = Some (b', m)"
proof -
  obtain cp0 cp1 where c: "contents e c = Some (contents_of cp0)"
    and f: "set_boot b' (ToLatestVersion cp0) = Inr cp1"
    and c': "contents e c' = Some (stored_contents (contents_of cp1))"
    using update_ok [OF assms] by blast
  obtain b m where bm: "contents_of cp0 = (b, m)" by fastforce
  have "stored_contents (b', m) = (b', m)"
    using stored_lookup [OF assms(1) c [unfolded bm]] by (auto simp: stored_contents_def fun_eq_iff)
  with c c' mutation_contents(3) [OF f] bm show ?thesis by simp
qed

lemma set_claim_keeps:
  assumes "legal e" and "contents e c = Some (b, m)" and "P (b, m)"
    and "P (b, m(u \<mapsto> stored_ClaimV2 pc))"
  shows "\<exists>b' m'. contents e (snd (update e (set_claim u pc) c)) = Some (b', m') \<and> P (b', m')"
proof (cases "update e (set_claim u pc) c")
  case (Pair r c')
  with assms show ?thesis
    using set_claim_stores [OF assms(1), of u pc c c'] update_fails [OF assms(1), of "set_claim u pc" c]
    by (cases r) auto
qed

end

section \<open>The checkpoint file as a store\<close>

type_synonym 'c store_env = "'c checkpoint_manager \<times> codec \<times> ('c \<Rightarrow> json option)"

definition legal_store :: "'c store_env \<Rightarrow> bool" where
  "legal_store = (\<lambda>(M, K, blob). manager_ok M blob \<and> codec_ok K)"

definition file_contents :: "'c store_env \<Rightarrow> 'c \<Rightarrow> contents option" where
  "file_contents = (\<lambda>(M, K, blob) c.
     case blob c of None \<Rightarrow> None
     | Some j \<Rightarrow> (case load_checkpoint K j of Inl _ \<Rightarrow> None | Inr cp \<Rightarrow> Some (contents_of cp)))"

definition store_fetch :: "'c store_env \<Rightarrow> ('c, Checkpoint) act" where
  "store_fetch = (\<lambda>(M, K, blob). getCheckpoint M K)"

definition store_update :: "'c store_env \<Rightarrow> (Checkpoint \<Rightarrow> Checkpoint res) \<Rightarrow> ('c, unit) act" where
  "store_update = (\<lambda>(M, K, blob). updateCheckpoint M K)"

lemma locked_cases:
  assumes "manager_ok M blob" and "locked M body c = (r, c')"
  obtains (no_lock) f where "r = Inl f" "blob c' = blob c"
    | (body) c1 c2 where "blob c1 = blob c" "body c1 = (r, c2)" "blob c' = blob c2"
proof (cases "cplock_acquire M c")
  case (Pair x c1)
  have c1: "blob c1 = blob c" using manager_okD(1) [OF assms(1), of c] Pair by simp
  show thesis
  proof (cases x)
    case (Inl f)
    then have "(\<exists>f'. r = Inl f') \<and> c' = c1"
      using assms(2) Pair
      by (cases f) (auto simp: locked_def seq_def wrapping_def)
    with c1 no_lock show thesis by auto
  next
    case (Inr u)
    then have "(case body c1 of (r, c2) \<Rightarrow> (r, cplock_release M c2)) = (r, c')"
      using assms(2) Pair by (simp add: locked_def seq_def wrapping_def)
    then show thesis
      using c1 body manager_okD(2) [OF assms(1)] by (cases "body c1") auto
  qed
qed

lemma getCheckpoint_reads:
  assumes "manager_ok M blob" and "getCheckpoint M K c = (r, c')"
  shows "blob c' = blob c \<and> (\<forall>cp. r = Inr cp \<longrightarrow>
    (\<exists>j cp0. blob c = Some j \<and> load_checkpoint K j = Inr cp0 \<and> cp = ToLatestVersion cp0))"
proof -
  from assms(2) have "locked M (seq (cm_get M DriverPluginCheckpointFileBasename (load_checkpoint K))
      (\<lambda>cp. ret (ToLatestVersion cp))) c = (r, c')" by (simp add: getCheckpoint_def)
  with assms(1) show ?thesis
  proof (cases rule: locked_cases)
    case (body c1 c2)
    obtain x c3 where g: "cm_get M DriverPluginCheckpointFileBasename (load_checkpoint K) c1 = (x, c3)"
      by fastforce
    have "blob c3 = blob c1" using manager_okD(4) [OF assms(1), of "load_checkpoint K" c1] g by simp
    with body g manager_get [OF assms(1), of "load_checkpoint K" c1 "projr x" c3] show ?thesis
      by (cases x) (auto simp: seq_def ret_def)
  qed simp
qed

lemma updateCheckpoint_cases:
  assumes "manager_ok M blob" and "updateCheckpoint M K f c = (r, c')"
  shows "case r of
      Inl _ \<Rightarrow> blob c' = blob c
    | Inr _ \<Rightarrow> (\<exists>j cp0 cp1. blob c = Some j \<and> load_checkpoint K j = Inr cp0 \<and>
        f (ToLatestVersion cp0) = Inr cp1 \<and> blob c' = Some (enc_Checkpoint K (sealed K cp1)))"
proof -
  let ?get = "cm_get M DriverPluginCheckpointFileBasename (load_checkpoint K)"
  let ?put = "\<lambda>cp. cm_create M DriverPluginCheckpointFileBasename (MarshalCheckpoint K cp)"
  from assms(2) have "locked M (seq (wrapping ''updateCheckpoint: unable to get checkpoint'' ?get)
       (\<lambda>cp. seq (lift_res (f (ToLatestVersion cp)))
       (\<lambda>cp'. wrapping ''unable to create checkpoint'' (?put cp')))) c = (r, c')"
    by (simp add: updateCheckpoint_def)
  with assms(1) show ?thesis
  proof (cases rule: locked_cases)
    case (body c1 c2)
    obtain x c3 where g: "?get c1 = (x, c3)" by fastforce
    have c3: "blob c3 = blob c1" using manager_okD(4) [OF assms(1), of "load_checkpoint K" c1] g by simp
    show ?thesis
    proof (cases "\<exists>cp0 cp1. x = Inr cp0 \<and> f (ToLatestVersion cp0) = Inr cp1")
      case False
      then have "(\<exists>e. r = Inl e) \<and> blob c2 = blob c3"
        using body(2) g
        by (cases x; cases "f (ToLatestVersion (projr x))")
          (auto simp: seq_def wrapping_def lift_res_def split: prod.splits sum.splits elim: wrap_res.elims)
      with body c3 show ?thesis by auto
    next
      case True
      then obtain cp0 cp1 where x: "x = Inr cp0" and f: "f (ToLatestVersion cp0) = Inr cp1" by blast
      obtain y c4 where p: "?put cp1 c3 = (y, c4)" by fastforce
      have "r = wrap_res ''unable to create checkpoint'' y" "c2 = c4"
        using body(2) g x f p by (auto simp: seq_def wrapping_def lift_res_def)
      then show ?thesis
        using body c3 manager_create [OF assms(1) p] manager_get [OF assms(1), of "load_checkpoint K" c1] g x f
        by (cases y; cases "projl y") (auto simp: MarshalCheckpoint_sealed)
    qed
  qed simp
qed

interpretation checkpoint: claim_store legal_store file_contents store_fetch store_update
proof unfold_locales
  fix e :: "'c store_env" and c c' cp f x
  obtain M K blob where e: "e = (M, K, blob)" by (cases e)
  assume "legal_store e"
  then have M: "manager_ok M blob" and K: "codec_ok K" by (auto simp: legal_store_def e)
  show "file_contents e (snd (store_fetch e c)) = file_contents e c"
    using getCheckpoint_reads [OF M, of K c]
    by (cases "getCheckpoint M K c") (auto simp: e file_contents_def store_fetch_def)
  show "file_contents e c = Some (contents_of cp)" if "store_fetch e c = (Inr cp, c')"
    using getCheckpoint_reads [OF M, of K c "Inr cp" c'] that
    by (auto simp: e file_contents_def store_fetch_def)
  show "stored_contents x' = x'" if "file_contents e c = Some x'" for x'
    using that load_stored by (auto simp: e file_contents_def split: option.splits sum.splits)
  show "file_contents e c' = file_contents e c" if "store_update e f c = (Inl x, c')"
    using updateCheckpoint_cases [OF M, of K f c "Inl x" c'] that
    by (auto simp: e file_contents_def store_update_def)
  show "\<exists>cp0 cp1. file_contents e c = Some (contents_of cp0) \<and> f (ToLatestVersion cp0) = Inr cp1 \<and>
        file_contents e c' = Some (stored_contents (contents_of cp1))" if "store_update e f c = (Inr (), c')"
    using updateCheckpoint_cases [OF M, of K f c "Inr ()" c'] that
    by (auto simp: e file_contents_def store_update_def load_marshalled [OF K] contents_stored_sealed)
qed


section \<open>Versions and the boot ID\<close>

lemma createCheckpoint_cases:
  assumes "manager_ok M blob" and "createCheckpoint M K cp c = (r, c')"
  shows "case r of Inl _ \<Rightarrow> blob c' = blob c | Inr _ \<Rightarrow> blob c' = Some (enc_Checkpoint K (sealed K cp))"
proof -
  from assms(2) have "locked M (cm_create M DriverPluginCheckpointFileBasename (MarshalCheckpoint K cp)) c = (r, c')"
    by (simp add: createCheckpoint_def)
  with assms(1) show ?thesis
  proof (cases rule: locked_cases)
    case (body c1 c2)
    with manager_create [OF assms(1) body(2)] show ?thesis
      by (cases r) (auto simp: MarshalCheckpoint_sealed)
  qed simp
qed

lemma GetNodeBootID_latest: "GetNodeBootID (ToLatestVersion cp) = fst (contents_of cp)"
  by (simp add: GetNodeBootID_def ToLatestVersion_def contents_of_def)

lemma file_contents_marshalled:
  "codec_ok K \<Longrightarrow> blob c = Some (enc_Checkpoint K (sealed K cp)) \<Longrightarrow>
   file_contents (M, K, blob) c = Some (stored_contents (contents_of cp))"
  by (simp add: file_contents_def load_marshalled contents_stored_sealed)

lemma contents_fresh:
  "contents_of \<lparr>cp_Checksum = s, cp_V1 = None, cp_V2 = Some (empty_V2\<lparr>c2_NodeBootID := b\<rparr>)\<rparr> = (b, Map.empty)"
  by (simp add: contents_of_V2 empty_V2_def)

text \<open>What a start leaves in the file, by what it found.\<close>

definition after_init :: "string \<Rightarrow> contents option \<Rightarrow> contents" where
  "after_init b old =
     (case old of None \<Rightarrow> (b, Map.empty)
      | Some (b0, m) \<Rightarrow> if b0 = b \<or> b0 = '''' then (b, m) else (b, Map.empty))"


definition fresh_checkpoint :: "string \<Rightarrow> Checkpoint" where
  "fresh_checkpoint b =
     \<lparr>cp_Checksum = 0, cp_V1 = None, cp_V2 = Some (empty_V2\<lparr>c2_NodeBootID := b\<rparr>)\<rparr>"

lemma wrapping_cases:
  assumes "wrapping m a w = (r, w')"
  obtains x where "a w = (x, w')" "r = wrap_res m x" "isl r \<longleftrightarrow> isl x"
proof -
  obtain x where "a w = (x, w')" "r = wrap_res m x" using assms by (cases "a w") (auto simp: wrapping_def)
  moreover from this have "isl r \<longleftrightarrow> isl x" by (cases "(m, x)" rule: wrap_res.cases) auto
  ultimately show thesis using that by blast
qed

lemma fresh_written:
  assumes "legal_store (M, K, blob)"
    and "wrapping m (createCheckpoint M K (fresh_checkpoint b)) c = (r, c')"
  shows "file_contents (M, K, blob) c' = (if isl r then file_contents (M, K, blob) c else Some (b, Map.empty))"
proof -
  have M: "manager_ok M blob" and K: "codec_ok K" using assms(1) by (simp_all add: legal_store_def)
  from assms(2) obtain x where x: "createCheckpoint M K (fresh_checkpoint b) c = (x, c')" "isl r \<longleftrightarrow> isl x"
    by (rule wrapping_cases)
  from createCheckpoint_cases [OF M x(1)] x(2) show ?thesis
    by (cases x) (simp add: file_contents_def,
      simp add: file_contents_marshalled [OF K] fresh_checkpoint_def contents_fresh stored_contents_def)
qed

lemma boot_written:
  assumes "legal_store e" and "wrapping m (store_update e (set_boot b)) c = (r, c')"
    and "file_contents e c = Some (b0, cs)"
  shows "file_contents e c' = Some (if isl r then (b0, cs) else (b, cs))"
proof -
  from assms(2) obtain x where x: "store_update e (set_boot b) c = (x, c')" "isl r \<longleftrightarrow> isl x"
    by (rule wrapping_cases)
  then show ?thesis
    using checkpoint.update_fails [OF assms(1), of "set_boot b" c] checkpoint.set_boot_stores [OF assms(1), of b c c'] assms(3)
    by (cases x) auto
qed

text \<open>The two ways through \<open>initCheckpoint\<close>: there is no file yet, or the file is read.\<close>

lemma initCheckpoint_cases:
  assumes "legal_store (M, K, blob)" and "initCheckpoint M K b c = (r, c')"
  obtains (failed) "isl r" "file_contents (M, K, blob) c' = file_contents (M, K, blob) c"
  | (absent) c1 where "blob c = None" "file_contents (M, K, blob) c1 = file_contents (M, K, blob) c"
      "wrapping ''unable to create fresh checkpoint'' (createCheckpoint M K (fresh_checkpoint b)) c1 = (r, c')"
  | (present) c1 b0 cs where "blob c \<noteq> None"
      "file_contents (M, K, blob) c1 = file_contents (M, K, blob) c" "file_contents (M, K, blob) c = Some (b0, cs)"
      "(if b0 = b then ret ()
        else if b0 = '''' then wrapping ''unable to update checkpoint'' (store_update (M, K, blob) (set_boot b))
        else wrapping ''unable to create fresh checkpoint'' (createCheckpoint M K (fresh_checkpoint b))) c1 = (r, c')"
proof -
  let ?fc = "file_contents (M, K, blob)"
  have M: "manager_ok M blob" using assms(1) by (simp add: legal_store_def)
  obtain x c1 where l: "cm_list M c = (x, c1)" by fastforce
  have c1: "blob c1 = blob c" using manager_okD(3) [OF M, of c] l by simp
  obtain y c2 where g: "getCheckpoint M K c1 = (y, c2)" by fastforce
  note G = getCheckpoint_reads [OF M g]
  have same: "?fc c1 = ?fc c" "?fc c2 = ?fc c" using c1 G by (simp_all add: file_contents_def)
  note init = assms(2) [unfolded initCheckpoint_def Let_def, folded fresh_checkpoint_def]
  show thesis
  proof (cases x)
    case (Inl f)
    then have "isl r \<and> c' = c1" using init l by (cases f) (auto simp: seq_def wrapping_def)
    with same failed show thesis by simp
  next
    case (Inr ns)
    have here: "DriverPluginCheckpointFileBasename \<in> set ns \<longleftrightarrow> blob c \<noteq> None"
      using manager_list [OF M, of c ns c1] l Inr by simp
    show thesis
    proof (cases "blob c = None")
      case True
      with init l Inr here same show thesis
        by (intro absent [of c1]) (simp_all add: seq_def wrapping_def)
    next
      case there: False
      show thesis
      proof (cases y)
        case (Inl f)
        then have "isl r \<and> c' = c2"
          using init l \<open>x = Inr ns\<close> here there g by (cases f) (auto simp: seq_def wrapping_def)
        with same failed show thesis by simp
      next
        case cp: (Inr cp)
        obtain b0 cs where bm: "contents_of cp = (b0, cs)" by fastforce
        from G cp bm c1 have old: "?fc c = Some (b0, cs)" and boot: "GetNodeBootID cp = b0"
          by (auto simp: file_contents_def GetNodeBootID_latest)
        have "wrapping ''unable to list checkpoints'' (cm_list M) c = (Inr ns, c1)"
          "wrapping ''unable to get checkpoint'' (getCheckpoint M K) c1 = (Inr cp, c2)"
          using l Inr g cp by (simp_all add: wrapping_Inr)
        with init here there boot have "(if b0 = b then ret ()
            else if b0 = [] then wrapping ''unable to update checkpoint'' (store_update (M, K, blob) (set_boot b))
            else wrapping ''unable to create fresh checkpoint'' (createCheckpoint M K (fresh_checkpoint b))) c2 = (r, c')"
          by (simp add: seq_step store_update_def split: if_splits)
        then show thesis
          using there same(2) old present [of c2 b0 cs] by simp
      qed
    qed
  qed
qed

text \<open>The contents after a start.\<close>

lemma initCheckpoint_contents:
  assumes "legal_store (M, K, blob)" and "initCheckpoint M K b c = (r, c')"
  shows "file_contents (M, K, blob) c' =
    (if isl r then file_contents (M, K, blob) c
     else Some (after_init b (if blob c = None then None else file_contents (M, K, blob) c)))"
  using assms
proof (cases rule: initCheckpoint_cases)
  case (absent c1)
  with fresh_written [OF assms(1) absent(3)] show ?thesis by (simp add: after_init_def)
next
  case (present c1 b0 cs)
  with fresh_written [OF assms(1), of "''unable to create fresh checkpoint''" b c1 r c']
    boot_written [OF assms(1), of "''unable to update checkpoint''" b c1 r c' b0 cs]
  show ?thesis by (auto simp: after_init_def ret_def split: if_splits)
qed simp

text \<open>C26: At start the boot ID decides what becomes of the checkpoint: a missing file is created
  empty, claims survive when the stored boot ID is the current one or was never stored, and are
  dropped after a reboot. In each case the file then carries the current boot ID; a start that fails
  leaves the file's contents alone.\<close>

theorem boot_id_decides:
  assumes "legal_store (M, K, blob)" and "initCheckpoint M K b c = (r, c')"
  shows "file_contents (M, K, blob) c' =
    (if isl r then file_contents (M, K, blob) c
     else Some (after_init b (if blob c = None then None else file_contents (M, K, blob) c)))"
  using assms by (rule initCheckpoint_contents)


text \<open>Upgrading a V1 checkpoint marks every claim completed and loses nothing a V1 reader knew,
  so that downgrading it again gives it back; claims that have only been started are not downgraded; and
  converting to the latest version twice is converting once.\<close>

theorem version_roundtrip:
  "v1_PreparedClaims (V2_ToV1 (V1_ToV2 v1)) = Some (entries (v1_PreparedClaims v1)) \<and>
   list_all (\<lambda>(u, c). c_CheckpointState c = Completed) (entries (c2_PreparedClaims (V1_ToV2 v1))) \<and>
   map fst (entries (v1_PreparedClaims (V2_ToV1 v2))) =
     map fst (filter (\<lambda>(u, c). c_CheckpointState c = Completed) (entries (c2_PreparedClaims v2))) \<and>
   ToLatestVersion (ToLatestVersion cp) = ToLatestVersion cp"
proof (intro conjI)
  have "(\<lambda>x :: string \<times> PreparedClaimV1. (fst x,
      \<lparr>c1_Status = c1_Status (snd x), c1_PreparedDevices = c1_PreparedDevices (snd x)\<rparr>)) = (\<lambda>x. x)"
    by (simp add: fun_eq_iff)
  then show "v1_PreparedClaims (V2_ToV1 (V1_ToV2 v1)) = Some (entries (v1_PreparedClaims v1))"
    by (simp add: V2_ToV1_def V1_ToV2_def comp_def case_prod_unfold)
qed (auto simp: list_all_iff V2_ToV1_def V1_ToV2_def ToLatestVersion_def latest_V2_def Let_def comp_def
    case_prod_unfold split: option.splits)

end
