(* ===== verification/Partitions.thy ===== *)
theory Partitions
  imports Allocatable
begin

text \<open>
  Announcing partitionable GPUs (\<open>cmd/hami-kubelet-plugin/partitions.go\<close>, used with DynamicMIG):
  a full GPU publishes one counter set, with one counter per capacity and one per memory slice; the
  GPU consumes the whole set and each abstract MIG device its share. \<open>setMax\<close> and the walk over the
  MIG profiles (\<open>nvlib.go\<close>) that fill in the capacities of the GPU are here too.
\<close>

section \<open>Counters\<close>

definition intcap :: "int \<Rightarrow> device_capacity" where
  "intcap v = \<lparr>dc_Value = NewQuantity v BinarySI, dc_RequestPolicy = None\<rparr>"

definition memsliceCounterName :: "int \<Rightarrow> string" where
  "memsliceCounterName i = ''memory-slice-'' @ int_str i"

definition addCountersForMemSlices :: "counters \<Rightarrow> int \<Rightarrow> int \<Rightarrow> counters" where
  "addCountersForMemSlices cs start n =
     fold (\<lambda>i m. AList.update (memsliceCounterName i) (NewQuantity 1 BinarySI) m) (slice_indices start n) cs"

definition capacitiesToCounters :: "PartCapacityMap \<Rightarrow> counters" where
  "capacitiesToCounters m =
     fold (\<lambda>(name, cap) cs. AList.update (camelToDNSName name) (dc_Value cap) cs) m []"

section \<open>The full GPU\<close>

definition GetSharedCounterSetName :: "GpuInfo \<Rightarrow> string" where
  "GetSharedCounterSetName d = toRFC1123Compliant (Gpu_CanonicalName d @ ''-counter-set'')"

definition PartSharedCounterSets :: "GpuInfo \<Rightarrow> counter_set list" where
  "PartSharedCounterSets d =
     [\<lparr>cs_Name = GetSharedCounterSetName d,
       cs_Counters = addCountersForMemSlices (capacitiesToCounters (g_maxCapacities d)) 0 (g_memSliceCount d)\<rparr>]"

definition Gpu_PartConsumesCounters :: "GpuInfo \<Rightarrow> counter_set list" where
  "Gpu_PartConsumesCounters d =
     [\<lparr>cs_Name = GetSharedCounterSetName d,
       cs_Counters = addCountersForMemSlices (capacitiesToCounters (g_maxCapacities d)) 0 (g_memSliceCount d)\<rparr>]"

definition Gpu_PartGetDevice :: "(string \<Rightarrow> string option) \<Rightarrow> GpuInfo \<Rightarrow> api_device res" where
  "Gpu_PartGetDevice semver d =
     res_seq (PartDevAttributes semver d) (\<lambda>attrs.
     Inr \<lparr>d_Name = Gpu_CanonicalName d,
          d_Attributes = set_root_attr (g_pcieRootAttr d) attrs,
          d_Capacity = g_maxCapacities d,
          d_ConsumesCounters = Gpu_PartConsumesCounters d,
          d_AllowMultipleAllocations = None\<rparr>)"

section \<open>An abstract MIG device\<close>

definition MigSpec_PartCapacities :: "MigSpec \<Rightarrow> PartCapacityMap" where
  "MigSpec_PartCapacities i =
     (let p = sp_GIProfileInfo i in
      [(''multiprocessors'', intcap (uint (gip_MultiprocessorCount p))),
       (''copyEngines'', intcap (uint (gip_CopyEngineCount p))),
       (''decoders'', intcap (uint (gip_DecoderCount p))),
       (''encoders'', intcap (uint (gip_EncoderCount p))),
       (''jpegEngines'', intcap (uint (gip_JpegCount p))),
       (''ofaEngines'', intcap (uint (gip_OfaCount p))),
       (''memory'', intcap (sint (gip_MemorySizeMB p * 1024 * 1024)))])"

definition MigSpec_PartAttributes :: "(string \<Rightarrow> string option) \<Rightarrow> MigSpec \<Rightarrow> attributes res" where
  "MigSpec_PartAttributes semver i =
     (let p = sp_Parent i in
      res_seq (must_semver semver (g_cudaComputeCapability p)) (\<lambda>cc.
      res_seq (must_semver semver (g_driverVersion p)) (\<lambda>dv.
      res_seq (must_semver semver (g_cudaDriverVersion p)) (\<lambda>cdv.
      Inr [(''type'', StringValue ''mig''),
           (''parentUUID'', StringValue (g_UUID p)),
           (''profile'', StringValue (mp_String (sp_Profile i))),
           (''productName'', StringValue (g_productName p)),
           (''brand'', StringValue (g_brand p)),
           (''architecture'', StringValue (g_architecture p)),
           (''cudaComputeCapability'', VersionValue cc),
           (''driverVersion'', VersionValue dv),
           (''cudaDriverVersion'', VersionValue cdv),
           (pciBusIDAttrName, StringValue (g_pcieBusID p))]))))"

definition MigSpec_PartConsumesCounters :: "MigSpec \<Rightarrow> counter_set list" where
  "MigSpec_PartConsumesCounters i =
     [\<lparr>cs_Name = GetSharedCounterSetName (sp_Parent i),
       cs_Counters = addCountersForMemSlices (capacitiesToCounters (MigSpec_PartCapacities i))
         (uint (gp_Start (sp_Placement i))) (uint (gp_Size (sp_Placement i)))\<rparr>]"

definition MigSpec_PartGetDevice :: "(string \<Rightarrow> string option) \<Rightarrow> MigSpec \<Rightarrow> api_device res" where
  "MigSpec_PartGetDevice semver i =
     res_seq (MigSpec_PartAttributes semver i) (\<lambda>attrs.
     Inr \<lparr>d_Name = MigSpec_CanonicalName i, d_Attributes = attrs,
          d_Capacity = MigSpec_PartCapacities i,
          d_ConsumesCounters = MigSpec_PartConsumesCounters i,
          d_AllowMultipleAllocations = None\<rparr>)"

definition PartGetDevice :: "(string \<Rightarrow> string option) \<Rightarrow> AllocatableDevice \<Rightarrow> api_device res" where
  "PartGetDevice semver d =
     (case Type d of
        GpuDeviceType \<Rightarrow> res_seq (deref (ad_Gpu d)) (Gpu_PartGetDevice semver)
      | MigStaticDeviceType \<Rightarrow> Inl (Panicked ''PartGetDevice() called for MigStaticDeviceType'')
      | MigDynamicDeviceType \<Rightarrow> res_seq (deref (ad_MigDynamic d)) (MigSpec_PartGetDevice semver)
      | VfioDeviceType \<Rightarrow> Inl (Panicked ''not yet implemented'')
      | _ \<Rightarrow> unexpected_type)"

section \<open>What walking the MIG profiles adds to the GPU\<close>

definition setMax :: "QualifiedName \<Rightarrow> device_capacity \<Rightarrow> PartCapacityMap \<Rightarrow> PartCapacityMap" where
  "setMax k v m =
     (case map_of m k of
        Some cur \<Rightarrow> if q_value (dc_Value v) > q_value (dc_Value cur) then AList.update k v m else m
      | None \<Rightarrow> AList.update k v m)"

definition maxCapacities_of :: "MigSpec list \<Rightarrow> PartCapacityMap" where
  "maxCapacities_of infos =
     fold (\<lambda>mi m. fold (\<lambda>(k, v). setMax k v) (MigSpec_PartCapacities mi) m) infos []"

definition maxMemSlices_of :: "MigSpec list \<Rightarrow> int" where
  "maxMemSlices_of infos = fold (\<lambda>mi n. max n (uint (gp_Size (sp_Placement mi)))) infos 0"

section \<open>Looking up counters\<close>

definition counter :: "counters \<Rightarrow> string \<Rightarrow> int option" where
  "counter cs n = map_option q_value (map_of cs n)"

definition capacity :: "PartCapacityMap \<Rightarrow> QualifiedName \<Rightarrow> int option" where
  "capacity m k = map_option (\<lambda>c. q_value (dc_Value c)) (map_of m k)"

lemma memsliceCounterName_inject [simp]: "memsliceCounterName i = memsliceCounterName j \<longleftrightarrow> i = j"
  by (simp add: memsliceCounterName_def)

lemma counter_fold_slices:
  "counter (fold (\<lambda>i m. AList.update (memsliceCounterName i) (NewQuantity 1 BinarySI) m) is cs) n
   = (if n \<in> memsliceCounterName ` set is then Some 1 else counter cs n)"
proof (induction "is" arbitrary: cs)
  case Nil
  then show ?case by simp
next
  case (Cons i "is")
  have "counter (AList.update (memsliceCounterName i) (NewQuantity 1 BinarySI) cs) n
      = (if n = memsliceCounterName i then Some 1 else counter cs n)"
    by (simp add: counter_def AList.update_conv')
  with Cons show ?case by auto
qed

lemma counter_addSlices:
  "counter (addCountersForMemSlices cs start k) n
   = (if n \<in> memsliceCounterName ` {start..<start + k} then Some 1 else counter cs n)"
proof -
  have "set (slice_indices start k) = {start..<start + k}" by (auto simp: slice_indices_def)
  then show ?thesis by (simp add: addCountersForMemSlices_def counter_fold_slices)
qed

definition capacity_names :: "QualifiedName list" where
  "capacity_names = [''multiprocessors'', ''copyEngines'', ''decoders'', ''encoders'', ''jpegEngines'', ''ofaEngines'', ''memory'']"

lemma dns_names:
  "map camelToDNSName capacity_names =
     [''multiprocessors'', ''copy-engines'', ''decoders'', ''encoders'', ''jpeg-engines'', ''ofa-engines'', ''memory'']"
  by code_simp

lemmas dns_name_eqs = dns_names [unfolded capacity_names_def list.map list.inject]

lemma dns_not_slice:
  assumes "k \<in> set capacity_names"
  shows "camelToDNSName k \<noteq> memsliceCounterName i"
proof -
  have "camelToDNSName k \<in> set (map camelToDNSName capacity_names)" using assms by simp
  then show ?thesis unfolding dns_names by (auto simp: memsliceCounterName_def)
qed

lemma dns_inject:
  assumes "k \<in> set capacity_names" and "k' \<in> set capacity_names"
  shows "camelToDNSName k = camelToDNSName k' \<longleftrightarrow> k = k'"
proof -
  have "distinct (map camelToDNSName capacity_names)" unfolding dns_names by simp
  then have "inj_on camelToDNSName (set capacity_names)" by (simp only: distinct_map)
  with assms show ?thesis by (auto simp: inj_on_def)
qed

lemma fold_update_other:
  "n \<notin> f ` set (map fst m) \<Longrightarrow>
   map_of (fold (\<lambda>(k, c) cs. AList.update (f k) (h c) cs) m cs) n = map_of cs n"
  by (induction m arbitrary: cs) (auto simp: AList.update_conv')

lemma fold_update_entry:
  assumes "distinct (map fst m)" and "inj_on f (set (map fst m))" and "map_of m k = Some c"
  shows "map_of (fold (\<lambda>(k, c) cs. AList.update (f k) (h c) cs) m cs) (f k) = Some (h c)"
  using assms
proof (induction m arbitrary: cs)
  case Nil
  then show ?case by simp
next
  case (Cons e m)
  obtain k1 c1 where e: "e = (k1, c1)" by (cases e)
  show ?case
  proof (cases "k1 = k")
    case True
    then have "f k \<notin> f ` set (map fst m)" "c1 = c"
      using Cons.prems e by (auto simp: inj_on_def)
    with True e show ?thesis using fold_update_other [of "f k" f m h "AList.update (f k) (h c) cs"]
      by (simp add: AList.update_conv')
  next
    case False
    with Cons e show ?thesis by (auto simp: inj_on_def)
  qed
qed

text \<open>The capacities of the model: keys among the seven names, each once.\<close>

definition wf_caps :: "PartCapacityMap \<Rightarrow> bool" where
  "wf_caps m \<longleftrightarrow> distinct (map fst m) \<and> set (map fst m) \<subseteq> set capacity_names"

lemma wf_PartCapacities [simp]: "wf_caps (MigSpec_PartCapacities i)"
  by (simp add: wf_caps_def MigSpec_PartCapacities_def capacity_names_def Let_def)

lemma wf_setMax:
  assumes "wf_caps m" and "k \<in> set capacity_names"
  shows "wf_caps (setMax k v m)"
proof -
  have "set (map fst (AList.update k v m)) \<subseteq> set capacity_names"
    using set_alist_update [of k v m] assms by (fastforce simp: wf_caps_def)
  with assms show ?thesis
    by (auto simp: wf_caps_def setMax_def AList.distinct_update split: option.split)
qed

lemma counter_capacities:
  assumes "wf_caps m" and "k \<in> set capacity_names"
  shows "counter (capacitiesToCounters m) (camelToDNSName k) = capacity m k"
proof (cases "map_of m k")
  case None
  then have "k \<notin> set (map fst m)" by (simp add: map_of_eq_None_iff)
  moreover have "inj_on camelToDNSName (set capacity_names)"
    using dns_inject by (auto simp: inj_on_def)
  ultimately have "camelToDNSName k \<notin> camelToDNSName ` set (map fst m)"
    using assms inj_on_image_mem_iff [of camelToDNSName "set capacity_names" k "set (map fst m)"]
    by (simp add: wf_caps_def)
  from fold_update_other [OF this, of dc_Value "[]"] None show ?thesis
    by (simp add: counter_def capacity_def capacitiesToCounters_def)
next
  case (Some c)
  have "inj_on camelToDNSName (set (map fst m))"
    using assms(1) dns_inject by (auto simp: inj_on_def wf_caps_def)
  with assms(1) Some fold_update_entry [of m camelToDNSName k c dc_Value "[]"] show ?thesis
    by (simp add: counter_def capacity_def capacitiesToCounters_def wf_caps_def)
qed

lemma counter_capacities_domain:
  assumes "wf_caps m" and "counter (capacitiesToCounters m) n = Some v"
  shows "\<exists>k \<in> set capacity_names. n = camelToDNSName k \<and> capacity m k = Some v"
proof -
  have "n \<in> camelToDNSName ` set (map fst m)"
  proof (rule ccontr)
    assume "n \<notin> camelToDNSName ` set (map fst m)"
    from fold_update_other [OF this, of dc_Value "[]"] assms(2) show False
      by (simp add: counter_def capacitiesToCounters_def)
  qed
  then obtain k where "k \<in> set capacity_names" "n = camelToDNSName k"
    using assms(1) by (auto simp: wf_caps_def)
  with assms counter_capacities show ?thesis by auto
qed

lemma capacity_setMax:
  "capacity (setMax k v m) k' =
     (if k' = k then Some (case capacity m k of None \<Rightarrow> q_value (dc_Value v) | Some c \<Rightarrow> max c (q_value (dc_Value v)))
      else capacity m k')"
  by (auto simp: setMax_def capacity_def AList.update_conv' max_def split: option.split)

definition le_opt :: "int option \<Rightarrow> int option \<Rightarrow> bool" where
  "le_opt a b \<longleftrightarrow> (case a of None \<Rightarrow> True | Some x \<Rightarrow> (case b of None \<Rightarrow> False | Some y \<Rightarrow> x \<le> y))"

lemma le_opt_refl [simp]: "le_opt a a"
  by (simp add: le_opt_def split: option.split)

lemma le_opt_trans: "le_opt a b \<Longrightarrow> le_opt b c \<Longrightarrow> le_opt a c"
  by (auto simp: le_opt_def split: option.splits)

lemma setMax_grows: "le_opt (capacity m n) (capacity (setMax k v m) n)"
  by (auto simp: capacity_setMax le_opt_def split: option.split)

lemma fold_setMax_grows: "le_opt (capacity m n) (capacity (fold (\<lambda>(k, v). setMax k v) caps m) n)"
proof (induction caps arbitrary: m)
  case (Cons e caps)
  then show ?case using setMax_grows le_opt_trans by (cases e) (fastforce)
qed simp

lemma fold_setMax_covers:
  assumes "map_of caps n = Some c"
  shows "le_opt (Some (q_value (dc_Value c))) (capacity (fold (\<lambda>(k, v). setMax k v) caps m) n)"
  using assms
proof (induction caps arbitrary: m)
  case (Cons e caps)
  obtain k v where e: "e = (k, v)" by (cases e)
  show ?case
  proof (cases "k = n")
    case True
    then have "le_opt (Some (q_value (dc_Value c))) (capacity (setMax k v m) n)"
      using Cons.prems e by (auto simp: capacity_setMax le_opt_def split: option.split)
    then show ?thesis using e fold_setMax_grows le_opt_trans by fastforce
  next
    case False
    with Cons e show ?thesis by simp
  qed
qed simp

lemma fold_specs_grows:
  "le_opt (capacity m n) (capacity (fold (\<lambda>mi m. fold (\<lambda>(k, v). setMax k v) (MigSpec_PartCapacities mi) m) infos m) n)"
  by (induction infos arbitrary: m) (auto intro: le_opt_trans [OF fold_setMax_grows])

lemma maxCapacities_covers:
  assumes "mi \<in> set infos"
  shows "le_opt (capacity (MigSpec_PartCapacities mi) n) (capacity (maxCapacities_of infos) n)"
proof -
  have "le_opt (capacity (MigSpec_PartCapacities mi) n)
      (capacity (fold (\<lambda>mi m. fold (\<lambda>(k, v). setMax k v) (MigSpec_PartCapacities mi) m) infos m) n)" for m
    using assms
  proof (induction infos arbitrary: m)
    case (Cons i infos)
    show ?case
    proof (cases "mi = i")
      case True
      have "le_opt (capacity (MigSpec_PartCapacities mi) n)
          (capacity (fold (\<lambda>(k, v). setMax k v) (MigSpec_PartCapacities mi) m) n)"
        using fold_setMax_covers [of "MigSpec_PartCapacities mi" n _ m]
        by (cases "map_of (MigSpec_PartCapacities mi) n") (auto simp: capacity_def [of "MigSpec_PartCapacities mi"] le_opt_def)
      then show ?thesis using True fold_specs_grows le_opt_trans by fastforce
    next
      case False
      with Cons show ?thesis by simp
    qed
  qed simp
  then show ?thesis by (simp add: maxCapacities_of_def)
qed

lemma wf_fold_setMax:
  "wf_caps m \<Longrightarrow> set (map fst caps) \<subseteq> set capacity_names \<Longrightarrow> wf_caps (fold (\<lambda>(k, v). setMax k v) caps m)"
proof (induction caps arbitrary: m)
  case (Cons e caps)
  then have "wf_caps (setMax (fst e) (snd e) m)" by (intro wf_setMax) auto
  with Cons show ?case by (cases e) simp
qed simp

lemma wf_maxCapacities: "wf_caps (maxCapacities_of infos)"
proof -
  have step: "wf_caps (fold (\<lambda>(k, v). setMax k v) (MigSpec_PartCapacities mi) m)" if "wf_caps m" for mi m
    using that wf_PartCapacities [of mi] by (intro wf_fold_setMax) (simp_all add: wf_caps_def)
  have "wf_caps m \<Longrightarrow> wf_caps (fold (\<lambda>mi m. fold (\<lambda>(k, v). setMax k v) (MigSpec_PartCapacities mi) m) infos m)" for m
    by (induction infos arbitrary: m) (simp_all add: step)
  moreover have "wf_caps []" by (simp add: wf_caps_def)
  ultimately show ?thesis unfolding maxCapacities_of_def by blast
qed

section \<open>Partitions and their GPU\<close>

abbreviation consumed :: "counter_set list \<Rightarrow> string \<Rightarrow> int option" where
  "consumed css \<equiv> counter (cs_Counters (hd css))"

definition walked_gpu :: "GpuInfo \<Rightarrow> MigSpec list \<Rightarrow> GpuInfo" where
  "walked_gpu d infos = AddDetailAfterWalkingMigProfiles d (maxCapacities_of infos) (maxMemSlices_of infos)"

lemma shared_counter:
  "consumed (PartSharedCounterSets (walked_gpu d infos)) n =
     (if n \<in> memsliceCounterName ` {0..<maxMemSlices_of infos} then Some 1
      else counter (capacitiesToCounters (maxCapacities_of infos)) n)"
  by (simp add: PartSharedCounterSets_def walked_gpu_def AddDetailAfterWalkingMigProfiles_def counter_addSlices)

lemma mig_counter:
  "consumed (MigSpec_PartConsumesCounters mi) n =
     (if n \<in> memsliceCounterName ` {uint (gp_Start (sp_Placement mi))..<
          uint (gp_Start (sp_Placement mi)) + uint (gp_Size (sp_Placement mi))} then Some 1
      else counter (capacitiesToCounters (MigSpec_PartCapacities mi)) n)"
  by (simp add: MigSpec_PartConsumesCounters_def counter_addSlices)

lemma memslice_counter:
  "consumed (PartSharedCounterSets (walked_gpu d infos)) (memsliceCounterName i) = Some 1
     \<longleftrightarrow> 0 \<le> i \<and> i < maxMemSlices_of infos"
proof -
  have "counter (capacitiesToCounters (maxCapacities_of infos)) (memsliceCounterName i) \<noteq> Some 1"
    using counter_capacities_domain [OF wf_maxCapacities, of infos "memsliceCounterName i"] dns_not_slice by metis
  then show ?thesis by (auto simp: shared_counter)
qed


definition sample_spec :: "32 word \<Rightarrow> 32 word \<Rightarrow> MigSpec" where
  "sample_spec start n =
     \<lparr>sp_Parent = \<lparr>g_UUID = ''GPU-a'', g_minor = 0, g_migEnabled = True, g_vfioEnabled = False,
        g_memoryBytes = 0, g_productName = ''A100'', g_brand = ''Nvidia'', g_architecture = ''Ampere'',
        g_cudaComputeCapability = ''8.0'', g_driverVersion = ''570.0.0'', g_cudaDriverVersion = ''12.8'',
        g_pcieBusID = ''0000:01:00.0'', g_pcieRootAttr = None, g_migProfiles = [],
        g_addressingMode = None, g_health = Healthy, g_maxCapacities = [], g_memSliceCount = 0\<rparr>,
      sp_Profile = \<lparr>mp_String = ''1g.5gb'',
        mp_Info = \<lparr>pi_C = 1, pi_G = 1, pi_GIProfileID = 0, pi_CIProfileID = 0, pi_CIEngProfileID = 0\<rparr>\<rparr>,
      sp_GIProfileInfo = \<lparr>gip_Id = 19, gip_MultiprocessorCount = 14, gip_CopyEngineCount = 1,
        gip_DecoderCount = 0, gip_EncoderCount = 0, gip_JpegCount = 0, gip_OfaCount = 0,
        gip_MemorySizeMB = 4864\<rparr>,
      sp_Placement = \<lparr>gp_Start = start, gp_Size = n\<rparr>\<rparr>"




end
