(* ===== verification/FeatureGates.thy ===== *)
theory FeatureGates
  imports Prelude "HOL-Library.Product_Lexorder"
begin

text \<open>
  Feature gates (\<open>pkg/featuregates/featuregates.go\<close>): the features with their specifications, the
  construction of the registry, and the check of the gates at start. The registry itself is a library of
  Kubernetes, given by its operations (\<open>gate_registry\<close>). The other theories take what they ask of
  it, \<open>Enabled\<close>, a function from features to booleans, as an argument.
\<close>

section \<open>The features and their specifications\<close>

datatype feature =
    HAMiCoreSupport
  | TimeSlicingSettings
  | MPSSupport
  | IMEXDaemonsWithDNSNames
  | PassthroughSupport
  | NVMLDeviceHealthCheck
  | DynamicMIG
  | ComputeDomainCliques
  | CrashOnNVLinkFabricErrors

type_synonym gates = "feature \<Rightarrow> bool"

fun feature_name :: "feature \<Rightarrow> string" where
  "feature_name HAMiCoreSupport = ''HAMiCoreSupport''"
| "feature_name TimeSlicingSettings = ''TimeSlicingSettings''"
| "feature_name MPSSupport = ''MPSSupport''"
| "feature_name IMEXDaemonsWithDNSNames = ''IMEXDaemonsWithDNSNames''"
| "feature_name PassthroughSupport = ''PassthroughSupport''"
| "feature_name NVMLDeviceHealthCheck = ''NVMLDeviceHealthCheck''"
| "feature_name DynamicMIG = ''DynamicMIG''"
| "feature_name ComputeDomainCliques = ''ComputeDomainCliques''"
| "feature_name CrashOnNVLinkFabricErrors = ''CrashOnNVLinkFabricErrors''"

text \<open>A version is its major and minor number.\<close>

type_synonym version = "nat \<times> nat"

datatype prerelease = Alpha | Beta

record feature_spec =
  fs_Default :: bool
  fs_PreRelease :: prerelease
  fs_Version :: version

definition defaultSpecs :: "(feature \<times> feature_spec) list" where
  "defaultSpecs =
     [(HAMiCoreSupport, \<lparr>fs_Default = True, fs_PreRelease = Alpha, fs_Version = (25, 8)\<rparr>),
      (TimeSlicingSettings, \<lparr>fs_Default = False, fs_PreRelease = Alpha, fs_Version = (25, 8)\<rparr>),
      (MPSSupport, \<lparr>fs_Default = False, fs_PreRelease = Alpha, fs_Version = (25, 8)\<rparr>),
      (IMEXDaemonsWithDNSNames, \<lparr>fs_Default = True, fs_PreRelease = Beta, fs_Version = (25, 8)\<rparr>),
      (PassthroughSupport, \<lparr>fs_Default = False, fs_PreRelease = Alpha, fs_Version = (25, 12)\<rparr>),
      (DynamicMIG, \<lparr>fs_Default = False, fs_PreRelease = Alpha, fs_Version = (25, 12)\<rparr>),
      (NVMLDeviceHealthCheck, \<lparr>fs_Default = False, fs_PreRelease = Alpha, fs_Version = (25, 12)\<rparr>),
      (ComputeDomainCliques, \<lparr>fs_Default = False, fs_PreRelease = Beta, fs_Version = (25, 12)\<rparr>),
      (CrashOnNVLinkFabricErrors, \<lparr>fs_Default = True, fs_PreRelease = Beta, fs_Version = (25, 12)\<rparr>)]"

definition defaultFeatureGates :: gates where
  "defaultFeatureGates f = (case map_of defaultSpecs f of Some s \<Rightarrow> fs_Default s | None \<Rightarrow> False)"

lemma defaultFeatureGates_simps [simp]:
  "defaultFeatureGates HAMiCoreSupport" "\<not> defaultFeatureGates TimeSlicingSettings"
  "\<not> defaultFeatureGates MPSSupport" "defaultFeatureGates IMEXDaemonsWithDNSNames"
  "\<not> defaultFeatureGates PassthroughSupport" "\<not> defaultFeatureGates DynamicMIG"
  "\<not> defaultFeatureGates NVMLDeviceHealthCheck" "\<not> defaultFeatureGates ComputeDomainCliques"
  "defaultFeatureGates CrashOnNVLinkFabricErrors"
  by (simp_all add: defaultFeatureGates_def defaultSpecs_def)

section \<open>The registry\<close>

record 'g gate_registry =
  gr_New :: "version \<Rightarrow> 'g"
  gr_AddLogging :: "'g \<Rightarrow> err + 'g"
  gr_AddVersioned :: "(string \<times> feature_spec) list \<Rightarrow> 'g \<Rightarrow> err + 'g"
  gr_SetFromMap :: "(string \<times> bool) list \<Rightarrow> 'g \<Rightarrow> err + 'g"
  gr_Enabled :: "'g \<Rightarrow> string \<Rightarrow> bool"
  gr_GetAll :: "'g \<Rightarrow> string list"

text \<open>\<open>utilruntime.Must\<close> panics on an error.\<close>

fun Must :: "err + 'a \<Rightarrow> 'a res" where
  "Must (Inl e) = Inl (Panicked ''Must'')"
| "Must (Inr x) = Inr x"

definition newFeatureGates :: "'g gate_registry \<Rightarrow> version \<Rightarrow> 'g res" where
  "newFeatureGates R v =
     res_seq (Must (gr_AddLogging R (gr_New R v))) (\<lambda>fg.
     res_seq (Must (gr_AddVersioned R (map (\<lambda>(f, s). (feature_name f, s)) defaultSpecs) fg)) (\<lambda>fg.
     Must (gr_SetFromMap R [(''ContextualLogging'', True)] fg)))"

text \<open>\<open>parse\<close> is the version library; \<open>MustParse\<close> panics on what it rejects.\<close>

definition parseProjectVersion :: "(string \<Rightarrow> err + version) \<Rightarrow> string \<Rightarrow> version res" where
  "parseProjectVersion parse nvversion =
     Must (parse (case nvversion of CHR ''v'' # s \<Rightarrow> s | s \<Rightarrow> s))"

text \<open>The singleton: the package variable is the state.\<close>

definition FeatureGates ::
    "'g gate_registry \<Rightarrow> (string \<Rightarrow> err + version) \<Rightarrow> string \<Rightarrow> ('g option, 'g) act" where
  "FeatureGates R parse nvversion =
     seq (gets id) (\<lambda>featureGates.
     case featureGates of
       Some fg \<Rightarrow> ret fg
     | None \<Rightarrow>
         seq (lift_res (parseProjectVersion parse nvversion)) (\<lambda>v.
         seq (lift_res (newFeatureGates R v)) (\<lambda>fg.
         seq (modify (\<lambda>_. Some fg)) (\<lambda>_. ret fg))))"

definition gate_Enabled ::
    "'g gate_registry \<Rightarrow> (string \<Rightarrow> err + version) \<Rightarrow> string \<Rightarrow> feature \<Rightarrow> ('g option, bool) act" where
  "gate_Enabled R parse nvversion f =
     seq (FeatureGates R parse nvversion) (\<lambda>fg. ret (gr_Enabled R fg (feature_name f)))"

definition registry_map :: "'g gate_registry \<Rightarrow> (string \<Rightarrow> err + version) \<Rightarrow> string \<Rightarrow> ('g option, (string \<times> bool) list) act" where
  "registry_map R parse nvversion =
     seq (FeatureGates R parse nvversion) (\<lambda>fg. ret (map (\<lambda>f. (f, gr_Enabled R fg f)) (gr_GetAll R fg)))"

text \<open>The same for gates given as a function, as the templates of the other theories use it.\<close>

definition ToMap :: "gates \<Rightarrow> feature list \<Rightarrow> (feature \<times> bool) list" where
  "ToMap Enabled known = map (\<lambda>f. (f, Enabled f)) known"

text \<open>The registry is made once: later calls find the first one.\<close>

lemma FeatureGates_once:
  "FeatureGates R parse nvversion None = (Inr fg, st) \<Longrightarrow>
     st = Some fg \<and> FeatureGates R parse' nvversion' st = (Inr fg, st)"
  by (auto simp: FeatureGates_def act_defs split: prod.splits sum.splits)

text \<open>What the registry documents of a feature nobody has set: it has its default from the version of its
  specification on, and is off before.\<close>

definition default_at :: "version \<Rightarrow> gates" where
  "default_at v f = (case map_of defaultSpecs f of Some s \<Rightarrow> fs_Version s \<le> v \<and> fs_Default s | None \<Rightarrow> False)"

definition registry_ok :: "'g gate_registry \<Rightarrow> bool" where
  "registry_ok R \<longleftrightarrow> (\<forall>v fg. newFeatureGates R v = Inr fg \<longrightarrow>
     (\<forall>f. gr_Enabled R fg (feature_name f) = default_at v f))"

section \<open>Validation\<close>

definition ValidateFeatureGates :: "gates \<Rightarrow> err option" where
  "ValidateFeatureGates Enabled =
     (if Enabled HAMiCoreSupport \<and> Enabled TimeSlicingSettings then Some (Err ''HAMiCoreSupport is mutually exclusive with TimeSlicingSettings'')
      else if Enabled HAMiCoreSupport \<and> Enabled MPSSupport then Some (Err ''HAMiCoreSupport is mutually exclusive with MPSSupport'')
      else if Enabled HAMiCoreSupport \<and> Enabled PassthroughSupport then Some (Err ''HAMiCoreSupport is mutually exclusive with PassthroughSupport'')
      else if Enabled HAMiCoreSupport \<and> Enabled DynamicMIG then Some (Err ''HAMiCoreSupport is mutually exclusive with DynamicMIG'')
      else if Enabled HAMiCoreSupport \<and> Enabled ComputeDomainCliques then Some (Err ''HAMiCoreSupport is mutually exclusive with ComputeDomainCliques'')
      else if Enabled ComputeDomainCliques \<and> \<not> Enabled IMEXDaemonsWithDNSNames then Some (Err ''ComputeDomainCliques requires IMEXDaemonsWithDNSNames'')
      else if Enabled DynamicMIG \<and> Enabled PassthroughSupport then Some (Err ''DynamicMIG is mutually exclusive with PassthroughSupport'')
      else if Enabled DynamicMIG \<and> Enabled NVMLDeviceHealthCheck then Some (Err ''DynamicMIG is mutually exclusive with NVMLDeviceHealthCheck'')
      else if Enabled DynamicMIG \<and> Enabled MPSSupport then Some (Err ''DynamicMIG is mutually exclusive with MPSSupport'')
      else None)"

text \<open>What a start with valid gates may rely on.\<close>

definition exclusive :: "gates \<Rightarrow> feature \<Rightarrow> feature list \<Rightarrow> bool" where
  "exclusive Enabled f gs \<longleftrightarrow> (\<not> Enabled f \<or> list_all (\<lambda>g. \<not> Enabled g) gs)"

definition requires :: "gates \<Rightarrow> feature \<Rightarrow> feature \<Rightarrow> bool" where
  "requires Enabled f g \<longleftrightarrow> (\<not> Enabled f \<or> Enabled g)"

lemma valid_gates:
  "ValidateFeatureGates Enabled = None \<longleftrightarrow>
     exclusive Enabled HAMiCoreSupport
       [TimeSlicingSettings, MPSSupport, PassthroughSupport, DynamicMIG, ComputeDomainCliques] \<and>
     exclusive Enabled DynamicMIG [PassthroughSupport, NVMLDeviceHealthCheck, MPSSupport] \<and>
     requires Enabled ComputeDomainCliques IMEXDaemonsWithDNSNames"
  by (auto simp: ValidateFeatureGates_def exclusive_def requires_def)

lemma valid_gatesD:
  assumes "ValidateFeatureGates Enabled = None" and "Enabled HAMiCoreSupport"
  shows "\<not> Enabled TimeSlicingSettings" "\<not> Enabled MPSSupport" "\<not> Enabled PassthroughSupport"
    "\<not> Enabled DynamicMIG"
  using assms by (auto simp: valid_gates exclusive_def)


text \<open>The default gates start, and the gates a start accepts are exactly those where HAMi-Core
  excludes time slicing, MPS, passthrough, dynamic MIG and compute domain cliques, dynamic MIG excludes passthrough, NVML
  health checks and MPS, and compute domain cliques come with DNS names.\<close>

theorem feature_gates_checked:
  "ValidateFeatureGates defaultFeatureGates = None \<and>
   (ValidateFeatureGates Enabled = None) =
     (exclusive Enabled HAMiCoreSupport
       [TimeSlicingSettings, MPSSupport, PassthroughSupport, DynamicMIG, ComputeDomainCliques] \<and>
     exclusive Enabled DynamicMIG [PassthroughSupport, NVMLDeviceHealthCheck, MPSSupport] \<and>
     requires Enabled ComputeDomainCliques IMEXDaemonsWithDNSNames)"
  by (auto simp: valid_gates exclusive_def requires_def)

text \<open>A plugin started without gates passes the check, whatever its version.\<close>

lemma unset_gates_valid:
  assumes "registry_ok R" and "FeatureGates R parse nvversion None = (Inr fg, st)"
  shows "ValidateFeatureGates (\<lambda>f. gr_Enabled R fg (feature_name f)) = None"
proof -
  obtain v where "newFeatureGates R v = Inr fg"
    using assms(2) by (auto simp: FeatureGates_def act_defs split: prod.splits sum.splits)
  then have "gr_Enabled R fg (feature_name f) = default_at v f" for f
    using assms(1) unfolding registry_ok_def by blast
  then show ?thesis by (auto simp: valid_gates exclusive_def requires_def default_at_def defaultSpecs_def)
qed

end
