(* ===== verification/NvLib.thy ===== *)
theory NvLib
  imports Partitions FeatureGates "HOL-Library.Signed_Division"
begin

text \<open>
  The device library (\<open>cmd/hami-kubelet-plugin/nvlib.go\<close>): sessions with NVML, the cache of device
  handles, the description of a GPU and its MIG devices, and creating, deleting and finding MIG
  devices. NVML, go-nvlib, nvpci, nvidia-smi and the PCIe attribute helper are fields of a record over
  a hardware state \<open>'n\<close>; a call returns \<open>Inl r\<close> for a return code other than \<open>SUCCESS\<close>. What
  \<open>VisitDevices\<close> and \<open>VisitMigProfiles\<close> present to their callback, in order, is a list whose
  elements may be an error that ends the visit.

  \<open>GpuInfo\<close> is a pointer in the code. The only fields written after it has been shared are
  \<open>maxCapacities\<close>, \<open>memSliceCount\<close>, \<open>vfioEnabled\<close> and \<open>health\<close>; the model writes them before the
  value is copied into the structures that read them.
\<close>

section \<open>The libraries\<close>

type_synonym handle = nat
type_synonym ('n, 'a) nvcall = "'n \<Rightarrow> (nvml_return + 'a) \<times> 'n"

record pci_device =
  pci_Address :: string
  pci_DeviceName :: string
  pci_Device :: nat
  pci_Vendor :: nat
  pci_NumaNode :: int
  pci_IommuGroup :: int
  pci_TotalAddressableMemory :: "64 word"

record 'n nvml =
  nv_Init :: "('n, unit) nvcall"
  nv_Shutdown :: "('n, unit) nvcall"
  nv_VisitDevices :: "'n \<Rightarrow> (err + int \<times> handle) list \<times> 'n"
  nv_GetMinorNumber :: "handle \<Rightarrow> ('n, int) nvcall"
  nv_GetUUID :: "handle \<Rightarrow> ('n, string) nvcall"
  nv_IsMigEnabled :: "handle \<Rightarrow> ('n, bool) act"
  nv_GetMemoryTotal :: "handle \<Rightarrow> ('n, 64 word) nvcall"
  nv_GetName :: "handle \<Rightarrow> ('n, string) nvcall"
  nv_GetArchitectureAsString :: "handle \<Rightarrow> ('n, string) act"
  nv_GetBrandAsString :: "handle \<Rightarrow> ('n, string) act"
  nv_GetCudaComputeCapabilityAsString :: "handle \<Rightarrow> ('n, string) act"
  nv_SystemGetDriverVersion :: "('n, string) nvcall"
  nv_SystemGetCudaDriverVersion :: "('n, int) nvcall"
  nv_GetPCIBusID :: "handle \<Rightarrow> ('n, string) act"
  nv_addressingModeAvailable :: bool
  nv_GetAddressingModeAsString :: "handle \<Rightarrow> ('n, string) act"
  nv_GetPCIeRootAttributeByPCIBusID :: "string \<Rightarrow> ('n, QualifiedName \<times> device_attribute) act"
  nv_GPU_INSTANCE_PROFILE_COUNT :: nat
  nv_COMPUTE_INSTANCE_PROFILE_COUNT :: nat
  nv_COMPUTE_INSTANCE_ENGINE_PROFILE_COUNT :: nat
  nv_COMPUTE_INSTANCE_PROFILE_1_SLICE_REV1 :: int
  nv_GetGpuInstanceProfileInfo :: "handle \<Rightarrow> int \<Rightarrow> ('n, gi_profile_info) nvcall"
  nv_GetGpuInstancePossiblePlacements :: "handle \<Rightarrow> gi_profile_info \<Rightarrow> ('n, gi_placement list) nvcall"
  nv_NewMigProfile :: "int \<Rightarrow> int \<Rightarrow> int \<Rightarrow> 64 word \<Rightarrow> 64 word \<Rightarrow> ('n, mig_profile) act"
  nv_VisitMigProfiles :: "handle \<Rightarrow> 'n \<Rightarrow> (err + mig_profile) list \<times> 'n"
  nv_DeviceGetHandleByUUID :: "string \<Rightarrow> ('n, handle) nvcall"
  nv_NewDevice :: "handle \<Rightarrow> ('n, handle) act"
  nv_SetMigMode :: "handle \<Rightarrow> bool \<Rightarrow> ('n, unit) nvcall"
  nv_CreateGpuInstanceWithPlacement :: "handle \<Rightarrow> gi_profile_info \<Rightarrow> gi_placement \<Rightarrow> ('n, handle) nvcall"
  nv_GetGpuInstanceById :: "handle \<Rightarrow> int \<Rightarrow> ('n, handle) nvcall"
  nv_GI_GetInfo :: "handle \<Rightarrow> ('n, gi_info) nvcall"
  nv_GI_Destroy :: "handle \<Rightarrow> ('n, unit) nvcall"
  nv_GI_GetComputeInstanceProfileInfo :: "handle \<Rightarrow> int \<Rightarrow> int \<Rightarrow> ('n, ci_profile_info) nvcall"
  nv_GI_CreateComputeInstance :: "handle \<Rightarrow> ci_profile_info \<Rightarrow> ('n, handle) nvcall"
  nv_GI_GetComputeInstanceById :: "handle \<Rightarrow> int \<Rightarrow> ('n, handle) nvcall"
  nv_CI_GetInfo :: "handle \<Rightarrow> ('n, ci_info \<times> handle) nvcall"
  nv_CI_Destroy :: "handle \<Rightarrow> ('n, unit) nvcall"
  nv_GetMaxMigDeviceCount :: "handle \<Rightarrow> ('n, nat) nvcall"
  nv_GetMigDeviceHandleByIndex :: "handle \<Rightarrow> nat \<Rightarrow> ('n, handle) nvcall"
  nv_GetGpuInstanceId :: "handle \<Rightarrow> ('n, int) nvcall"
  nv_GetComputeInstanceId :: "handle \<Rightarrow> ('n, int) nvcall"
  nv_exec :: "string \<Rightarrow> string list \<Rightarrow> string list \<Rightarrow> ('n, unit) act"
  pci_GetGPUs :: "('n, pci_device list) act"
  uuid_NewSHA1 :: "string \<Rightarrow> string"

text \<open>The maps of \<open>deviceLib\<close> and the hardware behind it; its constant fields.\<close>

record 'n lib =
  lb_hw :: 'n
  lb_gpuInfosByUUID :: "(string \<times> GpuInfo) list"
  lb_gpuUUIDbyMinor :: "(GPUMinor \<times> string) list"
  lb_devhandleByUUID :: "(string \<times> handle) list"

record deviceLib =
  dl_driverLibraryPath :: string
  dl_nvidiaSMIPath :: string
  dl_environ :: "string list"
  dl_LD_PRELOAD :: string

abbreviation in_hw :: "('n, 'a) act \<Rightarrow> ('n lib, 'a) act" where
  "in_hw \<equiv> on lb_hw (\<lambda>n. lb_hw_update (\<lambda>_. n))"

definition nv :: "('n, 'a) nvcall \<Rightarrow> ('n lib, nvml_return + 'a) act" where
  "nv c = (\<lambda>l. case c (lb_hw l) of (x, n) \<Rightarrow> (Inr x, l\<lparr>lb_hw := n\<rparr>))"

definition need :: "string \<Rightarrow> ('n, 'a) nvcall \<Rightarrow> ('n lib, 'a) act" where
  "need msg c = seq (nv c) (\<lambda>r. case r of Inl _ \<Rightarrow> throw (Err msg) | Inr x \<Rightarrow> ret x)"

definition entry_act :: "err + 'a \<Rightarrow> ('w, 'a) act" where
  "entry_act e = (case e of Inl x \<Rightarrow> throw x | Inr y \<Rightarrow> ret y)"

fun fold_act :: "('a \<Rightarrow> 'b \<Rightarrow> ('w, 'b) act) \<Rightarrow> 'a list \<Rightarrow> 'b \<Rightarrow> ('w, 'b) act" where
  "fold_act f [] acc = ret acc"
| "fold_act f (x # xs) acc = seq (f x acc) (\<lambda>acc'. fold_act f xs acc')"

definition VisitDevices :: "'n nvml \<Rightarrow> (int \<Rightarrow> handle \<Rightarrow> 'b \<Rightarrow> ('n lib, 'b) act) \<Rightarrow> 'b \<Rightarrow> ('n lib, 'b) act" where
  "VisitDevices V f acc =
     seq (in_hw (\<lambda>n. case nv_VisitDevices V n of (ds, n') \<Rightarrow> (Inr ds, n')))
       (\<lambda>ds. fold_act (\<lambda>e b. seq (entry_act e) (\<lambda>(i, d). f i d b)) ds acc)"

section \<open>Sessions and handles\<close>

definition lib_Init :: "'n nvml \<Rightarrow> ('n lib, unit) act" where
  "lib_Init V = need ''error initializing NVML'' (nv_Init V)"

definition alwaysShutdown :: "'n nvml \<Rightarrow> 'n lib \<Rightarrow> 'n lib" where
  "alwaysShutdown V l = snd (nv (nv_Shutdown V) l)"

definition deferring :: "('w \<Rightarrow> 'w) \<Rightarrow> ('w, 'a) act \<Rightarrow> ('w, 'a) act" where
  "deferring f m = (\<lambda>w. apsnd f (m w))"

lemma deferring_result: "deferring f a w = (r, w') \<longleftrightarrow> (\<exists>w1. a w = (r, w1) \<and> w' = f w1)"
  by (cases "a w") (auto simp: deferring_def)

text \<open>\<open>ensureNVML\<close> with the deferred shutdown of its callers: a noop when DynamicMIG keeps one session
  open, else a session around the body.\<close>

definition ensureNVML ::
    "'n nvml \<Rightarrow> gates \<Rightarrow> (nvml_return \<Rightarrow> ('n lib, 'a) act) \<Rightarrow> ('n lib, 'a) act \<Rightarrow> ('n lib, 'a) act" where
  "ensureNVML V Enabled fails body =
     (if Enabled DynamicMIG then body
      else seq (nv (nv_Init V)) (\<lambda>r. case r of Inl e \<Rightarrow> fails e | Inr _ \<Rightarrow> deferring (alwaysShutdown V) body))"

definition DeviceGetHandleByUUID ::
    "'n nvml \<Rightarrow> gates \<Rightarrow> string \<Rightarrow> ('n lib, nvml_return + handle) act" where
  "DeviceGetHandleByUUID V Enabled uuid =
     ensureNVML V Enabled (\<lambda>r. ret (Inl r))
       (if \<not> Enabled DynamicMIG then nv (nv_DeviceGetHandleByUUID V uuid)
        else seq (gets (\<lambda>l. map_of (lb_devhandleByUUID l) uuid)) (\<lambda>c.
             case c of
               Some dev \<Rightarrow> ret (Inr dev)
             | None \<Rightarrow>
                 seq (nv (nv_DeviceGetHandleByUUID V uuid)) (\<lambda>r.
                 case r of
                   Inl e \<Rightarrow> ret (Inl e)
                 | Inr dev \<Rightarrow>
                     seq (modify (lb_devhandleByUUID_update (AList.update uuid dev))) (\<lambda>_. ret (Inr dev)))))"

definition handle_of :: "'n nvml \<Rightarrow> gates \<Rightarrow> string \<Rightarrow> string \<Rightarrow> ('n lib, handle) act" where
  "handle_of V Enabled msg uuid =
     seq (DeviceGetHandleByUUID V Enabled uuid)
       (\<lambda>r. case r of Inl _ \<Rightarrow> throw (Err msg) | Inr d \<Rightarrow> ret d)"

section \<open>The description of a GPU\<close>

text \<open>The two return codes that mean: this profile does not exist here, go on with the next.\<close>

definition skipped :: "nvml_return \<Rightarrow> bool" where
  "skipped r \<longleftrightarrow> r = ERROR_NOT_SUPPORTED \<or> r = ERROR_INVALID_ARGUMENT"

definition gi_profiles_at ::
    "'n nvml \<Rightarrow> handle \<Rightarrow> 64 word \<Rightarrow> nat \<Rightarrow> ('n lib, MigProfileInfo list) act" where
  "gi_profiles_at V device memTotal i =
     seq (nv (nv_GetGpuInstanceProfileInfo V device (int i))) (\<lambda>r.
     case r of
       Inl e \<Rightarrow> if skipped e then ret [] else throw (Err ''error retrieving GpuInstanceProfileInfo'')
     | Inr gip \<Rightarrow>
         seq (nv (nv_GetGpuInstancePossiblePlacements V device gip)) (\<lambda>r.
         case r of
           Inl e \<Rightarrow> if skipped e then ret [] else throw (Err ''error retrieving GpuInstancePossiblePlacements'')
         | Inr placements \<Rightarrow>
             seq (collect (\<lambda>(j, k). hiding ''error building MIG profile from GpuInstanceProfileInfo''
                    (in_hw (nv_NewMigProfile V (int i) (int j) (int k) (gip_MemorySizeMB gip) memTotal)))
                  (List.product [0..<nv_COMPUTE_INSTANCE_PROFILE_COUNT V]
                     [0..<nv_COMPUTE_INSTANCE_ENGINE_PROFILE_COUNT V]))
               (\<lambda>ps. ret (map (\<lambda>p. \<lparr>mpi_profile = p, mpi_placements = placements\<rparr>)
                        (filter (\<lambda>p. pi_G (mp_Info p) = pi_C (mp_Info p)) ps)))))"

definition getGpuInfo :: "'n nvml \<Rightarrow> int \<Rightarrow> handle \<Rightarrow> ('n lib, GpuInfo) act" where
  "getGpuInfo V index device =
     seq (need ''error getting minor number'' (nv_GetMinorNumber V device)) (\<lambda>minor.
     seq (need ''error getting UUID'' (nv_GetUUID V device)) (\<lambda>uuid.
     seq (wrapping ''error checking if MIG mode enabled'' (in_hw (nv_IsMigEnabled V device))) (\<lambda>migEnabled.
     seq (need ''error getting memory info'' (nv_GetMemoryTotal V device)) (\<lambda>memTotal.
     seq (need ''error getting product name'' (nv_GetName V device)) (\<lambda>productName.
     seq (wrapping ''error getting architecture'' (in_hw (nv_GetArchitectureAsString V device))) (\<lambda>architecture.
     seq (wrapping ''error getting brand'' (in_hw (nv_GetBrandAsString V device))) (\<lambda>brand.
     seq (wrapping ''error getting CUDA compute capability''
           (in_hw (nv_GetCudaComputeCapabilityAsString V device))) (\<lambda>cc.
     seq (need ''error getting driver version'' (nv_SystemGetDriverVersion V)) (\<lambda>driverVersion.
     seq (need ''error getting CUDA driver version'' (nv_SystemGetCudaDriverVersion V)) (\<lambda>cudaVersion.
     seq (wrapping ''error getting PCIe bus ID'' (in_hw (nv_GetPCIBusID V device))) (\<lambda>pcieBusID.
     seq (if nv_addressingModeAvailable V
          then seq (attempt (in_hw (nv_GetAddressingModeAsString V device)))
                 (\<lambda>r. ret (case r of Inr m \<Rightarrow> if m \<noteq> '''' then Some m else None | Inl _ \<Rightarrow> None))
          else ret None) (\<lambda>addressingMode.
     seq (attempt (in_hw (nv_GetPCIeRootAttributeByPCIBusID V pcieBusID))) (\<lambda>rootAttr.
     seq (collect (gi_profiles_at V device memTotal) [0..<nv_GPU_INSTANCE_PROFILE_COUNT V]) (\<lambda>pss.
     ret \<lparr>g_UUID = uuid, g_minor = minor, g_migEnabled = migEnabled, g_vfioEnabled = False,
          g_memoryBytes = memTotal, g_productName = productName, g_brand = brand,
          g_architecture = architecture, g_cudaComputeCapability = cc, g_driverVersion = driverVersion,
          g_cudaDriverVersion = int_str (cudaVersion sdiv 1000) @ ''.'' @ int_str ((cudaVersion smod 1000) sdiv 10),
          g_pcieBusID = pcieBusID,
          g_pcieRootAttr = (case rootAttr of Inr a \<Rightarrow> Some a | Inl _ \<Rightarrow> None),
          g_migProfiles = concat pss, g_addressingMode = addressingMode, g_health = Healthy,
          g_maxCapacities = [], g_memSliceCount = 0\<rparr>))))))))))))))"

section \<open>The MIG devices of a GPU\<close>

text \<open>The last profile that matches wins; a profile NVML has no information on is passed over.\<close>

definition matching_profile ::
    "'n nvml \<Rightarrow> handle \<Rightarrow> handle \<Rightarrow> gi_info \<Rightarrow> ci_info \<Rightarrow> MigProfileInfo list \<Rightarrow>
     ('n lib, (MigProfileInfo \<times> gi_profile_info \<times> ci_profile_info) option) act" where
  "matching_profile V device gi giInfo ciInfo profiles =
     fold_act (\<lambda>profile found.
       let pinfo = mp_Info (mpi_profile profile)
       in seq (nv (nv_GetGpuInstanceProfileInfo V device (pi_GIProfileID pinfo))) (\<lambda>r.
          case r of
            Inl _ \<Rightarrow> ret found
          | Inr gip \<Rightarrow>
              if gi_ProfileId giInfo \<noteq> gip_Id gip then ret found
              else seq (nv (nv_GI_GetComputeInstanceProfileInfo V gi (pi_CIProfileID pinfo) (pi_CIEngProfileID pinfo))) (\<lambda>r.
                   case r of
                     Inl _ \<Rightarrow> ret found
                   | Inr cip \<Rightarrow>
                       if ci_ProfileId ciInfo \<noteq> cip_Id cip then ret found
                       else ret (Some (profile, gip, cip)))))
       profiles None"

definition mig_device_info :: "'n nvml \<Rightarrow> GpuInfo \<Rightarrow> handle \<Rightarrow> handle \<Rightarrow> ('n lib, MigDeviceInfo) act" where
  "mig_device_info V gpuInfo device migDevice =
     seq (need ''error getting GPU instance ID for MIG device'' (nv_GetGpuInstanceId V migDevice)) (\<lambda>giID.
     seq (need ''error getting GPU instance'' (nv_GetGpuInstanceById V device giID)) (\<lambda>gi.
     seq (need ''error getting GPU instance info'' (nv_GI_GetInfo V gi)) (\<lambda>giInfo.
     seq (need ''error getting Compute instance ID for MIG device'' (nv_GetComputeInstanceId V migDevice)) (\<lambda>ciID.
     seq (need ''error getting Compute instance'' (nv_GI_GetComputeInstanceById V gi ciID)) (\<lambda>ci.
     seq (need ''error getting Compute instance info'' (nv_CI_GetInfo V ci)) (\<lambda>(ciInfo, _).
     seq (need ''error getting UUID for MIG device'' (nv_GetUUID V migDevice)) (\<lambda>uuid.
     seq (matching_profile V device gi giInfo ciInfo (g_migProfiles gpuInfo)) (\<lambda>m.
     case m of
       None \<Rightarrow> throw (Err ''error getting profile info for MIG device'')
     | Some (profile, gip, cip) \<Rightarrow>
         ret \<lparr>md_UUID = uuid, md_Profile = mp_String (mpi_profile profile), md_ParentUUID = g_UUID gpuInfo,
              md_GiProfileID = uint (gip_Id gip), md_ParentMinor = g_minor gpuInfo,
              md_CIID = uint (ci_Id ciInfo), md_GIID = uint (gi_Id giInfo),
              md_PlacementStart = uint (gp_Start (gi_Placement giInfo)),
              md_PlacementSize = uint (gp_Size (gi_Placement giInfo)),
              md_gIInfo = Some giInfo, md_cIInfo = Some ciInfo, md_parent = Some gpuInfo,
              md_giProfileInfo = Some gip, md_ciProfileInfo = Some cip,
              md_pcieBusID = g_pcieBusID gpuInfo, md_pcieRootAttr = g_pcieRootAttr gpuInfo,
              md_health = Healthy\<rparr>))))))))"

definition walkMigDevices ::
    "'n nvml \<Rightarrow> handle \<Rightarrow> (nat \<Rightarrow> handle \<Rightarrow> 'b \<Rightarrow> ('n lib, 'b) act) \<Rightarrow> 'b \<Rightarrow> ('n lib, 'b) act" where
  "walkMigDevices V d f acc =
     seq (need ''error getting max MIG device count'' (nv_GetMaxMigDeviceCount V d)) (\<lambda>count.
     fold_act (\<lambda>i b.
         seq (nv (nv_GetMigDeviceHandleByIndex V d i)) (\<lambda>r.
         case r of
           Inl e \<Rightarrow> if e = ERROR_NOT_FOUND \<or> e = ERROR_INVALID_ARGUMENT then ret b
                    else throw (Err ''error getting MIG device handle at index'')
         | Inr device \<Rightarrow> f i device b))
       [0..<count] acc)"

definition getMigDevices :: "'n nvml \<Rightarrow> gates \<Rightarrow> GpuInfo \<Rightarrow> ('n lib, (string \<times> MigDeviceInfo) list) act" where
  "getMigDevices V Enabled gpuInfo =
     (if \<not> g_migEnabled gpuInfo then ret []
      else ensureNVML V Enabled (\<lambda>_. throw (Err ''ensureNVML failed''))
        (seq (handle_of V Enabled ''error getting GPU device handle'' (g_UUID gpuInfo)) (\<lambda>device.
         wrapping ''error enumerating MIG devices''
           (walkMigDevices V device (\<lambda>i migDevice infos.
              seq (mig_device_info V gpuInfo device migDevice)
                (\<lambda>info. ret (AList.update (md_UUID info) info infos))) []))))"

definition discoverMigDevicesByGPU :: "'n nvml \<Rightarrow> gates \<Rightarrow> GpuInfo \<Rightarrow> ('n lib, AllocatableDeviceList) act" where
  "discoverMigDevicesByGPU V Enabled gpuInfo =
     seq (wrapping ''error getting MIG devices'' (getMigDevices V Enabled gpuInfo))
       (\<lambda>migs. ret (map (\<lambda>(_, info). no_device\<lparr>ad_MigStatic := Some info\<rparr>) migs))"

section \<open>Creating, deleting and finding MIG devices\<close>

definition createMigDevice :: "'n nvml \<Rightarrow> gates \<Rightarrow> MigSpec \<Rightarrow> ('n lib, MigDeviceInfo) act" where
  "createMigDevice V Enabled migspec =
     (let gpu = sp_Parent migspec; pinfo = mp_Info (sp_Profile migspec); placement = sp_Placement migspec in
     seq (handle_of V Enabled ''error getting GPU device handle'' (g_UUID gpu)) (\<lambda>device.
     seq (wrapping ''error instantiating nvml dev'' (in_hw (nv_NewDevice V device))) (\<lambda>ndev.
     seq (wrapping ''error checking if MIG mode enabled'' (in_hw (nv_IsMigEnabled V ndev))) (\<lambda>migEnabled.
     seq (if migEnabled then ret () else need ''error enabling MIG mode'' (nv_SetMigMode V device True)) (\<lambda>_.
     seq (need ''error getting GPU instance profile info''
           (nv_GetGpuInstanceProfileInfo V device (pi_GIProfileID pinfo))) (\<lambda>gip.
     seq (need ''error creating GPU instance'' (nv_CreateGpuInstanceWithPlacement V device gip placement)) (\<lambda>gi.
     seq (need ''error getting GPU instance info'' (nv_GI_GetInfo V gi)) (\<lambda>giInfo.
     seq (need ''error getting Compute instance profile info''
           (nv_GI_GetComputeInstanceProfileInfo V gi (pi_CIProfileID pinfo) (pi_CIEngProfileID pinfo))) (\<lambda>cip.
     seq (need ''error creating Compute instance'' (nv_GI_CreateComputeInstance V gi cip)) (\<lambda>ci.
     seq (need ''error getting GPU instance info'' (nv_CI_GetInfo V ci)) (\<lambda>(ciInfo, ciDevice).
     seq (need ''error getting UUID from CI info/device'' (nv_GetUUID V ciDevice)) (\<lambda>uuid.
     ret \<lparr>md_UUID = uuid, md_Profile = mp_String (sp_Profile migspec), md_ParentUUID = g_UUID gpu,
          md_GiProfileID = uint (gip_Id gip), md_ParentMinor = g_minor gpu,
          md_CIID = uint (ci_Id ciInfo), md_GIID = uint (gi_Id giInfo),
          md_PlacementStart = uint (gp_Start placement), md_PlacementSize = uint (gp_Size placement),
          md_gIInfo = Some giInfo, md_cIInfo = Some ciInfo, md_parent = Some gpu,
          md_giProfileInfo = None, md_ciProfileInfo = None, md_pcieBusID = '''', md_pcieRootAttr = None,
          md_health = HealthUnset\<rparr>))))))))))))"

definition maybeDisableMigMode :: "'n nvml \<Rightarrow> gates \<Rightarrow> string \<Rightarrow> handle \<Rightarrow> ('n lib, unit) act" where
  "maybeDisableMigMode V Enabled uuid nvmldev =
     seq (gets (\<lambda>l. map_of (lb_gpuInfosByUUID l) uuid)) (\<lambda>g.
     case g of
       None \<Rightarrow> throw (Err ''uuid not in gpuInfosByUUID'')
     | Some gpu \<Rightarrow>
         seq (wrapping ''error getting MIG devices'' (getMigDevices V Enabled gpu)) (\<lambda>migs.
         if migs \<noteq> [] then ret ()
         else need ''error disabling MIG mode'' (nv_SetMigMode V nvmldev False)))"

definition deleteMigDevice :: "'n nvml \<Rightarrow> gates \<Rightarrow> MigLiveTuple \<Rightarrow> ('n lib, unit) act" where
  "deleteMigDevice V Enabled miglt =
     (let parentUUID = ml_ParentUUID miglt in
     seq (handle_of V Enabled ''error getting device from UUID'' parentUUID) (\<lambda>parentDev.
     seq (nv (nv_GetGpuInstanceById V parentDev (ml_GIID miglt))) (\<lambda>gires.
     case gires of
       Inl e \<Rightarrow>
         if e = ERROR_NOT_SUPPORTED then ret ()
         else if e \<noteq> ERROR_NOT_FOUND then throw (Err ''error getting GPU instance handle for MIG device'')
         else wrapping ''failed maybeDisableMigMode'' (maybeDisableMigMode V Enabled parentUUID parentDev)
     | Inr gi \<Rightarrow>
         seq (nv (nv_GI_GetComputeInstanceById V gi (ml_CIID miglt))) (\<lambda>cires.
         seq (case cires of
                Inl e \<Rightarrow> if e \<noteq> ERROR_NOT_FOUND then throw (Err ''error getting Compute instance handle for MIG device'')
                         else ret ()
              | Inr ci \<Rightarrow> need ''error destroying Compute instance'' (nv_CI_Destroy V ci)) (\<lambda>_.
         seq (need ''error destroying GPU Instance'' (nv_GI_Destroy V gi)) (\<lambda>_.
         wrapping ''failed maybeDisableMigMode'' (maybeDisableMigMode V Enabled parentUUID parentDev)))))))"

text \<open>\<open>FindMigDevBySpec\<close> goes through the slots; \<open>Some\<close> ends the search. A missing map entry gives the
  empty UUID, a failed count gives no slots, a failed lookup of the compute instance or of the UUID the
  value NVML returned with the error (taken to be zero).\<close>

fun find_in_slots ::
    "'n nvml \<Rightarrow> handle \<Rightarrow> string \<Rightarrow> MigSpecTuple \<Rightarrow> nat list \<Rightarrow> ('n lib, MigLiveTuple option) act" where
  "find_in_slots V parent parentUUID ms [] = ret None"
| "find_in_slots V parent parentUUID ms (i # is) =
     seq (nv (nv_GetMigDeviceHandleByIndex V parent i)) (\<lambda>r.
     case r of
       Inl _ \<Rightarrow> find_in_slots V parent parentUUID ms is
     | Inr migHandle \<Rightarrow>
         seq (need ''failed to get GI ID'' (nv_GetGpuInstanceId V migHandle)) (\<lambda>giId.
         seq (need ''failed to get GI handle'' (nv_GetGpuInstanceById V parent giId)) (\<lambda>gi.
         seq (need ''failed to get GI info'' (nv_GI_GetInfo V gi)) (\<lambda>giInfo.
         if uint (gi_ProfileId giInfo) \<noteq> ms_ProfileID ms then find_in_slots V parent parentUUID ms is
         else if uint (gp_Start (gi_Placement giInfo)) \<noteq> ms_PlacementStart ms
         then find_in_slots V parent parentUUID ms is
         else
           seq (nv (nv_GetComputeInstanceId V migHandle)) (\<lambda>ci.
           seq (nv (nv_GetUUID V migHandle)) (\<lambda>u.
           ret (Some \<lparr>ml_ParentMinor = ms_ParentMinor ms, ml_GIID = giId,
                     ml_CIID = (case ci of Inr c \<Rightarrow> c | Inl _ \<Rightarrow> 0),
                     ml_MigUUID = (case u of Inr s \<Rightarrow> s | Inl _ \<Rightarrow> ''''),
                     ml_ParentUUID = parentUUID\<rparr>)))))))"

definition FindMigDevBySpec :: "'n nvml \<Rightarrow> gates \<Rightarrow> MigSpecTuple \<Rightarrow> ('n lib, MigLiveTuple option) act" where
  "FindMigDevBySpec V Enabled ms =
     seq (gets (\<lambda>l. map_of (lb_gpuUUIDbyMinor l) (ms_ParentMinor ms))) (\<lambda>u.
     let parentUUID = (case u of None \<Rightarrow> '''' | Some s \<Rightarrow> s) in
     seq (handle_of V Enabled ''could not get device handle by UUID'' parentUUID) (\<lambda>parent.
     seq (nv (nv_GetMaxMigDeviceCount V parent)) (\<lambda>count.
     find_in_slots V parent parentUUID ms [0..<(case count of Inr c \<Rightarrow> c | Inl _ \<Rightarrow> 0)])))"

end
