(* ===== verification/NvEnum.thy ===== *)
theory NvEnum
  imports NvLib
begin

text \<open>
  Discovering what a node can hand out (\<open>enumerateAllPossibleDevices\<close> and what it calls in
  \<open>cmd/hami-kubelet-plugin/nvlib.go\<close>), tearing down unknown MIG devices, and the settings made by
  running nvidia-smi.
\<close>

type_synonym PerGPUMinorAllocatableDevices = "(GPUMinor \<times> AllocatableDevices) list"

section \<open>MIG profiles of a GPU\<close>

definition inspect_profile ::
    "'n nvml \<Rightarrow> GpuInfo \<Rightarrow> handle \<Rightarrow> mig_profile \<Rightarrow> MigSpec list \<Rightarrow> ('n lib, MigSpec list) act" where
  "inspect_profile V gpuInfo device p infos =
     (if pi_C (mp_Info p) \<noteq> pi_G (mp_Info p) then ret infos
      else if pi_CIProfileID (mp_Info p) = nv_COMPUTE_INSTANCE_PROFILE_1_SLICE_REV1 V then ret infos
      else seq (nv (nv_GetGpuInstanceProfileInfo V device (pi_GIProfileID (mp_Info p)))) (\<lambda>r.
           case r of
             Inl e \<Rightarrow> if skipped e then ret infos else throw (Err ''error getting GI Profile info for MIG profile'')
           | Inr gip \<Rightarrow>
               seq (nv (nv_GetGpuInstancePossiblePlacements V device gip)) (\<lambda>r.
               case r of
                 Inl e \<Rightarrow> if skipped e then ret infos else throw (Err ''error getting GI possible placements for MIG profile'')
               | Inr placements \<Rightarrow>
                   ret (infos @ map (\<lambda>pl. \<lparr>sp_Parent = gpuInfo, sp_Profile = p, sp_GIProfileInfo = gip, sp_Placement = pl\<rparr>)
                          placements))))"

text \<open>Returns the enriched GPU too; the parents of the returned specs are that GPU.\<close>

definition inspectMigProfilesAndPlacements ::
    "'n nvml \<Rightarrow> GpuInfo \<Rightarrow> handle \<Rightarrow> ('n lib, MigSpec list \<times> GpuInfo) act" where
  "inspectMigProfilesAndPlacements V gpuInfo device =
     seq (wrapping ''error visiting MIG profiles''
           (seq (in_hw (\<lambda>n. case nv_VisitMigProfiles V device n of (ps, n') \<Rightarrow> (Inr ps, n')))
             (\<lambda>ps. fold_act (\<lambda>e infos. seq (entry_act e) (\<lambda>p. inspect_profile V gpuInfo device p infos)) ps [])))
       (\<lambda>infos. let gpu = walked_gpu gpuInfo infos
                in ret (map (\<lambda>i. i\<lparr>sp_Parent := gpu\<rparr>) infos, gpu))"

section \<open>One GPU and all of them\<close>

definition named :: "AllocatableDevice \<Rightarrow> ('w, DeviceName \<times> AllocatableDevice) act" where
  "named d = seq (lift_res (CanonicalName d)) (\<lambda>n. ret (n, d))"

definition insert_named :: "AllocatableDevice list \<Rightarrow> ('w, AllocatableDevices) act" where
  "insert_named ds = fold_act (\<lambda>d m. seq (named d) (\<lambda>(n, d). ret (AList.update n d m))) ds []"

definition remember_gpu :: "GpuInfo \<Rightarrow> ('n lib, unit) act" where
  "remember_gpu g = modify (\<lambda>l. l\<lparr>lb_gpuInfosByUUID := AList.update (g_UUID g) g (lb_gpuInfosByUUID l),
                                lb_gpuUUIDbyMinor := AList.update (g_minor g) (g_UUID g) (lb_gpuUUIDbyMinor l)\<rparr>)"

definition gpu_devices ::
    "'n nvml \<Rightarrow> gates \<Rightarrow> int \<Rightarrow> handle \<Rightarrow> PerGPUMinorAllocatableDevices \<Rightarrow>
     ('n lib, PerGPUMinorAllocatableDevices) act" where
  "gpu_devices V Enabled i d acc =
     seq (wrapping ''error getting info for GPU'' (getGpuInfo V i d)) (\<lambda>gpuInfo.
     let parentdev = no_device\<lparr>ad_Gpu := Some gpuInfo\<rparr>;
         filed = (\<lambda>m. AList.update (g_minor gpuInfo) m acc)
     in seq (remember_gpu gpuInfo) (\<lambda>_.
        if Enabled HAMiCoreSupport then
          seq (lift_res (wrapHAMiCoreGpu parentdev)) (\<lambda>hamiDev.
          seq (insert_named [hamiDev]) (\<lambda>m. ret (filed m)))
        else if Enabled DynamicMIG then
          seq (DeviceGetHandleByUUID V Enabled (g_UUID gpuInfo)) (\<lambda>_.
          seq (wrapping ''error getting MIG info for GPU'' (inspectMigProfilesAndPlacements V gpuInfo d)) (\<lambda>(specs, gpu).
          seq (insert_named (no_device\<lparr>ad_Gpu := Some gpu\<rparr> # map (\<lambda>s. no_device\<lparr>ad_MigDynamic := Some s\<rparr>) specs))
            (\<lambda>m. ret (filed m))))
        else
          seq (wrapping ''error discovering MIG devices'' (discoverMigDevicesByGPU V Enabled gpuInfo)) (\<lambda>migdevs.
          let gpu = (if Enabled PassthroughSupport then gpuInfo\<lparr>g_vfioEnabled := (migdevs = [])\<rparr> else gpuInfo)
          in if \<not> g_migEnabled gpuInfo
             then seq (insert_named [no_device\<lparr>ad_Gpu := Some gpu\<rparr>]) (\<lambda>m. ret (filed m))
             else seq (insert_named migdevs) (\<lambda>m. ret (filed m)))))"

definition GetPerGpuAllocatableDevices ::
    "'n nvml \<Rightarrow> gates \<Rightarrow> int list option \<Rightarrow> ('n lib, PerGPUMinorAllocatableDevices) act" where
  "GetPerGpuAllocatableDevices V Enabled indices =
     ensureNVML V Enabled (\<lambda>_. throw (Err ''ensureNVML failed''))
       (wrapping ''error visiting devices''
         (VisitDevices V (\<lambda>i d acc.
            if (case indices of None \<Rightarrow> False | Some is \<Rightarrow> i \<notin> set is) then ret acc
            else gpu_devices V Enabled i d acc) []))"

section \<open>Passthrough devices\<close>

definition hex_digit :: "nat \<Rightarrow> char" where
  "hex_digit n = (if n < 10 then char_of (48 + n) else char_of (87 + n))"

text \<open>\<open>fmt.Sprintf("0x%04x", n)\<close> for a 16-bit number.\<close>

definition hex4 :: "nat \<Rightarrow> string" where
  "hex4 n = ''0x'' @ map (\<lambda>k. hex_digit (n div 16 ^ k mod 16)) [3, 2, 1, 0]"

definition getVfioDeviceInfo :: "'n nvml \<Rightarrow> nat \<Rightarrow> pci_device \<Rightarrow> ('n lib, VfioDeviceInfo) act" where
  "getVfioDeviceInfo V idx device =
     seq (attempt (in_hw (nv_GetPCIeRootAttributeByPCIBusID V (pci_Address device)))) (\<lambda>rootAttr.
     ret \<lparr>v_UUID = uuid_NewSHA1 V (pci_Address device), v_deviceID = hex4 (pci_Device device),
          v_vendorID = hex4 (pci_Vendor device), v_index = int idx, v_parent = None,
          v_productName = pci_DeviceName device, v_pcieBusID = pci_Address device,
          v_pcieRootAttr = (case rootAttr of Inr a \<Rightarrow> Some a | Inl _ \<Rightarrow> None),
          v_numaNode = pci_NumaNode device, v_iommuGroup = pci_IommuGroup device,
          v_addressableMemoryBytes = pci_TotalAddressableMemory device\<rparr>)"

text \<open>The code flattens the map it is about to fill, not its argument \<open>devs\<close>.\<close>

definition enumerateGpuPciDevices ::
    "'n nvml \<Rightarrow> PerGPUMinorAllocatableDevices \<Rightarrow> ('n lib, PerGPUMinorAllocatableDevices) act" where
  "enumerateGpuPciDevices V devs =
     (let perGPUAllocatable = [];
          all = fold (\<lambda>(_, devices) m. AList.updates (map fst devices) (map snd devices) m) perGPUAllocatable []
      in seq (wrapping ''error getting GPU PCI devices'' (in_hw (pci_GetGPUs V))) (\<lambda>pcis.
         fold_act (\<lambda>(idx, pci) acc.
           case GetGPUByPCIeBusID all (pci_Address pci) of
             None \<Rightarrow> ret acc
           | Some parent \<Rightarrow>
               seq (lift_res (deref (ad_Gpu parent))) (\<lambda>g.
               if \<not> g_vfioEnabled g then ret acc
               else
                 seq (wrapping ''error getting GPU info from PCI device'' (getVfioDeviceInfo V idx pci)) (\<lambda>v.
                 seq (insert_named [no_device\<lparr>ad_Vfio := Some (v\<lparr>v_parent := Some g\<rparr>)\<rparr>]) (\<lambda>m.
                 ret (AList.update (g_minor g) m acc)))))
           (zip [0..<length pcis] pcis) perGPUAllocatable))"

definition enumerateAllPossibleDevices ::
    "'n nvml \<Rightarrow> gates \<Rightarrow> ('n lib, AllocatableDevices \<times> PerGPUMinorAllocatableDevices) act" where
  "enumerateAllPossibleDevices V Enabled =
     seq (wrapping ''error enumerating allocatable devices'' (GetPerGpuAllocatableDevices V Enabled None)) (\<lambda>perGPU.
     seq (if Enabled PassthroughSupport then
            seq (wrapping ''error enumerating GPU PCI devices'' (enumerateGpuPciDevices V perGPU)) (\<lambda>passthrough.
            fold_act (\<lambda>(minor, ptdevs) acc.
              case map_of acc minor of
                None \<Rightarrow> if ptdevs = [] then ret acc else panic ''assignment to entry in nil map''
              | Some m \<Rightarrow> ret (AList.update minor (AList.updates (map fst ptdevs) (map snd ptdevs) m) acc))
              passthrough perGPU)
          else ret perGPU) (\<lambda>perGPU'.
     ret (fold (\<lambda>(_, devices) m. AList.updates (map fst devices) (map snd devices) m) perGPU' [], perGPU')))"

definition discoverGPUByPCIBusID ::
    "'n nvml \<Rightarrow> gates \<Rightarrow> string \<Rightarrow> ('n lib, AllocatableDevice option \<times> AllocatableDeviceList) act" where
  "discoverGPUByPCIBusID V Enabled pcieBusID =
     seq (lib_Init V) (\<lambda>_.
     deferring (alwaysShutdown V)
       (wrapping ''error visiting devices''
         (VisitDevices V (\<lambda>i d acc.
            seq (wrapping ''error getting PCIe bus ID for device'' (in_hw (nv_GetPCIBusID V d))) (\<lambda>bus.
            if bus \<noteq> pcieBusID then ret acc
            else
              seq (wrapping ''error getting info for GPU'' (getGpuInfo V i d)) (\<lambda>gpuInfo.
              seq (wrapping ''error discovering MIG devices for GPU'' (discoverMigDevicesByGPU V Enabled gpuInfo)) (\<lambda>migs.
              ret (Some (no_device\<lparr>ad_Gpu := Some (gpuInfo\<lparr>g_vfioEnabled := (migs = [])\<rparr>)\<rparr>), migs)))))
          (None, []))))"

fun find_pci :: "string \<Rightarrow> (nat \<times> pci_device) list \<Rightarrow> (nat \<times> pci_device) option" where
  "find_pci bus [] = None"
| "find_pci bus ((i, p) # ps) = (if pci_Address p = bus then Some (i, p) else find_pci bus ps)"

definition discoverVfioDevice :: "'n nvml \<Rightarrow> GpuInfo \<Rightarrow> ('n lib, AllocatableDevice) act" where
  "discoverVfioDevice V gpuInfo =
     seq (wrapping ''error getting GPU PCI devices'' (in_hw (pci_GetGPUs V))) (\<lambda>gpus.
     case find_pci (g_pcieBusID gpuInfo) (zip [0..<length gpus] gpus) of
       None \<Rightarrow> throw (Err ''error discovering VFIO device by PCIe bus ID'')
     | Some (idx, gpu) \<Rightarrow>
         seq (wrapping ''error getting VFIO device info'' (getVfioDeviceInfo V idx gpu)) (\<lambda>v.
         ret (no_device\<lparr>ad_Vfio := Some (v\<lparr>v_parent := Some gpuInfo\<rparr>)\<rparr>)))"

section \<open>Tearing down unknown MIG devices\<close>

definition obliterateStaleMIGDevices :: "'n nvml \<Rightarrow> gates \<Rightarrow> DeviceName list \<Rightarrow> ('n lib, unit) act" where
  "obliterateStaleMIGDevices V Enabled expectedDeviceNames =
     wrapping ''error visiting devices''
       (VisitDevices V (\<lambda>i d (_::unit).
          seq (wrapping ''error getting info for GPU'' (getGpuInfo V i d)) (\<lambda>ginfo.
          seq (wrapping ''error getting MIG devices for GPU'' (getMigDevices V Enabled ginfo)) (\<lambda>migs.
          seq (each (\<lambda>(_, mdi).
                 if MigDevice_CanonicalName mdi \<in> set expectedDeviceNames then ret ()
                 else wrapping ''could not delete unexpected MIG device'' (deleteMigDevice V Enabled (LiveTuple mdi)))
               migs) (\<lambda>_.
          wrapping ''maybeDisableMigMode failed'' (maybeDisableMigMode V Enabled (g_UUID ginfo) d))))) ())"

section \<open>nvidia-smi\<close>

definition split_list :: "string \<Rightarrow> string list" where
  "split_list s = (if s = '''' then [] else split_at_char (CHR '':'') s)"

definition prependPathListEnvvar :: "string \<Rightarrow> string list \<Rightarrow> string" where
  "prependPathListEnvvar value prepend =
     (if prepend = [] then value else join_with '':'' (prepend @ split_list value))"

definition env_key :: "string \<Rightarrow> string" where
  "env_key e = (case cut_first (CHR ''='') e of None \<Rightarrow> e | Some (k, _) \<Rightarrow> k)"

definition setOrOverrideEnvvar :: "string list \<Rightarrow> string \<Rightarrow> string \<Rightarrow> string list" where
  "setOrOverrideEnvvar envvars key value =
     filter (\<lambda>e. env_key e \<noteq> key) envvars @ [key @ ''='' @ value]"

definition nvidia_smi :: "'n nvml \<Rightarrow> deviceLib \<Rightarrow> string list \<Rightarrow> ('n lib, unit) act" where
  "nvidia_smi V dl args =
     wrapping ''error running nvidia-smi''
       (in_hw (nv_exec V (dl_nvidiaSMIPath dl) args
          (setOrOverrideEnvvar (dl_environ dl) ''LD_PRELOAD''
            (prependPathListEnvvar (dl_LD_PRELOAD dl) [dl_driverLibraryPath dl]))))"

definition setTimeSlice :: "'n nvml \<Rightarrow> deviceLib \<Rightarrow> string list \<Rightarrow> int \<Rightarrow> ('n lib, unit) act" where
  "setTimeSlice V dl uuids timeSlice =
     each (\<lambda>uuid. nvidia_smi V dl [''compute-policy'', ''-i'', uuid, ''--set-timeslice'', int_str timeSlice]) uuids"

definition setComputeMode :: "'n nvml \<Rightarrow> deviceLib \<Rightarrow> string list \<Rightarrow> string \<Rightarrow> ('n lib, unit) act" where
  "setComputeMode V dl uuids mode = each (\<lambda>uuid. nvidia_smi V dl [''-i'', uuid, ''-c'', mode]) uuids"

section \<open>A library for the witnesses\<close>

text \<open>An NVML that starts and stops but finds no device.\<close>

definition nv_no :: "('n, 'a) nvcall" where
  "nv_no = (\<lambda>n. (Inl ERROR_NOT_FOUND, n))"

definition nv_yes :: "('n, unit) nvcall" where
  "nv_yes = (\<lambda>n. (Inr (), n))"

definition ref_nvml :: "'n nvml" where
  "ref_nvml = \<lparr>nv_Init = nv_yes, nv_Shutdown = nv_yes, nv_VisitDevices = (\<lambda>n. ([], n)),
     nv_GetMinorNumber = (\<lambda>_. nv_no), nv_GetUUID = (\<lambda>_. nv_no), nv_IsMigEnabled = (\<lambda>_. ret False),
     nv_GetMemoryTotal = (\<lambda>_. nv_no), nv_GetName = (\<lambda>_. nv_no), nv_GetArchitectureAsString = (\<lambda>_. ret ''''),
     nv_GetBrandAsString = (\<lambda>_. ret ''''), nv_GetCudaComputeCapabilityAsString = (\<lambda>_. ret ''''),
     nv_SystemGetDriverVersion = nv_no, nv_SystemGetCudaDriverVersion = nv_no, nv_GetPCIBusID = (\<lambda>_. ret ''''),
     nv_addressingModeAvailable = False, nv_GetAddressingModeAsString = (\<lambda>_. ret ''''),
     nv_GetPCIeRootAttributeByPCIBusID = (\<lambda>_. throw NotFound),
     nv_GPU_INSTANCE_PROFILE_COUNT = 0, nv_COMPUTE_INSTANCE_PROFILE_COUNT = 0,
     nv_COMPUTE_INSTANCE_ENGINE_PROFILE_COUNT = 0, nv_COMPUTE_INSTANCE_PROFILE_1_SLICE_REV1 = 7,
     nv_GetGpuInstanceProfileInfo = (\<lambda>_ _. nv_no), nv_GetGpuInstancePossiblePlacements = (\<lambda>_ _. nv_no),
     nv_NewMigProfile = (\<lambda>_ _ _ _ _. throw NotFound), nv_VisitMigProfiles = (\<lambda>_ n. ([], n)),
     nv_DeviceGetHandleByUUID = (\<lambda>_. nv_no), nv_NewDevice = ret, nv_SetMigMode = (\<lambda>_ _. nv_no),
     nv_CreateGpuInstanceWithPlacement = (\<lambda>_ _ _. nv_no), nv_GetGpuInstanceById = (\<lambda>_ _. nv_no),
     nv_GI_GetInfo = (\<lambda>_. nv_no), nv_GI_Destroy = (\<lambda>_. nv_no), nv_GI_GetComputeInstanceProfileInfo = (\<lambda>_ _ _. nv_no),
     nv_GI_CreateComputeInstance = (\<lambda>_ _. nv_no), nv_GI_GetComputeInstanceById = (\<lambda>_ _. nv_no),
     nv_CI_GetInfo = (\<lambda>_. nv_no), nv_CI_Destroy = (\<lambda>_. nv_no), nv_GetMaxMigDeviceCount = (\<lambda>_. nv_no),
     nv_GetMigDeviceHandleByIndex = (\<lambda>_ _. nv_no), nv_GetGpuInstanceId = (\<lambda>_. nv_no),
     nv_GetComputeInstanceId = (\<lambda>_. nv_no), nv_exec = (\<lambda>_ _ _. ret ()), pci_GetGPUs = ret [], uuid_NewSHA1 = id\<rparr>"

end
