(* ===== verification/World.thy ===== *)
theory World
  imports HamiCore CheckpointOps NvEnum
begin

text \<open>
  The state the plugin's operations run on: the checkpoint file and its lock (\<open>'c\<close>), the device
  library with the hardware behind it (\<open>'n\<close>), the Kubernetes API (\<open>'k\<close>), the file system, the cache of
  CDI specs and the map of allocatable devices of \<open>DeviceState\<close>. Each \<open>in_\<close> abbreviation runs a
  computation on one part.
\<close>

datatype cache_value = CommonEdits container_edits | DeviceSpecs "cdi_device list"

type_synonym spec_cache = "(string \<times> cache_value \<times> nat) list"

record ('c, 'n, 'k) world =
  w_cp :: 'c
  w_lib :: "'n lib"
  w_kube :: 'k
  w_fs :: fs
  w_now :: nat
  w_cache :: spec_cache
  w_allocatable :: AllocatableDevices

abbreviation in_cp :: "('c, 'a) act \<Rightarrow> (('c, 'n, 'k) world, 'a) act" where
  "in_cp \<equiv> on w_cp (\<lambda>c. w_cp_update (\<lambda>_. c))"

abbreviation in_lib :: "('n lib, 'a) act \<Rightarrow> (('c, 'n, 'k) world, 'a) act" where
  "in_lib \<equiv> on w_lib (\<lambda>l. w_lib_update (\<lambda>_. l))"

abbreviation in_kube :: "('k, 'a) act \<Rightarrow> (('c, 'n, 'k) world, 'a) act" where
  "in_kube \<equiv> on w_kube (\<lambda>k. w_kube_update (\<lambda>_. k))"

abbreviation in_fs :: "(fs, 'a) act \<Rightarrow> (('c, 'n, 'k) world, 'a) act" where
  "in_fs \<equiv> on w_fs (\<lambda>s. w_fs_update (\<lambda>_. s))"

abbreviation in_hami :: "('k hami_world, 'a) act \<Rightarrow> (('c, 'n, 'k) world, 'a) act" where
  "in_hami \<equiv> on (\<lambda>w. \<lparr>hw_kube = w_kube w, hw_fs = w_fs w\<rparr>)
     (\<lambda>h w. w\<lparr>w_kube := hw_kube h, w_fs := hw_fs h\<rparr>)"

text \<open>Frame rules: what does not depend on a part is kept by a computation on that part.\<close>

lemma keeps_frames [keeps_intros]:
  "(\<And>w c. P w \<Longrightarrow> P (w\<lparr>w_cp := c\<rparr>)) \<Longrightarrow> keeps P (in_cp m1)"
  "(\<And>w l. P w \<Longrightarrow> P (w\<lparr>w_lib := l\<rparr>)) \<Longrightarrow> keeps P (in_lib m2)"
  "(\<And>w k. P w \<Longrightarrow> P (w\<lparr>w_kube := k\<rparr>)) \<Longrightarrow> keeps P (in_kube m3)"
  "(\<And>w s. P w \<Longrightarrow> P (w\<lparr>w_fs := s\<rparr>)) \<Longrightarrow> keeps P (in_fs m4)"
  "(\<And>w k s. P w \<Longrightarrow> P (w\<lparr>w_kube := k, w_fs := s\<rparr>)) \<Longrightarrow> keeps P (in_hami m5)"
  by (rule keeps_on_frame; simp)+

end
