(* ===== verification/Sharing.thy ===== *)
theory Sharing
  imports World
begin

text \<open>
  Sharing a GPU between claims by time-slicing or MPS (\<open>cmd/hami-kubelet-plugin/sharing.go\<close>): the
  compute mode and time slice set with nvidia-smi, and the MPS control daemon of a group of devices,
  a Deployment with directories and a tmpfs mount on the node. The Deployments API, the template
  engine, mount-utils, SHA-256 and the configuration API (\<open>k8s-dra-driver-gpu/api\<close>) are parameters.
\<close>

section \<open>The libraries\<close>

type_synonym sharing = json

record MpsConfig =
  mps_DefaultActiveThreadPercentage :: "int option"
  mps_Limits :: json

datatype config_object =
    GpuConfig sharing
  | MigDeviceConfig sharing
  | VfioDeviceConfig
  | OtherObject string

record config_api =
  ca_Decode :: "string \<Rightarrow> err + config_object"
  ca_Normalize :: "config_object \<Rightarrow> err + config_object"
  ca_Validate :: "config_object \<Rightarrow> err option"
  ca_DefaultGpuSharing :: sharing
  ca_DefaultMigSharing :: sharing
  ca_DefaultInterval :: int
  ca_IsTimeSlicing :: "sharing \<Rightarrow> bool"
  ca_GetTimeSlicingInterval :: "sharing \<Rightarrow> err + int option"
  ca_IsMps :: "sharing \<Rightarrow> bool"
  ca_GetMpsConfig :: "sharing \<Rightarrow> err + MpsConfig option"
  ca_NormalizeLimits :: "MpsConfig \<Rightarrow> string list \<Rightarrow> err + (string \<times> string) list"

record MpsControlDaemonTemplateData =
  td_NodeName :: string
  td_Namespace :: string
  td_Name :: string
  td_CUDA_VISIBLE_DEVICES :: string
  td_DefaultActiveThreadPercentage :: string
  td_DefaultPinnedDeviceMemoryLimits :: "(string \<times> string) list"
  td_NvidiaDriverRoot :: string
  td_MpsShmDirectory :: string
  td_MpsPipeDirectory :: string
  td_MpsLogDirectory :: string
  td_MpsImageName :: string
  td_FeatureGates :: "(feature \<times> bool) list"

record deployment_view =
  dv_ReadyReplicas :: int
  dv_MatchLabels :: "(string \<times> string) list"

record 'k mps_sys =
  dp_Get :: "string \<Rightarrow> string \<Rightarrow> ('k, deployment_view) act"
  dp_Create :: "string \<Rightarrow> json \<Rightarrow> ('k, unit) act"
  dp_Delete :: "string \<Rightarrow> string \<Rightarrow> ('k, unit) act"
  dp_PodReadiness :: "string \<Rightarrow> (string \<times> string) list \<Rightarrow> ('k, bool list list) act"
  retry_OnError :: "('k, unit) act \<Rightarrow> ('k, unit) act"
  render_Deployment :: "string \<Rightarrow> MpsControlDaemonTemplateData \<Rightarrow> err + json"
  mt_LookPath :: "(fs, string) act"
  mt_Mount :: "string \<Rightarrow> path \<Rightarrow> string list \<Rightarrow> (fs, unit) act"
  mt_CleanupMountPoint :: "path \<Rightarrow> (fs, unit) act"
  sha256_hex :: "string \<Rightarrow> string"
  known_features :: "feature list"

text \<open>\<open>UUIDProvider\<close>: what a group of devices answers when asked for UUIDs.\<close>

record UUIDProvider =
  up_UUIDs :: "string list res"
  up_GpuUUIDs :: "string list res"

definition allocatable_provider :: "AllocatableDevices \<Rightarrow> UUIDProvider" where
  "allocatable_provider ds = \<lparr>up_UUIDs = UUIDs ds, up_GpuUUIDs = GpuUUIDs ds\<rparr>"

definition group_provider :: "PreparedDeviceGroup \<Rightarrow> UUIDProvider" where
  "group_provider g = \<lparr>up_UUIDs = Group_UUIDs g, up_GpuUUIDs = Group_GpuUUIDs g\<rparr>"

section \<open>Time-slicing\<close>

definition SetTimeSlice :: "'n nvml \<Rightarrow> deviceLib \<Rightarrow> string list \<Rightarrow> int \<Rightarrow> ('n lib, unit) act" where
  "SetTimeSlice V dl uuids interval =
     seq (wrapping ''error setting compute mode'' (setComputeMode V dl uuids ''DEFAULT'')) (\<lambda>_.
     wrapping ''error setting time slice'' (setTimeSlice V dl uuids interval))"

section \<open>The MPS control daemon\<close>

record MpsManager =
  mm_controlFilesRoot :: path
  mm_hostDriverRoot :: string
  mm_templatePath :: string
  mm_nodeName :: string
  mm_namespace :: string
  mm_imageName :: string

record MpsControlDaemon =
  mc_id :: string
  mc_name :: string
  mc_rootDir :: path
  mc_pipeDir :: path
  mc_shmDir :: path
  mc_logDir :: path
  mc_devices :: UUIDProvider

definition GetMpsControlDaemonID :: "'k mps_sys \<Rightarrow> string \<Rightarrow> UUIDProvider \<Rightarrow> string res" where
  "GetMpsControlDaemonID S claimUID devices =
     res_seq (up_UUIDs devices) (\<lambda>us.
     Inr (claimUID @ ''-'' @ take 5 (sha256_hex S (join_with '','' us))))"

definition NewMpsControlDaemon :: "'k mps_sys \<Rightarrow> MpsManager \<Rightarrow> string \<Rightarrow> UUIDProvider \<Rightarrow> MpsControlDaemon res" where
  "NewMpsControlDaemon S m claimUID devices =
     res_seq (GetMpsControlDaemonID S claimUID devices) (\<lambda>i.
     Inr \<lparr>mc_id = i, mc_name = ''mps-control-daemon-'' @ i,
          mc_rootDir = join_path (mm_controlFilesRoot m) [i],
          mc_pipeDir = join_path (mm_controlFilesRoot m) [i, ''pipe''],
          mc_shmDir = join_path (mm_controlFilesRoot m) [i, ''shm''],
          mc_logDir = join_path (mm_controlFilesRoot m) [i, ''log''],
          mc_devices = devices\<rparr>)"

definition IsControlDaemonStarted :: "'k mps_sys \<Rightarrow> MpsManager \<Rightarrow> string \<Rightarrow> ('k, bool) act" where
  "IsControlDaemonStarted S m i =
     seq (attempt (dp_Get S (mm_namespace m) (''mps-control-daemon-'' @ i))) (\<lambda>r.
     case r of
       Inr _ \<Rightarrow> ret True
     | Inl e \<Rightarrow> if isNotFound e then ret False else throw (Wrap ''failed to get deployment'' e))"

definition IsControlDaemonStopped :: "'k mps_sys \<Rightarrow> MpsManager \<Rightarrow> string \<Rightarrow> ('k, bool) act" where
  "IsControlDaemonStopped S m i =
     seq (attempt (dp_Get S (mm_namespace m) (''mps-control-daemon-'' @ i))) (\<lambda>r.
     case r of
       Inr _ \<Rightarrow> ret False
     | Inl e \<Rightarrow> if isNotFound e then ret True else throw (Wrap ''failed to get deployment'' e))"

definition go_atoi :: "string \<Rightarrow> int option" where
  "go_atoi s =
     (case s of
        [] \<Rightarrow> None
      | c # r \<Rightarrow>
          if c = CHR ''-'' then
            (if all_digits r \<and> int (digits_val r) \<le> max_int + 1 then Some (- int (digits_val r)) else None)
          else if c = CHR ''+'' then atoi_digits r
          else atoi_digits s)"

text \<open>\<open>bufio.Scanner\<close> lines, and half of the memory named by the first \<open>MemTotal:\<close> line.\<close>

definition scan_lines :: "string \<Rightarrow> string list" where
  "scan_lines s =
     (let ls = split_at_char (CHR 0x0A) s;
          ls' = (if last ls = '''' then butlast ls else ls)
      in map (\<lambda>l. trim_suffix l [CHR 0x0D]) ls')"

fun shm_size_of :: "string list \<Rightarrow> string res" where
  "shm_size_of [] = Inr ''65536k''"
| "shm_size_of (line # lines) =
     (if \<not> prefix ''MemTotal:'' line then shm_size_of lines
      else
        let rest = trim_space (trim_prefix line ''MemTotal:'');
            parts = (case cut_first (CHR '' '') rest of None \<Rightarrow> (rest, None) | Some (a, b) \<Rightarrow> (a, Some b))
        in case go_atoi (fst parts) of
             None \<Rightarrow> Inr ''65536k''
           | Some memTotal \<Rightarrow>
               (case snd parts of
                  None \<Rightarrow> Inr (int_str (memTotal sdiv 2))
                | Some [] \<Rightarrow> Inl (Panicked ''index out of range'')
                | Some (c # _) \<Rightarrow> Inr (int_str (memTotal sdiv 2) @ [c])))"

definition getDefaultShmSize :: "(fs, string) act" where
  "getDefaultShmSize =
     seq (attempt (os_ReadFile [''proc'', ''meminfo''])) (\<lambda>r.
     case r of Inl _ \<Rightarrow> ret ''65536k'' | Inr s \<Rightarrow> lift_res (shm_size_of (scan_lines s)))"

definition template_data ::
    "'k mps_sys \<Rightarrow> gates \<Rightarrow> MpsManager \<Rightarrow> MpsControlDaemon \<Rightarrow> config_api \<Rightarrow> MpsConfig option \<Rightarrow> string list \<Rightarrow>
     err + MpsControlDaemonTemplateData" where
  "template_data S Enabled m d api cfg deviceUUIDs =
     (let base = \<lparr>td_NodeName = mm_nodeName m, td_Namespace = mm_namespace m, td_Name = mc_name d,
        td_CUDA_VISIBLE_DEVICES = join_with '','' deviceUUIDs, td_DefaultActiveThreadPercentage = '''',
        td_DefaultPinnedDeviceMemoryLimits = [], td_NvidiaDriverRoot = mm_hostDriverRoot m,
        td_MpsShmDirectory = path_string (mc_shmDir d), td_MpsPipeDirectory = path_string (mc_pipeDir d),
        td_MpsLogDirectory = path_string (mc_logDir d), td_MpsImageName = mm_imageName m,
        td_FeatureGates = ToMap Enabled (known_features S)\<rparr>
      in case cfg of
           None \<Rightarrow> Inr base
         | Some c \<Rightarrow>
             let withPct = (case mps_DefaultActiveThreadPercentage c of None \<Rightarrow> base
                   | Some p \<Rightarrow> base\<lparr>td_DefaultActiveThreadPercentage := int_str p\<rparr>)
             in (case ca_NormalizeLimits api c deviceUUIDs of
                   Inl e \<Rightarrow> Inl (Wrap ''error transforming DefaultPerDevicePinnedMemoryLimit into string'' e)
                 | Inr limits \<Rightarrow> Inr (withPct\<lparr>td_DefaultPinnedDeviceMemoryLimits := limits\<rparr>)))"

definition Mps_Start ::
    "'k mps_sys \<Rightarrow> 'n nvml \<Rightarrow> deviceLib \<Rightarrow> gates \<Rightarrow> config_api \<Rightarrow> MpsManager \<Rightarrow> MpsControlDaemon \<Rightarrow> MpsConfig option \<Rightarrow>
     (('c, 'n, 'k) world, unit) act" where
  "Mps_Start S V dl Enabled api m d cfg =
     seq (wrapping ''error checking if control daemon already started'' (in_kube (IsControlDaemonStarted S m (mc_id d)))) (\<lambda>isStarted.
     if isStarted then ret ()
     else
       seq (lift_res (up_UUIDs (mc_devices d))) (\<lambda>deviceUUIDs.
       seq (entry_act (template_data S Enabled m d api cfg deviceUUIDs)) (\<lambda>td.
       seq (wrapping ''failed to build deployment'' (entry_act (render_Deployment S (mm_templatePath m) td))) (\<lambda>deployment.
       seq (wrapping ''error creating directory'' (in_fs (os_MkdirAll (mc_shmDir d)))) (\<lambda>_.
       seq (wrapping ''error creating directory'' (in_fs (os_MkdirAll (mc_pipeDir d)))) (\<lambda>_.
       seq (wrapping ''error creating directory'' (in_fs (os_MkdirAll (mc_logDir d)))) (\<lambda>_.
       seq (wrapping ''error finding mount executable'' (in_fs (mt_LookPath S))) (\<lambda>mountExecutable.
       seq (in_fs getDefaultShmSize) (\<lambda>shm.
       seq (wrapping ''error mounting as tmpfs'' (in_fs (mt_Mount S mountExecutable (mc_shmDir d)
              [''rw'', ''nosuid'', ''nodev'', ''noexec'', ''relatime'', ''size='' @ shm]))) (\<lambda>_.
       seq (lift_res (up_GpuUUIDs (mc_devices d))) (\<lambda>gpus.
       seq (wrapping ''error setting compute mode'' (in_lib (setComputeMode V dl gpus ''EXCLUSIVE_PROCESS''))) (\<lambda>_.
       seq (attempt (in_kube (dp_Create S (mm_namespace m) deployment))) (\<lambda>r.
       case r of
         Inr _ \<Rightarrow> ret ()
       | Inl e \<Rightarrow> if isAlreadyExists e then ret () else throw (Wrap ''failed to create deployment'' e))))))))))))))"

definition daemon_ready :: "'k mps_sys \<Rightarrow> MpsManager \<Rightarrow> MpsControlDaemon \<Rightarrow> ('k, unit) act" where
  "daemon_ready S m d =
     seq (wrapping ''failed to get deployment'' (dp_Get S (mm_namespace m) (mc_name d))) (\<lambda>deployment.
     if dv_ReadyReplicas deployment \<noteq> 1 then throw (Err ''waiting for MPS control daemon to come online'')
     else seq (hiding ''error listing pods from deployment''
                (dp_PodReadiness S (mm_namespace m) (dv_MatchLabels deployment))) (\<lambda>pods.
          case pods of
            [[ready]] \<Rightarrow> if ready then ret () else throw (Err ''control daemon not yet ready'')
          | [_] \<Rightarrow> throw (Err ''unexpected number of container statuses in pod'')
          | _ \<Rightarrow> throw (Err ''unexpected number of pods in deployment'')))"

definition AssertReady :: "'k mps_sys \<Rightarrow> MpsManager \<Rightarrow> MpsControlDaemon \<Rightarrow> ('k, unit) act" where
  "AssertReady S m d = retry_OnError S (daemon_ready S m d)"

definition Mps_GetCDIContainerEdits :: "MpsControlDaemon \<Rightarrow> container_edits" where
  "Mps_GetCDIContainerEdits d =
     \<lparr>ce_Env = [''CUDA_MPS_PIPE_DIRECTORY=/tmp/nvidia-mps''],
      ce_DeviceNodes = [],
      ce_Mounts =
        [\<lparr>m_ContainerPath = ''/dev/shm'', m_HostPath = path_string (mc_shmDir d),
          m_Options = [''rw'', ''nosuid'', ''nodev'', ''bind'']\<rparr>,
         \<lparr>m_ContainerPath = ''/tmp/nvidia-mps'', m_HostPath = path_string (mc_pipeDir d),
          m_Options = [''rw'', ''nosuid'', ''nodev'', ''bind'']\<rparr>]\<rparr>"

text \<open>\<open>Stop\<close> does nothing when the daemon's directory is gone; any other error of \<open>Stat\<close> is ignored.\<close>

definition Mps_Stop :: "'k mps_sys \<Rightarrow> MpsManager \<Rightarrow> MpsControlDaemon \<Rightarrow> (('c, 'n, 'k) world, unit) act" where
  "Mps_Stop S m d =
     seq (attempt (in_fs (os_Lstat (mc_rootDir d)))) (\<lambda>st.
     if (case st of Inl e \<Rightarrow> isNotExist e | Inr _ \<Rightarrow> False) then ret ()
     else
       seq (attempt (in_kube (dp_Delete S (mm_namespace m) (mc_name d)))) (\<lambda>r.
       seq (case r of Inr _ \<Rightarrow> ret ()
            | Inl e \<Rightarrow> if isNotFound e then ret () else throw (Wrap ''failed to delete deployment'' e)) (\<lambda>_.
       seq (wrapping ''error finding mount executable'' (in_fs (mt_LookPath S))) (\<lambda>_.
       seq (wrapping ''error unmounting'' (in_fs (mt_CleanupMountPoint S (mc_shmDir d)))) (\<lambda>_.
       wrapping ''error removing directory'' (in_fs (os_RemoveAll (mc_rootDir d))))))))"

section \<open>The same daemon for preparing and unpreparing\<close>

text \<open>A provider answers with the UUIDs of its members in sorted order, so two providers with the same
  members name the same daemon.\<close>

locale uuid_provider =
  fixes uuids :: "'d \<Rightarrow> string list res"
    and members :: "'d \<Rightarrow> string list res"
  assumes uuids_sorted: "members d = Inr ms \<Longrightarrow> uuids d = Inr (sort_strings ms)"
begin

lemma uuids_of_members: "members d = Inr ms \<Longrightarrow> mset ms = mset xs \<Longrightarrow> uuids d = Inr (sort_strings xs)"
  using uuids_sorted sort_strings_eq_iff by metis

lemma uuids_ordered: "members d = Inr ms \<Longrightarrow> uuids d = Inr us \<Longrightarrow> sorted us"
  by (drule uuids_sorted) auto

end

interpretation allocatable_uuids: uuid_provider UUIDs "\<lambda>ds. res_all UUID (map snd ds)"
  by unfold_locales (simp add: UUIDs_def)

definition prepared_uuid :: "PreparedDevice \<Rightarrow> string res" where
  "prepared_uuid d =
     (case PreparedDevice_Type d of
        PreparedGpuType \<Rightarrow>
          res_seq (deref (pd_Gpu d)) (\<lambda>p. res_seq (deref (pg_Info p)) (\<lambda>i. Inr (g_UUID i)))
      | PreparedMigDeviceType \<Rightarrow>
          res_seq (deref (pd_Mig d)) (\<lambda>p. res_seq (deref (pm_Concrete p)) (\<lambda>c. Inr (ml_MigUUID c)))
      | PreparedVfioType \<Rightarrow>
          res_seq (deref (pd_Vfio d)) (\<lambda>p. res_seq (deref (pv_Info p)) (\<lambda>i. Inr (v_UUID i)))
      | _ \<Rightarrow> Inl (Panicked ''not a device of a daemon''))"

text \<open>The devices of a group that its UUIDs cover: all but HAMi-Core GPUs.\<close>

definition daemon_devices :: "PreparedDeviceGroup \<Rightarrow> PreparedDeviceList" where
  "daemon_devices g =
     filter (\<lambda>d. PreparedDevice_Type d \<in> {PreparedGpuType, PreparedMigDeviceType, PreparedVfioType}) (grp_Devices g)"

lemma type_filters [simp]:
  "Gpus (Gpus l) = Gpus l" "MigDevices (Gpus l) = []" "VfioDevices (Gpus l) = []"
  "Gpus (MigDevices l) = []" "MigDevices (MigDevices l) = MigDevices l" "VfioDevices (MigDevices l) = []"
  "Gpus (VfioDevices l) = []" "MigDevices (VfioDevices l) = []" "VfioDevices (VfioDevices l) = VfioDevices l"
  by (simp_all add: Gpus_def MigDevices_def VfioDevices_def filter_empty_conv)

lemma members_by_type:
  assumes "res_all prepared_uuid (filter (\<lambda>d. PreparedDevice_Type d \<in> {PreparedGpuType, PreparedMigDeviceType, PreparedVfioType}) l) = Inr ms"
  shows "\<exists>g m v.
    res_all (\<lambda>d. res_seq (deref (pd_Gpu d)) (\<lambda>p. res_seq (deref (pg_Info p)) (\<lambda>i. Inr (g_UUID i)))) (Gpus l) = Inr g \<and>
    res_all (\<lambda>d. res_seq (deref (pd_Mig d)) (\<lambda>p. res_seq (deref (pm_Concrete p)) (\<lambda>c. Inr (ml_MigUUID c)))) (MigDevices l) = Inr m \<and>
    res_all (\<lambda>d. res_seq (deref (pd_Vfio d)) (\<lambda>p. res_seq (deref (pv_Info p)) (\<lambda>i. Inr (v_UUID i)))) (VfioDevices l) = Inr v \<and>
    mset ms = mset g + mset m + mset v"
  using assms
proof (induction l arbitrary: ms)
  case Nil
  then show ?case by (simp add: Gpus_def MigDevices_def VfioDevices_def)
next
  case (Cons d l)
  show ?case
  proof (cases "PreparedDevice_Type d \<in> {PreparedGpuType, PreparedMigDeviceType, PreparedVfioType}")
    case False
    with Cons show ?thesis by (simp add: Gpus_def MigDevices_def VfioDevices_def)
  next
    case True
    with Cons.prems obtain u ms' where u: "prepared_uuid d = Inr u" and ms: "ms = u # ms'"
      and rest: "res_all prepared_uuid (filter (\<lambda>d. PreparedDevice_Type d \<in> {PreparedGpuType, PreparedMigDeviceType, PreparedVfioType}) l) = Inr ms'"
      by (auto simp: res_seq_Inr)
    from Cons.IH [OF rest] u ms True show ?thesis
      by (auto simp: Gpus_def MigDevices_def VfioDevices_def prepared_uuid_def)
  qed
qed

interpretation group_uuids: uuid_provider Group_UUIDs "\<lambda>g. res_all prepared_uuid (daemon_devices g)"
proof unfold_locales
  fix g ms
  assume "res_all prepared_uuid (daemon_devices g) = Inr ms"
  from members_by_type [OF this [unfolded daemon_devices_def]] obtain a b c where
    "List_GpuUUIDs (Gpus (grp_Devices g)) = Inr (sort_strings a)"
    "List_MigDeviceUUIDs (MigDevices (grp_Devices g)) = Inr (sort_strings b)"
    "List_VfioDeviceUUIDs (VfioDevices (grp_Devices g)) = Inr (sort_strings c)"
    and m: "mset ms = mset a + mset b + mset c"
    by (auto simp: List_GpuUUIDs_def List_MigDeviceUUIDs_def List_VfioDeviceUUIDs_def)
  moreover have "List_GpuUUIDs (MigDevices l) = Inr []" "List_GpuUUIDs (VfioDevices l) = Inr []"
    "List_MigDeviceUUIDs (Gpus l) = Inr []" "List_MigDeviceUUIDs (VfioDevices l) = Inr []"
    "List_VfioDeviceUUIDs (Gpus l) = Inr []" "List_VfioDeviceUUIDs (MigDevices l) = Inr []" for l
    by (simp_all add: List_GpuUUIDs_def List_MigDeviceUUIDs_def List_VfioDeviceUUIDs_def sort_strings_def)
  ultimately have "Group_UUIDs g = Inr (sort_strings ((sort_strings a @ sort_strings b) @ sort_strings c))"
    by (simp add: Group_UUIDs_def Group_GpuUUIDs_def Group_MigDeviceUUIDs_def Group_VfioDeviceUUIDs_def
        List_UUIDs_def sort_strings_def sorted_sort_id)
  also have "sort_strings ((sort_strings a @ sort_strings b) @ sort_strings c) = sort_strings ms"
    unfolding sort_strings_eq_iff m by (simp add: sort_strings_def)
  finally show "Group_UUIDs g = Inr (sort_strings ms)" .
qed

lemma prepared_uuid_stored [simp]: "prepared_uuid (stored_PreparedDevice d) = prepared_uuid d"
  by (auto simp: prepared_uuid_def stored_PreparedDevice_def PreparedDevice_Type_def stored_Gpu_def
      stored_Vfio_def stored_GpuInfo_def stored_VfioDeviceInfo_def deref_def split: option.split)

lemma daemon_devices_stored: "daemon_devices (stored_Group g) = map stored_PreparedDevice (daemon_devices g)"
proof -
  have "PreparedDevice_Type (stored_PreparedDevice d) = PreparedDevice_Type d" for d
    by (simp add: PreparedDevice_Type_def stored_PreparedDevice_def)
  then show ?thesis by (simp add: daemon_devices_def stored_Group_def filter_map comp_def)
qed

lemma res_all_map: "res_all f (map h xs) = res_all (\<lambda>x. f (h x)) xs"
  by (induction xs) simp_all

text \<open>C34: Preparing names the MPS control daemon by the allocatable devices of a configuration,
  unpreparing by the prepared devices read back from the checkpoint. When these are the same devices,
  the daemon is the same: what Start created is what Stop looks for.\<close>

theorem mps_daemon_same_id:
  assumes "res_all UUID (map snd ds) = Inr us"
    and "res_all prepared_uuid (daemon_devices g) = Inr vs"
    and "mset us = mset vs"
  shows "NewMpsControlDaemon S m claimUID (group_provider (stored_Group g)) =
    map_sum id (\<lambda>d. d\<lparr>mc_devices := group_provider (stored_Group g)\<rparr>)
      (NewMpsControlDaemon S m claimUID (allocatable_provider ds))"
proof -
  have "UUIDs ds = Inr (sort_strings us)"
    using assms(1) by (rule allocatable_uuids.uuids_sorted)
  moreover have "res_all prepared_uuid (daemon_devices (stored_Group g)) = Inr vs"
    using assms(2) by (simp add: daemon_devices_stored res_all_map)
  then have "Group_UUIDs (stored_Group g) = Inr (sort_strings us)"
    by (rule group_uuids.uuids_of_members) (simp add: assms(3))
  ultimately show ?thesis
    by (simp add: NewMpsControlDaemon_def GetMpsControlDaemonID_def group_provider_def allocatable_provider_def)
qed

definition sample_gpu :: "string \<Rightarrow> int \<Rightarrow> GpuInfo" where
  "sample_gpu uuid minor = (sp_Parent (sample_spec 0 0))\<lparr>g_UUID := uuid, g_minor := minor\<rparr>"

theorem mps_daemon_same_id_witness:
  "\<forall>S m. NewMpsControlDaemon S m ''claim''
     (group_provider (stored_Group
       \<lparr>grp_Devices = map (\<lambda>g. no_prepared\<lparr>pd_Gpu := Some \<lparr>pg_Info = Some g, pg_Device = None\<rparr>\<rparr>)
          [sample_gpu ''GPU-b'' 1, sample_gpu ''GPU-a'' 0],
        grp_ConfigState = \<lparr>dcs_MpsControlDaemonID = '''', dcs_containerEdits = None\<rparr>\<rparr>)) =
    map_sum id (\<lambda>d. d\<lparr>mc_devices := group_provider (stored_Group
       \<lparr>grp_Devices = map (\<lambda>g. no_prepared\<lparr>pd_Gpu := Some \<lparr>pg_Info = Some g, pg_Device = None\<rparr>\<rparr>)
          [sample_gpu ''GPU-b'' 1, sample_gpu ''GPU-a'' 0],
        grp_ConfigState = \<lparr>dcs_MpsControlDaemonID = '''', dcs_containerEdits = None\<rparr>\<rparr>)\<rparr>)
      (NewMpsControlDaemon S m ''claim'' (allocatable_provider
        [(''gpu-0'', no_device\<lparr>ad_Gpu := Some (sample_gpu ''GPU-a'' 0)\<rparr>),
         (''gpu-1'', no_device\<lparr>ad_Gpu := Some (sample_gpu ''GPU-b'' 1)\<rparr>)]))"
  by (intro allI, rule mps_daemon_same_id [where us = "[''GPU-a'', ''GPU-b'']" and vs = "[''GPU-b'', ''GPU-a'']"])
    (simp_all add: UUID_def no_device_def no_prepared_def sample_gpu_def sample_spec_def daemon_devices_def
      prepared_uuid_def PreparedDevice_Type_def add_mset_commute)

end
