(* ===== verification/Vfio.thy ===== *)
theory Vfio
  imports NvEnum
begin

text \<open>
  Passthrough GPUs (\<open>cmd/hami-kubelet-plugin/vfio-device.go\<close>): binding a GPU to the vfio-pci driver
  for a claim and back to the nvidia driver afterwards. What the kernel shows under \<open>/sys\<close>, the scripts
  and \<open>chroot\<close>, nvpci and the ticker are parameters over the hardware state \<open>'n\<close>; the per-GPU mutex
  (\<open>mutex.go\<close>) serialises callers and has no state of its own here. \<open>klog.Fatalf\<close> ends the
  process and is modelled as a panic.
\<close>

datatype exec_result = ExitOk | ExitCode nat | ExecError string

record 'n vfio_sys =
  vf_exec :: "string \<Rightarrow> string list \<Rightarrow> ('n, exec_result) act"
  vf_Readlink :: "string \<Rightarrow> ('n, string) act"
  vf_StatIsDir :: "string \<Rightarrow> ('n, bool) act"
  vf_HasEntry :: "string \<Rightarrow> ('n, bool) act"
  vf_NumVFs :: "string \<Rightarrow> ('n, int) act"
  vf_TicksBeforeTimeout :: "('n, nat) act"

record VfioPciManager =
  vm_hostDriverRoot :: string
  vm_driver :: string
  vm_nvidiaEnabled :: bool

definition vfioPciDriver :: string where
  "vfioPciDriver = ''vfio-pci''"

definition nvidiaDriver :: string where
  "nvidiaDriver = ''nvidia''"

definition pciDevicesRoot :: string where
  "pciDevicesRoot = ''/sys/bus/pci/devices''"

section \<open>Running commands\<close>

fun exec_ok :: "exec_result \<Rightarrow> ('n, unit) act" where
  "exec_ok ExitOk = ret ()"
| "exec_ok (ExitCode n) = throw (Err ''exit status'')"
| "exec_ok (ExecError m) = throw (Err m)"

definition execCommand :: "'n vfio_sys \<Rightarrow> string \<Rightarrow> string list \<Rightarrow> ('n, exec_result) act" where
  "execCommand S cmd args = vf_exec S cmd args"

definition execCommandWithChroot :: "'n vfio_sys \<Rightarrow> string \<Rightarrow> string \<Rightarrow> string list \<Rightarrow> ('n, exec_result) act" where
  "execCommandWithChroot S fsRoot cmd args = vf_exec S ''chroot'' ([fsRoot, cmd] @ args)"

section \<open>Module and IOMMU\<close>

definition isIommuEnabled :: "'n vfio_sys \<Rightarrow> ('n, bool) act" where
  "isIommuEnabled S =
     seq (attempt (vf_HasEntry S ''/sys/kernel/iommu_groups'')) (\<lambda>r.
     case r of
       Inr b \<Rightarrow> ret b
     | Inl e \<Rightarrow> if isNotExist e then ret False else throw e)"

definition isVfioPCIModuleLoaded :: "'n vfio_sys \<Rightarrow> ('n, bool) act" where
  "isVfioPCIModuleLoaded S =
     seq (attempt (vf_StatIsDir S ''/sys/module/vfio_pci'')) (\<lambda>r.
     case r of
       Inr b \<Rightarrow> ret b
     | Inl e \<Rightarrow> if isNotExist e then ret False else panic ''Failed to check if vfio_pci module is loaded'')"

definition loadVfioPciModule :: "'n vfio_sys \<Rightarrow> ('n, unit) act" where
  "loadVfioPciModule S = seq (execCommandWithChroot S ''/host-root'' ''modprobe'' [''vfio_pci'']) exec_ok"

definition NewVfioPciManager :: "'n vfio_sys \<Rightarrow> string \<Rightarrow> bool \<Rightarrow> ('n, VfioPciManager) act" where
  "NewVfioPciManager S hostDriverRoot nvidiaEnabled =
     seq (isVfioPCIModuleLoaded S) (\<lambda>loaded.
     seq (if loaded then ret ()
          else seq (attempt (loadVfioPciModule S)) (\<lambda>r.
               case r of Inl _ \<Rightarrow> panic ''failed to load vfio_pci module'' | Inr _ \<Rightarrow> ret ())) (\<lambda>_.
     ret \<lparr>vm_hostDriverRoot = hostDriverRoot, vm_driver = vfioPciDriver, vm_nvidiaEnabled = nvidiaEnabled\<rparr>))"

definition ValidatePassthroughSupport :: "'n vfio_sys \<Rightarrow> ('n, unit) act" where
  "ValidatePassthroughSupport S =
     seq (isVfioPCIModuleLoaded S) (\<lambda>loaded.
     if \<not> loaded then throw (Err ''vfio_pci module is not loaded'')
     else seq (isIommuEnabled S) (\<lambda>iommu.
          if iommu then ret () else throw (Err ''IOMMU is not enabled in the kernel'')))"

section \<open>Changing the driver\<close>

definition getDriver :: "'n vfio_sys \<Rightarrow> string \<Rightarrow> ('n, string) act" where
  "getDriver S pciAddress =
     seq (vf_Readlink S (pciDevicesRoot @ ''/'' @ pciAddress @ ''/driver'')) (\<lambda>driverPath.
     ret (case cut_last (CHR ''/'') driverPath of None \<Rightarrow> driverPath | Some (_, driver) \<Rightarrow> driver))"

definition unbindFromDriver :: "'n vfio_sys \<Rightarrow> string \<Rightarrow> ('n, unit) act" where
  "unbindFromDriver S pciAddress = seq (execCommand S ''/usr/bin/unbind_from_driver.sh'' [pciAddress]) exec_ok"

definition bindToDriver :: "'n vfio_sys \<Rightarrow> string \<Rightarrow> string \<Rightarrow> ('n, unit) act" where
  "bindToDriver S pciAddress driver = seq (execCommand S ''/usr/bin/bind_to_driver.sh'' [pciAddress, driver]) exec_ok"

definition changeDriver :: "'n vfio_sys \<Rightarrow> string \<Rightarrow> string \<Rightarrow> ('n, unit) act" where
  "changeDriver S pciAddress driver =
     seq (unbindFromDriver S pciAddress) (\<lambda>_. bindToDriver S pciAddress driver)"

text \<open>One \<open>fuser\<close> per tick until it reports no user (exit code 1) or the timeout fires. The number of
  ticks the \<open>select\<close> sees before it takes the timeout comes from outside; it is finite, so the loop ends.\<close>

fun poll_free :: "'n vfio_sys \<Rightarrow> string \<Rightarrow> nat \<Rightarrow> ('n, unit) act" where
  "poll_free S gpuDeviceNode 0 = throw (Err ''timed out waiting for gpu to be free'')"
| "poll_free S gpuDeviceNode (Suc n) =
     seq (execCommandWithChroot S ''/host-root'' ''fuser'' [gpuDeviceNode]) (\<lambda>r.
     if r = ExitCode 1 then ret () else poll_free S gpuDeviceNode n)"

definition WaitForGPUFree :: "'n vfio_sys \<Rightarrow> VfioPciManager \<Rightarrow> VfioDeviceInfo \<Rightarrow> ('n, unit) act" where
  "WaitForGPUFree S vm info =
     (case v_parent info of
        None \<Rightarrow> ret ()
      | Some p \<Rightarrow>
          seq (vf_TicksBeforeTimeout S) (\<lambda>n.
          poll_free S (vm_hostDriverRoot vm @ ''/dev/nvidia'' @ int_str (g_minor p)) n))"

definition verifyDisabledVFs :: "'n vfio_sys \<Rightarrow> string \<Rightarrow> ('n, unit) act" where
  "verifyDisabledVFs S pcieBusID =
     seq (vf_NumVFs S pcieBusID) (\<lambda>n. if n > 0 then throw (Err ''gpu has VFs, cannot unbind'') else ret ())"

definition Configure :: "'n vfio_sys \<Rightarrow> VfioPciManager \<Rightarrow> VfioDeviceInfo \<Rightarrow> ('n, unit) act" where
  "Configure S vm info =
     seq (getDriver S (v_pcieBusID info)) (\<lambda>driver.
     if driver = vm_driver vm then ret ()
     else if \<not> vm_nvidiaEnabled vm \<or> driver \<noteq> nvidiaDriver then throw (Err ''gpu is bound to another driver'')
     else seq (WaitForGPUFree S vm info) (\<lambda>_.
          seq (verifyDisabledVFs S (v_pcieBusID info)) (\<lambda>_.
          changeDriver S (v_pcieBusID info) (vm_driver vm))))"

definition Unconfigure :: "'n vfio_sys \<Rightarrow> VfioPciManager \<Rightarrow> VfioDeviceInfo \<Rightarrow> ('n, unit) act" where
  "Unconfigure S vm info =
     (if \<not> vm_nvidiaEnabled vm then ret ()
      else seq (getDriver S (v_pcieBusID info)) (\<lambda>driver.
           if driver = nvidiaDriver then ret ()
           else changeDriver S (v_pcieBusID info) nvidiaDriver))"

section \<open>Container edits\<close>

definition vfio_node :: "string \<Rightarrow> device_node" where
  "vfio_node name = \<lparr>dn_Path = ''/dev/vfio/'' @ name, dn_Type = '''', dn_FileMode = None, dn_Major = 0, dn_Minor = 0\<rparr>"

definition GetVfioCommonCDIContainerEdits :: container_edits where
  "GetVfioCommonCDIContainerEdits =
     \<lparr>ce_Env = [''NVIDIA_VISIBLE_DEVICES=void''], ce_DeviceNodes = [vfio_node ''vfio''], ce_Mounts = []\<rparr>"

definition GetVfioCDIContainerEdits :: "VfioDeviceInfo \<Rightarrow> container_edits" where
  "GetVfioCDIContainerEdits info =
     \<lparr>ce_Env = [], ce_DeviceNodes = [vfio_node (int_str (v_iommuGroup info))], ce_Mounts = []\<rparr>"

section \<open>A GPU changes hands\<close>

text \<open>What the kernel and the scripts are relied on for: \<open>driver_of\<close> is the driver of a GPU; reading the
  link reports it, a successful bind sets it and nothing else changes it but the unbind script.\<close>

definition driver_law :: "'n vfio_sys \<Rightarrow> ('n \<Rightarrow> string \<Rightarrow> string) \<Rightarrow> bool" where
  "driver_law S driver_of \<longleftrightarrow>
     (\<forall>n a p n'. vf_Readlink S (pciDevicesRoot @ ''/'' @ a @ ''/driver'') n = (Inr p, n') \<longrightarrow>
        driver_of n' = driver_of n \<and>
        driver_of n a = (case cut_last (CHR ''/'') p of None \<Rightarrow> p | Some (_, d) \<Rightarrow> d)) \<and>
     (\<forall>n a d n'. vf_exec S ''/usr/bin/bind_to_driver.sh'' [a, d] n = (Inr ExitOk, n') \<longrightarrow> driver_of n' a = d)"

lemma exec_ok_Inr: "exec_ok r n = (Inr (), n') \<longleftrightarrow> r = ExitOk \<and> n' = n"
  by (cases r) (auto simp: act_defs)

lemma changeDriver_ok:
  assumes "driver_law S driver_of" and "changeDriver S a d n = (Inr (), n')"
  shows "driver_of n' a = d"
  using assms
  by (auto simp: changeDriver_def bindToDriver_def execCommand_def seq_Inr exec_ok_Inr driver_law_def)

lemma getDriver_ok:
  assumes "driver_law S driver_of" and "getDriver S a n = (Inr d, n')"
  shows "driver_of n a = d \<and> driver_of n' = driver_of n"
  using assms by (fastforce simp: getDriver_def seq_Inr ret_def driver_law_def)



end
