(* ===== verification/Cdi.thy ===== *)
theory Cdi
  imports Sharing Vfio
begin

text \<open>
  CDI specs (\<open>cmd/hami-kubelet-plugin/cdi.go\<close>, \<open>pkg/common/nvcaps.go\<close>): the cached parts that nvcdi
  generates, the device nodes of a MIG device, the per-claim spec file and its name. nvcdi, the CDI
  library and its root transformer are parameters. The cache hands out copies, which is what values are
  here; an entry expires five minutes after it was made.
\<close>

section \<open>The libraries\<close>

record cdi_spec =
  cspec_Vendor :: string
  cspec_Class :: string
  cspec_Devices :: "cdi_device list"
  cspec_Edits :: container_edits

record 'n cdi_sys =
  nvcdi_GetCommonEdits :: "('n, container_edits) act"
  nvcdi_GetDeviceSpecsByID :: "string \<Rightarrow> ('n, cdi_device list) act"
  edits_Append :: "container_edits \<Rightarrow> container_edits \<Rightarrow> container_edits"
  spec_New :: "string \<Rightarrow> string \<Rightarrow> cdi_device list \<Rightarrow> container_edits \<Rightarrow> err + cdi_spec"
  spec_Transform :: "cdi_spec \<Rightarrow> err + cdi_spec"
  spec_Save :: "path \<Rightarrow> cdi_spec \<Rightarrow> (fs, unit) act"
  GenerateTransientSpecName :: "string \<Rightarrow> string \<Rightarrow> string \<Rightarrow> string"
  cdi_QualifiedName :: "string \<Rightarrow> string \<Rightarrow> string \<Rightarrow> string"
  cdiRoot :: path

definition DriverName :: string where
  "DriverName = ''hami-core-gpu.project-hami.io''"

definition cdiVendor :: string where
  "cdiVendor = ''k8s.'' @ DriverName"

definition cdiClaimClass :: string where
  "cdiClaimClass = ''claim''"

section \<open>Device nodes of a MIG device\<close>

record NVcapDeviceInfo =
  nc_Major :: int
  nc_Minor :: int
  nc_Mode :: int
  nc_Modify :: int
  nc_Path :: string

definition CDICharDevNode :: "NVcapDeviceInfo \<Rightarrow> device_node" where
  "CDICharDevNode i =
     \<lparr>dn_Path = nc_Path i, dn_Type = ''c'', dn_FileMode = Some (nc_Mode i mod 2 ^ 32),
      dn_Major = nc_Major i, dn_Minor = nc_Minor i\<rparr>"

text \<open>The submatch of \<open>(?s)Character devices:.*?([0-9]+) name\n.*Block devices:\<close>: the first number
  after the heading that is followed by the name, a newline and, later, the other heading.\<close>

fun contains :: "string \<Rightarrow> string \<Rightarrow> bool" where
  "contains sub [] = (sub = [])"
| "contains sub (c # cs) = (prefix sub (c # cs) \<or> contains sub cs)"

fun after_first :: "string \<Rightarrow> string \<Rightarrow> string option" where
  "after_first sub [] = (if sub = [] then Some [] else None)"
| "after_first sub (c # cs) =
     (if prefix sub (c # cs) then Some (drop (length sub) (c # cs)) else after_first sub cs)"

fun named_number :: "string \<Rightarrow> string \<Rightarrow> string option" where
  "named_number tail [] = None"
| "named_number tail (c # cs) =
     (let ds = takeWhile is_digit (c # cs); r = dropWhile is_digit (c # cs)
      in if ds \<noteq> [] \<and> prefix tail r \<and> contains ''Block devices:'' (drop (length tail) r) then Some ds
         else named_number tail cs)"

definition major_in :: "string \<Rightarrow> string \<Rightarrow> err + int" where
  "major_in name text =
     (case after_first ''Character devices:'' text of
        None \<Rightarrow> Inl (Err ''unexpected regex match'')
      | Some r \<Rightarrow>
          (case named_number ('' '' @ name @ [CHR 0x0A]) r of
             None \<Rightarrow> Inl (Err ''unexpected regex match'')
           | Some ds \<Rightarrow> if int (digits_val ds) \<le> 2147483647 then Inr (int (digits_val ds))
                        else Inl (Err ''int conversion failed'')))"

definition GetDeviceMajor :: "string \<Rightarrow> (fs, int) act" where
  "GetDeviceMajor name =
     seq (wrapping ''error reading /proc/devices'' (os_ReadFile [''proc'', ''devices''])) (\<lambda>data.
     entry_act (major_in name data))"

text \<open>\<open>Sscanf\<close> with the verb d, ignoring its error: blanks, an optional sign, digits; else the target keeps its
  value.\<close>

definition scan_int :: "string \<Rightarrow> int \<Rightarrow> int" where
  "scan_int s old =
     (let t = dropWhile is_space s;
          neg = prefix ''-'' t;
          u = (if t \<noteq> [] \<and> (hd t = CHR ''-'' \<or> hd t = CHR ''+'') then tl t else t);
          ds = takeWhile is_digit u
      in if ds = [] \<or> int (digits_val ds) > max_int then old
         else if neg then - int (digits_val ds) else int (digits_val ds))"

definition caps_line :: "string \<Rightarrow> NVcapDeviceInfo \<Rightarrow> NVcapDeviceInfo" where
  "caps_line line info =
     (case cut_first (CHR '':'') line of
        None \<Rightarrow> info
      | Some (k, v) \<Rightarrow>
          let key = trim_space k; val = trim_space v
          in if key = ''DeviceFileMinor'' then info\<lparr>nc_Minor := scan_int val (nc_Minor info)\<rparr>
             else if key = ''DeviceFileMode'' then info\<lparr>nc_Mode := scan_int val (nc_Mode info)\<rparr>
             else if key = ''DeviceFileModify'' then info\<lparr>nc_Modify := scan_int val (nc_Modify info)\<rparr>
             else info)"

definition ParseNVCapDeviceInfo :: "path \<Rightarrow> (fs, NVcapDeviceInfo) act" where
  "ParseNVCapDeviceInfo p =
     seq (os_ReadFile p) (\<lambda>text.
     seq (wrapping ''error getting device major'' (GetDeviceMajor ''nvidia-caps'')) (\<lambda>major.
     let info = fold caps_line (scan_lines text)
           \<lparr>nc_Major = major, nc_Minor = 0, nc_Mode = 0, nc_Modify = 0, nc_Path = ''''\<rparr>
     in ret (info\<lparr>nc_Path := ''/dev/nvidia-caps/nvidia-cap'' @ int_str (nc_Minor info)\<rparr>)))"

definition procNvCapsPath :: path where
  "procNvCapsPath = [''proc'', ''driver'', ''nvidia'', ''capabilities'']"

definition GetDevNodesForMigDevice :: "MigLiveTuple \<Rightarrow> (fs, device_node list) act" where
  "GetDevNodesForMigDevice mlt =
     (let gidir = procNvCapsPath @ [''gpu'' @ int_str (ml_ParentMinor mlt), ''mig'', ''gi'' @ int_str (ml_GIID mlt)]
      in seq (wrapping ''failed to parse GI capabilities file'' (ParseNVCapDeviceInfo (gidir @ [''access'']))) (\<lambda>gi.
         seq (wrapping ''failed to parse CI capabilities file''
               (ParseNVCapDeviceInfo (gidir @ [''ci'' @ int_str (ml_CIID mlt), ''access'']))) (\<lambda>ci.
         ret [CDICharDevNode gi, CDICharDevNode ci])))"

section \<open>The cache\<close>

definition cache_get :: "string \<Rightarrow> (('c, 'n, 'k) world, cache_value option) act" where
  "cache_get key = gets (\<lambda>w. case map_of (w_cache w) key of
     Some (v, expiry) \<Rightarrow> if w_now w < expiry then Some v else None
   | None \<Rightarrow> None)"

definition cache_set :: "string \<Rightarrow> cache_value \<Rightarrow> (('c, 'n, 'k) world, unit) act" where
  "cache_set key v = modify (\<lambda>w. w\<lparr>w_cache := AList.update key (v, w_now w + 300) (w_cache w)\<rparr>)"

definition GetCommonEditsCached :: "'n cdi_sys \<Rightarrow> (('c, 'n, 'k) world, container_edits) act" where
  "GetCommonEditsCached C =
     seq (cache_get ''commonEdits'') (\<lambda>v.
     case v of
       Some (CommonEdits e) \<Rightarrow> ret e
     | Some (DeviceSpecs _) \<Rightarrow> throw (Err ''expected *cdiapi.ContainerEdits'')
     | None \<Rightarrow>
         seq (in_lib (in_hw (nvcdi_GetCommonEdits C))) (\<lambda>e.
         seq (cache_set ''commonEdits'' (CommonEdits e)) (\<lambda>_. ret e)))"

definition GetDeviceSpecsByUUIDCached :: "'n cdi_sys \<Rightarrow> string \<Rightarrow> (('c, 'n, 'k) world, cdi_device list) act" where
  "GetDeviceSpecsByUUIDCached C uuid =
     seq (cache_get uuid) (\<lambda>v.
     case v of
       Some (DeviceSpecs ds) \<Rightarrow> ret ds
     | Some (CommonEdits _) \<Rightarrow> throw (Err ''expected []cdispec.Device'')
     | None \<Rightarrow>
         seq (in_lib (in_hw (nvcdi_GetDeviceSpecsByID C uuid))) (\<lambda>ds.
         seq (cache_set uuid (DeviceSpecs ds)) (\<lambda>_. ret ds)))"

definition WarmupDevSpecCache :: "'n cdi_sys \<Rightarrow> string list \<Rightarrow> (('c, 'n, 'k) world, unit) act" where
  "WarmupDevSpecCache C uuids =
     each (\<lambda>uuid. seq (attempt (GetDeviceSpecsByUUIDCached C uuid)) (\<lambda>_. ret ())) uuids"

section \<open>The claim's spec file\<close>

definition writeSpec :: "'n cdi_sys \<Rightarrow> cdi_spec \<Rightarrow> string \<Rightarrow> (fs, unit) act" where
  "writeSpec C spec specName =
     seq (wrapping ''failed to transform driver root in CDI spec'' (entry_act (spec_Transform C spec)))
       (\<lambda>spec'. spec_Save C (join_path (cdiRoot C) [specName @ ''.yaml'']) spec')"

definition spec_path :: "'n cdi_sys \<Rightarrow> string \<Rightarrow> path" where
  "spec_path C claimUID =
     join_path (cdiRoot C) [GenerateTransientSpecName C cdiVendor cdiClaimClass claimUID @ ''.yaml'']"

definition first_spec :: "'n cdi_sys \<Rightarrow> string \<Rightarrow> (('c, 'n, 'k) world, cdi_device) act" where
  "first_spec C uuid =
     seq (wrapping ''unable to get device spec'' (GetDeviceSpecsByUUIDCached C uuid)) (\<lambda>ds.
     case ds of [] \<Rightarrow> panic ''index out of range'' | d # _ \<Rightarrow> ret d)"

definition no_edits :: container_edits where
  "no_edits = \<lparr>ce_Env = [], ce_DeviceNodes = [], ce_Mounts = []\<rparr>"

text \<open>The spec of one prepared device, and whether the common edits become those of passthrough.\<close>

definition device_spec ::
    "'n cdi_sys \<Rightarrow> string \<Rightarrow> DeviceConfigState \<Rightarrow> PreparedDevice \<Rightarrow> container_edits \<Rightarrow>
     (('c, 'n, 'k) world, cdi_device \<times> container_edits) act" where
  "device_spec C claimUID cs dev commonEdits =
     seq (lift_res (PreparedDevice_CanonicalName dev)) (\<lambda>name.
     seq (case PreparedDevice_Type dev of
            PreparedHAMiGpuType \<Rightarrow>
              seq (lift_res (res_seq (deref (pd_HAMiGpu dev)) (\<lambda>p. deref (phg_Info p)))) (\<lambda>i.
              seq (first_spec C (g_UUID (h_GpuInfo i))) (\<lambda>d. ret (d, commonEdits)))
          | PreparedGpuType \<Rightarrow>
              seq (lift_res (res_seq (deref (pd_Gpu dev)) (\<lambda>p. deref (pg_Info p)))) (\<lambda>i.
              seq (first_spec C (g_UUID i)) (\<lambda>d. ret (d, commonEdits)))
          | PreparedVfioType \<Rightarrow>
              seq (lift_res (res_seq (deref (pd_Vfio dev)) (\<lambda>p. deref (pv_Info p)))) (\<lambda>i.
              ret (\<lparr>cd_Name = '''', cd_Edits = GetVfioCDIContainerEdits i\<rparr>, GetVfioCommonCDIContainerEdits))
          | PreparedMigDeviceType \<Rightarrow>
              seq (lift_res (res_seq (deref (pd_Mig dev)) (\<lambda>p. deref (pm_Concrete p)))) (\<lambda>mlt.
              seq (first_spec C (ml_ParentUUID mlt)) (\<lambda>d.
              seq (wrapping ''failed to construct MIG device DeviceNode edits'' (in_fs (GetDevNodesForMigDevice mlt))) (\<lambda>ns.
              ret (d\<lparr>cd_Edits := (cd_Edits d)\<lparr>ce_DeviceNodes := ce_DeviceNodes (cd_Edits d) @ ns\<rparr>\<rparr>, commonEdits))))
          | PreparedUnknownType \<Rightarrow> ret (\<lparr>cd_Name = '''', cd_Edits = no_edits\<rparr>, commonEdits)) (\<lambda>(d, common).
     let d1 = d\<lparr>cd_Name := claimUID @ ''-'' @ name\<rparr>
     in ret (case dcs_containerEdits cs of
               None \<Rightarrow> d1
             | Some e \<Rightarrow> d1\<lparr>cd_Edits := edits_Append C (cd_Edits d1) e\<rparr>, common)))"

definition claim_specs ::
    "'n cdi_sys \<Rightarrow> string \<Rightarrow> PreparedDevices \<Rightarrow> container_edits \<Rightarrow>
     (('c, 'n, 'k) world, cdi_device list \<times> container_edits) act" where
  "claim_specs C claimUID preparedDevices common0 =
     fold_act (\<lambda>(cs, dev) (specs, common).
         seq (device_spec C claimUID cs dev common) (\<lambda>(d, common'). ret (specs @ [d], common')))
       (concat (map (\<lambda>g. map (Pair (grp_ConfigState g)) (grp_Devices g)) preparedDevices)) ([], common0)"

definition CreateClaimSpecFile :: "'n cdi_sys \<Rightarrow> string \<Rightarrow> PreparedDevices \<Rightarrow> (('c, 'n, 'k) world, unit) act" where
  "CreateClaimSpecFile C claimUID preparedDevices =
     seq (wrapping ''failed to get common CDI spec edits'' (GetCommonEditsCached C)) (\<lambda>commonEdits.
     seq (claim_specs C claimUID preparedDevices commonEdits) (\<lambda>(deviceSpecs, common).
     seq (wrapping ''failed to create CDI spec'' (entry_act (spec_New C cdiVendor cdiClaimClass deviceSpecs common))) (\<lambda>spec.
     in_fs (writeSpec C spec (GenerateTransientSpecName C cdiVendor cdiClaimClass claimUID)))))"

definition DeleteClaimSpecFile :: "'n cdi_sys \<Rightarrow> string \<Rightarrow> (fs, unit) act" where
  "DeleteClaimSpecFile C claimUID =
     seq (attempt (os_Remove (spec_path C claimUID))) (\<lambda>r.
     case r of Inr _ \<Rightarrow> ret () | Inl e \<Rightarrow> if isNotExist e then ret () else throw e)"

definition GetClaimDeviceName :: "'n cdi_sys \<Rightarrow> string \<Rightarrow> AllocatableDevice \<Rightarrow> string res" where
  "GetClaimDeviceName C claimUID device =
     res_seq (CanonicalName device) (\<lambda>name.
     Inr (cdi_QualifiedName C cdiVendor cdiClaimClass (claimUID @ ''-'' @ name)))"

end
