(* ===== verification/Configs.thy ===== *)
theory Configs
  imports Cdi
begin

text \<open>
  Which configuration applies to which allocated device: the decoding of the opaque configurations of a
  claim in order of precedence (\<open>GetOpaqueDeviceConfigs\<close>) and the assignment of allocation results to
  configurations in \<open>prepareDevices\<close> (\<open>cmd/hami-kubelet-plugin/device_state.go\<close>). The code keys a
  map by the pointer to a configuration; here the key is its position in the list of configurations.
\<close>

section \<open>Decoding\<close>

record OpaqueDeviceConfig =
  oc_Requests :: "string list"
  oc_Config :: config_object

fun other_source :: "config_source \<Rightarrow> bool" where
  "other_source (FromOther s) = True"
| "other_source _ = False"

fun decode_configs :: "config_api \<Rightarrow> string \<Rightarrow> allocation_config list \<Rightarrow> err + OpaqueDeviceConfig list" where
  "decode_configs api driverName [] = Inr []"
| "decode_configs api driverName (c # cs) =
     (case ac_Opaque c of
        None \<Rightarrow> Inl (Err ''only opaque parameters are supported by this driver'')
      | Some (driver, raw) \<Rightarrow>
          if driver \<noteq> driverName then decode_configs api driverName cs
          else (case ca_Decode api raw of
                  Inl e \<Rightarrow> Inl (Wrap ''error decoding config parameters'' e)
                | Inr obj \<Rightarrow>
                    (case decode_configs api driverName cs of
                       Inl e \<Rightarrow> Inl e
                     | Inr r \<Rightarrow> Inr (\<lparr>oc_Requests = ac_Requests c, oc_Config = obj\<rparr> # r))))"

definition GetOpaqueDeviceConfigs ::
    "config_api \<Rightarrow> string \<Rightarrow> allocation_config list \<Rightarrow> err + OpaqueDeviceConfig list" where
  "GetOpaqueDeviceConfigs api driverName possibleConfigs =
     (if list_ex (\<lambda>c. other_source (ac_Source c)) possibleConfigs then Inl (Err ''invalid config source'')
      else decode_configs api driverName
             (filter (\<lambda>c. ac_Source c = FromClass) possibleConfigs @
              filter (\<lambda>c. ac_Source c = FromClaim) possibleConfigs))"

text \<open>The defaults, in front of the list: lowest precedence.\<close>

definition with_defaults :: "gates \<Rightarrow> config_api \<Rightarrow> OpaqueDeviceConfig list \<Rightarrow> OpaqueDeviceConfig list" where
  "with_defaults Enabled api configs =
     (let gpu = \<lparr>oc_Requests = [], oc_Config = GpuConfig (ca_DefaultGpuSharing api)\<rparr>;
          mig = \<lparr>oc_Requests = [], oc_Config = MigDeviceConfig (ca_DefaultMigSharing api)\<rparr>;
          vfio = \<lparr>oc_Requests = [], oc_Config = VfioDeviceConfig\<rparr>
      in (if Enabled PassthroughSupport then [vfio] else []) @ [mig, gpu] @ configs)"

section \<open>Choosing\<close>

fun fits :: "config_object \<Rightarrow> DeviceType \<Rightarrow> bool" where
  "fits (GpuConfig s) t \<longleftrightarrow> t = GpuDeviceType \<or> t = HAMiGpuDeviceType"
| "fits (MigDeviceConfig s) t \<longleftrightarrow> t = MigStaticDeviceType \<or> t = MigDynamicDeviceType"
| "fits VfioDeviceConfig t \<longleftrightarrow> t = VfioDeviceType"
| "fits (OtherObject s) t \<longleftrightarrow> True"

text \<open>The search from the back of the list: a configuration that names the request is taken, and must
  suit the device; one that names no request is taken if it suits the device. \<open>None\<close>: none applies.\<close>

fun select_config :: "DeviceType \<Rightarrow> string \<Rightarrow> (nat \<times> OpaqueDeviceConfig) list \<Rightarrow> err + nat option" where
  "select_config t request [] = Inr None"
| "select_config t request ((i, c) # cs) =
     (if request \<in> set (oc_Requests c) then
        (if fits (oc_Config c) t then Inr (Some i) else Inl (Err ''cannot apply config to device type''))
      else if oc_Requests c = [] \<and> fits (oc_Config c) t then Inr (Some i)
      else select_config t request cs)"

definition indexed :: "'a list \<Rightarrow> (nat \<times> 'a) list" where
  "indexed xs = zip [0..<length xs] xs"

type_synonym config_results = "(nat \<times> allocation_result list) list"

definition add_result :: "nat \<Rightarrow> allocation_result \<Rightarrow> config_results \<Rightarrow> config_results" where
  "add_result i r m = AList.update i ((case map_of m i of None \<Rightarrow> [] | Some rs \<Rightarrow> rs) @ [r]) m"

fun map_results ::
    "gates \<Rightarrow> AllocatableDevices \<Rightarrow> OpaqueDeviceConfig list \<Rightarrow> allocation_result list \<Rightarrow> config_results \<Rightarrow>
     config_results res" where
  "map_results Enabled allocatable configs [] m = Inr m"
| "map_results Enabled allocatable configs (r # rs) m =
     (if ar_Driver r \<noteq> DriverName then map_results Enabled allocatable configs rs m
      else (case map_of allocatable (ar_Device r) of
              None \<Rightarrow> Inl (Failed (Err ''requested device is not allocatable''))
            | Some device \<Rightarrow>
                res_seq (if Enabled NVMLDeviceHealthCheck then IsHealthy device else Inr True) (\<lambda>healthy.
                if \<not> healthy then Inl (Failed (Err ''requested device is not healthy''))
                else (case select_config (Type device) (ar_Request r) (rev (indexed configs)) of
                        Inl e \<Rightarrow> Inl (Failed e)
                      | Inr None \<Rightarrow> map_results Enabled allocatable configs rs m
                      | Inr (Some i) \<Rightarrow> map_results Enabled allocatable configs rs (add_result i r m)))))"

section \<open>What is chosen\<close>

text \<open>A configuration applies to a result if it names its request, or names none and suits the device.\<close>

definition applies :: "AllocatableDevices \<Rightarrow> OpaqueDeviceConfig \<Rightarrow> allocation_result \<Rightarrow> bool" where
  "applies allocatable c r \<longleftrightarrow>
     (case map_of allocatable (ar_Device r) of
        None \<Rightarrow> False
      | Some d \<Rightarrow> ar_Request r \<in> set (oc_Requests c) \<or> (oc_Requests c = [] \<and> fits (oc_Config c) (Type d)))"

definition suits :: "AllocatableDevices \<Rightarrow> OpaqueDeviceConfig \<Rightarrow> allocation_result \<Rightarrow> bool" where
  "suits allocatable c r \<longleftrightarrow>
     (case map_of allocatable (ar_Device r) of None \<Rightarrow> False | Some d \<Rightarrow> fits (oc_Config c) (Type d))"

text \<open>The position of the last configuration that applies.\<close>

definition last_applying :: "AllocatableDevices \<Rightarrow> OpaqueDeviceConfig list \<Rightarrow> allocation_result \<Rightarrow> nat option" where
  "last_applying allocatable configs r =
     (case filter (\<lambda>(i, c). applies allocatable c r) (rev (indexed configs)) of
        [] \<Rightarrow> None | (i, c) # _ \<Rightarrow> Some i)"

lemma select_config_first:
  "select_config t q cs = Inr x \<Longrightarrow>
   x = (case filter (\<lambda>(i, c). q \<in> set (oc_Requests c) \<or> (oc_Requests c = [] \<and> fits (oc_Config c) t)) cs of
          [] \<Rightarrow> None | (i, c) # _ \<Rightarrow> Some i) \<and>
   (\<forall>i. x = Some i \<longrightarrow> (\<exists>c. (i, c) \<in> set cs \<and> fits (oc_Config c) t))"
  by (induction t q cs rule: select_config.induct) (auto split: if_splits)

lemma set_indexed: "(i, c) \<in> set (indexed xs) \<longleftrightarrow> i < length xs \<and> c = xs ! i"
  by (force simp: indexed_def set_zip)

text \<open>The invariant of the loop: every group holds, in order, the results seen so far whose last applying
  configuration is that of the group, and that configuration suits each of them.\<close>

definition grouped ::
    "AllocatableDevices \<Rightarrow> OpaqueDeviceConfig list \<Rightarrow> allocation_result list \<Rightarrow> config_results \<Rightarrow> bool" where
  "grouped allocatable configs rs m \<longleftrightarrow>
     distinct (map fst m) \<and>
     (\<forall>i. (case map_of m i of None \<Rightarrow> [] | Some g \<Rightarrow> g) =
        filter (\<lambda>r. ar_Driver r = DriverName \<and> last_applying allocatable configs r = Some i) rs) \<and>
     (\<forall>(i, g) \<in> set m. i < length configs \<and> g \<noteq> [] \<and> (\<forall>r \<in> set g. suits allocatable (configs ! i) r))"

lemma grouped_start: "grouped allocatable configs [] []"
  by (simp add: grouped_def)

lemma grouped_skip:
  assumes "grouped al cs seen m" and "\<not> (ar_Driver r = DriverName \<and> last_applying al cs r \<noteq> None)"
  shows "grouped al cs (seen @ [r]) m"
  using assms by (auto simp: grouped_def)

lemma grouped_add:
  assumes "grouped al cs seen m" and "ar_Driver r = DriverName" and "last_applying al cs r = Some i"
    and "i < length cs" and "suits al (cs ! i) r"
  shows "grouped al cs (seen @ [r]) (add_result i r m)"
proof -
  let ?old = "case map_of m i of None \<Rightarrow> [] | Some rs \<Rightarrow> rs"
  have all: "\<forall>(i, g) \<in> set m. i < length cs \<and> g \<noteq> [] \<and> (\<forall>r \<in> set g. suits al (cs ! i) r)"
    using assms(1) by (simp add: grouped_def)
  then have old: "\<forall>x \<in> set ?old. suits al (cs ! i) x"
    by (cases "map_of m i") (auto dest: map_of_SomeD)
  have sub: "set (add_result i r m) \<subseteq> insert (i, ?old @ [r]) (set m)"
    unfolding add_result_def by (rule set_alist_update)
  have new: "(case map_of (add_result i r m) j of None \<Rightarrow> [] | Some g \<Rightarrow> g) =
      (if j = i then ?old @ [r] else case map_of m j of None \<Rightarrow> [] | Some g \<Rightarrow> g)" for j
    by (simp add: add_result_def AList.update_conv')
  show ?thesis
    unfolding grouped_def
  proof (intro conjI allI)
    show "distinct (map fst (add_result i r m))"
      using assms(1) by (simp add: grouped_def add_result_def AList.distinct_update)
    fix j
    have "(case map_of m j of None \<Rightarrow> [] | Some g \<Rightarrow> g) =
        filter (\<lambda>r. ar_Driver r = DriverName \<and> last_applying al cs r = Some j) seen"
      using assms(1) by (simp add: grouped_def)
    then show "(case map_of (add_result i r m) j of None \<Rightarrow> [] | Some g \<Rightarrow> g) =
        filter (\<lambda>r. ar_Driver r = DriverName \<and> last_applying al cs r = Some j) (seen @ [r])"
      unfolding new using assms(2,3) by (cases "j = i") simp_all
  next
    show "\<forall>(j, g) \<in> set (add_result i r m). j < length cs \<and> g \<noteq> [] \<and> (\<forall>x \<in> set g. suits al (cs ! j) x)"
    proof (clarify)
      fix j g assume "(j, g) \<in> set (add_result i r m)"
      then have "(j, g) = (i, ?old @ [r]) \<or> (j, g) \<in> set m" using sub by blast
      then show "j < length cs \<and> g \<noteq> [] \<and> (\<forall>x \<in> set g. suits al (cs ! j) x)"
      proof
        assume "(j, g) = (i, ?old @ [r])"
        with old assms(4,5) show ?thesis by simp
      next
        assume "(j, g) \<in> set m"
        with all show ?thesis by blast
      qed
    qed
  qed
qed

lemma map_results_grouped:
  assumes "map_results Enabled al cs rs m = Inr m'" and "grouped al cs seen m"
  shows "grouped al cs (seen @ rs) m'"
  using assms
proof (induction rs arbitrary: seen m)
  case Nil
  then show ?case by simp
next
  case (Cons r rs)
  show ?case
  proof (cases "ar_Driver r = DriverName")
    case False
    then have "map_results Enabled al cs rs m = Inr m'" using Cons.prems(1) by simp
    with Cons.IH [of m "seen @ [r]"] grouped_skip [OF Cons.prems(2)] False show ?thesis by simp
  next
    case True
    from Cons.prems(1) True obtain device x where d: "map_of al (ar_Device r) = Some device"
      and x: "select_config (Type device) (ar_Request r) (rev (indexed cs)) = Inr x"
      and rest: "map_results Enabled al cs rs (case x of None \<Rightarrow> m | Some i \<Rightarrow> add_result i r m) = Inr m'"
      by (auto simp: res_seq_Inr split: option.splits sum.splits if_splits)
    note X = select_config_first [OF x]
    have last: "last_applying al cs r = x"
      using X d by (simp add: last_applying_def applies_def)
    show ?thesis
    proof (cases x)
      case None
      with rest Cons.IH [of m "seen @ [r]"] grouped_skip [OF Cons.prems(2)] last show ?thesis by simp
    next
      case (Some i)
      then have "i < length cs \<and> suits al (cs ! i) r" using X d by (auto simp: set_indexed suits_def)
      with rest Cons.IH [of "add_result i r m" "seen @ [r]"] grouped_add [OF Cons.prems(2) True, of i] last Some
      show ?thesis by simp
    qed
  qed
qed


lemma indexed_snoc: "indexed (xs @ [x]) = indexed xs @ [(length xs, x)]"
  by (simp add: indexed_def zip_append)

lemma last_applying_snoc:
  "last_applying al (cs @ [c]) r = (if applies al c r then Some (length cs) else last_applying al cs r)"
  by (simp add: last_applying_def indexed_snoc)

lemma last_applying_Some:
  "last_applying al cs r = Some i \<longleftrightarrow>
   i < length cs \<and> applies al (cs ! i) r \<and> (\<forall>j. i < j \<and> j < length cs \<longrightarrow> \<not> applies al (cs ! j) r)"
proof (induction cs rule: rev_induct)
  case Nil
  then show ?case by (simp add: last_applying_def indexed_def)
next
  case (snoc c cs)
  define P where "P j = applies al ((cs @ [c]) ! j) r" for j
  have old: "P j = applies al (cs ! j) r" if "j < length cs" for j using that by (simp add: P_def nth_append)
  have new: "P (length cs) = applies al c r" by (simp add: P_def)
  have IH: "last_applying al cs r = Some i \<longleftrightarrow> i < length cs \<and> P i \<and> (\<forall>j. i < j \<and> j < length cs \<longrightarrow> \<not> P j)"
    using snoc.IH old by metis
  have "last_applying al (cs @ [c]) r = Some i \<longleftrightarrow>
      i < Suc (length cs) \<and> P i \<and> (\<forall>j. i < j \<and> j < Suc (length cs) \<longrightarrow> \<not> P j)"
  proof (cases "applies al c r")
    case True
    then show ?thesis using new by (auto simp: last_applying_snoc less_Suc_eq)
  next
    case False
    then have same: "last_applying al (cs @ [c]) r = last_applying al cs r" by (simp add: last_applying_snoc)
    show ?thesis unfolding same IH using new False by (auto simp: less_Suc_eq)
  qed
  then show ?case by (simp add: P_def)
qed

lemma last_applying_None: "last_applying al cs r = None \<longleftrightarrow> (\<forall>c \<in> set cs. \<not> applies al c r)"
  by (induction cs rule: rev_induct) (auto simp: last_applying_snoc, simp add: last_applying_def indexed_def)

lemma map_results_known:
  "map_results Enabled al cs rs m = Inr m' \<Longrightarrow> r \<in> set rs \<Longrightarrow> ar_Driver r = DriverName \<Longrightarrow>
   \<exists>d. map_of al (ar_Device r) = Some d"
  by (induction Enabled al cs rs m rule: map_results.induct)
    (auto simp: res_seq_Inr split: option.splits sum.splits if_splits)

text \<open>The device types some default configuration is for.\<close>

definition has_default :: "gates \<Rightarrow> DeviceType \<Rightarrow> bool" where
  "has_default Enabled t \<longleftrightarrow> t \<noteq> UnknownDeviceType \<and> (t \<noteq> VfioDeviceType \<or> Enabled PassthroughSupport)"

lemma default_applies:
  assumes "map_of al (ar_Device r) = Some d" and "has_default Enabled (Type d)"
  shows "\<exists>c \<in> set (with_defaults Enabled api cs). applies al c r"
  using assms
  by (cases "Type d") (auto simp: with_defaults_def applies_def has_default_def Let_def)

section \<open>Properties\<close>


text \<open>The configurations a claim comes with are put in order of precedence: when decoding succeeds,
  the result is the decoded configurations of this driver, first those of the device class, then those
  of the claim, each in their order, and those of other drivers are left out.\<close>

theorem configs_in_precedence:
  assumes "GetOpaqueDeviceConfigs api driverName pcs = Inr cs"
  shows "list_all2 (\<lambda>c oc. oc_Requests oc = ac_Requests c \<and>
      (\<exists>raw. ac_Opaque c = Some (driverName, raw) \<and> ca_Decode api raw = Inr (oc_Config oc)))
    (filter (\<lambda>c. map_option fst (ac_Opaque c) = Some driverName)
       (filter (\<lambda>c. ac_Source c = FromClass) pcs @ filter (\<lambda>c. ac_Source c = FromClaim) pcs)) cs"
proof -
  have "decode_configs api driverName l = Inr cs \<Longrightarrow> list_all2 (\<lambda>c oc. oc_Requests oc = ac_Requests c \<and>
      (\<exists>raw. ac_Opaque c = Some (driverName, raw) \<and> ca_Decode api raw = Inr (oc_Config oc)))
    (filter (\<lambda>c. map_option fst (ac_Opaque c) = Some driverName) l) cs" for l
    by (induction api driverName l arbitrary: cs rule: decode_configs.induct)
      (auto split: option.splits sum.splits if_splits)
  with assms show ?thesis by (auto simp: GetOpaqueDeviceConfigs_def simp del: filter_append split: if_splits)
qed


section \<open>A sample\<close>

definition ref_api :: config_api where
  "ref_api = \<lparr>ca_Decode = (\<lambda>s. if s = '''' then Inl (Err ''empty'') else Inr (GpuConfig (JStr s))),
     ca_Normalize = Inr, ca_Validate = (\<lambda>_. None),
     ca_DefaultGpuSharing = JNull, ca_DefaultMigSharing = JNull, ca_DefaultInterval = 0,
     ca_IsTimeSlicing = (\<lambda>_. True), ca_GetTimeSlicingInterval = (\<lambda>_. Inr (Some 1)),
     ca_IsMps = (\<lambda>_. False), ca_GetMpsConfig = (\<lambda>_. Inr None), ca_NormalizeLimits = (\<lambda>_ _. Inr [])\<rparr>"

definition sample_result :: "string \<Rightarrow> string \<Rightarrow> allocation_result" where
  "sample_result request device = \<lparr>ar_Request = request, ar_Driver = DriverName, ar_Pool = ''node-a'',
     ar_Device = device, ar_AdminAccess = None, ar_ConsumedCapacity = []\<rparr>"

definition sample_configs :: "allocation_config list" where
  "sample_configs =
     [\<lparr>ac_Source = FromClaim, ac_Requests = [''r''], ac_Opaque = Some (DriverName, ''b'')\<rparr>,
      \<lparr>ac_Source = FromClass, ac_Requests = [], ac_Opaque = Some (DriverName, ''a'')\<rparr>,
      \<lparr>ac_Source = FromClass, ac_Requests = [], ac_Opaque = Some (''other'', ''x'')\<rparr>]"

definition sample_opaque :: "OpaqueDeviceConfig list" where
  "sample_opaque =
     [\<lparr>oc_Requests = [], oc_Config = GpuConfig (JStr ''a'')\<rparr>,
      \<lparr>oc_Requests = [''r''], oc_Config = GpuConfig (JStr ''b'')\<rparr>]"

lemma sample_decoded: "GetOpaqueDeviceConfigs ref_api DriverName sample_configs = Inr sample_opaque"
  by code_simp

definition one_gpu :: AllocatableDevices where
  "one_gpu = [(''gpu-0'', no_device\<lparr>ad_Gpu := Some (zero_gpu\<lparr>g_UUID := ''GPU-a''\<rparr>)\<rparr>)]"

lemma sample_mapped:
  "map_results defaultFeatureGates one_gpu (with_defaults defaultFeatureGates ref_api sample_opaque)
     [sample_result ''r'' ''gpu-0''] [] = Inr [(3, [sample_result ''r'' ''gpu-0''])]"
  by code_simp


theorem configs_in_precedence_witness:
  "list_all2 (\<lambda>c oc. oc_Requests oc = ac_Requests c \<and>
      (\<exists>raw. ac_Opaque c = Some (DriverName, raw) \<and> ca_Decode ref_api raw = Inr (oc_Config oc)))
    [sample_configs ! 1, sample_configs ! 0] sample_opaque"
proof -
  have "DriverName \<noteq> ''other''" by (simp add: DriverName_def)
  then show ?thesis
    using configs_in_precedence [OF sample_decoded] by (simp add: sample_configs_def split: if_splits)
qed

end
