(* ===== verification/DeviceState.thy ===== *)
theory DeviceState
  imports Configs
begin

text \<open>
  Preparing and unpreparing a claim (\<open>cmd/hami-kubelet-plugin/device_state.go\<close>): the device state with
  its managers, applying the configurations, making the prepared devices, and the two operations the
  kubelet calls, with the checkpoint around them. The mutex of the device state serialises the
  operations; each is one computation on the world. A pointer that may be nil is an option.

  The two \<open>range\<close> loops over \<open>configResultsMap\<close> visit its keys in any order, \<open>ds_order1\<close> and \<open>ds_order2\<close>,
  and so does the loop of \<open>GetCDIContainerEdits\<close> over the requested devices, \<open>ds_order_devices\<close>; the theorems
  hold for all of them.
\<close>

section \<open>The device state\<close>

record ('c, 'n, 'k) device_state =
  ds_Enabled :: gates
  ds_checkpointManager :: "'c checkpoint_manager"
  ds_codec :: codec
  ds_nvml :: "'n nvml"
  ds_nvdevlib :: deviceLib
  ds_cdi :: "'n cdi_sys"
  ds_hamiCoreManager :: "'k HAMiCoreManager option"
  ds_mps_sys :: "'k mps_sys"
  ds_mpsManager :: "MpsManager option"
  ds_vfio_sys :: "'n vfio_sys"
  ds_vfioPciManager :: "VfioPciManager option"
  ds_api :: config_api
  ds_order1 :: "nat list \<Rightarrow> nat list"
  ds_order2 :: "nat list \<Rightarrow> nat list"
  ds_order_devices :: "AllocatableDevices \<Rightarrow> AllocatableDevices"

text \<open>A pointer in the state or in a value that is dereferenced.\<close>

abbreviation need_ptr :: "'a option \<Rightarrow> ('w, 'a) act" where
  "need_ptr p \<equiv> lift_res (deref p)"

abbreviation lookup_device :: "DeviceName \<Rightarrow> (('c, 'n, 'k) world, AllocatableDevice option) act" where
  "lookup_device name \<equiv> gets (\<lambda>w. map_of (w_allocatable w) name)"

abbreviation allocation_of :: "claim_status \<Rightarrow> ('w, allocation) act" where
  "allocation_of st \<equiv> need_ptr (st_Allocation st)"

section \<open>Applying a configuration\<close>

definition no_config_state :: DeviceConfigState where
  "no_config_state = \<lparr>dcs_MpsControlDaemonID = '''', dcs_containerEdits = None\<rparr>"

text \<open>The devices a configuration is for: the results have been looked up before, so none is missing.\<close>

definition requested_devices :: "AllocatableDevices \<Rightarrow> allocation_result list \<Rightarrow> AllocatableDevices res" where
  "requested_devices allocatable results =
     res_seq (res_all (\<lambda>r. res_seq (deref (map_of allocatable (ar_Device r))) (\<lambda>d. Inr (ar_Device r, d))) results)
       (\<lambda>ds. Inr (AList.updates (map fst ds) (map snd ds) []))"

definition apply_hami ::
    "('c, 'n, 'k) device_state \<Rightarrow> resource_claim \<Rightarrow> AllocatableDevices \<Rightarrow> DeviceConfigState \<Rightarrow>
     (('c, 'n, 'k) world, DeviceConfigState) act" where
  "apply_hami s claim devs cs =
     (if \<not> ds_Enabled s HAMiCoreSupport then ret cs
      else seq (need_ptr (ds_hamiCoreManager s)) (\<lambda>m.
           seq (wrapping ''error configuring HAMi-Core claim'' (in_hami (GetCDIContainerEdits m claim (ds_order_devices s devs)))) (\<lambda>e.
           ret (cs\<lparr>dcs_containerEdits := Some e\<rparr>))))"

definition apply_time_slicing ::
    "('c, 'n, 'k) device_state \<Rightarrow> sharing \<Rightarrow> AllocatableDevices \<Rightarrow> (('c, 'n, 'k) world, unit) act" where
  "apply_time_slicing s config devs =
     (if \<not> (ds_Enabled s TimeSlicingSettings \<and> ca_IsTimeSlicing (ds_api s) config) then ret ()
      else seq (wrapping ''error getting timeslice config'' (entry_act (ca_GetTimeSlicingInterval (ds_api s) config))) (\<lambda>tsc.
           case tsc of
             None \<Rightarrow> ret ()
           | Some interval \<Rightarrow>
               seq (lift_res (GpuUUIDs devs)) (\<lambda>uuids.
               wrapping ''error setting timeslice config'' (in_lib (SetTimeSlice (ds_nvml s) (ds_nvdevlib s) uuids interval)))))"

definition apply_mps ::
    "('c, 'n, 'k) device_state \<Rightarrow> sharing \<Rightarrow> resource_claim \<Rightarrow> AllocatableDevices \<Rightarrow> DeviceConfigState \<Rightarrow>
     (('c, 'n, 'k) world, DeviceConfigState) act" where
  "apply_mps s config claim devs cs =
     (if \<not> (ds_Enabled s MPSSupport \<and> ca_IsMps (ds_api s) config) then ret cs
      else if ds_Enabled s DynamicMIG then throw (Err ''MPS is not yet supported when using featureGates.DynamicMIG=true'')
      else
        seq (wrapping ''error getting MPS configuration'' (entry_act (ca_GetMpsConfig (ds_api s) config))) (\<lambda>mpsc.
        seq (need_ptr (ds_mpsManager s)) (\<lambda>m.
        seq (lift_res (NewMpsControlDaemon (ds_mps_sys s) m (rc_UID claim) (allocatable_provider devs))) (\<lambda>d.
        seq (wrapping ''error starting MPS control daemon''
              (Mps_Start (ds_mps_sys s) (ds_nvml s) (ds_nvdevlib s) (ds_Enabled s) (ds_api s) m d mpsc)) (\<lambda>_.
        seq (wrapping ''MPS control daemon is not yet ready'' (in_kube (AssertReady (ds_mps_sys s) m d))) (\<lambda>_.
        ret \<lparr>dcs_MpsControlDaemonID = mc_id d, dcs_containerEdits = Some (Mps_GetCDIContainerEdits d)\<rparr>))))))"

definition applySharingConfig ::
    "('c, 'n, 'k) device_state \<Rightarrow> sharing \<Rightarrow> resource_claim \<Rightarrow> allocation_result list \<Rightarrow>
     (('c, 'n, 'k) world, DeviceConfigState option) act" where
  "applySharingConfig s config claim results =
     seq (gets w_allocatable) (\<lambda>allocatable.
     seq (lift_res (requested_devices allocatable results)) (\<lambda>devs.
     seq (apply_hami s claim devs no_config_state) (\<lambda>cs.
     seq (apply_time_slicing s config devs) (\<lambda>_.
     seq (apply_mps s config claim devs cs) (\<lambda>cs'. ret (Some cs'))))))"

definition applyVfioDeviceConfig ::
    "('c, 'n, 'k) device_state \<Rightarrow> allocation_result list \<Rightarrow> (('c, 'n, 'k) world, DeviceConfigState option) act" where
  "applyVfioDeviceConfig s results =
     (if \<not> ds_Enabled s PassthroughSupport then ret None
      else seq (each (\<lambda>r.
                 seq (lookup_device (ar_Device r)) (\<lambda>info.
                 seq (need_ptr info) (\<lambda>d.
                 seq (need_ptr (ad_Vfio d)) (\<lambda>v.
                 seq (need_ptr (ds_vfioPciManager s)) (\<lambda>vm.
                 in_lib (in_hw (Configure (ds_vfio_sys s) vm v))))))) results) (\<lambda>_.
           ret (Some no_config_state)))"

fun applyConfig ::
    "('c, 'n, 'k) device_state \<Rightarrow> config_object \<Rightarrow> resource_claim \<Rightarrow> allocation_result list \<Rightarrow>
     (('c, 'n, 'k) world, DeviceConfigState option) act" where
  "applyConfig s (GpuConfig sh) claim results = applySharingConfig s sh claim results"
| "applyConfig s (MigDeviceConfig sh) claim results = applySharingConfig s sh claim results"
| "applyConfig s VfioDeviceConfig claim results = applyVfioDeviceConfig s results"
| "applyConfig s (OtherObject o') claim results = throw (Err ''unknown config type'')"

text \<open>One turn of the loop that normalises, validates and applies. An object that is no configuration of
  this API is refused first.\<close>

definition configure_group ::
    "('c, 'n, 'k) device_state \<Rightarrow> resource_claim \<Rightarrow> config_object \<Rightarrow> allocation_result list \<Rightarrow>
     (('c, 'n, 'k) world, DeviceConfigState option) act" where
  "configure_group s claim c results =
     (case c of
        OtherObject _ \<Rightarrow> throw (Err ''runtime object is not a recognized configuration'')
      | _ \<Rightarrow>
          seq (wrapping ''error normalizing GPU config'' (entry_act (ca_Normalize (ds_api s) c))) (\<lambda>c'.
          seq (case ca_Validate (ds_api s) c' of None \<Rightarrow> ret ()
               | Some e \<Rightarrow> throw (Wrap ''error validating GPU config'' e)) (\<lambda>_.
          wrapping ''error applying config'' (applyConfig s c' claim results))))"


section \<open>Preparing the devices\<close>

definition prepare_device ::
    "('c, 'n, 'k) device_state \<Rightarrow> resource_claim \<Rightarrow> allocation_result \<Rightarrow> (('c, 'n, 'k) world, PreparedDevice) act" where
  "prepare_device s claim result =
     seq (lookup_device (ar_Device result)) (\<lambda>found.
     seq (need_ptr found) (\<lambda>adev.
     seq (lift_res (GetClaimDeviceName (ds_cdi s) (rc_UID claim) adev)) (\<lambda>d.
     let device = \<lparr>kd_Requests = [ar_Request result], kd_PoolName = ar_Pool result,
           kd_DeviceName = ar_Device result, kd_CDIDeviceIDs = (if d = '''' then [] else [d])\<rparr>
     in case Type adev of
          HAMiGpuDeviceType \<Rightarrow>
            ret (no_prepared\<lparr>pd_HAMiGpu := Some \<lparr>phg_Info = ad_HAMiGpu adev, phg_Device = Some device\<rparr>\<rparr>)
        | GpuDeviceType \<Rightarrow>
            ret (no_prepared\<lparr>pd_Gpu := Some \<lparr>pg_Info = ad_Gpu adev, pg_Device = Some device\<rparr>\<rparr>)
        | MigStaticDeviceType \<Rightarrow>
            seq (need_ptr (ad_MigStatic adev)) (\<lambda>m.
            ret (no_prepared\<lparr>pd_Mig := Some \<lparr>pm_Concrete = Some (LiveTuple m), pm_Device = Some device\<rparr>\<rparr>))
        | MigDynamicDeviceType \<Rightarrow>
            seq (need_ptr (ad_MigDynamic adev)) (\<lambda>migspec.
            seq (wrapping ''error creating MIG device'' (in_lib (createMigDevice (ds_nvml s) (ds_Enabled s) migspec))) (\<lambda>migdev.
            ret (no_prepared\<lparr>pd_Mig := Some \<lparr>pm_Concrete = Some (LiveTuple migdev), pm_Device = Some device\<rparr>\<rparr>)))
        | VfioDeviceType \<Rightarrow>
            ret (no_prepared\<lparr>pd_Vfio := Some \<lparr>pv_Info = ad_Vfio adev, pv_Device = Some device\<rparr>\<rparr>)
        | UnknownDeviceType \<Rightarrow> ret no_prepared)))"

definition prepare_group ::
    "('c, 'n, 'k) device_state \<Rightarrow> resource_claim \<Rightarrow> DeviceConfigState option \<Rightarrow> allocation_result list \<Rightarrow>
     (('c, 'n, 'k) world, PreparedDeviceGroup) act" where
  "prepare_group s claim configState results =
     seq (need_ptr configState) (\<lambda>cs.
     seq (collect (prepare_device s claim) results) (\<lambda>devs.
     ret \<lparr>grp_Devices = devs, grp_ConfigState = cs\<rparr>))"

definition results_of :: "config_results \<Rightarrow> nat \<Rightarrow> allocation_result list" where
  "results_of m i = (case map_of m i of None \<Rightarrow> [] | Some rs \<Rightarrow> rs)"

definition prepareDevices ::
    "('c, 'n, 'k) device_state \<Rightarrow> resource_claim \<Rightarrow> (('c, 'n, 'k) world, PreparedDevices) act" where
  "prepareDevices s claim =
     (case st_Allocation (rc_Status claim) of
        None \<Rightarrow> throw (Err ''claim not yet allocated'')
      | Some al \<Rightarrow>
          seq (hiding ''error getting opaque device configs''
                (entry_act (GetOpaqueDeviceConfigs (ds_api s) DriverName (al_Config al)))) (\<lambda>opaque.
          let configs = with_defaults (ds_Enabled s) (ds_api s) opaque in
          seq (gets w_allocatable) (\<lambda>allocatable.
          seq (lift_res (map_results (ds_Enabled s) allocatable configs (al_Results al) [])) (\<lambda>m.
          seq (collect (\<lambda>i. seq (configure_group s claim (oc_Config (configs ! i)) (results_of m i)) (\<lambda>cs. ret (i, cs)))
                (ds_order1 s (map fst m))) (\<lambda>states.
          collect (\<lambda>i. prepare_group s claim (Option.bind (map_of states i) id) (results_of m i))
            (ds_order2 s (map fst m)))))))"

section \<open>Unpreparing the devices\<close>

fun getAllocatableVfioDevice :: "string \<Rightarrow> AllocatableDevices \<Rightarrow> err + AllocatableDevice" where
  "getAllocatableVfioDevice uuid [] = Inl (Err ''allocatable device not found for vfio device'')"
| "getAllocatableVfioDevice uuid ((k, d) # ds) =
     (if Type d = VfioDeviceType \<and> map_option v_UUID (ad_Vfio d) = Some uuid then Inr d
      else getAllocatableVfioDevice uuid ds)"

definition unprepareVfioDevices ::
    "('c, 'n, 'k) device_state \<Rightarrow> PreparedDeviceList \<Rightarrow> (('c, 'n, 'k) world, unit) act" where
  "unprepareVfioDevices s devices =
     each (\<lambda>device.
       seq (lift_res (res_seq (deref (pd_Vfio device)) (\<lambda>p. deref (pv_Info p)))) (\<lambda>info.
       seq (gets w_allocatable) (\<lambda>allocatable.
       seq (wrapping ''error getting allocatable device for vfio device''
             (entry_act (getAllocatableVfioDevice (v_UUID info) allocatable))) (\<lambda>d.
       seq (need_ptr (ds_vfioPciManager s)) (\<lambda>vm.
       seq (need_ptr (ad_Vfio d)) (\<lambda>v.
       wrapping ''error unconfiguring vfio device'' (in_lib (in_hw (Unconfigure (ds_vfio_sys s) vm v)))))))))
     devices"

text \<open>The log lines dereference the device's information.\<close>

definition unprepare_device ::
    "('c, 'n, 'k) device_state \<Rightarrow> PreparedDevice \<Rightarrow> (('c, 'n, 'k) world, unit) act" where
  "unprepare_device s device =
     (case PreparedDevice_Type device of
        PreparedHAMiGpuType \<Rightarrow>
          seq (lift_res (res_seq (deref (pd_HAMiGpu device)) (\<lambda>p. deref (phg_Info p)))) (\<lambda>_. ret ())
      | PreparedGpuType \<Rightarrow>
          seq (lift_res (res_seq (deref (pd_Gpu device)) (\<lambda>p. deref (pg_Info p)))) (\<lambda>_. ret ())
      | PreparedMigDeviceType \<Rightarrow>
          seq (lift_res (res_seq (deref (pd_Mig device)) (\<lambda>p. deref (pm_Concrete p)))) (\<lambda>mig.
          if \<not> ds_Enabled s DynamicMIG then ret ()
          else seq (attempt (in_lib (deleteMigDevice (ds_nvml s) (ds_Enabled s) mig))) (\<lambda>r.
               case r of
                 Inr _ \<Rightarrow> ret ()
               | Inl e \<Rightarrow> seq (lift_res (res_seq (deref (pd_Mig device)) (\<lambda>p. deref (pm_Device p))))
                            (\<lambda>_. throw (Wrap ''error deleting MIG device'' e))))
      | _ \<Rightarrow> ret ())"

definition unprepare_group ::
    "('c, 'n, 'k) device_state \<Rightarrow> string \<Rightarrow> PreparedDeviceGroup \<Rightarrow> (('c, 'n, 'k) world, unit) act" where
  "unprepare_group s claimUID grp =
     seq (if ds_Enabled s PassthroughSupport then unprepareVfioDevices s (VfioDevices (grp_Devices grp)) else ret ()) (\<lambda>_.
     seq (each (unprepare_device s) (grp_Devices grp)) (\<lambda>_.
     seq (if ds_Enabled s HAMiCoreSupport then
            seq (need_ptr (ds_hamiCoreManager s)) (\<lambda>m.
            wrapping ''error cleanup hami devices''
              (in_fs (HAMi_Unprepare (containerHookPath m) claimUID (HAMiGpus (grp_Devices grp)))))
          else ret ()) (\<lambda>_.
     seq (if ds_Enabled s MPSSupport then
            seq (need_ptr (ds_mpsManager s)) (\<lambda>m.
            seq (lift_res (NewMpsControlDaemon (ds_mps_sys s) m claimUID (group_provider grp))) (\<lambda>d.
            wrapping ''error stopping MPS control daemon'' (Mps_Stop (ds_mps_sys s) m d)))
          else ret ()) (\<lambda>_.
     if ds_Enabled s TimeSlicingSettings then
       seq (lift_res (List_GpuUUIDs (grp_Devices grp))) (\<lambda>uuids.
       wrapping ''error setting timeslice for devices''
         (in_lib (SetTimeSlice (ds_nvml s) (ds_nvdevlib s) uuids (ca_DefaultInterval (ds_api s)))))
     else ret ()))))"

definition unprepareDevices ::
    "('c, 'n, 'k) device_state \<Rightarrow> string \<Rightarrow> PreparedDevices \<Rightarrow> (('c, 'n, 'k) world, unit) act" where
  "unprepareDevices s claimUID devices =
     seq (lift_res (GetDeviceNames devices)) (\<lambda>_. each (unprepare_group s claimUID) devices)"


section \<open>Claims that do not overlap\<close>

definition is_admin :: "allocation_result \<Rightarrow> bool" where
  "is_admin r \<longleftrightarrow> ar_AdminAccess r = Some True"

definition nonadmin_names :: "allocation_result list \<Rightarrow> DeviceName list" where
  "nonadmin_names rs = map ar_Device (filter (\<lambda>r. ar_Driver r = DriverName \<and> \<not> is_admin r) rs)"

text \<open>Both functions size their map by the allocation before anything is checked.\<close>

definition requestedNonAdminDevices :: "resource_claim \<Rightarrow> DeviceName list res" where
  "requestedNonAdminDevices claim =
     res_seq (deref (st_Allocation (rc_Status claim))) (\<lambda>al. Inr (nonadmin_names (al_Results al)))"

definition GetNonAdminDevices :: "PreparedClaim \<Rightarrow> DeviceName list res" where
  "GetNonAdminDevices c =
     res_seq (deref (st_Allocation (c_Status c))) (\<lambda>al. Inr (nonadmin_names (al_Results al)))"

fun check_overlap :: "string \<Rightarrow> DeviceName list \<Rightarrow> PreparedClaimsByUID \<Rightarrow> unit res" where
  "check_overlap claimUID requested [] = Inr ()"
| "check_overlap claimUID requested ((uid, pc) # pcs) =
     (if uid = claimUID \<or> c_CheckpointState pc \<noteq> Completed then check_overlap claimUID requested pcs
      else res_seq (GetNonAdminDevices pc) (\<lambda>prepared.
           if set requested \<inter> set prepared \<noteq> {} then
             Inl (Failed (Err ''requested device is already allocated to different claim''))
           else check_overlap claimUID requested pcs))"

definition claim_entries :: "Checkpoint \<Rightarrow> PreparedClaimsByUID res" where
  "claim_entries cp = res_seq (deref (cp_V2 cp)) (\<lambda>v2. Inr (entries (c2_PreparedClaims v2)))"

definition validateNoOverlappingPreparedDevices :: "Checkpoint \<Rightarrow> resource_claim \<Rightarrow> unit res" where
  "validateNoOverlappingPreparedDevices cp claim =
     res_seq (requestedNonAdminDevices claim) (\<lambda>requested.
     if requested = [] then Inr ()
     else res_seq (claim_entries cp) (check_overlap (rc_UID claim) requested))"

section \<open>Rolling back a partial preparation\<close>

fun in_use :: "DeviceName \<Rightarrow> PreparedClaimsByUID \<Rightarrow> bool res" where
  "in_use dname [] = Inr False"
| "in_use dname ((uid, c) # cs) =
     res_seq (deref (st_Allocation (c_Status c))) (\<lambda>al.
     if dname \<in> set (map ar_Device (al_Results al)) then Inr True else in_use dname cs)"

definition deleteMigDevIfExistsAndNotUsedByCompletedClaim ::
    "('c, 'n, 'k) device_state \<Rightarrow> MigSpecTuple \<Rightarrow> DeviceName \<Rightarrow> PreparedClaimsByUID \<Rightarrow>
     (('c, 'n, 'k) world, unit) act" where
  "deleteMigDevIfExistsAndNotUsedByCompletedClaim s ms dname completed =
     seq (lift_res (in_use dname completed)) (\<lambda>used.
     if used then ret ()
     else seq (hiding ''FindMigDevBySpecTuple() failed'' (in_lib (FindMigDevBySpec (ds_nvml s) (ds_Enabled s) ms))) (\<lambda>mlt.
          case mlt of
            None \<Rightarrow> ret ()
          | Some t \<Rightarrow> wrapping ''MIG device deletion failed'' (in_lib (deleteMigDevice (ds_nvml s) (ds_Enabled s) t))))"

definition completed_claims :: "PreparedClaimsByUID \<Rightarrow> PreparedClaimsByUID" where
  "completed_claims cs = filter (\<lambda>(uid, c). c_CheckpointState c = Completed) cs"

definition unpreparePartiallyPrepairedClaim ::
    "('c, 'n, 'k) device_state \<Rightarrow> string \<Rightarrow> PreparedClaim \<Rightarrow> Checkpoint \<Rightarrow> (('c, 'n, 'k) world, unit) act" where
  "unpreparePartiallyPrepairedClaim s cuid pc checkpoint =
     (case ds_hamiCoreManager s of
        Some m \<Rightarrow> in_fs (HAMi_Unprepare (containerHookPath m) cuid [])
      | None \<Rightarrow>
          seq (lift_res (claim_entries checkpoint)) (\<lambda>es.
          seq (allocation_of (c_Status pc)) (\<lambda>al.
          each (\<lambda>r.
            case NewMigSpecTupleFromCanonicalName (ar_Device r) of
              Inl _ \<Rightarrow> ret ()
            | Inr ms \<Rightarrow>
                wrapping ''deleteMigDevIfExistsAndNotUsedByCompletedClaim failed''
                  (deleteMigDevIfExistsAndNotUsedByCompletedClaim s ms (ar_Device r) (completed_claims es)))
            (al_Results al))))"

section \<open>Siblings of passthrough devices\<close>

definition remove_siblings ::
    "plugin_device list \<Rightarrow> (('c, 'n, 'k) world, unit) act" where
  "remove_siblings devices =
     each (\<lambda>device.
       seq (lookup_device (kd_DeviceName device)) (\<lambda>found.
       case found of
         None \<Rightarrow> ret ()
       | Some d \<Rightarrow>
           seq (gets w_allocatable) (\<lambda>allocatable.
           seq (lift_res (RemoveSiblingDevices allocatable d)) (\<lambda>allocatable'.
           modify (\<lambda>w. w\<lparr>w_allocatable := allocatable'\<rparr>))))) devices"

definition add_allocatable :: "AllocatableDevice \<Rightarrow> (('c, 'n, 'k) world, unit) act" where
  "add_allocatable d =
     seq (lift_res (CanonicalName d)) (\<lambda>name.
     modify (\<lambda>w. w\<lparr>w_allocatable := AList.update name d (w_allocatable w)\<rparr>))"

text \<open>\<open>device.Vfio.parent = gpu.Gpu\<close> writes through the pointer that is in the map under \<open>name\<close>.\<close>

definition discoverSiblingAllocatables ::
    "('c, 'n, 'k) device_state \<Rightarrow> DeviceName \<Rightarrow> AllocatableDevice \<Rightarrow> (('c, 'n, 'k) world, unit) act" where
  "discoverSiblingAllocatables s name device =
     (case Type device of
        GpuDeviceType \<Rightarrow>
          seq (need_ptr (ad_Gpu device)) (\<lambda>g.
          if \<not> g_vfioEnabled g then ret ()
          else seq (wrapping ''error discovering vfio device'' (in_lib (discoverVfioDevice (ds_nvml s) g))) add_allocatable)
      | VfioDeviceType \<Rightarrow>
          seq (need_ptr (ad_Vfio device)) (\<lambda>v.
          seq (wrapping ''error discovering gpu by pci bus id''
                (in_lib (discoverGPUByPCIBusID (ds_nvml s) (ds_Enabled s) (v_pcieBusID v)))) (\<lambda>(gpu, migs).
          seq (need_ptr gpu) (\<lambda>g.
          seq (add_allocatable g) (\<lambda>_.
          seq (modify (\<lambda>w. w\<lparr>w_allocatable := map (\<lambda>(k, d).
                 if k = name then (k, d\<lparr>ad_Vfio := Some (v\<lparr>v_parent := ad_Gpu g\<rparr>)\<rparr>) else (k, d)) (w_allocatable w)\<rparr>)) (\<lambda>_.
          each add_allocatable migs)))))
      | _ \<Rightarrow> ret ())"

definition discover_siblings ::
    "('c, 'n, 'k) device_state \<Rightarrow> plugin_device list \<Rightarrow> (('c, 'n, 'k) world, unit) act" where
  "discover_siblings s devices =
     each (\<lambda>device.
       seq (lookup_device (kd_DeviceName device)) (\<lambda>found.
       case found of
         None \<Rightarrow> ret ()
       | Some d \<Rightarrow> wrapping ''error discovering sibling allocatables''
                      (discoverSiblingAllocatables s (kd_DeviceName device) d))) devices"


section \<open>Prepare and Unprepare\<close>

definition get_checkpoint :: "('c, 'n, 'k) device_state \<Rightarrow> (('c, 'n, 'k) world, Checkpoint) act" where
  "get_checkpoint s = in_cp (getCheckpoint (ds_checkpointManager s) (ds_codec s))"

definition update_checkpoint ::
    "('c, 'n, 'k) device_state \<Rightarrow> (Checkpoint \<Rightarrow> Checkpoint res) \<Rightarrow> (('c, 'n, 'k) world, unit) act" where
  "update_checkpoint s f = in_cp (updateCheckpoint (ds_checkpointManager s) (ds_codec s) f)"

definition started_claim :: "resource_claim \<Rightarrow> PreparedClaim" where
  "started_claim claim = \<lparr>c_CheckpointState = Started, c_Status = rc_Status claim, c_PreparedDevices = [],
     c_Name = rc_Name claim, c_Namespace = rc_Namespace claim\<rparr>"

definition completed_claim :: "resource_claim \<Rightarrow> PreparedDevices \<Rightarrow> PreparedClaim" where
  "completed_claim claim devices = \<lparr>c_CheckpointState = Completed, c_Status = rc_Status claim,
     c_PreparedDevices = devices, c_Name = '''', c_Namespace = ''''\<rparr>"

text \<open>What a claim that has not been completed goes through before it is marked as started: without
  HAMi-Core the check for overlaps and the rollback of an earlier attempt.\<close>

definition before_start ::
    "('c, 'n, 'k) device_state \<Rightarrow> resource_claim \<Rightarrow> Checkpoint \<Rightarrow> (('c, 'n, 'k) world, unit) act" where
  "before_start s claim cp =
     (if ds_Enabled s HAMiCoreSupport then ret ()
      else
        seq (wrapping ''unable to prepare claim'' (lift_res (validateNoOverlappingPreparedDevices cp claim))) (\<lambda>_.
        case claims cp (rc_UID claim) of
          Some pc \<Rightarrow>
            (if c_CheckpointState pc = Started then
               wrapping ''unprepare failed for partially prepared claim'' (unpreparePartiallyPrepairedClaim s (rc_UID claim) pc cp)
             else ret ())
        | None \<Rightarrow> ret ()))"

text \<open>From the started claim to the completed one.\<close>

definition prepare_started ::
    "('c, 'n, 'k) device_state \<Rightarrow> resource_claim \<Rightarrow> (('c, 'n, 'k) world, plugin_device list) act" where
  "prepare_started s claim =
     seq (wrapping ''prepare devices failed'' (prepareDevices s claim)) (\<lambda>preparedDevices.
     seq (if ds_Enabled s PassthroughSupport then seq (lift_res (GetDevices preparedDevices)) remove_siblings else ret ()) (\<lambda>_.
     seq (wrapping ''unable to create CDI spec file for claim'' (CreateClaimSpecFile (ds_cdi s) (rc_UID claim) preparedDevices)) (\<lambda>_.
     seq (wrapping ''unable to update checkpoint''
           (update_checkpoint s (set_claim (rc_UID claim) (completed_claim claim preparedDevices)))) (\<lambda>_.
     lift_res (GetDevices preparedDevices)))))"

definition Prepare ::
    "('c, 'n, 'k) device_state \<Rightarrow> resource_claim \<Rightarrow> (('c, 'n, 'k) world, plugin_device list) act" where
  "Prepare s claim =
     seq (hiding ''unable to get checkpoint'' (get_checkpoint s)) (\<lambda>cp.
     case claims cp (rc_UID claim) of
       Some pc \<Rightarrow>
         (if c_CheckpointState pc = Completed then lift_res (GetDevices (c_PreparedDevices pc))
          else seq (before_start s claim cp) (\<lambda>_.
               seq (wrapping ''unable to update checkpoint'' (update_checkpoint s (set_claim (rc_UID claim) (started_claim claim)))) (\<lambda>_.
               prepare_started s claim)))
     | None \<Rightarrow>
         seq (before_start s claim cp) (\<lambda>_.
         seq (wrapping ''unable to update checkpoint'' (update_checkpoint s (set_claim (rc_UID claim) (started_claim claim)))) (\<lambda>_.
         prepare_started s claim)))"

definition unprepare_by_state ::
    "('c, 'n, 'k) device_state \<Rightarrow> string \<Rightarrow> PreparedClaim \<Rightarrow> Checkpoint \<Rightarrow> (('c, 'n, 'k) world, unit) act" where
  "unprepare_by_state s claimUID pc cp =
     (if c_CheckpointState pc = Started then
        wrapping ''unprepare failed for partially prepared claim'' (unpreparePartiallyPrepairedClaim s claimUID pc cp)
      else if c_CheckpointState pc = Completed then
        wrapping ''unprepare devices failed for claim'' (unprepareDevices s claimUID (c_PreparedDevices pc))
      else throw (Err ''unsupported ClaimCheckpointState''))"

definition Unprepare ::
    "('c, 'n, 'k) device_state \<Rightarrow> namespaced_object \<Rightarrow> (('c, 'n, 'k) world, unit) act" where
  "Unprepare s claimRef =
     seq (hiding ''unable to get checkpoint'' (get_checkpoint s)) (\<lambda>cp.
     case claims cp (no_UID claimRef) of
       None \<Rightarrow> ret ()
     | Some pc \<Rightarrow>
         seq (unprepare_by_state s (no_UID claimRef) pc cp) (\<lambda>_.
         seq (if ds_Enabled s PassthroughSupport
              then seq (lift_res (GetDevices (c_PreparedDevices pc))) (discover_siblings s) else ret ()) (\<lambda>_.
         seq (attempt (in_fs (DeleteClaimSpecFile (ds_cdi s) (no_UID claimRef)))) (\<lambda>_.
         wrapping ''error deleting claim from checkpoint''
           (in_cp (deleteClaimFromCheckpoint (ds_checkpointManager s) (ds_codec s) claimRef))))))"

section \<open>Start and health\<close>

definition DestroyUnknownMIGDevices :: "('c, 'n, 'k) device_state \<Rightarrow> (('c, 'n, 'k) world, unit) act" where
  "DestroyUnknownMIGDevices s =
     seq (attempt (get_checkpoint s)) (\<lambda>r.
     case r of
       Inl _ \<Rightarrow> ret ()
     | Inr cp \<Rightarrow>
         seq (lift_res (claim_entries cp)) (\<lambda>es.
         seq (lift_res (res_all (\<lambda>(uid, c). res_seq (deref (st_Allocation (c_Status c)))
                (\<lambda>al. Inr (map ar_Device (al_Results al)))) (completed_claims es))) (\<lambda>names.
         seq (attempt (in_lib (obliterateStaleMIGDevices (ds_nvml s) (ds_Enabled s) (concat names)))) (\<lambda>_. ret ()))))"

text \<open>The device is a pointer to an entry of the map, given by its name. The log line after the
  \<open>switch\<close> asks for the UUID, which a dynamic MIG device does not have.\<close>

definition set_health :: "DeviceName \<Rightarrow> HealthStatus \<Rightarrow> AllocatableDevices \<Rightarrow> AllocatableDevices" where
  "set_health name hs = map (\<lambda>(k, d).
     if k \<noteq> name then (k, d)
     else (case Type d of
             GpuDeviceType \<Rightarrow> (k, d\<lparr>ad_Gpu := map_option (g_health_update (\<lambda>_. hs)) (ad_Gpu d)\<rparr>)
           | MigStaticDeviceType \<Rightarrow> (k, d\<lparr>ad_MigStatic := map_option (md_health_update (\<lambda>_. hs)) (ad_MigStatic d)\<rparr>)
           | _ \<Rightarrow> (k, d)))"

definition UpdateDeviceHealthStatus :: "DeviceName \<Rightarrow> HealthStatus \<Rightarrow> (('c, 'n, 'k) world, unit) act" where
  "UpdateDeviceHealthStatus name hs =
     seq (lookup_device name) (\<lambda>found.
     case found of
       None \<Rightarrow> ret ()
     | Some d \<Rightarrow>
         seq (modify (\<lambda>w. w\<lparr>w_allocatable := set_health name hs (w_allocatable w)\<rparr>)) (\<lambda>_.
         if Type d \<in> {GpuDeviceType, MigStaticDeviceType, MigDynamicDeviceType}
         then seq (lift_res (UUID d)) (\<lambda>_. ret ()) else ret ()))"

section \<open>A new device state\<close>

text \<open>\<open>GetCurrentBootID\<close> (\<open>pkg/bootid/bootid.go\<close>): the file's content without surrounding white space.\<close>

definition GetCurrentBootID :: "path \<Rightarrow> (fs, string) act" where
  "GetCurrentBootID bootIDPath =
     seq (wrapping ''failed to read boot ID'' (os_ReadFile bootIDPath)) (\<lambda>data. ret (trim_space data))"

definition full_gpu_uuids :: "AllocatableDevices \<Rightarrow> string list" where
  "full_gpu_uuids ds = List.map_filter (\<lambda>(_, dev).
     case ad_Gpu dev of Some g \<Rightarrow> Some (g_UUID g)
     | None \<Rightarrow> map_option (\<lambda>h. g_UUID (h_GpuInfo h)) (ad_HAMiGpu dev)) ds"

text \<open>What the constructors of the parts return, in the process they run in: the device library with its
  \<open>/dev\<close> root (\<open>newDeviceLib\<close>), the CDI handler over it, the HAMi-Core manager with its Pod informer and the wait
  for it (\<open>waitForPodCacheSyncAtStartup\<close>), the MPS manager, and whether the checkpoint manager can be made.\<close>

record ('c, 'n, 'k) constructors =
  new_DeviceLib :: "('n lib, deviceLib \<times> path) act"
  new_CDIHandler :: "deviceLib \<Rightarrow> path \<Rightarrow> 'n cdi_sys res"
  new_HAMiCoreManager :: "('k, 'k HAMiCoreManager) act"
  waitForPodCache :: "('k, unit) act"
  new_MpsManager :: "deviceLib \<Rightarrow> MpsManager"
  new_CheckpointManager :: "'c \<Rightarrow> err option"

text \<open>The libraries without a constructor are the fields of \<open>s0\<close>, \<open>bootIDPath\<close> is the file with the boot ID.
  The managers whose gate is off are nil.\<close>

definition NewDeviceState ::
    "('c, 'n, 'k) device_state \<Rightarrow> ('c, 'n, 'k) constructors \<Rightarrow> string \<Rightarrow> path \<Rightarrow>
     (('c, 'n, 'k) world, ('c, 'n, 'k) device_state \<times> PerGPUMinorAllocatableDevices) act" where
  "NewDeviceState s0 K hostDriverRoot bootIDPath =
     (let Enabled = ds_Enabled s0 in
     seq (wrapping ''failed to create device library'' (in_lib (new_DeviceLib K))) (\<lambda>(nvdevlib, devRoot).
     seq (wrapping ''error enumerating all possible devices''
           (in_lib (enumerateAllPossibleDevices (ds_nvml s0) Enabled))) (\<lambda>(allocatable, perGPU).
     seq (modify (\<lambda>w. w\<lparr>w_allocatable := allocatable\<rparr>)) (\<lambda>_.
     seq (wrapping ''unable to create CDI handler'' (lift_res (new_CDIHandler K nvdevlib devRoot))) (\<lambda>cdi.
     seq (WarmupDevSpecCache cdi (full_gpu_uuids allocatable)) (\<lambda>_.
     seq (if Enabled HAMiCoreSupport then
            seq (in_kube (new_HAMiCoreManager K)) (\<lambda>m.
            seq (wrapping ''wait for HAMi-Core Pod cache sync'' (in_kube (waitForPodCache K))) (\<lambda>_. ret (Some m)))
          else ret None) (\<lambda>hamiCoreManager.
     seq (if Enabled PassthroughSupport then
            seq (in_lib (in_hw (NewVfioPciManager (ds_vfio_sys s0) hostDriverRoot True))) (\<lambda>vm.
            seq (attempt (in_lib (in_hw (ValidatePassthroughSupport (ds_vfio_sys s0))))) (\<lambda>r.
            case r of Inl _ \<Rightarrow> panic ''Failed to validate passthrough support'' | Inr _ \<Rightarrow> ret (Some vm)))
          else ret None) (\<lambda>vm.
     seq (gets (new_CheckpointManager K \<circ> w_cp)) (\<lambda>e.
     seq (if e \<noteq> None then throw (Err ''unable to create checkpoint manager'') else ret ()) (\<lambda>_.
     let s = s0\<lparr>ds_nvdevlib := nvdevlib, ds_cdi := cdi, ds_hamiCoreManager := hamiCoreManager,
                ds_mpsManager := (if Enabled MPSSupport then Some (new_MpsManager K nvdevlib) else None),
                ds_vfioPciManager := vm\<rparr>
     in seq (wrapping ''read node boot id'' (in_fs (GetCurrentBootID bootIDPath))) (\<lambda>currentBootID.
        seq (in_cp (initCheckpoint (ds_checkpointManager s) (ds_codec s) currentBootID)) (\<lambda>_.
        ret (s, perGPU)))))))))))))"

end
