(* ===== verification/Samples.thy ===== *)
theory Samples
  imports CheckpointOps Sharing Vfio
begin

text \<open>
  Concrete instances of the parameters, for the theorems at a concrete input: a codec that writes
  the structs of Kubernetes as nested arrays, with a constant checksum, and a checkpoint manager whose
  state is the content of the checkpoint file.
\<close>

named_theorems codec_parts \<open>round trips of the parts of the reference codec\<close>

section \<open>Encoders and decoders\<close>

type_synonym 'a coder = "('a \<Rightarrow> json) \<times> (json \<Rightarrow> 'a option)"

definition coder_ok :: "'a coder \<Rightarrow> bool" where
  "coder_ok c \<longleftrightarrow> (\<forall>x. snd c (fst c x) = Some x)"

fun read_str :: "json \<Rightarrow> string option" where
  "read_str (JStr s) = Some s"
| "read_str _ = None"

fun read_num :: "json \<Rightarrow> int option" where
  "read_num (JNum n) = Some n"
| "read_num _ = None"

fun read_bool :: "json \<Rightarrow> bool option" where
  "read_bool (JBool b) = Some b"
| "read_bool _ = None"

definition str_c :: "string coder" where "str_c = (JStr, read_str)"
definition num_c :: "int coder" where "num_c = (JNum, read_num)"
definition bool_c :: "bool coder" where "bool_c = (JBool, read_bool)"

fun read_list :: "(json \<Rightarrow> 'a option) \<Rightarrow> json \<Rightarrow> 'a list option" where
  "read_list f (JArr js) = those (map f js)"
| "read_list f _ = None"

fun read_option :: "(json \<Rightarrow> 'a option) \<Rightarrow> json \<Rightarrow> 'a option option" where
  "read_option f (JArr [j]) = map_option Some (f j)"
| "read_option f (JArr []) = Some None"
| "read_option f _ = None"

fun read_pair :: "(json \<Rightarrow> 'a option) \<Rightarrow> (json \<Rightarrow> 'b option) \<Rightarrow> json \<Rightarrow> ('a \<times> 'b) option" where
  "read_pair f g (JArr [j, k]) =
     (case (f j, g k) of (Some x, Some y) \<Rightarrow> Some (x, y) | _ \<Rightarrow> None)"
| "read_pair f g _ = None"

definition list_c :: "'a coder \<Rightarrow> 'a list coder" where
  "list_c c = (\<lambda>xs. JArr (map (fst c) xs), read_list (snd c))"

definition option_c :: "'a coder \<Rightarrow> 'a option coder" where
  "option_c c = (\<lambda>p. case p of None \<Rightarrow> JArr [] | Some x \<Rightarrow> JArr [fst c x], read_option (snd c))"

definition pair_c :: "'a coder \<Rightarrow> 'b coder \<Rightarrow> ('a \<times> 'b) coder" where
  "pair_c c d = (\<lambda>(x, y). JArr [fst c x, fst d y], read_pair (snd c) (snd d))"

definition iso_c :: "('b \<Rightarrow> 'a) \<Rightarrow> ('a \<Rightarrow> 'b) \<Rightarrow> 'a coder \<Rightarrow> 'b coder" where
  "iso_c f g c = (fst c \<circ> f, map_option g \<circ> snd c)"

lemma basic_coders [codec_parts]: "coder_ok str_c" "coder_ok num_c" "coder_ok bool_c"
  by (simp_all add: coder_ok_def str_c_def num_c_def bool_c_def)

lemma list_coder [codec_parts]: "coder_ok c \<Longrightarrow> coder_ok (list_c c)"
  by (simp add: coder_ok_def list_c_def those_map_Some [where g = "\<lambda>x. x"] comp_def)

lemma option_coder [codec_parts]: "coder_ok c \<Longrightarrow> coder_ok (option_c c)"
  by (simp add: coder_ok_def option_c_def split: option.splits)

lemma pair_coder [codec_parts]: "coder_ok c \<Longrightarrow> coder_ok d \<Longrightarrow> coder_ok (pair_c c d)"
  by (simp add: coder_ok_def pair_c_def)

lemma iso_coder: "coder_ok c \<Longrightarrow> (\<And>x. g (f x) = x) \<Longrightarrow> coder_ok (iso_c f g c)"
  by (simp add: coder_ok_def iso_c_def)

section \<open>The structs of Kubernetes\<close>

definition quantity_c :: "quantity coder" where
  "quantity_c = iso_c
     (\<lambda>q. (q_value q, q_int64 q, q_format q = DecimalSI))
     (\<lambda>(v, i, d). \<lparr>q_value = v, q_int64 = i, q_format = (if d then DecimalSI else BinarySI)\<rparr>)
     (pair_c num_c (pair_c (option_c num_c) bool_c))"

definition result_c :: "allocation_result coder" where
  "result_c = iso_c
     (\<lambda>r. (ar_Request r, ar_Driver r, ar_Pool r, ar_Device r, ar_AdminAccess r, ar_ConsumedCapacity r))
     (\<lambda>(a, b, c, d, e, f). \<lparr>ar_Request = a, ar_Driver = b, ar_Pool = c, ar_Device = d,
        ar_AdminAccess = e, ar_ConsumedCapacity = f\<rparr>)
     (pair_c str_c (pair_c str_c (pair_c str_c (pair_c str_c (pair_c (option_c bool_c)
        (list_c (pair_c str_c quantity_c)))))))"

fun source_out :: "config_source \<Rightarrow> string option" where
  "source_out FromClass = None"
| "source_out FromClaim = Some ''''"
| "source_out (FromOther s) = Some (CHR ''x'' # s)"

fun source_in :: "string option \<Rightarrow> config_source" where
  "source_in None = FromClass"
| "source_in (Some []) = FromClaim"
| "source_in (Some (c # s)) = FromOther s"

definition config_c :: "allocation_config coder" where
  "config_c = iso_c
     (\<lambda>c. (source_out (ac_Source c), ac_Requests c, ac_Opaque c))
     (\<lambda>(s, r, p). \<lparr>ac_Source = source_in s, ac_Requests = r, ac_Opaque = p\<rparr>)
     (pair_c (option_c str_c) (pair_c (list_c str_c) (option_c (pair_c str_c str_c))))"

definition status_c :: "claim_status coder" where
  "status_c = iso_c
     (\<lambda>s. (map_option (\<lambda>a. (al_Results a, al_Config a)) (st_Allocation s),
           map (\<lambda>c. (cr_Resource c, cr_Name c, cr_UID c)) (st_ReservedFor s)))
     (\<lambda>(a, r). \<lparr>st_Allocation = map_option (\<lambda>(x, y). \<lparr>al_Results = x, al_Config = y\<rparr>) a,
        st_ReservedFor = map (\<lambda>(x, y, z). \<lparr>cr_Resource = x, cr_Name = y, cr_UID = z\<rparr>) r\<rparr>)
     (pair_c (option_c (pair_c (list_c result_c) (list_c config_c)))
        (list_c (pair_c str_c (pair_c str_c str_c))))"

definition device_c :: "plugin_device coder" where
  "device_c = iso_c
     (\<lambda>d. (kd_Requests d, kd_PoolName d, kd_DeviceName d, kd_CDIDeviceIDs d))
     (\<lambda>(a, b, c, d). \<lparr>kd_Requests = a, kd_PoolName = b, kd_DeviceName = c, kd_CDIDeviceIDs = d\<rparr>)
     (pair_c (list_c str_c) (pair_c str_c (pair_c str_c (list_c str_c))))"

lemma quantity_coder [codec_parts]: "coder_ok quantity_c"
proof -
  have "(if f = DecimalSI then DecimalSI else BinarySI) = f" for f by (cases f) simp_all
  then show ?thesis
    unfolding quantity_c_def by (intro iso_coder pair_coder option_coder basic_coders) simp
qed

lemma result_coder [codec_parts]: "coder_ok result_c"
  unfolding result_c_def by (rule iso_coder) (auto intro!: codec_parts)

lemma source_in_out: "source_in (source_out s) = s"
  by (cases s) simp_all

lemma config_coder [codec_parts]: "coder_ok config_c"
  unfolding config_c_def by (rule iso_coder) (auto intro!: codec_parts simp: source_in_out)

lemma status_coder [codec_parts]: "coder_ok status_c"
proof -
  have "(\<lambda>x. \<lparr>al_Results = al_Results x, al_Config = al_Config x\<rparr>) = (\<lambda>x. x)"
    "(\<lambda>x. \<lparr>cr_Resource = cr_Resource x, cr_Name = cr_Name x, cr_UID = cr_UID x\<rparr>) = (\<lambda>x. x)"
    by (simp_all add: fun_eq_iff)
  then show ?thesis
    unfolding status_c_def
    by (intro iso_coder codec_parts) (simp add: option.map_comp comp_def option.map_ident)
qed

lemma device_coder [codec_parts]: "coder_ok device_c"
  unfolding device_c_def by (rule iso_coder) (auto intro!: codec_parts)

lemma coded_not_null: "fst status_c s \<noteq> JNull" "fst device_c d \<noteq> JNull"
  by (simp_all add: status_c_def device_c_def iso_c_def pair_c_def split: prod.split)

section \<open>The codec and the manager\<close>

definition ref_codec :: codec where
  "ref_codec = \<lparr>k_status = fst status_c, k_unstatus = snd status_c,
     k_device = fst device_c, k_undevice = snd device_c,
     k_sum = (\<lambda>_. 1), k_verify = (\<lambda>c _. if c = 1 then None else Some (Err ''checkpoint is corrupted''))\<rparr>"

lemma ref_codec_ok: "codec_ok ref_codec"
  using status_coder device_coder coded_not_null
  by (simp add: codec_ok_def ref_codec_def coder_ok_def)

definition ref_manager :: "json option checkpoint_manager" where
  "ref_manager = \<lparr>
     cm_list = gets (\<lambda>c. if c = None then [] else [DriverPluginCheckpointFileBasename]),
     cm_get = (\<lambda>name load c. case c of
        Some j \<Rightarrow> (if name = DriverPluginCheckpointFileBasename
                   then (case load j of Inl e \<Rightarrow> (Inl (Failed e), c) | Inr cp \<Rightarrow> (Inr cp, c))
                   else (Inl (Failed NotFound), c))
      | None \<Rightarrow> (Inl (Failed NotFound), c)),
     cm_create = (\<lambda>name r c. case r of
        Inl f \<Rightarrow> (Inl f, c)
      | Inr j \<Rightarrow> (if name = DriverPluginCheckpointFileBasename then (Inr (), Some j) else (Inl (Failed NotFound), c))),
     cplock_acquire = ret (),
     cplock_release = (\<lambda>c. c)\<rparr>"

lemma ref_manager_ok: "manager_ok ref_manager (\<lambda>c. c)"
  by (auto simp: manager_ok_def ref_manager_def act_simps split: option.splits sum.splits)

lemma ref_legal: "legal_store (ref_manager, ref_codec, \<lambda>c. c)"
  by (simp add: legal_store_def ref_manager_ok ref_codec_ok)


section \<open>The checkpoint properties at concrete inputs\<close>

definition ref_env :: "json option store_env" where
  "ref_env = (ref_manager, ref_codec, \<lambda>c. c)"

definition sample_checkpoint :: "string \<Rightarrow> Checkpoint" where
  "sample_checkpoint b = fresh_checkpoint b"

definition sample_file :: "string \<Rightarrow> json option" where
  "sample_file b = Some (enc_Checkpoint ref_codec (sealed ref_codec (sample_checkpoint b)))"

lemma ref_basic [simp]:
  "cm_list ref_manager c = (Inr (if c = None then [] else [DriverPluginCheckpointFileBasename]), c)"
  "cplock_acquire ref_manager c = (Inr (), c)" "cplock_release ref_manager c = c"
  "cm_create ref_manager DriverPluginCheckpointFileBasename (Inr j) c = (Inr (), Some j)"
  "cm_get ref_manager DriverPluginCheckpointFileBasename load None = (Inl (Failed NotFound), None)"
  "cm_get ref_manager DriverPluginCheckpointFileBasename load (Some j) =
     (case load j of Inl e \<Rightarrow> Inl (Failed e) | Inr cp \<Rightarrow> Inr cp, Some j)"
  by (simp_all add: ref_manager_def act_simps split: sum.splits)

lemma ref_update:
  "load_checkpoint ref_codec j = Inr cp \<Longrightarrow> f (ToLatestVersion cp) = Inr cp' \<Longrightarrow>
   updateCheckpoint ref_manager ref_codec f (Some j) =
     (Inr (), Some (enc_Checkpoint ref_codec (sealed ref_codec cp')))"
  by (simp add: updateCheckpoint_def locked_def seq_def wrapping_def lift_res_def MarshalCheckpoint_sealed)

lemma ref_get:
  "load_checkpoint ref_codec j = Inr cp \<Longrightarrow>
   getCheckpoint ref_manager ref_codec (Some j) = (Inr (ToLatestVersion cp), Some j)"
  by (simp add: getCheckpoint_def locked_def seq_def wrapping_def ret_def)

lemma ref_init_absent: "\<not> isl (fst (initCheckpoint ref_manager ref_codec b None))"
  by (simp add: initCheckpoint_def createCheckpoint_def locked_def seq_def wrapping_def Let_def
      MarshalCheckpoint_sealed)

theorem boot_id_decides_witness:
  "file_contents ref_env (snd (initCheckpoint ref_manager ref_codec ''boot-1'' None)) =
   Some (''boot-1'', Map.empty)"
proof (cases "initCheckpoint ref_manager ref_codec ''boot-1'' None")
  case (Pair r c')
  then show ?thesis
    using boot_id_decides [OF ref_legal, of "''boot-1''" None r c'] ref_init_absent [of "''boot-1''"]
    by (simp add: ref_env_def after_init_def)
qed



section \<open>Devices\<close>

definition sample_vfio :: "int \<Rightarrow> string \<Rightarrow> VfioDeviceInfo" where
  "sample_vfio i bus = zero_vfio\<lparr>v_UUID := ''vfio'' @ int_str i, v_index := i, v_pcieBusID := bus\<rparr>"

definition sample_devices :: AllocatableDevices where
  "sample_devices =
     [(''gpu-0'', no_device\<lparr>ad_Gpu := Some (zero_gpu\<lparr>g_minor := 0, g_pcieBusID := ''01:00.0''\<rparr>)\<rparr>),
      (''gpu-vfio-0'', no_device\<lparr>ad_Vfio := Some (sample_vfio 0 ''01:00.0'')\<rparr>),
      (''gpu-vfio-1'', no_device\<lparr>ad_Vfio := Some (sample_vfio 1 ''02:00.0'')\<rparr>)]"

theorem siblings_removed_witness:
  "RemoveSiblingDevices sample_devices (snd (sample_devices ! 0)) =
     Inr [sample_devices ! 0, sample_devices ! 2] \<and>
   wf_allocatable [sample_devices ! 0, sample_devices ! 2]"
proof -
  have wf: "wf_allocatable sample_devices" unfolding sample_devices_def sample_vfio_def by code_simp
  have run: "RemoveSiblingDevices sample_devices (snd (sample_devices ! 0)) =
      Inr [sample_devices ! 0, sample_devices ! 2]"
    unfolding sample_devices_def sample_vfio_def by code_simp
  have "Type (snd (sample_devices ! 0)) \<in> {GpuDeviceType, VfioDeviceType}"
    by (simp add: sample_devices_def Type_def no_device_def)
  from conjunct2 [OF siblings_removed [OF wf run this]] run show ?thesis by blast
qed


text \<open>A machine whose scripts work: the hardware state is the driver of each GPU.\<close>

definition ref_vfio :: "(string \<Rightarrow> string) vfio_sys" where
  "ref_vfio = \<lparr>
     vf_exec = (\<lambda>cmd args n.
        if cmd = ''chroot'' then (Inr (ExitCode 1), n)
        else (case args of
           [a, d] \<Rightarrow> if CHR ''/'' \<in> set d then (Inr (ExitCode 1), n) else (Inr ExitOk, n(a := d))
         | [a] \<Rightarrow> (Inr ExitOk, n(a := ''''))
         | _ \<Rightarrow> (Inr (ExitCode 2), n))),
     vf_Readlink = (\<lambda>p n.
        let a = take (length p - (length pciDevicesRoot + 8)) (drop (length pciDevicesRoot + 1) p)
        in if CHR ''/'' \<in> set (n a) then (Inl (Failed NotExist), n) else (Inr (''../drivers/'' @ n a), n)),
     vf_StatIsDir = (\<lambda>_. ret True), vf_HasEntry = (\<lambda>_. ret True), vf_NumVFs = (\<lambda>_. ret 0),
     vf_TicksBeforeTimeout = ret 5\<rparr>"

lemma ref_readlink:
  "vf_Readlink ref_vfio (pciDevicesRoot @ ''/'' @ a @ ''/driver'') n =
     (if CHR ''/'' \<in> set (n a) then (Inl (Failed NotExist), n) else (Inr (''../drivers'' @ CHR ''/'' # n a), n))"
  by (simp add: ref_vfio_def Let_def)

lemma ref_vfio_law: "driver_law ref_vfio (\<lambda>n. n)"
  unfolding driver_law_def ref_readlink
  by (auto simp: cut_last_append [of _ _ "''../drivers''", simplified])
    (auto simp: ref_vfio_def split: if_splits)

definition sample_vm :: VfioPciManager where
  "sample_vm = \<lparr>vm_hostDriverRoot = '''', vm_driver = vfioPciDriver, vm_nvidiaEnabled = True\<rparr>"


end
