(* ===== verification/DeviceOps.thy ===== *)
theory DeviceOps
  imports DeviceState Samples
begin

text \<open>
  What Prepare and Unprepare do to the checkpoint: which claims are in it, in which state and with
  which devices, for every outcome of every call they make. Nothing but the two checkpoint updates of Prepare
  and the one of Unprepare touches the file; the frame lemmas say so for each computation in between.
\<close>

named_theorems cp_frame \<open>computations that leave the checkpoint manager alone\<close>

section \<open>Frames\<close>

abbreviation cp_same :: "'c \<Rightarrow> ('c, 'n, 'k) world \<Rightarrow> bool" where
  "cp_same c \<equiv> \<lambda>w. w_cp w = c"

lemma cp_zoom [cp_frame]:
  "keeps (cp_same c) (in_lib m1)" "keeps (cp_same c) (in_kube m2)" "keeps (cp_same c) (in_fs m3)"
  "keeps (cp_same c) (in_hami m4)"
  by (rule keeps_frames; simp)+

lemma keeps_fold_act [keeps_intros]: "(\<And>x b. keeps P (f x b)) \<Longrightarrow> keeps P (fold_act f xs b)"
  by (induction xs arbitrary: b) (auto intro!: keeps_intros)

lemma keeps_entry [keeps_intros]: "keeps P (entry_act e)"
  by (simp add: entry_act_def split: sum.split)

lemma keeps_modify_cp [cp_frame]:
  "(\<And>w. w_cp (g w) = w_cp w) \<Longrightarrow> keeps (cp_same c) (modify g)"
  by (rule keeps_modify) simp

lemma cp_frame_cdi [cp_frame]:
  "keeps (cp_same c) (cache_get key)" "keeps (cp_same c) (cache_set key v)"
  "keeps (cp_same c) (GetCommonEditsCached C)" "keeps (cp_same c) (GetDeviceSpecsByUUIDCached C uuid)"
proof -
  show get: "keeps (cp_same c) (cache_get key)" for key by (simp add: cache_get_def)
  show set: "keeps (cp_same c) (cache_set key v)" for key v
    by (auto simp: cache_set_def intro!: cp_frame)
  show "keeps (cp_same c) (GetCommonEditsCached C)"
    unfolding GetCommonEditsCached_def
    by (intro keeps_intros get; (split option.split cache_value.split)?;
        auto intro!: keeps_intros cp_frame set split: cache_value.split)
  show "keeps (cp_same c) (GetDeviceSpecsByUUIDCached C uuid)"
    unfolding GetDeviceSpecsByUUIDCached_def
    by (intro keeps_intros get; (split option.split cache_value.split)?;
        auto intro!: keeps_intros cp_frame set split: cache_value.split)
qed

lemma cp_frame_spec [cp_frame]:
  "keeps (cp_same c) (device_spec C uid cs dev e)" "keeps (cp_same c) (claim_specs C uid ps e)"
  "keeps (cp_same c) (CreateClaimSpecFile C uid ps)"
proof -
  have first: "keeps (cp_same c) (first_spec C uuid)" for uuid
    unfolding first_spec_def by (intro keeps_intros cp_frame) (auto split: list.split)
  show dev: "keeps (cp_same c) (device_spec C uid cs dev e)" for cs dev e
    unfolding device_spec_def Let_def
    by (cases "PreparedDevice_Type dev") (auto intro!: keeps_intros cp_frame first)
  show "keeps (cp_same c) (claim_specs C uid ps e)" for e
    unfolding claim_specs_def by (auto intro!: keeps_intros dev)
  then show "keeps (cp_same c) (CreateClaimSpecFile C uid ps)"
    unfolding CreateClaimSpecFile_def by (auto intro!: keeps_intros cp_frame)
qed

lemma cp_frame_mps [cp_frame]:
  "keeps (cp_same c) (Mps_Start S V dl E api m d cfg)" "keeps (cp_same c) (Mps_Stop S m d)"
  unfolding Mps_Start_def Mps_Stop_def
  by (auto intro!: keeps_intros cp_frame split: sum.splits)

lemma cp_frame_apply [cp_frame]:
  "keeps (cp_same c) (applySharingConfig s sh claim results)"
  "keeps (cp_same c) (applyVfioDeviceConfig s results)"
  "keeps (cp_same c) (configure_group s claim co results)"
proof -
  show share: "keeps (cp_same c) (applySharingConfig s sh claim results)" for sh
    unfolding applySharingConfig_def apply_hami_def apply_time_slicing_def apply_mps_def
    by (auto intro!: keeps_intros cp_frame split: option.split)
  show vfio: "keeps (cp_same c) (applyVfioDeviceConfig s results)"
    unfolding applyVfioDeviceConfig_def by (auto intro!: keeps_intros cp_frame)
  have "keeps (cp_same c) (applyConfig s co' claim results)" for co'
    by (cases co') (simp_all add: share vfio)
  then show "keeps (cp_same c) (configure_group s claim co results)"
    unfolding configure_group_def by (cases co) (auto intro!: keeps_intros split: option.split)
qed

lemma cp_frame_prepare [cp_frame]:
  "keeps (cp_same c) (prepare_device s claim r)" "keeps (cp_same c) (prepareDevices s claim)"
  "keeps (cp_same c) (remove_siblings devices)"
proof -
  show dev: "keeps (cp_same c) (prepare_device s claim r)" for r
    unfolding prepare_device_def Let_def
    by (auto intro!: keeps_intros cp_frame split: DeviceType.split)
  show "keeps (cp_same c) (prepareDevices s claim)"
    unfolding prepareDevices_def prepare_group_def Let_def
    by (auto intro!: keeps_intros cp_frame dev split: option.split)
  show "keeps (cp_same c) (remove_siblings devices)"
    unfolding remove_siblings_def by (auto intro!: keeps_intros cp_frame split: option.split)
qed

lemma cp_frame_unprepare [cp_frame]:
  "keeps (cp_same c) (unprepareDevices s uid devices)"
  "keeps (cp_same c) (unpreparePartiallyPrepairedClaim s uid pc cp)"
  "keeps (cp_same c) (discover_siblings s ds)"
proof -
  show "keeps (cp_same c) (unprepareDevices s uid devices)"
    unfolding unprepareDevices_def unprepare_group_def unprepareVfioDevices_def unprepare_device_def
    by (auto intro!: keeps_intros cp_frame split: PreparedType.split sum.split)
  show "keeps (cp_same c) (unpreparePartiallyPrepairedClaim s uid pc cp)"
    unfolding unpreparePartiallyPrepairedClaim_def deleteMigDevIfExistsAndNotUsedByCompletedClaim_def
    by (auto intro!: keeps_intros cp_frame split: option.split sum.split)
  have add: "keeps (cp_same c) (add_allocatable d)" for d
    unfolding add_allocatable_def by (auto intro!: keeps_intros cp_frame)
  have "keeps (cp_same c) (discoverSiblingAllocatables s n d)" for n d
    unfolding discoverSiblingAllocatables_def
    by (auto intro!: keeps_intros cp_frame add split: DeviceType.split)
  then show "keeps (cp_same c) (discover_siblings s ds)"
    unfolding discover_siblings_def by (auto intro!: keeps_intros split: option.split)
qed

lemma cp_frame_before [cp_frame]: "keeps (cp_same c) (before_start s claim cp)"
  unfolding before_start_def by (auto intro!: keeps_intros cp_frame split: option.split)


section \<open>The checkpoint under the operations\<close>

lemma seqE:
  assumes "seq m k w = (r, w')"
  obtains (stop) f where "m w = (Inl f, w')" "r = Inl f"
  | (step) x w1 where "m w = (Inr x, w1)" "k x w1 = (r, w')"
  using assms by (cases "m w"; cases "fst (m w)") (auto simp: seq_def)

lemma wrapping_step: "wrapping m a w = (Inr x, w') \<Longrightarrow> a w = (Inr x, w')"
  by (simp add: wrapping_Inr)

lemma hiding_step: "hiding m a w = (Inr x, w') \<Longrightarrow> a w = (Inr x, w')"
  by (simp add: hiding_Inr)

lemma wrapping_failed: "wrapping m a w = (Inl f, w') \<Longrightarrow> \<exists>f'. a w = (Inl f', w')"
  by (cases "a w"; cases "fst (a w)") (auto simp: wrapping_def)

lemma snd_wrapping_eq: "wrapping m a w = (r, w') \<Longrightarrow> w' = snd (a w)"
  by (cases "a w") (auto simp: wrapping_def)

lemma snd_hiding_eq: "hiding m a w = (r, w') \<Longrightarrow> w' = snd (a w)"
  by (cases "a w") (auto simp: hiding_def)

definition ds_env :: "('c, 'n, 'k) device_state \<Rightarrow> ('c \<Rightarrow> json option) \<Rightarrow> 'c store_env" where
  "ds_env s blob = (ds_checkpointManager s, ds_codec s, blob)"

definition checkpoint_of ::
    "('c, 'n, 'k) device_state \<Rightarrow> ('c \<Rightarrow> json option) \<Rightarrow> ('c, 'n, 'k) world \<Rightarrow> contents option" where
  "checkpoint_of s blob w = file_contents (ds_env s blob) (w_cp w)"

lemma checkpoint_of_frame:
  assumes "\<And>c. keeps (cp_same c) m" and "m w = (r, w')"
  shows "checkpoint_of s blob w' = checkpoint_of s blob w"
  using keepsD [OF assms(1) [of "w_cp w"], of w] assms(2) by (simp add: checkpoint_of_def)

lemma get_checkpoint_result:
  assumes "legal_store (ds_env s blob)" and "get_checkpoint s w = (r, w')"
  shows "(\<exists>c. w' = w\<lparr>w_cp := c\<rparr>) \<and> checkpoint_of s blob w' = checkpoint_of s blob w \<and>
    (\<forall>cp. r = Inr cp \<longrightarrow> checkpoint_of s blob w = Some (contents_of cp) \<and> (\<exists>cp0. cp = ToLatestVersion cp0))"
proof -
  obtain c where g: "getCheckpoint (ds_checkpointManager s) (ds_codec s) (w_cp w) = (r, c)" and w': "w' = w\<lparr>w_cp := c\<rparr>"
    using assms(2) by (auto simp: get_checkpoint_def on_def split: prod.splits)
  then have "store_fetch (ds_env s blob) (w_cp w) = (r, c)" by (simp add: store_fetch_def ds_env_def)
  moreover have "\<exists>cp0. cp = ToLatestVersion cp0" if "r = Inr cp" for cp
    using getCheckpoint_reads [OF _ g, of blob] assms(1) that by (auto simp: legal_store_def ds_env_def)
  ultimately show ?thesis
    using checkpoint.fetch_same [OF assms(1), of "w_cp w"] checkpoint.fetch_reads [OF assms(1), of "w_cp w" _ c] w'
    by (auto simp: checkpoint_of_def)
qed

lemma update_claim_result:
  assumes "legal_store (ds_env s blob)" and "update_checkpoint s (set_claim u pc) w = (r, w')"
    and "checkpoint_of s blob w = Some (b, m)"
  shows "(\<exists>c. w' = w\<lparr>w_cp := c\<rparr>) \<and>
    checkpoint_of s blob w' = Some (if isl r then (b, m) else (b, m(u \<mapsto> stored_ClaimV2 pc)))"
proof -
  obtain c where g: "store_update (ds_env s blob) (set_claim u pc) (w_cp w) = (r, c)" and w': "w' = w\<lparr>w_cp := c\<rparr>"
    using assms(2) by (auto simp: update_checkpoint_def store_update_def ds_env_def on_def split: prod.splits)
  then show ?thesis
    using checkpoint.update_fails [OF assms(1), of "set_claim u pc" "w_cp w" _ c]
      checkpoint.set_claim_stores [OF assms(1), of u pc "w_cp w" c] assms(3)
    by (cases r) (auto simp: checkpoint_of_def)
qed

lemma delete_claim_result:
  assumes "legal_store (ds_env s blob)"
    and "in_cp (deleteClaimFromCheckpoint (ds_checkpointManager s) (ds_codec s) ref) w = (r, w')"
    and "checkpoint_of s blob w = Some (b, m)"
  shows "checkpoint_of s blob w' = Some (if isl r then (b, m) else (b, m(no_UID ref := None)))"
proof -
  obtain c where w': "w' = w\<lparr>w_cp := c\<rparr>"
    and "deleteClaimFromCheckpoint (ds_checkpointManager s) (ds_codec s) ref (w_cp w) = (r, c)"
    using assms(2) by (auto simp: on_def split: prod.splits)
  then obtain x where g: "store_update (ds_env s blob) (drop_claim (no_UID ref)) (w_cp w) = (x, c)" "isl r \<longleftrightarrow> isl x"
    unfolding deleteClaimFromCheckpoint_def store_update_def ds_env_def
    by (auto elim: wrapping_cases)
  then show ?thesis
    using checkpoint.update_fails [OF assms(1), of "drop_claim (no_UID ref)" "w_cp w" _ c]
      checkpoint.drop_claim_stores [OF assms(1), of "no_UID ref" "w_cp w" c] assms(3) w'
    by (cases x) (auto simp: checkpoint_of_def)
qed

lemma contents_claims: "contents_of cp = (b, m) \<Longrightarrow> claims cp = m"
  by (simp add: contents_of_def)

section \<open>Prepare\<close>

lemma prepare_started_result:
  assumes "legal_store (ds_env s blob)" and "prepare_started s claim w = (r, w')"
    and "checkpoint_of s blob w = Some (b, m)"
  shows "(isl r \<and> checkpoint_of s blob w' = Some (b, m)) \<or>
    (\<exists>devs w1. prepareDevices s claim w = (Inr devs, w1) \<and> r = GetDevices devs \<and>
       checkpoint_of s blob w' = Some (b, m(rc_UID claim \<mapsto> stored_ClaimV2 (completed_claim claim devs))))"
proof -
  note frame = checkpoint_of_frame [OF keeps_wrapping [OF cp_frame_prepare(2)]]
  show ?thesis
    using assms(2) unfolding prepare_started_def
  proof (cases rule: seqE)
    case (stop f)
    with frame [OF stop(1)] assms(3) show ?thesis by simp
  next
    case (step devs w1)
    note prep = wrapping_step [OF step(1)]
    have c1: "checkpoint_of s blob w1 = Some (b, m)" using frame [OF step(1)] assms(3) by simp
    let ?sib = "if ds_Enabled s PassthroughSupport then seq (lift_res (GetDevices devs)) remove_siblings else ret ()"
    have sib: "keeps (cp_same c) ?sib" for c by (auto intro!: keeps_intros cp_frame)
    from step(2) show ?thesis
    proof (cases rule: seqE)
      case (stop f)
      with checkpoint_of_frame [OF sib stop(1)] c1 show ?thesis by simp
    next
      case (step x w2)
      have c2: "checkpoint_of s blob w2 = Some (b, m)" using checkpoint_of_frame [OF sib step(1)] c1 by simp
      from step(2) show ?thesis
      proof (cases rule: seqE)
        case (stop f)
        from checkpoint_of_frame [OF keeps_wrapping [OF cp_frame_spec(3)] stop(1)] c2 stop show ?thesis by simp
      next
        case (step y w3)
        have c3: "checkpoint_of s blob w3 = Some (b, m)"
          using checkpoint_of_frame [OF keeps_wrapping [OF cp_frame_spec(3)] step(1)] c2 by simp
        obtain z w4 where up: "update_checkpoint s (set_claim (rc_UID claim) (completed_claim claim devs)) w3 = (z, w4)"
          by fastforce
        note U = update_claim_result [OF assms(1) up c3]
        show ?thesis
        proof (cases z)
          case (Inl f)
          then have "isl r \<and> w' = w4"
            using step(2) up by (cases f) (auto simp: seq_def wrapping_def)
          with U Inl show ?thesis by simp
        next
          case (Inr u)
          then have "r = GetDevices devs \<and> w' = w4"
            using step(2) up by (auto simp: seq_def wrapping_def lift_res_def)
          with U Inr prep show ?thesis by auto
        qed
      qed
    qed
  qed
qed


text \<open>What comes before leaves the allocatable devices alone.\<close>

lemma before_start_allocatable:
  "before_start s claim cp w = (r, w') \<Longrightarrow> w_allocatable w' = w_allocatable w"
proof -
  have "keeps (\<lambda>w. w_allocatable w = al) (before_start s claim cp)" for al
    unfolding before_start_def unpreparePartiallyPrepairedClaim_def
      deleteMigDevIfExistsAndNotUsedByCompletedClaim_def
    by (auto intro!: keeps_intros split: option.split sum.split)
  from keeps_result [OF this, of w r w' "w_allocatable w"]
  show "before_start s claim cp w = (r, w') \<Longrightarrow> w_allocatable w' = w_allocatable w" by simp
qed

text \<open>The four ways through Prepare.\<close>

lemma Prepare_cases:
  assumes "legal_store (ds_env s blob)" and "checkpoint_of s blob w = Some (b, m)"
    and "Prepare s claim w = (r, w')"
  obtains (failed) "isl r" "checkpoint_of s blob w' = Some (b, m)"
  | (again) pc c where "m (rc_UID claim) = Some pc" "c_CheckpointState pc = Completed"
      "r = GetDevices (c_PreparedDevices pc)" "w' = w\<lparr>w_cp := c\<rparr>" "checkpoint_of s blob w' = Some (b, m)"
  | (started) w0 w1 cp where "\<forall>pc. m (rc_UID claim) = Some pc \<longrightarrow> c_CheckpointState pc \<noteq> Completed"
      "claims cp = m" "\<exists>cp0. cp = ToLatestVersion cp0" "before_start s claim cp w0 = (Inr (), w1)"
      "isl r" "checkpoint_of s blob w' = Some (b, m(rc_UID claim \<mapsto> stored_ClaimV2 (started_claim claim)))"
  | (completed) w0 w1 w2 w3 cp devs where "\<forall>pc. m (rc_UID claim) = Some pc \<longrightarrow> c_CheckpointState pc \<noteq> Completed"
      "claims cp = m" "\<exists>cp0. cp = ToLatestVersion cp0" "before_start s claim cp w0 = (Inr (), w1)"
      "w_allocatable w2 = w_allocatable w" "prepareDevices s claim w2 = (Inr devs, w3)" "r = GetDevices devs"
      "checkpoint_of s blob w' = Some (b, m(rc_UID claim \<mapsto> stored_ClaimV2 (completed_claim claim devs)))"
  using assms(3) unfolding Prepare_def
proof (cases rule: seqE)
  case (stop f)
  have "get_checkpoint s w = (fst (get_checkpoint s w), w')"
    using snd_hiding_eq [OF stop(1)] by simp
  from get_checkpoint_result [OF assms(1) this] assms(2) stop failed show thesis by simp
next
  case (step cp w1)
  note G = get_checkpoint_result [OF assms(1) hiding_step [OF step(1)]]
  have c1: "checkpoint_of s blob w1 = Some (b, m)" and cl: "claims cp = m" and lat: "\<exists>cp0. cp = ToLatestVersion cp0"
    using G assms(2) contents_claims [of cp b m] by simp_all
  show thesis
  proof (cases "\<exists>pc. m (rc_UID claim) = Some pc \<and> c_CheckpointState pc = Completed")
    case True
    then obtain pc where pc: "m (rc_UID claim) = Some pc" "c_CheckpointState pc = Completed" by blast
    then have "r = GetDevices (c_PreparedDevices pc)" "w' = w1"
      using step(2) cl by (simp_all add: lift_res_def)
    with G pc c1 again show thesis by auto
  next
    case False
    then have no: "\<forall>pc. m (rc_UID claim) = Some pc \<longrightarrow> c_CheckpointState pc \<noteq> Completed" by blast
    have "seq (before_start s claim cp) (\<lambda>_. seq (wrapping ''unable to update checkpoint''
        (update_checkpoint s (set_claim (rc_UID claim) (started_claim claim)))) (\<lambda>_. prepare_started s claim)) w1 = (r, w')"
      using step(2) cl no by (auto split: option.splits)
    then show thesis
    proof (cases rule: seqE)
      case (stop f)
      with checkpoint_of_frame [OF cp_frame_before stop(1)] c1 failed show thesis by simp
    next
      case (step x w2)
      have c2: "checkpoint_of s blob w2 = Some (b, m)"
        using checkpoint_of_frame [OF cp_frame_before step(1)] c1 by simp
      from step(2) show thesis
      proof (cases rule: seqE)
        case (stop f)
        from wrapping_failed [OF stop(1)] obtain y where
          up: "update_checkpoint s (set_claim (rc_UID claim) (started_claim claim)) w2 = (Inl y, w')" by blast
        from update_claim_result [OF assms(1) up c2] stop failed show thesis by simp
      next
        case (step y w3)
        from update_claim_result [OF assms(1) wrapping_step [OF step(1)] c2]
        have c3: "checkpoint_of s blob w3 = Some (b, m(rc_UID claim \<mapsto> stored_ClaimV2 (started_claim claim)))"
          and "w_allocatable w3 = w_allocatable w2" by auto
        moreover have "w_allocatable w2 = w_allocatable w"
          using before_start_allocatable [OF \<open>before_start s claim cp w1 = (Inr x, w2)\<close>] G by auto
        ultimately have al: "w_allocatable w3 = w_allocatable w" by simp
        from prepare_started_result [OF assms(1) step(2) c3] \<open>before_start s claim cp w1 = (Inr x, w2)\<close>
        show thesis using started [OF no cl lat] completed [OF no cl lat _ al] by auto
      qed
    qed
  qed
qed

section \<open>The devices that are returned\<close>


definition expected_device ::
    "('c, 'n, 'k) device_state \<Rightarrow> resource_claim \<Rightarrow> allocation_result \<Rightarrow> string \<Rightarrow> plugin_device" where
  "expected_device s claim x name =
     \<lparr>kd_Requests = [ar_Request x], kd_PoolName = ar_Pool x, kd_DeviceName = ar_Device x,
      kd_CDIDeviceIDs = (if name = '''' then [] else [name])\<rparr>"

lemma plugin_device_simps [simp]:
  "plugin_device_of (no_prepared\<lparr>pd_HAMiGpu := Some \<lparr>phg_Info = i1, phg_Device = Some dev\<rparr>\<rparr>) = Inr (Some dev)"
  "plugin_device_of (no_prepared\<lparr>pd_Gpu := Some \<lparr>pg_Info = i2, pg_Device = Some dev\<rparr>\<rparr>) = Inr (Some dev)"
  "plugin_device_of (no_prepared\<lparr>pd_Mig := Some \<lparr>pm_Concrete = i3, pm_Device = Some dev\<rparr>\<rparr>) = Inr (Some dev)"
  "plugin_device_of (no_prepared\<lparr>pd_Vfio := Some \<lparr>pv_Info = i4, pv_Device = Some dev\<rparr>\<rparr>) = Inr (Some dev)"
  by (simp_all add: plugin_device_of_def PreparedDevice_Type_def no_prepared_def)

lemma prepare_device_ok:
  assumes "prepare_device s claim x w = (Inr d, w')"
  shows "\<exists>adev name. map_of (w_allocatable w) (ar_Device x) = Some adev \<and>
    GetClaimDeviceName (ds_cdi s) (rc_UID claim) adev = Inr name \<and> Type adev \<noteq> UnknownDeviceType \<and>
    plugin_device_of d = Inr (Some (expected_device s claim x name))"
proof -
  obtain adev where a: "map_of (w_allocatable w) (ar_Device x) = Some adev"
    using assms by (cases "map_of (w_allocatable w) (ar_Device x)") (simp_all add: prepare_device_def seq_gets seq_basic run_basic)
  obtain name where n: "GetClaimDeviceName (ds_cdi s) (rc_UID claim) adev = Inr name"
    using assms a by (cases "GetClaimDeviceName (ds_cdi s) (rc_UID claim) adev")
      (simp_all add: prepare_device_def seq_gets seq_basic run_basic)
  have t: "Type adev \<noteq> UnknownDeviceType"
    using n by (auto simp: GetClaimDeviceName_def CanonicalName_def unexpected_type_def)
  have "plugin_device_of d = Inr (Some (expected_device s claim x name))"
    using assms a n t
    by (cases "Type adev")
      (auto simp: prepare_device_def seq_gets seq_basic run_basic seq_Inr lift_res_Inr ret_def Let_def expected_device_def)
  with a n t show ?thesis by blast
qed


lemma collect_Inr:
  "collect f xs w = (Inr ys, w') \<Longrightarrow> list_all2 (\<lambda>x y. \<exists>w1 w2. f x w1 = (Inr y, w2)) xs ys"
  by (induction xs arbitrary: ys w) (fastforce simp: ret_def seq_Inr)+

text \<open>The part of a device the kubelet reads, as the result fixes it.\<close>

definition device_key :: "plugin_device \<Rightarrow> string list \<times> string \<times> string" where
  "device_key d = (kd_Requests d, kd_PoolName d, kd_DeviceName d)"

definition result_key :: "allocation_result \<Rightarrow> string list \<times> string \<times> string" where
  "result_key x = ([ar_Request x], ar_Pool x, ar_Device x)"

lemma expected_key [simp]: "device_key (expected_device s claim x n) = result_key x"
  by (simp add: device_key_def result_key_def expected_device_def)

lemma prepared_list:
  assumes "list_all2 (\<lambda>x d. \<exists>w1 w2. prepare_device s claim x w1 = (Inr d, w2)) xs ds"
  shows "\<exists>ps. res_all plugin_device_of ds = Inr ps \<and> map device_key (List.map_filter id ps) = map result_key xs"
  using assms
proof (induction rule: list_all2_induct)
  case Nil
  then show ?case by (simp add: List.map_filter_def)
next
  case (Cons x xs d ds)
  from Cons(1) obtain w1 w2 where "prepare_device s claim x w1 = (Inr d, w2)" by blast
  from prepare_device_ok [OF this] obtain n where "plugin_device_of d = Inr (Some (expected_device s claim x n))" by blast
  with Cons.IH show ?case by (auto simp: List.map_filter_def)
qed

lemma prepared_groups:
  assumes "list_all2 (\<lambda>i g. \<exists>w1 w2. prepare_group s claim (st i) (results_of m i) w1 = (Inr g, w2)) js gs"
  shows "\<exists>ds. GetDevices gs = Inr ds \<and> map device_key ds = map result_key (concat (map (results_of m) js))"
  using assms
proof (induction rule: list_all2_induct)
  case Nil
  then show ?case by (simp add: GetDevices_def)
next
  case (Cons i js g gs)
  from Cons(1) obtain w1 w2 where "prepare_group s claim (st i) (results_of m i) w1 = (Inr g, w2)" by blast
  then obtain w3 where "collect (prepare_device s claim) (results_of m i) w3 = (Inr (grp_Devices g), w2)"
    by (auto simp: prepare_group_def seq_Inr lift_res_Inr ret_def)
  from prepared_list [OF collect_Inr [OF this]] obtain ps where
    "Group_GetDevices g = Inr (List.map_filter id ps)"
    and "map device_key (List.map_filter id ps) = map result_key (results_of m i)"
    by (auto simp: Group_GetDevices_def)
  with Cons.IH show ?case by (auto simp: GetDevices_def res_seq_Inr)
qed

lemma mset_concat_filter:
  "distinct ks \<Longrightarrow> mset (concat (map (\<lambda>i. filter (\<lambda>r. P r \<and> f r = Some i) rs) ks)) =
     mset (filter (\<lambda>r. P r \<and> f r \<in> Some ` set ks) rs)"
proof (induction ks)
  case Nil
  then show ?case by (auto simp: filter_empty_conv)
next
  case (Cons k ks)
  have "mset (filter (\<lambda>r. P r \<and> f r = Some k) rs) + mset (filter (\<lambda>r. P r \<and> f r \<in> Some ` set ks) rs) =
      mset (filter (\<lambda>r. P r \<and> f r \<in> Some ` set (k # ks)) rs)"
    using Cons.prems by (induction rs) auto
  with Cons show ?case by simp
qed

lemma grouped_mset:
  assumes "grouped al cs rs m" and "mset js = mset (map fst m)"
  shows "mset (concat (map (results_of m) js)) =
    mset (filter (\<lambda>r. ar_Driver r = DriverName \<and> last_applying al cs r \<noteq> None) rs)"
proof -
  have res: "results_of m i = filter (\<lambda>r. ar_Driver r = DriverName \<and> last_applying al cs r = Some i) rs" for i
    using assms(1) by (simp add: grouped_def results_of_def)
  have "distinct (map fst m)" using assms(1) by (simp add: grouped_def)
  then have d: "distinct js" and s: "set js = fst ` set m"
    using mset_eq_imp_distinct_iff [OF assms(2)] mset_eq_setD [OF assms(2)] by simp_all
  have key: "i \<in> fst ` set m" if "r \<in> set rs" "ar_Driver r = DriverName" "last_applying al cs r = Some i" for r i
  proof -
    have "r \<in> set (results_of m i)" using that by (simp add: res)
    then obtain g where "map_of m i = Some g" by (cases "map_of m i") (auto simp: results_of_def)
    from map_of_SomeD [OF this] show ?thesis by force
  qed
  have "mset (concat (map (results_of m) js)) =
      mset (filter (\<lambda>r. ar_Driver r = DriverName \<and> last_applying al cs r \<in> Some ` set js) rs)"
    unfolding res by (rule mset_concat_filter [OF d])
  also have "filter (\<lambda>r. ar_Driver r = DriverName \<and> last_applying al cs r \<in> Some ` set js) rs =
      filter (\<lambda>r. ar_Driver r = DriverName \<and> last_applying al cs r \<noteq> None) rs"
    using key s by (intro filter_cong) auto
  finally show ?thesis .
qed

lemma prepareDevices_devices:
  assumes "prepareDevices s claim w = (Inr devs, w')" and "\<And>ks. mset (ds_order2 s ks) = mset ks"
  shows "\<exists>al opaque ds. st_Allocation (rc_Status claim) = Some al \<and> GetDevices devs = Inr ds \<and>
    mset (map device_key ds) = mset (map result_key (filter (\<lambda>r. ar_Driver r = DriverName \<and>
      last_applying (w_allocatable w) (with_defaults (ds_Enabled s) (ds_api s) opaque) r \<noteq> None) (al_Results al)))"
proof -
  from assms(1) obtain al where al: "st_Allocation (rc_Status claim) = Some al"
    by (cases "st_Allocation (rc_Status claim)") (auto simp: prepareDevices_def throw_def)
  from assms(1) al obtain opaque m states w2 where
    m: "map_results (ds_Enabled s) (w_allocatable w) (with_defaults (ds_Enabled s) (ds_api s) opaque) (al_Results al) [] = Inr m"
    and c: "collect (\<lambda>i. prepare_group s claim (Option.bind (map_of states i) id) (results_of m i))
      (ds_order2 s (map fst m)) w2 = (Inr devs, w')"
    by (auto simp: prepareDevices_def Let_def seq_Inr hiding_Inr run_basic entry_act_def
        split: sum.splits)
  from prepared_groups [OF collect_Inr [OF c]] obtain ds where ds: "GetDevices devs = Inr ds"
    and keys: "map device_key ds = map result_key (concat (map (results_of m) (ds_order2 s (map fst m))))" by blast
  have "grouped (w_allocatable w) (with_defaults (ds_Enabled s) (ds_api s) opaque) (al_Results al) m"
    using map_results_grouped [OF m grouped_start] by simp
  from grouped_mset [OF this assms(2)]
  have "mset (map device_key ds) = mset (map result_key (filter (\<lambda>r. ar_Driver r = DriverName \<and>
      last_applying (w_allocatable w) (with_defaults (ds_Enabled s) (ds_api s) opaque) r \<noteq> None) (al_Results al)))"
    unfolding keys by simp
  with al ds show ?thesis by blast
qed

lemma prepareDevices_known:
  assumes "prepareDevices s claim w = (Inr devs, w')" and "st_Allocation (rc_Status claim) = Some al"
    and "r \<in> set (al_Results al)" and "ar_Driver r = DriverName"
  shows "\<exists>d. map_of (w_allocatable w) (ar_Device r) = Some d"
proof -
  from assms(1,2) obtain opaque m where
    "map_results (ds_Enabled s) (w_allocatable w) (with_defaults (ds_Enabled s) (ds_api s) opaque) (al_Results al) [] = Inr m"
    by (auto simp: prepareDevices_def Let_def seq_Inr hiding_Inr run_basic entry_act_def split: sum.splits)
  from map_results_known [OF this assms(3,4)] show ?thesis .
qed

lemma GetDevices_prepared:
  assumes "prepareDevices s claim w = (Inr devs, w')"
  shows "\<exists>ds. GetDevices devs = Inr ds"
proof -
  from assms obtain m states js w2 where
    "collect (\<lambda>i. prepare_group s claim (Option.bind (map_of states i) id) (results_of m i)) js w2 = (Inr devs, w')"
    by (auto simp: prepareDevices_def Let_def seq_Inr throw_def split: option.splits)
  from prepared_groups [OF collect_Inr [OF this]] show ?thesis by blast
qed


section \<open>What a stored claim still says\<close>

lemma stored_plugin_device [simp]: "plugin_device_of (stored_PreparedDevice d) = plugin_device_of d"
proof -
  have "PreparedDevice_Type (stored_PreparedDevice d) = PreparedDevice_Type d"
    by (simp add: PreparedDevice_Type_def stored_PreparedDevice_def)
  then show ?thesis
    by (auto simp: plugin_device_of_def stored_PreparedDevice_def stored_HAMi_def stored_Gpu_def stored_Vfio_def
        deref_def split: PreparedType.split option.split)
qed

lemma GetDevices_stored [simp]: "GetDevices (stored_devices ps) = GetDevices ps"
proof -
  have "Group_GetDevices (stored_Group g) = Group_GetDevices g" for g
    by (simp add: Group_GetDevices_def stored_Group_def res_all_map)
  then show ?thesis by (simp add: GetDevices_def res_all_map)
qed

lemma stored_claim_simps [simp]:
  "c_CheckpointState (stored_ClaimV2 c) = c_CheckpointState c" "c_Status (stored_ClaimV2 c) = c_Status c"
  "c_PreparedDevices (stored_ClaimV2 c) = stored_devices (c_PreparedDevices c)"
  by (simp_all add: stored_ClaimV2_def)

lemma claim_state_simps [simp]:
  "c_CheckpointState (started_claim claim) = Started" "c_Status (started_claim claim) = rc_Status claim"
  "c_CheckpointState (completed_claim claim devs) = Completed" "c_Status (completed_claim claim devs) = rc_Status claim"
  "c_PreparedDevices (completed_claim claim devs) = devs"
  by (simp_all add: started_claim_def completed_claim_def)

section \<open>Unprepare\<close>

lemma Unprepare_cases:
  assumes "legal_store (ds_env s blob)" and "checkpoint_of s blob w = Some (b, m)"
    and "Unprepare s ref w = (r, w')"
  obtains (unread) c where "isl r" "w' = w\<lparr>w_cp := c\<rparr>" "checkpoint_of s blob w' = Some (b, m)"
  | (absent) c where "m (no_UID ref) = None" "r = Inr ()" "w' = w\<lparr>w_cp := c\<rparr>" "checkpoint_of s blob w' = Some (b, m)"
  | (failed) pc where "m (no_UID ref) = Some pc" "isl r" "checkpoint_of s blob w' = Some (b, m)"
  | (removed) pc cp c w1 w2 w3 x where "m (no_UID ref) = Some pc" "r = Inr ()"
      "checkpoint_of s blob w' = Some (b, m(no_UID ref := None))" "claims cp = m"
      "unprepare_by_state s (no_UID ref) pc cp (w\<lparr>w_cp := c\<rparr>) = (Inr (), w1)"
      "(if ds_Enabled s PassthroughSupport
        then seq (lift_res (GetDevices (c_PreparedDevices pc))) (discover_siblings s) else ret ()) w1 = (Inr (), w2)"
      "in_fs (DeleteClaimSpecFile (ds_cdi s) (no_UID ref)) w2 = (x, w3)" "w_fs w' = w_fs w3"
  using assms(3) unfolding Unprepare_def
proof (cases rule: seqE)
  case (stop f)
  have "get_checkpoint s w = (fst (get_checkpoint s w), w')"
    using snd_hiding_eq [OF stop(1)] by simp
  from get_checkpoint_result [OF assms(1) this] assms(2) stop unread show thesis by auto
next
  case (step cp w0)
  note G = get_checkpoint_result [OF assms(1) hiding_step [OF step(1)]]
  obtain c where w0: "w0 = w\<lparr>w_cp := c\<rparr>" using G by blast
  have c0: "checkpoint_of s blob w0 = Some (b, m)" and cl: "claims cp = m"
    using G assms(2) contents_claims [of cp b m] by simp_all
  show thesis
  proof (cases "m (no_UID ref)")
    case None
    then have "r = Inr ()" "w' = w0" using step(2) cl by (simp_all add: ret_def)
    with None c0 w0 absent show thesis by simp
  next
    case (Some pc)
    let ?sib = "if ds_Enabled s PassthroughSupport
        then seq (lift_res (GetDevices (c_PreparedDevices pc))) (discover_siblings s) else ret ()"
    let ?del = "wrapping ''error deleting claim from checkpoint''
        (in_cp (deleteClaimFromCheckpoint (ds_checkpointManager s) (ds_codec s) ref))"
    have "seq (unprepare_by_state s (no_UID ref) pc cp) (\<lambda>_. seq ?sib (\<lambda>_.
        seq (attempt (in_fs (DeleteClaimSpecFile (ds_cdi s) (no_UID ref)))) (\<lambda>_. ?del))) w0 = (r, w')"
      using step(2) cl Some by simp
    moreover have keep: "keeps (cp_same x) (unprepare_by_state s (no_UID ref) pc cp)" for x
      unfolding unprepare_by_state_def by (auto intro!: keeps_intros cp_frame)
    ultimately show thesis
    proof (cases rule: seqE)
      case (stop f)
      with checkpoint_of_frame [OF keep stop(1)] c0 Some failed show thesis by simp
    next
      case (step x1 w1)
      have by_state: "unprepare_by_state s (no_UID ref) pc cp (w\<lparr>w_cp := c\<rparr>) = (Inr (), w1)"
        using step(1) w0 by simp
      have c1: "checkpoint_of s blob w1 = Some (b, m)" using checkpoint_of_frame [OF keep step(1)] c0 by simp
      have keep2: "keeps (cp_same x) ?sib" for x by (auto intro!: keeps_intros cp_frame)
      from step(2) show thesis
      proof (cases rule: seqE)
        case (stop f)
        with checkpoint_of_frame [OF keep2 stop(1)] c1 Some failed show thesis by simp
      next
        case (step x2 w2)
        have sib: "?sib w1 = (Inr (), w2)" using step(1) by simp
        have c2: "checkpoint_of s blob w2 = Some (b, m)" using checkpoint_of_frame [OF keep2 step(1)] c1 by simp
        obtain x3 w3 where rm: "in_fs (DeleteClaimSpecFile (ds_cdi s) (no_UID ref)) w2 = (x3, w3)" by fastforce
        have c3: "checkpoint_of s blob w3 = Some (b, m)" using checkpoint_of_frame [OF cp_zoom(3) rm] c2 by simp
        from step(2) have "(isl r \<and> w' = w3) \<or> ?del w3 = (r, w')"
          using rm by (cases x3; cases "projl x3") (auto simp: seq_def attempt_def)
        then show thesis
        proof
          assume "isl r \<and> w' = w3"
          with c3 Some failed show thesis by simp
        next
          assume del: "?del w3 = (r, w')"
          then obtain y where y: "in_cp (deleteClaimFromCheckpoint (ds_checkpointManager s) (ds_codec s) ref) w3 = (y, w')"
            and "isl r \<longleftrightarrow> isl y" by (rule wrapping_cases)
          moreover have "w_fs w' = w_fs w3" using y by (auto simp: on_def split: prod.splits)
          moreover have "checkpoint_of s blob w' = Some (if isl y then (b, m) else (b, m(no_UID ref := None)))"
            by (rule delete_claim_result [OF assms(1) y c3])
          ultimately show thesis
            using Some failed [of pc] removed [OF Some _ _ cl by_state sib rm]
            by (cases r) auto
        qed
      qed
    qed
  qed
qed

end
