(* ===== verification/Runs.thy ===== *)
theory Runs
  imports Main
begin

text \<open>
  Runs of a step relation with labels, and the two ways to reason about them that the components
  share: an assertion every step keeps (\<open>step_invariant\<close>) and a second machine that can follow every step
  (\<open>simulation\<close>).
\<close>

inductive run :: "('s \<Rightarrow> 'e \<Rightarrow> 's \<Rightarrow> bool) \<Rightarrow> 's \<Rightarrow> 'e list \<Rightarrow> 's \<Rightarrow> bool" for step s where
  stop: "run step s [] s"
| more: "run step s es s' \<Longrightarrow> step s' e s'' \<Longrightarrow> run step s (es @ [e]) s''"

lemma run_append: "run step s' es' s'' \<Longrightarrow> run step s es s' \<Longrightarrow> run step s (es @ es') s''"
proof (induction rule: run.induct)
  case (more es1 s1 e s2)
  from run.more [OF more.IH [OF more.prems] more.hyps(2)] show ?case by simp
qed simp

lemma run_Nil [simp]: "run step s [] s' \<longleftrightarrow> s' = s"
  by (auto elim: run.cases intro: run.stop)

lemma run_snoc: "run step s (es @ [e]) s'' \<longleftrightarrow> (\<exists>s'. run step s es s' \<and> step s' e s'')"
  by (auto elim: run.cases intro: run.more)

lemma run_Cons: "run step s (e # es) s'' \<longleftrightarrow> (\<exists>s'. step s e s' \<and> run step s' es s'')"
proof (induction es arbitrary: s'' rule: rev_induct)
  case Nil
  show ?case using run_snoc [of step s "[]" e] by simp
next
  case (snoc x es)
  show ?case using run_snoc [of step s "e # es" x] snoc.IH by (auto simp: run_snoc)
qed

lemma run_split: "run step s (es @ es') s'' \<longleftrightarrow> (\<exists>s'. run step s es s' \<and> run step s' es' s'')"
  by (induction es arbitrary: s) (auto simp: run_Cons)

locale step_invariant =
  fixes step :: "'s \<Rightarrow> 'e \<Rightarrow> 's \<Rightarrow> bool"
    and inv :: "'s \<Rightarrow> bool"
  assumes kept: "inv s \<Longrightarrow> step s e s' \<Longrightarrow> inv s'"
begin

lemma along_run: "run step s es s' \<Longrightarrow> inv s \<Longrightarrow> inv s'"
  by (induction rule: run.induct) (auto intro: kept)

end

locale simulation =
  fixes cstep :: "'c \<Rightarrow> 'e \<Rightarrow> 'c \<Rightarrow> bool"
    and astep :: "'a \<Rightarrow> 'e \<Rightarrow> 'a \<Rightarrow> bool"
    and rel :: "'c \<Rightarrow> 'a \<Rightarrow> bool"
  assumes follow: "rel c a \<Longrightarrow> cstep c e c' \<Longrightarrow> \<exists>a'. astep a e a' \<and> rel c' a'"
begin

lemma follow_run: "run cstep c es c' \<Longrightarrow> rel c a \<Longrightarrow> \<exists>a'. run astep a es a' \<and> rel c' a'"
proof (induction rule: run.induct)
  case (more es s1 e s2)
  then obtain a1 where "run astep a es a1" "rel s1 a1" by blast
  with follow more.hyps(2) run.more [of astep a es a1 e] show ?case by blast
qed (auto intro: run.stop)

end

end
