(* ===== verification/Lifecycle.thy ===== *)
theory Lifecycle
  imports DeviceOps Runs
begin

text \<open>
  The life of a claim on the node, over all requests: what one Prepare and one Unprepare may do to the
  claims in the checkpoint (\<open>prepare_spec\<close>, \<open>unprepare_spec\<close>), the runs of the plugin with its restarts and
  crashes (\<open>plugin_step\<close>), the invariants of every run, and the abstract machine with one phase per claim that
  the runs refine.
\<close>

section \<open>What Prepare may do to the claims\<close>

type_synonym claim_map = "string \<rightharpoonup> PreparedClaim"

definition claim_names :: "claim_status \<Rightarrow> DeviceName set" where
  "claim_names st = (case st_Allocation st of None \<Rightarrow> {} | Some al \<Rightarrow> set (nonadmin_names (al_Results al)))"

definition is_completed :: "claim_map \<Rightarrow> string \<Rightarrow> bool" where
  "is_completed m u \<longleftrightarrow> (\<exists>pc. m u = Some pc \<and> c_CheckpointState pc = Completed)"

text \<open>Without HAMi-Core a claim is started only if it is allocated and shares no device with a
  completed one.\<close>

definition admissible :: "bool \<Rightarrow> resource_claim \<Rightarrow> claim_map \<Rightarrow> bool" where
  "admissible hami claim m \<longleftrightarrow> hami \<or>
     (st_Allocation (rc_Status claim) \<noteq> None \<and>
      (\<forall>u pc. u \<noteq> rc_UID claim \<and> m u = Some pc \<and> c_CheckpointState pc = Completed \<longrightarrow>
         claim_names (rc_Status claim) \<inter> claim_names (c_Status pc) = {}))"

inductive prepare_spec ::
    "bool \<Rightarrow> resource_claim \<Rightarrow> claim_map \<Rightarrow> plugin_device list res \<Rightarrow> claim_map \<Rightarrow> bool"
  for hami claim m where
  refused: "prepare_spec hami claim m (Inl f) m"
| again: "m (rc_UID claim) = Some pc \<Longrightarrow> c_CheckpointState pc = Completed \<Longrightarrow>
    prepare_spec hami claim m (GetDevices (c_PreparedDevices pc)) m"
| begun: "\<not> is_completed m (rc_UID claim) \<Longrightarrow> admissible hami claim m \<Longrightarrow>
    prepare_spec hami claim m (Inl f) (m(rc_UID claim \<mapsto> stored_ClaimV2 (started_claim claim)))"
| finished: "\<not> is_completed m (rc_UID claim) \<Longrightarrow> admissible hami claim m \<Longrightarrow>
    st_Allocation (rc_Status claim) \<noteq> None \<Longrightarrow> GetDevices devs = Inr ds \<Longrightarrow>
    prepare_spec hami claim m (Inr ds) (m(rc_UID claim \<mapsto> stored_ClaimV2 (completed_claim claim devs)))"

inductive_cases prepare_specE: "prepare_spec hami claim m r m'"

inductive unprepare_spec :: "string \<Rightarrow> claim_map \<Rightarrow> unit res \<Rightarrow> claim_map \<Rightarrow> bool" for u m where
  failed: "unprepare_spec u m (Inl f) m"
| removed: "unprepare_spec u m (Inr ()) (m(u := None))"

inductive_simps unprepare_spec_simps: "unprepare_spec u m r m'"

lemma check_overlap_disjoint:
  "check_overlap u requested es = Inr () \<Longrightarrow> (v, pc) \<in> set es \<Longrightarrow> v \<noteq> u \<Longrightarrow>
   c_CheckpointState pc = Completed \<Longrightarrow> set requested \<inter> claim_names (c_Status pc) = {}"
proof (induction u requested es rule: check_overlap.induct)
  case (2 u requested v' pc' pcs)
  show ?case
  proof (cases "v' = u \<or> c_CheckpointState pc' \<noteq> Completed")
    case True
    with 2 show ?thesis by auto
  next
    case False
    with 2(3) obtain al where al: "st_Allocation (c_Status pc') = Some al"
      and disj: "set requested \<inter> set (nonadmin_names (al_Results al)) = {}"
      and "check_overlap u requested pcs = Inr ()"
      by (cases "st_Allocation (c_Status pc')") (auto simp: GetNonAdminDevices_def split: if_splits)
    with 2(2) False 2(4-) show ?thesis by (auto simp: claim_names_def GetNonAdminDevices_def)
  qed
qed simp

lemma latest_entries:
  assumes "cp = ToLatestVersion cp0"
  shows "\<exists>es. claim_entries cp = Inr es \<and> claims cp = map_of es"
  using assms latest_V2_of_latest [of cp0]
  by (auto simp: claim_entries_def)

lemma validated_disjoint:
  assumes "validateNoOverlappingPreparedDevices cp claim = Inr ()" and "cp = ToLatestVersion cp0"
  shows "admissible hami claim (claims cp)"
proof -
  obtain es where es: "claim_entries cp = Inr es" "claims cp = map_of es"
    using latest_entries [OF assms(2)] by blast
  obtain al where al: "st_Allocation (rc_Status claim) = Some al"
    using assms(1) by (cases "st_Allocation (rc_Status claim)")
      (auto simp: validateNoOverlappingPreparedDevices_def requestedNonAdminDevices_def)
  then have names: "claim_names (rc_Status claim) = set (nonadmin_names (al_Results al))"
    by (simp add: claim_names_def)
  have "claim_names (rc_Status claim) \<inter> claim_names (c_Status pc) = {}"
    if "u \<noteq> rc_UID claim" "claims cp u = Some pc" "c_CheckpointState pc = Completed" for u pc
    using assms(1) al es names that(1,3) map_of_SomeD [OF that(2) [unfolded es(2)]]
    by (cases "nonadmin_names (al_Results al) = []")
      (auto simp: validateNoOverlappingPreparedDevices_def requestedNonAdminDevices_def
        dest: check_overlap_disjoint [of _ _ es u pc])
  with al show ?thesis by (auto simp: admissible_def)
qed

lemma before_start_admissible:
  assumes "before_start s claim cp w = (Inr (), w')" and "\<exists>cp0. cp = ToLatestVersion cp0"
  shows "admissible (ds_Enabled s HAMiCoreSupport) claim (claims cp)"
proof (cases "ds_Enabled s HAMiCoreSupport")
  case False
  then have "validateNoOverlappingPreparedDevices cp claim = Inr ()"
    using assms(1) by (auto simp: before_start_def seq_Inr wrapping_Inr lift_res_Inr)
  with validated_disjoint assms(2) show ?thesis by blast
qed (simp add: admissible_def)

lemma prepareDevices_allocated:
  "prepareDevices s claim w = (Inr devs, w') \<Longrightarrow> st_Allocation (rc_Status claim) \<noteq> None"
  by (cases "st_Allocation (rc_Status claim)") (simp_all add: prepareDevices_def throw_def)

lemma Prepare_meets_spec:
  assumes "legal_store (ds_env s blob)" and "checkpoint_of s blob w = Some (b, m)"
    and "Prepare s claim w = (r, w')"
  shows "\<exists>m'. checkpoint_of s blob w' = Some (b, m') \<and> prepare_spec (ds_Enabled s HAMiCoreSupport) claim m r m'"
  using assms
proof (cases rule: Prepare_cases)
  case failed
  then show ?thesis by (cases r) (auto intro: prepare_spec.refused)
next
  case (again pc c)
  then show ?thesis using prepare_spec.again [of m claim pc] by auto
next
  case (started w0 w1 cp)
  then show ?thesis
    using before_start_admissible [OF started(4,3)]
    by (cases r) (auto simp: is_completed_def intro!: prepare_spec.begun)
next
  case (completed w0 w1 w2 w3 cp devs)
  then show ?thesis
    using before_start_admissible [OF completed(4,3)] prepareDevices_allocated [OF completed(6)]
      GetDevices_prepared [OF completed(6)]
    by (auto simp: is_completed_def intro!: prepare_spec.finished)
qed

lemma Unprepare_meets_spec:
  assumes "legal_store (ds_env s blob)" and "checkpoint_of s blob w = Some (b, m)"
    and "Unprepare s ref w = (r, w')"
  shows "\<exists>m'. checkpoint_of s blob w' = Some (b, m') \<and> unprepare_spec (no_UID ref) m r m'"
  using assms
proof (cases rule: Unprepare_cases)
  case (unread c)
  then show ?thesis by (cases r) (auto intro: unprepare_spec.intros)
next
  case (absent c)
  then have "m(no_UID ref := None) = m" by (simp add: fun_eq_iff)
  with absent show ?thesis using unprepare_spec.removed [of "no_UID ref" m] by auto
next
  case (failed pc)
  then show ?thesis by (cases r) (auto intro: unprepare_spec.intros)
qed (auto intro: unprepare_spec.intros)

section \<open>Runs of the plugin\<close>

text \<open>A step is a request of the kubelet, a start of the process (which may fail), a crash after the claim
  has been marked as started, the teardown of unknown MIG devices, a health update, or anything outside the
  plugin that leaves the checkpoint file alone.\<close>

datatype event =
    Prepared string "plugin_device list res"
  | Unprepared string "unit res"
  | Restarted
  | Interrupted string
  | Internal

inductive plugin_step ::
    "('c, 'n, 'k) device_state \<times> ('c, 'n, 'k) world \<Rightarrow> event \<Rightarrow>
     ('c, 'n, 'k) device_state \<times> ('c, 'n, 'k) world \<Rightarrow> bool" where
  prepare: "Prepare s claim w = (r, w') \<Longrightarrow> plugin_step (s, w) (Prepared (rc_UID claim) r) (s, w')"
| unprepare: "Unprepare s ref w = (r, w') \<Longrightarrow> plugin_step (s, w) (Unprepared (no_UID ref) r) (s, w')"
| restart: "NewDeviceState s K root boot w = (Inr (s', perGPU), w') \<Longrightarrow> plugin_step (s, w) Restarted (s', w')"
| failed_start: "NewDeviceState s K root boot w = (Inl f, w') \<Longrightarrow> plugin_step (s, w) Internal (s, w')"
| crash: "get_checkpoint s w = (Inr cp, w0) \<Longrightarrow> \<not> is_completed (claims cp) (rc_UID claim) \<Longrightarrow>
    before_start s claim cp w0 = (Inr (), w1) \<Longrightarrow>
    update_checkpoint s (set_claim (rc_UID claim) (started_claim claim)) w1 = (Inr (), w2) \<Longrightarrow>
    w_cp w' = w_cp w2 \<Longrightarrow> plugin_step (s, w) (Interrupted (rc_UID claim)) (s, w')"
| teardown: "DestroyUnknownMIGDevices s w = (r, w') \<Longrightarrow> plugin_step (s, w) Internal (s, w')"
| health: "UpdateDeviceHealthStatus name hs w = (r, w') \<Longrightarrow> plugin_step (s, w) Internal (s, w')"
| outside: "w_cp w' = w_cp w \<Longrightarrow> plugin_step (s, w) Internal (s, w')"

section \<open>Starting\<close>

text \<open>The parts of the state every start keeps.\<close>

definition same_store :: "('c, 'n, 'k) device_state \<Rightarrow> ('c, 'n, 'k) device_state \<Rightarrow> bool" where
  "same_store s s' \<longleftrightarrow> ds_checkpointManager s' = ds_checkpointManager s \<and> ds_codec s' = ds_codec s \<and>
     ds_Enabled s' = ds_Enabled s"

lemma same_store_facts:
  "same_store s s' \<Longrightarrow> ds_env s' blob = ds_env s blob"
  "same_store s s' \<Longrightarrow> checkpoint_of s' blob = checkpoint_of s blob"
  "same_store s s' \<Longrightarrow> ds_Enabled s' = ds_Enabled s"
  by (auto simp: same_store_def ds_env_def checkpoint_of_def fun_eq_iff)

lemma same_store_refl [simp]: "same_store s s"
  by (simp add: same_store_def)

text \<open>Everything before \<open>initCheckpoint\<close> leaves the checkpoint manager alone.\<close>

lemma checkpoint_of_cp: "w_cp w' = w_cp w \<Longrightarrow> checkpoint_of s blob w' = checkpoint_of s blob w"
  by (simp add: checkpoint_of_def)

lemma frameE:
  assumes "seq m k w = (r, w')" and "\<And>c. keeps (cp_same c) m"
  obtains (stop) f where "r = Inl f" "w_cp w' = w_cp w"
  | (step) x w1 where "w_cp w1 = w_cp w" "k x w1 = (r, w')"
proof -
  have same: "w_cp (snd (m w)) = w_cp w" using keepsD [OF assms(2), of w "w_cp w"] by simp
  from assms(1) show thesis by (cases rule: seqE) (use same that in auto)
qed

lemma keeps_then:
  assumes "P w" and "keeps P m" and "\<And>f w1. P w1 \<Longrightarrow> Q (Inl f, w1)"
    and "\<And>x w1. m w = (Inr x, w1) \<Longrightarrow> P w1 \<Longrightarrow> Q (k x w1)"
  shows "Q (seq m k w)"
proof (cases "m w")
  case (Pair r w1)
  then have "P w1" using keepsD [OF assms(2,1)] by simp
  with Pair assms(3,4) show ?thesis by (cases r) (simp_all add: seq_def)
qed

text \<open>Up to the boot ID nothing touches the files either.\<close>

abbreviation cp_fs_same :: "'c \<Rightarrow> fs \<Rightarrow> ('c, 'n, 'k) world \<Rightarrow> bool" where
  "cp_fs_same c f \<equiv> \<lambda>w. w_cp w = c \<and> w_fs w = f"

lemma cp_fs_frame:
  "keeps (cp_fs_same c f) (in_lib m1)" "keeps (cp_fs_same c f) (in_kube m2)"
  "(\<And>w. w_cp (g w) = w_cp w \<and> w_fs (g w) = w_fs w) \<Longrightarrow> keeps (cp_fs_same c f) (modify g)"
  "keeps (cp_fs_same c f) (GetDeviceSpecsByUUIDCached C uuid)"
proof -
  show lib: "keeps (cp_fs_same c f) (in_lib m1)" for m1 by (auto simp: keeps_def on_def split: prod.split)
  show "keeps (cp_fs_same c f) (in_kube m2)" by (auto simp: keeps_def on_def split: prod.split)
  show modify: "(\<And>w. w_cp (g w) = w_cp w \<and> w_fs (g w) = w_fs w) \<Longrightarrow> keeps (cp_fs_same c f) (modify g)" for g
    by (auto intro: keeps_intros)
  have "keeps (cp_fs_same c f) (cache_set k v)" for k v unfolding cache_set_def by (auto intro: modify)
  then show "keeps (cp_fs_same c f) (GetDeviceSpecsByUUIDCached C uuid)"
    unfolding GetDeviceSpecsByUUIDCached_def cache_get_def
    by (auto intro!: keeps_intros lib split: option.split cache_value.split)
qed

text \<open>The state a start makes of its parts, and where the parts come from.\<close>

definition made_state ::
    "('c, 'n, 'k) device_state \<Rightarrow> ('c, 'n, 'k) constructors \<Rightarrow> deviceLib \<Rightarrow> 'n cdi_sys \<Rightarrow> 'k HAMiCoreManager option \<Rightarrow>
     VfioPciManager option \<Rightarrow> ('c, 'n, 'k) device_state" where
  "made_state s K dl cdi hami vm = s\<lparr>ds_nvdevlib := dl, ds_cdi := cdi, ds_hamiCoreManager := hami,
     ds_mpsManager := (if ds_Enabled s MPSSupport then Some (new_MpsManager K dl) else None), ds_vfioPciManager := vm\<rparr>"

definition parts_made ::
    "('c, 'n, 'k) device_state \<Rightarrow> ('c, 'n, 'k) constructors \<Rightarrow> deviceLib \<Rightarrow> 'n cdi_sys \<Rightarrow> 'k HAMiCoreManager option \<Rightarrow>
     VfioPciManager option \<Rightarrow> bool" where
  "parts_made s K dl cdi hami vm \<longleftrightarrow>
     (\<exists>l l' devRoot. new_DeviceLib K l = (Inr (dl, devRoot), l') \<and> new_CDIHandler K dl devRoot = Inr cdi) \<and>
     (ds_Enabled s HAMiCoreSupport \<longleftrightarrow> hami \<noteq> None) \<and> (ds_Enabled s PassthroughSupport \<longleftrightarrow> vm \<noteq> None)"

lemma made_state_store: "same_store s (made_state s K dl cdi hami vm)"
  by (simp add: same_store_def made_state_def)

lemma made_state_env [simp]:
  "ds_checkpointManager (made_state s K dl cdi hami vm) = ds_checkpointManager s"
  "ds_codec (made_state s K dl cdi hami vm) = ds_codec s"
  by (simp_all add: made_state_def)

lemma parts_made:
  assumes "wrapping m1 (in_lib (new_DeviceLib K)) w0 = (Inr x, w1)"
    and "wrapping m2 (lift_res (new_CDIHandler K (fst x) (snd x))) w2 = (Inr cdi, w3)"
    and "(if ds_Enabled s HAMiCoreSupport then seq a (\<lambda>m. seq b (\<lambda>_. ret (Some m))) else ret None) w4 = (Inr hami, w5)"
    and "(if ds_Enabled s PassthroughSupport then seq d (\<lambda>v. seq e (\<lambda>r. case r of Inl _ \<Rightarrow> panic f | Inr _ \<Rightarrow> ret (Some v)))
          else ret None) w6 = (Inr vm, w7)"
  shows "parts_made s K (fst x) cdi hami vm"
proof -
  have "new_CDIHandler K (fst x) (snd x) = Inr cdi" using assms(2) by (simp add: wrapping_Inr lift_res_Inr)
  moreover have "\<exists>l l'. new_DeviceLib K l = (Inr (fst x, snd x), l')"
    using assms(1) by (auto simp: wrapping_Inr on_def split: prod.splits)
  moreover have "ds_Enabled s HAMiCoreSupport \<longleftrightarrow> hami \<noteq> None"
    using assms(3) by (auto simp: seq_Inr ret_def split: if_splits)
  moreover have "ds_Enabled s PassthroughSupport \<longleftrightarrow> vm \<noteq> None"
    using assms(4) by (auto simp: seq_Inr ret_def panic_def split: if_splits sum.splits) (meson sumE)
  ultimately show ?thesis unfolding parts_made_def by blast
qed

lemma NewDeviceState_steps:
  fixes s :: "('a, 'b, 'c) device_state"
  assumes "NewDeviceState s K root boot w = (r, w')"
  obtains (early) f where "r = Inl f" "w_cp w' = w_cp w"
  | (init) b w1 perGPU x dl cdi hami vm where "w_cp w1 = w_cp w" "parts_made s K dl cdi hami vm"
      "fst (GetCurrentBootID boot (w_fs w)) = Inr b"
      "in_cp (initCheckpoint (ds_checkpointManager s) (ds_codec s) b) w1 = (x, w')"
      "r = (case x of Inl f \<Rightarrow> Inl f | Inr _ \<Rightarrow> Inr (made_state s K dl cdi hami vm, perGPU))"
proof -
  let ?c = "w_cp w"
  define Q :: "((('a, 'b, 'c) device_state \<times> PerGPUMinorAllocatableDevices) res \<times> ('a, 'b, 'c) world) \<Rightarrow> bool"
    where "Q p \<longleftrightarrow> (\<exists>f. fst p = Inl f \<and> w_cp (snd p) = ?c) \<or>
    (\<exists>b w1 perGPU x dl cdi hami vm. w_cp w1 = ?c \<and> parts_made s K dl cdi hami vm \<and> fst (GetCurrentBootID boot (w_fs w)) = Inr b \<and>
      in_cp (initCheckpoint (ds_checkpointManager s) (ds_codec s) b) w1 = (x, snd p) \<and>
      fst p = (case x of Inl f \<Rightarrow> Inl f | Inr _ \<Rightarrow> Inr (made_state s K dl cdi hami vm, perGPU)))" for p
  have stop: "Q (Inl f, w1)" if "w_cp w1 = ?c" for f w1 using that by (simp add: Q_def)
  have last: "Q (seq (in_cp (initCheckpoint (ds_checkpointManager s) (ds_codec s) b))
      (\<lambda>_. ret (made_state s K dl cdi hami vm, perGPU)) w1)"
    if "w_cp w1 = ?c" "parts_made s K dl cdi hami vm" "fst (GetCurrentBootID boot (w_fs w)) = Inr b" for b perGPU dl cdi hami vm w1
  proof (cases "in_cp (initCheckpoint (ds_checkpointManager s) (ds_codec s) b) w1")
    case (Pair x w2)
    with that show ?thesis unfolding Q_def
      by (intro disjI2 exI [of _ b] exI [of _ w1] exI [of _ perGPU] exI [of _ x] exI [of _ dl] exI [of _ cdi]
          exI [of _ hami] exI [of _ vm]) (auto simp: seq_def ret_def split: sum.split)
  qed
  have boot: "Q (seq (wrapping m (in_fs (GetCurrentBootID boot))) (\<lambda>b.
      seq (in_cp (initCheckpoint (ds_checkpointManager s) (ds_codec s) b))
        (\<lambda>_. ret (made_state s K dl cdi hami vm, perGPU))) w1)"
    if "cp_fs_same ?c (w_fs w) w1" "parts_made s K dl cdi hami vm" for m perGPU dl cdi hami vm w1
  proof (rule keeps_then [where P = "cp_same ?c" and Q = Q])
    fix b w2
    assume "wrapping m (in_fs (GetCurrentBootID boot)) w1 = (Inr b, w2)" and same: "w_cp w2 = ?c"
    then have "fst (GetCurrentBootID boot (w_fs w)) = Inr b"
      using that(1) by (auto simp: wrapping_Inr on_def split: prod.splits)
    then show "Q (seq (in_cp (initCheckpoint (ds_checkpointManager s) (ds_codec s) b))
        (\<lambda>_. ret (made_state s K dl cdi hami vm, perGPU)) w2)" by (rule last [OF same that(2)])
  qed (use that stop in \<open>auto intro!: keeps_intros cp_frame\<close>)
  have stop: "Q (Inl f, w1)" if "cp_fs_same ?c (w_fs w) w1" for f w1 using that stop by blast
  note frame = keeps_then [where P = "cp_fs_same ?c (w_fs w)" and Q = Q, OF _ _ stop]
  have "Q (NewDeviceState s K root boot w)"
    unfolding NewDeviceState_def Let_def split_beta WarmupDevSpecCache_def made_state_def [symmetric] made_state_env
    by (rule frame, simp, (auto intro!: keeps_intros cp_fs_frame)[1], assumption)+
      (rule boot, assumption, rule parts_made)
  with assms show thesis using early init unfolding Q_def by auto
qed

lemma init_after:
  assumes "legal_store (ds_env s blob)"
    and "in_cp (initCheckpoint (ds_checkpointManager s) (ds_codec s) b) w = (r, w')"
  shows "checkpoint_of s blob w' = (if isl r then checkpoint_of s blob w
    else Some (after_init b (if blob (w_cp w) = None then None else checkpoint_of s blob w)))"
proof -
  let ?M = "ds_checkpointManager s" and ?K = "ds_codec s"
  have "initCheckpoint ?M ?K b (w_cp w) = (r, w_cp w')" using assms(2) by (auto simp: on_def split: prod.splits)
  with assms(1) initCheckpoint_contents [of ?M ?K blob b "w_cp w" r "w_cp w'"] show ?thesis
    by (simp add: checkpoint_of_def ds_env_def)
qed

lemma init_contents:
  assumes "legal_store (ds_env s blob)"
    and "in_cp (initCheckpoint (ds_checkpointManager s) (ds_codec s) b) w = (r, w')"
  shows "(checkpoint_of s blob w = Some (b0, m) \<longrightarrow> (\<exists>b' m'. checkpoint_of s blob w' = Some (b', m') \<and>
      (isl r \<and> b' = b0 \<and> m' = m \<or> \<not> isl r \<and> (m' = m \<or> m' = Map.empty)))) \<and>
    (blob (w_cp w) = None \<and> \<not> isl r \<longrightarrow> checkpoint_of s blob w' = Some (b, Map.empty))"
  using init_after [OF assms] by (auto simp: after_init_def split: if_splits)

lemma NewDeviceState_boot:
  assumes "legal_store (ds_env s blob)" and "NewDeviceState s K root boot w = (Inr (s', perGPU), w')"
  shows "\<exists>b. fst (GetCurrentBootID boot (w_fs w)) = Inr b \<and>
    checkpoint_of s blob w' = Some (after_init b (if blob (w_cp w) = None then None else checkpoint_of s blob w))"
  using assms(2)
proof (cases rule: NewDeviceState_steps)
  case (init b w1 perGPU' x dl cdi hami vm)
  with init_after [OF assms(1) init(4)] show ?thesis by (cases x) (auto simp: checkpoint_of_def)
qed simp

lemma NewDeviceState_contents:
  assumes "legal_store (ds_env s blob)" and "NewDeviceState s K root boot w = (r, w')"
    and "checkpoint_of s blob w = Some (b, m)"
  shows "\<exists>b' m'. checkpoint_of s blob w' = Some (b', m') \<and>
    (case r of Inl _ \<Rightarrow> m' = m | Inr (s', _) \<Rightarrow> same_store s s' \<and> (m' = m \<or> m' = Map.empty))"
  using assms(2)
proof (cases rule: NewDeviceState_steps)
  case (early f)
  with assms(3) checkpoint_of_cp [OF early(2)] show ?thesis by simp
next
  case (init b1 w1 perGPU x dl cdi hami vm)
  have "checkpoint_of s blob w1 = Some (b, m)" using assms(3) checkpoint_of_cp [OF init(1)] by simp
  with init_contents [OF assms(1) init(4)] obtain b' m' where "checkpoint_of s blob w' = Some (b', m')"
    "isl x \<and> b' = b \<and> m' = m \<or> \<not> isl x \<and> (m' = m \<or> m' = Map.empty)" by blast
  with init(5) show ?thesis by (cases x) (auto simp: made_state_store)
qed

lemma first_start:
  assumes "legal_store (ds_env s blob)" and "NewDeviceState s K root boot w = (Inr (s', perGPU), w')"
    and "blob (w_cp w) = None"
  shows "same_store s s' \<and> (\<exists>b. checkpoint_of s blob w' = Some (b, Map.empty))"
  using assms(2)
proof (cases rule: NewDeviceState_steps)
  case (init b1 w1 perGPU' x dl cdi hami vm)
  then show ?thesis
    using init_contents [OF assms(1) init(4)] assms(3) by (cases x) (auto simp: made_state_store)
qed simp

section \<open>The claims along a run\<close>

inductive claim_step :: "bool \<Rightarrow> claim_map \<Rightarrow> event \<Rightarrow> claim_map \<Rightarrow> bool" for hami where
  "prepare_spec hami claim m r m' \<Longrightarrow> claim_step hami m (Prepared (rc_UID claim) r) m'"
| "unprepare_spec u m r m' \<Longrightarrow> claim_step hami m (Unprepared u r) m'"
| "claim_step hami m Restarted m"
| "claim_step hami m Restarted Map.empty"
| "\<not> is_completed m (rc_UID claim) \<Longrightarrow> admissible hami claim m \<Longrightarrow>
    claim_step hami m (Interrupted (rc_UID claim)) (m(rc_UID claim \<mapsto> stored_ClaimV2 (started_claim claim)))"
| "claim_step hami m Internal m"

inductive_cases claim_stepE: "claim_step hami m e m'"

lemma DestroyUnknown_contents:
  assumes "legal_store (ds_env s blob)" and "DestroyUnknownMIGDevices s w = (r, w')"
  shows "checkpoint_of s blob w' = checkpoint_of s blob w"
proof -
  obtain x w1 where g: "get_checkpoint s w = (x, w1)" by fastforce
  have frame: "keeps (cp_same c) (case y of Inl _ \<Rightarrow> ret ()
     | Inr cp \<Rightarrow>
         seq (lift_res (claim_entries cp)) (\<lambda>es.
         seq (lift_res (res_all (\<lambda>(uid, c). res_seq (deref (st_Allocation (c_Status c)))
                (\<lambda>al. Inr (map ar_Device (al_Results al)))) (completed_claims es))) (\<lambda>names.
         seq (attempt (in_lib (obliterateStaleMIGDevices (ds_nvml s) (ds_Enabled s) (concat names)))) (\<lambda>_. ret ()))))"
    for c and y :: "err + Checkpoint"
    by (auto intro!: keeps_intros cp_frame split: sum.split)
  have w1: "w2 = w1" if "attempt (get_checkpoint s) w = (y, w2)" for y w2
    using that g by (simp add: attempt_def)
  from assms(2) [unfolded DestroyUnknownMIGDevices_def] have "w_cp w' = w_cp w1"
  proof (cases rule: seqE)
    case (stop f)
    with w1 show ?thesis by simp
  next
    case (step y w2)
    then have "w2 = w1" using w1 by simp
    with keeps_result [OF frame step(2), of "w_cp w1"] show ?thesis by simp
  qed
  with get_checkpoint_result [OF assms(1) g] show ?thesis by (simp add: checkpoint_of_def)
qed

lemma UpdateDeviceHealthStatus_cp:
  "UpdateDeviceHealthStatus name hs w = (r, w') \<Longrightarrow> w_cp w' = w_cp w"
  by (auto simp: UpdateDeviceHealthStatus_def seq_def run_basic split: option.splits if_splits sum.splits)

lemma plugin_step_claims:
  assumes "plugin_step (s, w) e (s', w')" and "legal_store (ds_env s blob)"
    and "checkpoint_of s blob w = Some (b, m)"
  shows "same_store s s' \<and> (\<exists>b' m'. checkpoint_of s blob w' = Some (b', m') \<and>
    claim_step (ds_Enabled s HAMiCoreSupport) m e m')"
  using assms(1)
proof (cases rule: plugin_step.cases)
  case (prepare claim r)
  then show ?thesis using Prepare_meets_spec [OF assms(2,3) prepare(3)] by (auto intro: claim_step.intros)
next
  case (unprepare ref r)
  then show ?thesis using Unprepare_meets_spec [OF assms(2,3) unprepare(3)] by (auto intro: claim_step.intros)
next
  case (restart sync root boot perGPU)
  then show ?thesis using NewDeviceState_contents [OF assms(2) restart(2) assms(3)] by (auto intro: claim_step.intros)
next
  case (failed_start sync root boot f)
  then show ?thesis using NewDeviceState_contents [OF assms(2) failed_start(3) assms(3)] by (auto intro: claim_step.intros)
next
  case (crash cp w0 claim w1 w2)
  from get_checkpoint_result [OF assms(2) crash(3)] assms(3) have c0: "checkpoint_of s blob w0 = Some (b, m)"
    and m: "claims cp = m" and lat: "\<exists>cp0. cp = ToLatestVersion cp0"
    using contents_claims [of cp b m] by auto
  have "checkpoint_of s blob w1 = Some (b, m)" using checkpoint_of_frame [OF cp_frame_before crash(5)] c0 by simp
  from update_claim_result [OF assms(2) crash(6) this] checkpoint_of_cp [OF crash(7)]
  have "checkpoint_of s blob w' = Some (b, m(rc_UID claim \<mapsto> stored_ClaimV2 (started_claim claim)))" by simp
  moreover have "admissible (ds_Enabled s HAMiCoreSupport) claim m"
    using before_start_admissible [OF crash(5) lat] m by simp
  ultimately show ?thesis using crash(1,2,4) m by (auto intro: claim_step.intros)
next
  case (teardown r)
  then show ?thesis using DestroyUnknown_contents [OF assms(2)] assms(3) by (auto intro: claim_step.intros)
next
  case (health name hs r)
  then show ?thesis using UpdateDeviceHealthStatus_cp [OF health(3)] assms(3) by (auto simp: checkpoint_of_def intro: claim_step.intros)
next
  case outside
  then show ?thesis using assms(3) by (auto simp: checkpoint_of_def intro: claim_step.intros)
qed

text \<open>The relation between a state of the plugin and the claims in its file.\<close>

definition stores ::
    "('c \<Rightarrow> json option) \<Rightarrow> bool \<Rightarrow> ('c, 'n, 'k) device_state \<times> ('c, 'n, 'k) world \<Rightarrow> claim_map \<Rightarrow> bool" where
  "stores blob hami = (\<lambda>(s, w) m. legal_store (ds_env s blob) \<and> ds_Enabled s HAMiCoreSupport = hami \<and>
     (\<exists>b. checkpoint_of s blob w = Some (b, m)))"

interpretation plugin: simulation plugin_step "claim_step hami" "stores blob hami" for blob hami
proof
  fix c e c' m
  assume R: "stores blob hami c m" and step: "plugin_step c e c'"
  obtain s w s' w' where c: "c = (s, w)" "c' = (s', w')" by (cases c, cases c') auto
  from R obtain b where b: "checkpoint_of s blob w = Some (b, m)" and L: "legal_store (ds_env s blob)"
    by (auto simp: stores_def c)
  from plugin_step_claims [OF step [unfolded c] L b] same_store_facts [of s s'] R L
  show "\<exists>m'. claim_step hami m e m' \<and> stores blob hami c' m'" by (auto simp: stores_def c)
qed

section \<open>Invariants of the claims\<close>

definition claims_ok :: "bool \<Rightarrow> claim_map \<Rightarrow> bool" where
  "claims_ok hami m \<longleftrightarrow> (\<forall>u pc. m u = Some pc \<longrightarrow>
     (c_CheckpointState pc = Started \<or>
      c_CheckpointState pc = Completed \<and> (\<exists>ds. GetDevices (c_PreparedDevices pc) = Inr ds)) \<and>
     (c_CheckpointState pc = Completed \<or> \<not> hami \<longrightarrow> st_Allocation (c_Status pc) \<noteq> None))"

text \<open>A device is used by at most one completed claim without admin access.\<close>

definition uses_device :: "claim_map \<Rightarrow> string \<Rightarrow> DeviceName \<Rightarrow> bool" where
  "uses_device m u x \<longleftrightarrow>
     (\<exists>p. m u = Some p \<and> c_CheckpointState p = Completed \<and> x \<in> claim_names (c_Status p))"

definition exclusive_use :: "claim_map \<Rightarrow> bool" where
  "exclusive_use m \<longleftrightarrow> (\<forall>u v x. uses_device m u x \<and> uses_device m v x \<longrightarrow> u = v)"

lemma uses_device_simps [simp]:
  "uses_device (m(u := None)) v x \<longleftrightarrow> v \<noteq> u \<and> uses_device m v x"
  "uses_device (m(u \<mapsto> pc)) v x \<longleftrightarrow>
     (if v = u then c_CheckpointState pc = Completed \<and> x \<in> claim_names (c_Status pc) else uses_device m v x)"
  "\<not> uses_device Map.empty v x"
  by (auto simp: uses_device_def)

lemma admissible_free:
  "admissible False claim m \<Longrightarrow> x \<in> claim_names (rc_Status claim) \<Longrightarrow> uses_device m u x \<Longrightarrow> u = rc_UID claim"
  by (auto simp: admissible_def uses_device_def)

lemma exclusive_use_update:
  "exclusive_use m \<Longrightarrow> exclusive_use (m(u := None))"
  "exclusive_use m \<Longrightarrow> c_CheckpointState pc = Started \<Longrightarrow> exclusive_use (m(u \<mapsto> pc))"
  "exclusive_use m \<Longrightarrow> admissible False claim m \<Longrightarrow> c_Status pc = rc_Status claim \<Longrightarrow> exclusive_use (m(rc_UID claim \<mapsto> pc))"
  by (auto simp: exclusive_use_def dest: admissible_free split: if_splits)

interpretation apart: step_invariant "claim_step False" exclusive_use
proof
  fix m e m'
  assume ex: "exclusive_use m" and "claim_step False m e m'"
  from this(2) show "exclusive_use m'"
  proof (cases rule: claim_step.cases)
    case (1 claim r)
    from 1(2) ex show ?thesis
      by (cases rule: prepare_spec.cases) (auto intro: exclusive_use_update)
  next
    case (2 u r)
    with ex show ?thesis by (auto simp: unprepare_spec_simps intro: exclusive_use_update)
  next
    case 4
    then show ?thesis by (simp add: exclusive_use_def)
  qed (use ex in \<open>auto intro: exclusive_use_update\<close>)
qed

lemma claims_ok_set:
  "claims_ok hami m \<Longrightarrow>
   c_CheckpointState pc = Started \<or> c_CheckpointState pc = Completed \<and> (\<exists>ds. GetDevices (c_PreparedDevices pc) = Inr ds) \<Longrightarrow>
   (c_CheckpointState pc = Completed \<or> \<not> hami \<Longrightarrow> st_Allocation (c_Status pc) \<noteq> None) \<Longrightarrow>
   claims_ok hami (m(u \<mapsto> pc))"
  by (auto simp: claims_ok_def)

lemma claims_ok_drop: "claims_ok hami m \<Longrightarrow> claims_ok hami (m(u := None))"
  unfolding claims_ok_def by (metis fun_upd_apply option.distinct(1))

interpretation shaped: step_invariant "claim_step hami" "claims_ok hami" for hami
proof
  fix m e m'
  assume ok: "claims_ok hami m" and "claim_step hami m e m'"
  have start: "claims_ok hami (m(rc_UID claim \<mapsto> stored_ClaimV2 (started_claim claim)))"
    if "admissible hami claim m" for claim
    using ok that by (intro claims_ok_set) (auto simp: admissible_def)
  from \<open>claim_step hami m e m'\<close> show "claims_ok hami m'"
  proof (cases rule: claim_step.cases)
    case (1 claim r)
    from 1(2) show ?thesis
    proof (cases rule: prepare_spec.cases)
      case (finished devs ds)
      with ok show ?thesis by (auto intro!: claims_ok_set)
    qed (use ok start in auto)
  next
    case (2 u r)
    with claims_ok_drop [OF ok] ok show ?thesis by (auto simp: unprepare_spec_simps)
  next
    case 4
    then show ?thesis by (simp add: claims_ok_def)
  qed (use ok start in auto)
qed

section \<open>The abstract machine\<close>

text \<open>A claim is absent, begun, or ready with the devices the kubelet is told. Only a Prepare that
  succeeds makes it ready; only an Unprepare that succeeds or a restart after a reboot makes it absent.\<close>

datatype phase = Absent | Begun | Ready "plugin_device list"

definition is_ready :: "phase \<Rightarrow> bool" where
  "is_ready p \<longleftrightarrow> (\<exists>ds. p = Ready ds)"

inductive phase_step :: "(string \<Rightarrow> phase) \<Rightarrow> event \<Rightarrow> (string \<Rightarrow> phase) \<Rightarrow> bool" where
  answered: "\<sigma> u = Ready ds \<Longrightarrow> phase_step \<sigma> (Prepared u (Inr ds)) \<sigma>"
| prepared: "\<not> is_ready (\<sigma> u) \<Longrightarrow> phase_step \<sigma> (Prepared u (Inr ds)) (\<sigma>(u := Ready ds))"
| attempted: "\<not> is_ready (\<sigma> u) \<Longrightarrow> phase_step \<sigma> (Prepared u (Inl f)) (\<sigma>(u := Begun))"
| refused: "phase_step \<sigma> (Prepared u (Inl f)) \<sigma>"
| unprepared: "phase_step \<sigma> (Unprepared u (Inr ())) (\<sigma>(u := Absent))"
| kept: "phase_step \<sigma> (Unprepared u (Inl f)) \<sigma>"
| restarted: "phase_step \<sigma> Restarted \<sigma>"
| rebooted: "phase_step \<sigma> Restarted (\<lambda>_. Absent)"
| interrupted: "\<not> is_ready (\<sigma> u) \<Longrightarrow> phase_step \<sigma> (Interrupted u) (\<sigma>(u := Begun))"
| internal: "phase_step \<sigma> Internal \<sigma>"

inductive_simps phase_step_prepared: "phase_step \<sigma> (Prepared u (Inr ds)) \<sigma>'"

definition phase_of :: "PreparedClaim option \<Rightarrow> phase" where
  "phase_of p = (case p of None \<Rightarrow> Absent
     | Some pc \<Rightarrow> if c_CheckpointState pc \<noteq> Completed then Begun
                 else Ready (case GetDevices (c_PreparedDevices pc) of Inl _ \<Rightarrow> [] | Inr ds \<Rightarrow> ds))"

definition phases :: "claim_map \<Rightarrow> string \<Rightarrow> phase" where
  "phases m u = phase_of (m u)"

lemma phases_update:
  "phases (m(u := None)) = (phases m)(u := Absent)"
  "phases (m(u \<mapsto> pc)) = (phases m)(u := phase_of (Some pc))"
  "phases Map.empty = (\<lambda>_. Absent)"
  by (auto simp: phases_def phase_of_def fun_eq_iff)

lemma phase_of_stored [simp]:
  "phase_of (Some (stored_ClaimV2 (started_claim claim))) = Begun"
  "GetDevices devs = Inr ds \<Longrightarrow> phase_of (Some (stored_ClaimV2 (completed_claim claim devs))) = Ready ds"
  by (simp_all add: phase_of_def)

lemma not_ready: "\<not> is_completed m u \<Longrightarrow> \<not> is_ready (phases m u)"
  by (auto simp: is_completed_def is_ready_def phases_def phase_of_def split: option.splits)

lemma claims_okD:
  assumes "claims_ok hami m" and "m u = Some pc"
  shows "c_CheckpointState pc = Started \<or> c_CheckpointState pc = Completed"
    and "c_CheckpointState pc = Completed \<Longrightarrow> \<exists>ds. GetDevices (c_PreparedDevices pc) = Inr ds"
    and "c_CheckpointState pc = Completed \<or> \<not> hami \<Longrightarrow> \<exists>al. st_Allocation (c_Status pc) = Some al"
  using assms unfolding claims_ok_def by (metis states_distinct not_None_eq)+

definition follows :: "bool \<Rightarrow> claim_map \<Rightarrow> (string \<Rightarrow> phase) \<Rightarrow> bool" where
  "follows hami m \<sigma> \<longleftrightarrow> claims_ok hami m \<and> \<sigma> = phases m"

lemma prepare_phase:
  assumes "claims_ok hami m" and "prepare_spec hami claim m r m'"
  shows "phase_step (phases m) (Prepared (rc_UID claim) r) (phases m')"
  using assms(2)
proof (cases rule: prepare_spec.cases)
  case (again pc)
  then obtain ds where ds: "GetDevices (c_PreparedDevices pc) = Inr ds"
    using claims_okD(2) [OF assms(1)] by blast
  then have "phases m (rc_UID claim) = Ready ds" using again by (simp add: phases_def phase_of_def)
  with again ds show ?thesis by (simp add: phase_step.answered)
next
  case (begun f)
  then show ?thesis using phase_step.attempted [where \<sigma> = "phases m"] by (simp add: phases_update not_ready)
next
  case (finished devs ds)
  then show ?thesis using phase_step.prepared [where \<sigma> = "phases m"] by (simp add: phases_update not_ready)
qed (auto intro: phase_step.intros)

interpretation phased: simulation "claim_step hami" phase_step "follows hami" for hami
proof
  fix m \<sigma> e m'
  assume "follows hami m \<sigma>" and step: "claim_step hami m e m'"
  then have ok: "claims_ok hami m" and \<sigma>: "\<sigma> = phases m" by (simp_all add: follows_def)
  from step have "phase_step (phases m) e (phases m')"
  proof (cases rule: claim_step.cases)
    case (1 claim r)
    with prepare_phase [OF ok] show ?thesis by simp
  next
    case (2 u r)
    then show ?thesis by (auto simp: unprepare_spec_simps phases_update intro: phase_step.intros)
  next
    case (5 claim)
    then show ?thesis using phase_step.interrupted [where \<sigma> = "phases m"] by (simp add: phases_update not_ready)
  qed (auto simp: phases_update intro: phase_step.intros)
  with shaped.kept [OF ok step] \<sigma> show "\<exists>\<sigma>'. phase_step \<sigma> e \<sigma>' \<and> follows hami m' \<sigma>'"
    by (auto simp: follows_def)
qed

text \<open>A ready claim stays ready with its devices until it is unprepared or the plugin restarts.\<close>

lemma ready_stays:
  assumes "run phase_step \<sigma> es \<sigma>'" and "\<sigma> u = Ready ds"
    and "Unprepared u (Inr ()) \<notin> set es" and "Restarted \<notin> set es"
  shows "\<sigma>' u = Ready ds"
  using assms
proof (induction rule: run.induct)
  case (more es s1 e s2)
  then have "s1 u = Ready ds" by simp
  with more.hyps(2) more.prems(2,3) show ?case
    by (cases rule: phase_step.cases) (auto simp: is_ready_def)
qed simp

section \<open>Every history of the plugin\<close>

text \<open>A history: the first start of the plugin on a node without a checkpoint, then a run.\<close>

definition history ::
    "('c \<Rightarrow> json option) \<Rightarrow> ('c, 'n, 'k) device_state \<times> ('c, 'n, 'k) world \<Rightarrow> event list \<Rightarrow>
     ('c, 'n, 'k) device_state \<times> ('c, 'n, 'k) world \<Rightarrow> bool" where
  "history blob = (\<lambda>(s0, w0) es c. \<exists>K root boot s perGPU w.
     legal_store (ds_env s0 blob) \<and> blob (w_cp w0) = None \<and>
     NewDeviceState s0 K root boot w0 = (Inr (s, perGPU), w) \<and> run plugin_step (s, w) es c)"

lemma history_claims:
  assumes "history blob (s0, w0) es (s, w)"
  shows "\<exists>m. stores blob (ds_Enabled s0 HAMiCoreSupport) (s, w) m \<and>
    run (claim_step (ds_Enabled s0 HAMiCoreSupport)) Map.empty es m"
proof -
  from assms obtain K root boot s1 perGPU w1 where L: "legal_store (ds_env s0 blob)"
    and start: "NewDeviceState s0 K root boot w0 = (Inr (s1, perGPU), w1)" "blob (w_cp w0) = None"
    and steps: "run plugin_step (s1, w1) es (s, w)" by (auto simp: history_def)
  from first_start [OF L start] have same: "same_store s0 s1"
    and "\<exists>b. checkpoint_of s0 blob w1 = Some (b, Map.empty)" by blast+
  then have "stores blob (ds_Enabled s0 HAMiCoreSupport) (s1, w1) Map.empty"
    using L same_store_facts [OF same] by (simp add: stores_def)
  from plugin.follow_run [OF steps this] show ?thesis by blast
qed

lemma empty_claims_ok: "claims_ok hami Map.empty" "exclusive_use Map.empty"
  by (simp_all add: claims_ok_def exclusive_use_def)

lemma history_phases:
  assumes "history blob (s0, w0) es (s, w)"
  shows "\<exists>b m. checkpoint_of s blob w = Some (b, m) \<and> run phase_step (\<lambda>_. Absent) es (phases m)"
proof -
  let ?h = "ds_Enabled s0 HAMiCoreSupport"
  from history_claims [OF assms] obtain m where m: "stores blob ?h (s, w) m"
    and claims: "run (claim_step ?h) Map.empty es m" by blast
  have "follows ?h Map.empty (\<lambda>_. Absent)" by (simp add: follows_def phases_update empty_claims_ok)
  from phased.follow_run [OF claims this] m show ?thesis by (auto simp: follows_def stores_def)
qed

end
