(* ===== verification/SamplePlugin.thy ===== *)
theory SamplePlugin
  imports Lifecycle
begin

text \<open>
  A concrete plugin for the theorems at a concrete input: one full GPU, the reference checkpoint
  manager and codec, a CDI library that accepts everything, an NVML that finds no device, all feature
  gates off.
\<close>

definition no_edits :: container_edits where
  "no_edits = \<lparr>ce_Env = [], ce_DeviceNodes = [], ce_Mounts = []\<rparr>"

definition ref_cdi :: "'n cdi_sys" where
  "ref_cdi = \<lparr>nvcdi_GetCommonEdits = ret no_edits,
     nvcdi_GetDeviceSpecsByID = (\<lambda>u. ret [\<lparr>cd_Name = u, cd_Edits = no_edits\<rparr>]),
     edits_Append = (\<lambda>a b. \<lparr>ce_Env = ce_Env a @ ce_Env b, ce_DeviceNodes = ce_DeviceNodes a @ ce_DeviceNodes b,
        ce_Mounts = ce_Mounts a @ ce_Mounts b\<rparr>),
     spec_New = (\<lambda>v c ds e. Inr \<lparr>cspec_Vendor = v, cspec_Class = c, cspec_Devices = ds, cspec_Edits = e\<rparr>),
     spec_Transform = Inr, spec_Save = (\<lambda>p s. ret ()),
     GenerateTransientSpecName = (\<lambda>v c t. v @ ''-'' @ c @ ''_'' @ t),
     cdi_QualifiedName = (\<lambda>v c n. v @ ''/'' @ c @ ''='' @ n), cdiRoot = [''cdi'']\<rparr>"

definition ref_mps :: "'k mps_sys" where
  "ref_mps = \<lparr>dp_Get = (\<lambda>_ _. throw NotFound), dp_Create = (\<lambda>_ _. ret ()), dp_Delete = (\<lambda>_ _. ret ()),
     dp_PodReadiness = (\<lambda>_ _. ret []), retry_OnError = id, render_Deployment = (\<lambda>_ _. Inr JNull),
     mt_LookPath = ret ''mount'', mt_Mount = (\<lambda>_ _ _. ret ()), mt_CleanupMountPoint = (\<lambda>_. ret ()),
     sha256_hex = id, known_features = []\<rparr>"

definition ref_state :: "gates \<Rightarrow> (json option, string \<Rightarrow> string, 'k) device_state" where
  "ref_state Enabled = \<lparr>ds_Enabled = Enabled, ds_checkpointManager = ref_manager, ds_codec = ref_codec,
     ds_nvml = ref_nvml, ds_nvdevlib = \<lparr>dl_driverLibraryPath = '''', dl_nvidiaSMIPath = '''', dl_environ = [], dl_LD_PRELOAD = ''''\<rparr>,
     ds_cdi = ref_cdi, ds_hamiCoreManager = None, ds_mps_sys = ref_mps, ds_mpsManager = None,
     ds_vfio_sys = ref_vfio, ds_vfioPciManager = None, ds_api = ref_api,
     ds_order1 = id, ds_order2 = id, ds_order_devices = id\<rparr>"

definition no_gates :: gates where
  "no_gates = (\<lambda>_. False)"

definition ref_fs :: fs where
  "ref_fs = \<lparr>fs_nodes = [([''boot_id''], RegFile ''boot-1 '')], fs_clock = 0, fs_fault = (\<lambda>_. None)\<rparr>"

definition ref_world :: "json option \<Rightarrow> AllocatableDevices \<Rightarrow> (json option, string \<Rightarrow> string, unit) world" where
  "ref_world c al = \<lparr>w_cp = c, w_lib = \<lparr>lb_hw = (\<lambda>_. ''''), lb_gpuInfosByUUID = [], lb_gpuUUIDbyMinor = [], lb_devhandleByUUID = []\<rparr>,
     w_kube = (), w_fs = ref_fs, w_now = 0, w_cache = [], w_allocatable = al\<rparr>"

definition sample_claim :: "string \<Rightarrow> resource_claim" where
  "sample_claim uid = \<lparr>rc_Namespace = ''ns'', rc_Name = ''claim'', rc_UID = uid,
     rc_Status = \<lparr>st_Allocation = Some \<lparr>al_Results = [sample_result ''r'' ''gpu-0''], al_Config = []\<rparr>, st_ReservedFor = []\<rparr>\<rparr>"

definition sample_ref :: "string \<Rightarrow> namespaced_object" where
  "sample_ref uid = \<lparr>no_UID = uid, no_Namespace = ''ns'', no_Name = ''claim''\<rparr>"

text \<open>The first start on the node, then a machine with one GPU.\<close>

abbreviation sample_state :: "(json option, string \<Rightarrow> string, unit) device_state" where
  "sample_state \<equiv> ref_state no_gates"

definition sample_parts :: "(json option, string \<Rightarrow> string, unit) constructors" where
  "sample_parts =
     \<lparr>new_DeviceLib = ret (ds_nvdevlib sample_state, []), new_CDIHandler = (\<lambda>_ _. Inr (ds_cdi sample_state)),
      new_HAMiCoreManager = throw (Err ''no client set''), waitForPodCache = ret (),
      new_MpsManager = (\<lambda>_. \<lparr>mm_controlFilesRoot = [], mm_hostDriverRoot = '''', mm_templatePath = '''', mm_nodeName = '''',
        mm_namespace = '''', mm_imageName = ''''\<rparr>), new_CheckpointManager = (\<lambda>_. None)\<rparr>"

definition started_world :: "(json option, string \<Rightarrow> string, unit) world" where
  "started_world = snd (NewDeviceState (ref_state no_gates) sample_parts '''' [''boot_id''] (ref_world None []))"

definition gpu_world :: "(json option, string \<Rightarrow> string, unit) world" where
  "gpu_world = started_world\<lparr>w_allocatable := one_gpu\<rparr>"

lemma sample_start:
  "\<not> isl (fst (NewDeviceState (ref_state no_gates) sample_parts '''' [''boot_id''] (ref_world None [])))"
  by code_simp

definition sample_devices_of :: "string \<Rightarrow> plugin_device list" where
  "sample_devices_of uid = [\<lparr>kd_Requests = [''r''], kd_PoolName = ''node-a'', kd_DeviceName = ''gpu-0'',
     kd_CDIDeviceIDs = [''k8s.hami-core-gpu.project-hami.io/claim='' @ uid @ ''-gpu-0'']\<rparr>]"

lemma sample_prepare:
  "fst (Prepare (ref_state no_gates) (sample_claim ''u1'') gpu_world) = Inr (sample_devices_of ''u1'')"
  unfolding gpu_world_def started_world_def by code_simp

section \<open>The sample history\<close>

definition prepared_world :: "(json option, string \<Rightarrow> string, unit) world" where
  "prepared_world = snd (Prepare sample_state (sample_claim ''u1'') gpu_world)"

lemma sample_prepared: "Prepare sample_state (sample_claim ''u1'') gpu_world = (Inr (sample_devices_of ''u1''), prepared_world)"
  using sample_prepare by (simp add: prepared_world_def prod_eq_iff)

lemma sample_legal [simp]: "legal_store (ds_env sample_state (\<lambda>c. c))"
  by (simp add: ds_env_def ref_state_def ref_legal)

lemma sample_started:
  "\<exists>perGPU. NewDeviceState sample_state sample_parts '''' [''boot_id''] (ref_world None []) =
     (Inr (sample_state, perGPU), started_world)"
proof (cases "NewDeviceState sample_state sample_parts '''' [''boot_id''] (ref_world None [])")
  case (Pair r w')
  have r: "\<not> isl r" using sample_start Pair by (metis fst_conv)
  from Pair show ?thesis
  proof (cases rule: NewDeviceState_steps)
    case (early f)
    with r show ?thesis by simp
  next
    case (init b w1 perGPU x dl cdi hami vm)
    from init(2) have "made_state sample_state sample_parts dl cdi hami vm = sample_state"
      by (auto simp: parts_made_def made_state_def sample_parts_def ref_state_def no_gates_def ret_def)
    with init r Pair show ?thesis by (cases x) (auto simp: started_world_def)
  qed
qed

lemma sample_history:
  "run plugin_step (sample_state, gpu_world) es c \<Longrightarrow>
   history (\<lambda>c. c) (sample_state, ref_world None []) (Internal # es) c"
proof -
  assume run: "run plugin_step (sample_state, gpu_world) es c"
  have "plugin_step (sample_state, started_world) Internal (sample_state, gpu_world)"
    by (rule plugin_step.outside) (simp add: gpu_world_def)
  with run have "run plugin_step (sample_state, started_world) (Internal # es) c" by (auto simp: run_Cons)
  moreover have "w_cp (ref_world None []) = None" by (simp add: ref_world_def)
  ultimately show ?thesis using sample_started unfolding history_def prod.case using sample_legal by blast
qed

lemma sample_contents: "\<exists>b. checkpoint_of sample_state (\<lambda>c. c) gpu_world = Some (b, Map.empty)"
proof -
  obtain perGPU where "NewDeviceState sample_state sample_parts '''' [''boot_id''] (ref_world None []) =
      (Inr (sample_state, perGPU), started_world)" using sample_started by blast
  from first_start [OF sample_legal this] obtain b where
    "checkpoint_of sample_state (\<lambda>c. c) started_world = Some (b, Map.empty)" by (auto simp: ref_world_def)
  then show ?thesis by (simp add: gpu_world_def checkpoint_of_def)
qed

end
