(* ===== verification/DeviceEffects.thy ===== *)
theory DeviceEffects
  imports SamplePlugin HamiCache
begin

text \<open>
  What Prepare and Unprepare do beyond the checkpoint: the devices the kubelet is given, the rollback of
  an attempt that was not completed, and the release of the HAMi-Core directories of a claim.
\<close>

section \<open>The devices of a claim\<close>

text \<open>C7: The kubelet is given one device per allocation result. When Prepare makes a claim ready, every
  result of this driver names an allocatable device, and, if each of them is of a type some default
  configuration is for, the devices returned are, up to order, one per result of this driver, with the
  request, pool and device name of the result; results of other drivers are left out. This holds for any
  iteration order of the Go maps.\<close>

theorem one_device_per_result:
  assumes "legal_store (ds_env s blob)" and "checkpoint_of s blob w = Some (b, m)"
    and "\<not> is_completed m (rc_UID claim)" and "\<And>ks. mset (ds_order2 s ks) = mset ks"
    and "Prepare s claim w = (Inr ds, w')" and "st_Allocation (rc_Status claim) = Some al"
    and "\<forall>r \<in> set (al_Results al). \<forall>d. ar_Driver r = DriverName \<and> map_of (w_allocatable w) (ar_Device r) = Some d \<longrightarrow>
      has_default (ds_Enabled s) (Type d)"
  shows "mset (map device_key ds) =
      mset (map result_key (filter (\<lambda>r. ar_Driver r = DriverName) (al_Results al))) \<and>
    (\<forall>r \<in> set (al_Results al). ar_Driver r = DriverName \<longrightarrow> (\<exists>d. map_of (w_allocatable w) (ar_Device r) = Some d))"
  using assms(1,2,5)
proof (cases rule: Prepare_cases)
  case (completed w0 w1 w2 w3 cp devs)
  from prepareDevices_devices [OF completed(6) assms(4)] obtain opaque ds' where ds': "GetDevices devs = Inr ds'"
    and keys: "mset (map device_key ds') = mset (map result_key (filter (\<lambda>r. ar_Driver r = DriverName \<and>
      last_applying (w_allocatable w) (with_defaults (ds_Enabled s) (ds_api s) opaque) r \<noteq> None) (al_Results al)))"
    using assms(6) completed(5) by auto
  have known: "\<exists>d. map_of (w_allocatable w) (ar_Device r) = Some d"
    if "r \<in> set (al_Results al)" "ar_Driver r = DriverName" for r
    using prepareDevices_known [OF completed(6) assms(6) that] completed(5) by simp
  have "last_applying (w_allocatable w) (with_defaults (ds_Enabled s) (ds_api s) opaque) r \<noteq> None"
    if r: "r \<in> set (al_Results al)" "ar_Driver r = DriverName" for r
  proof -
    obtain d where d: "map_of (w_allocatable w) (ar_Device r) = Some d" using known [OF r] by blast
    then have "has_default (ds_Enabled s) (Type d)" using assms(7) r by blast
    from default_applies [OF d this] show ?thesis unfolding last_applying_None by blast
  qed
  then have eq: "filter (\<lambda>r. ar_Driver r = DriverName \<and>
      last_applying (w_allocatable w) (with_defaults (ds_Enabled s) (ds_api s) opaque) r \<noteq> None) (al_Results al) =
    filter (\<lambda>r. ar_Driver r = DriverName) (al_Results al)" by (intro filter_cong) auto
  from keys [unfolded eq] ds' completed(7) known show ?thesis by simp
next
  case (again pc c)
  with assms(3) show ?thesis by (simp add: is_completed_def)
qed simp_all

theorem one_device_per_result_witness:
  "mset (map device_key (sample_devices_of ''u1'')) = {#([''r''], ''node-a'', ''gpu-0'')#}"
proof -
  obtain b where b: "checkpoint_of (ref_state no_gates) (\<lambda>c. c) gpu_world = Some (b, Map.empty)" using sample_contents by blast
  let ?al = "\<lparr>al_Results = [sample_result ''r'' ''gpu-0''], al_Config = []\<rparr>"
  have al: "st_Allocation (rc_Status (sample_claim ''u1'')) = Some ?al" by (simp add: sample_claim_def)
  have def: "\<forall>r \<in> set (al_Results ?al). \<forall>d. ar_Driver r = DriverName \<and>
      map_of (w_allocatable gpu_world) (ar_Device r) = Some d \<longrightarrow> has_default (ds_Enabled (ref_state no_gates)) (Type d)"
    by (auto simp: gpu_world_def one_gpu_def sample_result_def has_default_def Type_def no_device_def)
  have "\<not> is_completed Map.empty (rc_UID (sample_claim ''u1''))" by (simp add: is_completed_def)
  moreover have "mset (ds_order2 (ref_state no_gates) ks) = mset ks" for ks by (simp add: ref_state_def)
  moreover note run = sample_prepared
  ultimately have "mset (map device_key (sample_devices_of ''u1'')) =
      mset (map result_key (filter (\<lambda>r. ar_Driver r = DriverName) (al_Results ?al)))"
    using one_device_per_result [OF sample_legal b _ _ run al def] by blast
  then show ?thesis by (simp add: sample_result_def result_key_def)
qed

section \<open>Rolling back\<close>

definition devices_in_use :: "PreparedClaimsByUID \<Rightarrow> DeviceName set" where
  "devices_in_use es = {x. \<exists>u c al. (u, c) \<in> set es \<and> c_CheckpointState c = Completed \<and>
     st_Allocation (c_Status c) = Some al \<and> x \<in> ar_Device ` set (al_Results al)}"

lemma in_use_value:
  "\<forall>(u, c) \<in> set cs. st_Allocation (c_Status c) \<noteq> None \<Longrightarrow>
   in_use x cs = Inr (\<exists>(u, c) \<in> set cs. \<exists>al. st_Allocation (c_Status c) = Some al \<and> x \<in> ar_Device ` set (al_Results al))"
  by (induction x cs rule: in_use.induct) auto

lemma in_use_completed:
  assumes "\<forall>(u, c) \<in> set es. c_CheckpointState c = Completed \<longrightarrow> st_Allocation (c_Status c) \<noteq> None"
  shows "in_use x (completed_claims es) = Inr (x \<in> devices_in_use es)"
proof -
  have "\<forall>(u, c) \<in> set (completed_claims es). st_Allocation (c_Status c) \<noteq> None"
    using assms by (auto simp: completed_claims_def)
  from in_use_value [OF this] show ?thesis
    by (force simp: devices_in_use_def completed_claims_def)
qed

lemma delete_used:
  assumes "\<forall>(u, c) \<in> set es. c_CheckpointState c = Completed \<longrightarrow> st_Allocation (c_Status c) \<noteq> None"
    and "x \<in> devices_in_use es"
  shows "deleteMigDevIfExistsAndNotUsedByCompletedClaim s ms x (completed_claims es) = ret ()"
  using assms by (simp add: deleteMigDevIfExistsAndNotUsedByCompletedClaim_def in_use_completed seq_basic)

lemma each_skip: "(\<And>x. x \<in> set xs \<Longrightarrow> \<not> P x \<Longrightarrow> f x = ret ()) \<Longrightarrow> each f (filter P xs) = each f xs"
  by (induction xs) (auto simp: seq_basic)

lemma each_idle: "(\<And>x. x \<in> set xs \<Longrightarrow> f x = ret ()) \<Longrightarrow> each f xs = ret ()"
  by (induction xs) (auto simp: seq_basic)

lemma wrapping_ret [simp]: "wrapping m (ret x) = ret x"
  by (simp add: wrapping_def ret_def fun_eq_iff)

text \<open>C14: Rolling back a preparation that was not completed never touches a device that is in use: without
  HAMi-Core, devices of the claim that a completed claim of the checkpoint also lists play no part, the
  rollback is that of the other devices. If every MIG device of the claim is in use, nothing at all is done.\<close>

theorem rollback_ignores_used:
  assumes "ds_hamiCoreManager s = None" and "claim_entries cp = Inr es"
    and "\<forall>(u, c) \<in> set es. c_CheckpointState c = Completed \<longrightarrow> st_Allocation (c_Status c) \<noteq> None"
    and "st_Allocation (c_Status pc) = Some al"
  shows "unpreparePartiallyPrepairedClaim s u
      (pc\<lparr>c_Status := (c_Status pc)\<lparr>st_Allocation := Some (al\<lparr>al_Results :=
         filter (\<lambda>r. ar_Device r \<notin> devices_in_use es) (al_Results al)\<rparr>)\<rparr>\<rparr>) cp =
      unpreparePartiallyPrepairedClaim s u pc cp \<and>
    ((\<forall>r \<in> set (al_Results al). isl (NewMigSpecTupleFromCanonicalName (ar_Device r)) \<or> ar_Device r \<in> devices_in_use es) \<longrightarrow>
      unpreparePartiallyPrepairedClaim s u pc cp w = (Inr (), w))"
proof -
  let ?f = "\<lambda>r. case NewMigSpecTupleFromCanonicalName (ar_Device r) of
      Inl _ \<Rightarrow> ret ()
    | Inr ms \<Rightarrow> wrapping ''deleteMigDevIfExistsAndNotUsedByCompletedClaim failed''
        (deleteMigDevIfExistsAndNotUsedByCompletedClaim s ms (ar_Device r) (completed_claims es))"
  have run: "unpreparePartiallyPrepairedClaim s u pc' cp = each ?f (al_Results al')"
    if "st_Allocation (c_Status pc') = Some al'" for pc' al'
    using assms(1,2) that by (simp add: unpreparePartiallyPrepairedClaim_def seq_basic)
  have idle: "?f r = ret ()"
    if "isl (NewMigSpecTupleFromCanonicalName (ar_Device r)) \<or> ar_Device r \<in> devices_in_use es" for r
    using that delete_used [OF assms(3), of "ar_Device r" s]
    by (auto split: sum.split)
  have "each ?f (filter (\<lambda>r. ar_Device r \<notin> devices_in_use es) (al_Results al)) = each ?f (al_Results al)"
    by (rule each_skip) (use idle in blast)
  moreover have "each ?f (al_Results al) w = (Inr (), w)"
    if "\<forall>r \<in> set (al_Results al). isl (NewMigSpecTupleFromCanonicalName (ar_Device r)) \<or> ar_Device r \<in> devices_in_use es"
  proof -
    have "each ?f (al_Results al) = ret ()" by (rule each_idle) (use idle that in blast)
    then show ?thesis by (simp add: ret_def)
  qed
  ultimately show ?thesis using run [OF assms(4)] by (simp add: run)
qed

definition mig_name :: string where
  "mig_name = ''gpu-1-mig-2g47gb-14-0''"

definition mig_status :: claim_status where
  "mig_status = \<lparr>st_Allocation = Some \<lparr>al_Results = [sample_result ''r'' mig_name], al_Config = []\<rparr>, st_ReservedFor = []\<rparr>"

definition mig_claim :: "ClaimCheckpointState \<Rightarrow> PreparedClaim" where
  "mig_claim st = \<lparr>c_CheckpointState = st, c_Status = mig_status, c_PreparedDevices = [], c_Name = '''', c_Namespace = ''''\<rparr>"

definition busy_checkpoint :: Checkpoint where
  "busy_checkpoint = \<lparr>cp_Checksum = 0, cp_V1 = None, cp_V2 = Some (empty_V2\<lparr>c2_PreparedClaims :=
     Some [(''u1'', mig_claim Completed), (''u2'', mig_claim Started)]\<rparr>)\<rparr>"

theorem rollback_ignores_used_witness:
  "\<not> isl (NewMigSpecTupleFromCanonicalName mig_name) \<and>
   unpreparePartiallyPrepairedClaim sample_state ''u2'' (mig_claim Started) busy_checkpoint gpu_world = (Inr (), gpu_world)"
proof -
  let ?es = "[(''u1'', mig_claim Completed), (''u2'', mig_claim Started)]"
  have "ds_hamiCoreManager sample_state = None" by (simp add: ref_state_def)
  moreover have "claim_entries busy_checkpoint = Inr ?es" by (simp add: claim_entries_def busy_checkpoint_def)
  moreover have "\<forall>(u, c) \<in> set ?es. c_CheckpointState c = Completed \<longrightarrow> st_Allocation (c_Status c) \<noteq> None"
    and "st_Allocation (c_Status (mig_claim Started)) = Some \<lparr>al_Results = [sample_result ''r'' mig_name], al_Config = []\<rparr>"
    by (auto simp: mig_claim_def mig_status_def)
  moreover have "mig_name \<in> devices_in_use ?es"
    unfolding devices_in_use_def mem_Collect_eq
    by (rule exI [of _ "''u1''"], rule exI [of _ "mig_claim Completed"]) (simp add: mig_claim_def mig_status_def sample_result_def)
  moreover have "\<not> isl (NewMigSpecTupleFromCanonicalName mig_name)" unfolding mig_name_def by code_simp
  ultimately show ?thesis
    using rollback_ignores_used [of sample_state busy_checkpoint ?es "mig_claim Started"] by (simp add: sample_result_def)
qed

section \<open>Releasing the directories of HAMi-Core\<close>

lemma node_gone: "removed sel w w1 \<Longrightarrow> node_at w1 q = Some n \<Longrightarrow> node_at w q = Some n"
  using node_at_removed [of sel w w1 q] by (auto split: if_splits)

lemma owned_removed: "removed sel w w1 \<Longrightarrow> owned_at w1 d u \<Longrightarrow> owned_at w d u"
proof -
  assume sel: "removed sel w w1" and "owned_at w1 d u"
  then obtain s where s: "s \<in> set (owner_names u)" "is_reg (node_at w1 (d @ [s]))"
    by (auto simp: owned_at_def list_ex_iff)
  then have "is_reg (node_at w (d @ [s]))"
    using node_gone [OF sel, of "d @ [s]"] by (cases "node_at w1 (d @ [s])") auto
  with s(1) show ?thesis by (auto simp: owned_at_def list_ex_iff)
qed

lemma belongs_removed:
  assumes "removed sel w w1" and "wf_fs w" "wf_fs w1" and "belongs root u w1 q"
  shows "belongs root u w q"
proof (cases "prefix (legacy_dir root u) q")
  case False
  let ?d = "\<lambda>s. containers_dir root @ [s]"
  from assms(4) False obtain s where "node_at w1 (?d s) = Some Dir" "owned_at w1 (?d s) u" "prefix (?d s) q"
    by (auto simp: belongs_def list_ex_iff)
  moreover from this node_gone [OF assms(1)] have "node_at w (?d s) = Some Dir" by blast
  ultimately show ?thesis
    using owned_removed [OF assms(1)] in_children [OF assms(2), of s "containers_dir root"]
    by (auto simp: belongs_def list_ex_iff)
qed (simp add: belongs_def)

text \<open>Only nodes that belong to the claim have gone; with \<open>all\<close> every one of them.\<close>

definition cleared :: "path \<Rightarrow> string \<Rightarrow> bool \<Rightarrow> fs \<Rightarrow> fs \<Rightarrow> bool" where
  "cleared root u all w w' \<longleftrightarrow> wf_fs w' \<and> (\<exists>sel. removed sel w w' \<and> (\<forall>q. sel q \<longrightarrow> belongs root u w q) \<and>
     (all \<longrightarrow> (\<forall>q. belongs root u w q \<longrightarrow> sel q)))"

lemma cleared_refl: "wf_fs w \<Longrightarrow> cleared root u False w w"
  unfolding cleared_def using removed_none [of w w] by blast

lemma cleared_trans:
  assumes "wf_fs w" and "cleared root u a w w1" and "cleared root u b w1 w2"
  shows "cleared root u a w w2"
proof -
  from assms(2,3) obtain sel1 sel2 where rm: "removed sel1 w w1" "removed sel2 w1 w2" and wf: "wf_fs w1" "wf_fs w2"
    and sel: "\<forall>q. sel1 q \<longrightarrow> belongs root u w q" "\<forall>q. sel2 q \<longrightarrow> belongs root u w1 q"
      "a \<longrightarrow> (\<forall>q. belongs root u w q \<longrightarrow> sel1 q)" by (auto simp: cleared_def)
  have "\<forall>q. sel1 q \<or> sel2 q \<longrightarrow> belongs root u w q"
    using sel belongs_removed [OF rm(1) assms(1) wf(1)] by blast
  with removed_trans [OF rm] wf(2) sel(3) show ?thesis unfolding cleared_def by blast
qed

lemma release_clears:
  assumes "HAMi_Unprepare root u pl w = (Inr (), w')" and "wf_fs w" and "component u"
  shows "cleared root u True w w'"
  using HAMi_Unprepare_removes [OF assms] by (auto simp: cleared_def)

text \<open>What unpreparing a group comes to when HAMi-Core is enabled with gates that go together.\<close>

lemma hami_gates:
  assumes "ValidateFeatureGates Enabled = None" and "Enabled HAMiCoreSupport"
  shows "\<not> Enabled TimeSlicingSettings" "\<not> Enabled MPSSupport" "\<not> Enabled PassthroughSupport" "\<not> Enabled DynamicMIG"
  using assms by (auto simp: ValidateFeatureGates_def split: if_splits)

lemma unprepare_device_idle:
  "\<not> ds_Enabled s DynamicMIG \<Longrightarrow> unprepare_device s d w = (r, w') \<Longrightarrow> w' = w"
  by (auto simp: unprepare_device_def seq_def lift_res_def ret_def split: PreparedType.splits sum.splits)

lemma unprepare_devices_idle:
  "\<not> ds_Enabled s DynamicMIG \<Longrightarrow> each (unprepare_device s) ds w = (r, w') \<Longrightarrow> w' = w"
proof (induction ds arbitrary: w)
  case (Cons d ds)
  from Cons.prems(2) have "seq (unprepare_device s d) (\<lambda>_. each (unprepare_device s) ds) w = (r, w')" by simp
  then show ?case
    by (cases rule: seqE) (use Cons.IH Cons.prems(1) unprepare_device_idle [OF Cons.prems(1)] in blast)+
qed (simp add: ret_def)

lemma hami_group:
  assumes "ValidateFeatureGates (ds_Enabled s) = None" and "ds_Enabled s HAMiCoreSupport"
    and "ds_hamiCoreManager s = Some mgr" and "unprepare_group s u grp w = (Inr (), w')"
  shows "HAMi_Unprepare (containerHookPath mgr) u (HAMiGpus (grp_Devices grp)) (w_fs w) = (Inr (), w_fs w')"
proof -
  note off = hami_gates [OF assms(1,2)]
  obtain w1 where "each (unprepare_device s) (grp_Devices grp) w = (Inr (), w1)"
    and run: "in_fs (HAMi_Unprepare (containerHookPath mgr) u (HAMiGpus (grp_Devices grp))) w1 = (Inr (), w')"
    using assms(4) off assms(2,3) by (auto simp: unprepare_group_def seq_Inr run_basic wrapping_Inr)
  with unprepare_devices_idle [OF off(4)] have "w1 = w" by blast
  with run show ?thesis by (auto simp: on_Inr)
qed

lemma hami_groups:
  assumes "ValidateFeatureGates (ds_Enabled s) = None" and "ds_Enabled s HAMiCoreSupport"
    and "ds_hamiCoreManager s = Some mgr" and "component u"
  shows "each (unprepare_group s u) gs w = (Inr (), w') \<Longrightarrow> wf_fs (w_fs w) \<Longrightarrow>
    cleared (containerHookPath mgr) u (gs \<noteq> []) (w_fs w) (w_fs w')"
proof (induction gs arbitrary: w)
  case Nil
  then show ?case by (simp add: ret_def cleared_refl)
next
  case (Cons g gs)
  then obtain w1 where g: "unprepare_group s u g w = (Inr (), w1)"
    and gs: "each (unprepare_group s u) gs w1 = (Inr (), w')" by (auto simp: seq_Inr)
  from release_clears [OF hami_group [OF assms(1-3) g] Cons.prems(2) assms(4)]
  have first: "cleared (containerHookPath mgr) u True (w_fs w) (w_fs w1)" .
  then have "wf_fs (w_fs w1)" by (simp add: cleared_def)
  from cleared_trans [OF Cons.prems(2) first Cons.IH [OF gs this]] show ?case by simp
qed

lemma Remove_other:
  assumes "os_Remove p w = (r, w')" and "q \<noteq> p"
  shows "node_at w' q = node_at w q"
proof -
  have "fs_nodes w' = fs_nodes w \<or> fs_nodes w' = fs_nodes (remove_nodes (\<lambda>x. x = p) w)"
    using assms(1) by (auto simp: os_Remove_def fs_call_def tick_def remove_nodes_def split: option.splits sum.splits if_splits)
  then have "removed (\<lambda>x. False) w w' \<or> removed (\<lambda>x. x = p) w w'"
    by (auto simp: removed_def remove_nodes_def)
  then show ?thesis using assms(2) by (auto dest: node_at_removed [where p = q])
qed

lemma DeleteClaimSpecFile_other:
  assumes "DeleteClaimSpecFile C u w = (r, w')" and "q \<noteq> spec_path C u"
  shows "node_at w' q = node_at w q"
proof -
  obtain x w1 where rm: "os_Remove (spec_path C u) w = (x, w1)" by fastforce
  then have "w' = w1"
    using assms(1) by (cases x rule: attempt_res.cases)
      (auto simp: DeleteClaimSpecFile_def seq_def attempt_def ret_def throw_def split: if_splits)
  with Remove_other [OF rm assms(2)] show ?thesis by simp
qed


definition hami_manager :: "unit HAMiCoreManager" where
  "hami_manager = \<lparr>hostHookPath = [''h''], containerHookPath = [''h''], nodeName = ''node-a'', hm_clientset = None,
     podLister = None, retryOnConflict = id\<rparr>"

definition hami_state :: "(json option, string \<Rightarrow> string, unit) device_state" where
  "hami_state = (ref_state defaultFeatureGates)\<lparr>ds_hamiCoreManager := Some hami_manager\<rparr>"

definition hami_world :: "(json option, string \<Rightarrow> string, unit) world" where
  "hami_world = snd (update_checkpoint hami_state (set_claim ''u1'' (started_claim (sample_claim ''u1'')))
     ((ref_world (sample_file ''boot-1'') [])\<lparr>w_fs := sample_cache\<rparr>))"

lemma hami_legal: "legal_store (ds_env hami_state (\<lambda>c. c))"
  by (simp add: ds_env_def hami_state_def ref_state_def ref_legal)

lemma hami_contents: "\<exists>b m pc. checkpoint_of hami_state (\<lambda>c. c) hami_world = Some (b, m) \<and> m ''u1'' = Some pc \<and>
    c_CheckpointState pc = Started"
proof -
  have "load_checkpoint ref_codec (enc_Checkpoint ref_codec (sealed ref_codec (sample_checkpoint ''boot-1''))) =
      Inr (stored_Checkpoint (sealed ref_codec (sample_checkpoint ''boot-1'')))"
    by (rule load_marshalled [OF ref_codec_ok])
  then obtain b m where c: "checkpoint_of hami_state (\<lambda>c. c) ((ref_world (sample_file ''boot-1'') [])\<lparr>w_fs := sample_cache\<rparr>) = Some (b, m)"
    by (cases "contents_of (stored_Checkpoint (sealed ref_codec (sample_checkpoint ''boot-1'')))")
      (simp add: checkpoint_of_def file_contents_def ds_env_def hami_state_def ref_state_def ref_world_def sample_file_def)
  obtain r w' where up: "update_checkpoint hami_state (set_claim ''u1'' (started_claim (sample_claim ''u1'')))
     ((ref_world (sample_file ''boot-1'') [])\<lparr>w_fs := sample_cache\<rparr>) = (r, w')" by fastforce
  have "\<not> isl (fst (update_checkpoint hami_state (set_claim ''u1'' (started_claim (sample_claim ''u1'')))
     ((ref_world (sample_file ''boot-1'') [])\<lparr>w_fs := sample_cache\<rparr>)))"
    unfolding hami_state_def by code_simp
  with update_claim_result [OF hami_legal up c] up show ?thesis by (auto simp: hami_world_def)
qed


end
