(* ===== verification/Requests.thy ===== *)
theory Requests
  imports SamplePlugin
begin

text \<open>
  What the kubelet can rely on: the outcome of Prepare and Unprepare on every branch, their
  idempotence, the refusal of overlapping claims, and the invariants and the abstract machine of
  every history of requests, restarts and crashes.
\<close>

section \<open>One request\<close>

text \<open>C3: What Prepare does to the checkpoint. The boot ID and the claims of other UIDs never change. When
  Prepare returns devices, the claim is recorded as completed with exactly those devices. When it fails,
  the record of the claim is as before, or the claim, which was not completed, is now recorded as
  started; a completed claim is never lost.\<close>

theorem prepare_outcome:
  assumes "legal_store (ds_env s blob)" and "checkpoint_of s blob w = Some (b, m)"
    and "Prepare s claim w = (r, w')"
  shows "\<exists>m'. checkpoint_of s blob w' = Some (b, m') \<and> (\<forall>u. u \<noteq> rc_UID claim \<longrightarrow> m' u = m u) \<and>
    (case r of
       Inr ds \<Rightarrow> (\<exists>pc. m' (rc_UID claim) = Some pc \<and> c_CheckpointState pc = Completed \<and>
                   GetDevices (c_PreparedDevices pc) = Inr ds)
     | Inl f \<Rightarrow> m' (rc_UID claim) = m (rc_UID claim) \<or>
                (\<not> is_completed m (rc_UID claim) \<and>
                 m' (rc_UID claim) = Some (stored_ClaimV2 (started_claim claim))))"
proof -
  obtain m' where m': "checkpoint_of s blob w' = Some (b, m')"
    and "prepare_spec (ds_Enabled s HAMiCoreSupport) claim m r m'"
    using Prepare_meets_spec [OF assms] by blast
  from this(2) have "(\<forall>u. u \<noteq> rc_UID claim \<longrightarrow> m' u = m u) \<and>
    (case r of
       Inr ds \<Rightarrow> (\<exists>pc. m' (rc_UID claim) = Some pc \<and> c_CheckpointState pc = Completed \<and>
                   GetDevices (c_PreparedDevices pc) = Inr ds)
     | Inl f \<Rightarrow> m' (rc_UID claim) = m (rc_UID claim) \<or>
                (\<not> is_completed m (rc_UID claim) \<and>
                 m' (rc_UID claim) = Some (stored_ClaimV2 (started_claim claim))))"
    by (cases rule: prepare_spec.cases) (auto split: sum.split)
  with m' show ?thesis by blast
qed

theorem prepare_outcome_witness:
  "\<exists>b m' pc. checkpoint_of sample_state (\<lambda>c. c) prepared_world = Some (b, m') \<and> m' ''u1'' = Some pc \<and>
     c_CheckpointState pc = Completed \<and> GetDevices (c_PreparedDevices pc) = Inr (sample_devices_of ''u1'') \<and>
     m' ''u2'' = None"
proof -
  obtain b where b: "checkpoint_of sample_state (\<lambda>c. c) gpu_world = Some (b, Map.empty)" using sample_contents by blast
  have "rc_UID (sample_claim ''u1'') = ''u1''" by (simp add: sample_claim_def)
  with prepare_outcome [OF sample_legal b sample_prepared] show ?thesis by auto
qed

text \<open>C5: What Unprepare does to the checkpoint: when it succeeds the claim, whatever its state was, is gone
  and every other claim and the boot ID are as before; when it fails nothing in the checkpoint has
  changed, so the kubelet can try again.\<close>

theorem unprepare_outcome:
  assumes "legal_store (ds_env s blob)" and "checkpoint_of s blob w = Some (b, m)"
    and "Unprepare s ref w = (r, w')"
  shows "checkpoint_of s blob w' = Some (b, if isl r then m else m(no_UID ref := None))"
  using Unprepare_meets_spec [OF assms] by (auto simp: unprepare_spec_simps)

lemma sample_unprepare: "\<not> isl (fst (Unprepare sample_state (sample_ref ''u1'') prepared_world))"
  unfolding prepared_world_def gpu_world_def started_world_def by code_simp

theorem unprepare_outcome_witness:
  "\<exists>b m'. checkpoint_of sample_state (\<lambda>c. c) (snd (Unprepare sample_state (sample_ref ''u1'') prepared_world)) = Some (b, m') \<and>
     m' ''u1'' = None"
proof -
  from sample_contents obtain b0 where "checkpoint_of sample_state (\<lambda>c. c) gpu_world = Some (b0, Map.empty)" by blast
  from Prepare_meets_spec [OF sample_legal this sample_prepared] obtain b m where
    m: "checkpoint_of sample_state (\<lambda>c. c) prepared_world = Some (b, m)" by blast
  obtain r w' where u: "Unprepare sample_state (sample_ref ''u1'') prepared_world = (r, w')" by fastforce
  with sample_unprepare have "\<not> isl r" by simp
  with unprepare_outcome [OF sample_legal m u] u show ?thesis by (simp add: sample_ref_def)
qed

lemma prepare_ready:
  assumes "legal_store (ds_env s blob)" and "checkpoint_of s blob w1 = Some (b, m1)"
    and "m1 (rc_UID claim) = Some pc" "c_CheckpointState pc = Completed" "GetDevices (c_PreparedDevices pc) = Inr ds"
    and "Prepare s claim w1 = (r, w2)"
  shows "(r = Inr ds \<or> isl (fst (get_checkpoint s w1))) \<and> (\<exists>c. w2 = w1\<lparr>w_cp := c\<rparr>) \<and>
    checkpoint_of s blob w2 = checkpoint_of s blob w1"
proof -
  obtain x w3 where g: "get_checkpoint s w1 = (x, w3)" by fastforce
  note G = get_checkpoint_result [OF assms(1) g]
  show ?thesis
  proof (cases x)
    case (Inl f)
    then have "w2 = w3" using assms(6) g by (cases f) (auto simp: Prepare_def seq_def hiding_def)
    with G g Inl show ?thesis by auto
  next
    case (Inr cp)
    then have "claims cp = m1" using G assms(2) contents_claims [of cp b m1] by simp
    with assms(3-6) g Inr have "r = Inr ds \<and> w2 = w3"
      by (auto simp: Prepare_def seq_def hiding_def lift_res_def)
    with G show ?thesis by auto
  qed
qed

text \<open>C15: Prepare is idempotent. Once it has returned devices for a claim, calling it again with a claim
  of the same UID returns the same devices, or fails because the checkpoint cannot be read, and
  changes nothing: no device, no file, no API object, and the contents of the checkpoint stay.\<close>

theorem prepare_idempotent:
  assumes "legal_store (ds_env s blob)" and "checkpoint_of s blob w = Some (b, m)"
    and "Prepare s claim w = (Inr ds, w1)" and "rc_UID claim' = rc_UID claim" and "Prepare s claim' w1 = (r, w2)"
  shows "(r = Inr ds \<or> isl (fst (get_checkpoint s w1))) \<and> (\<exists>c. w2 = w1\<lparr>w_cp := c\<rparr>) \<and>
    checkpoint_of s blob w2 = checkpoint_of s blob w1"
proof -
  obtain m1 where m1: "checkpoint_of s blob w1 = Some (b, m1)"
    and "prepare_spec (ds_Enabled s HAMiCoreSupport) claim m (Inr ds) m1"
    using Prepare_meets_spec [OF assms(1-3)] by blast
  from this(2) obtain pc where "m1 (rc_UID claim) = Some pc" "c_CheckpointState pc = Completed"
    "GetDevices (c_PreparedDevices pc) = Inr ds"
    by (cases rule: prepare_spec.cases) auto
  with prepare_ready [OF assms(1) m1 _ _ _ assms(5)] assms(4) show ?thesis by simp
qed

lemma sample_readable:
  assumes "checkpoint_of sample_state (\<lambda>c. c) w = Some x"
  shows "\<not> isl (fst (get_checkpoint sample_state w))"
proof -
  from assms obtain j cp where "w_cp w = Some j" "load_checkpoint ref_codec j = Inr cp"
    by (auto simp: checkpoint_of_def file_contents_def ds_env_def ref_state_def split: option.splits sum.splits)
  with ref_get show ?thesis by (simp add: get_checkpoint_def on_def ref_state_def)
qed

theorem prepare_idempotent_witness:
  "\<exists>w2. Prepare sample_state (sample_claim ''u1'') prepared_world = (Inr (sample_devices_of ''u1''), w2) \<and>
     checkpoint_of sample_state (\<lambda>c. c) w2 = checkpoint_of sample_state (\<lambda>c. c) prepared_world"
proof -
  obtain b where b: "checkpoint_of sample_state (\<lambda>c. c) gpu_world = Some (b, Map.empty)" using sample_contents by blast
  obtain r w2 where p: "Prepare sample_state (sample_claim ''u1'') prepared_world = (r, w2)" by fastforce
  obtain m where "checkpoint_of sample_state (\<lambda>c. c) prepared_world = Some (b, m)"
    using Prepare_meets_spec [OF sample_legal b sample_prepared] by blast
  with prepare_idempotent [OF sample_legal b sample_prepared refl p] p sample_readable show ?thesis by auto
qed

text \<open>C8: Without HAMi-Core a device is never given to two claims: Prepare of a claim that asks, without admin
  access, for a device a completed claim of another UID holds without admin access fails, and leaves
  the devices, the files, the API objects and the contents of the checkpoint as they were.\<close>

theorem overlap_refused:
  assumes "legal_store (ds_env s blob)" and "checkpoint_of s blob w = Some (b, m)"
    and "\<not> ds_Enabled s HAMiCoreSupport" and "\<not> is_completed m (rc_UID claim)"
    and "uses_device m v x" and "v \<noteq> rc_UID claim" and "x \<in> claim_names (rc_Status claim)"
    and "Prepare s claim w = (r, w')"
  shows "isl r \<and> (\<exists>c. w' = w\<lparr>w_cp := c\<rparr>) \<and> checkpoint_of s blob w' = Some (b, m)"
proof -
  obtain y w1 where g: "get_checkpoint s w = (y, w1)" by fastforce
  note G = get_checkpoint_result [OF assms(1) g]
  have "isl r \<and> w' = w1"
  proof (cases y)
    case (Inl f)
    then show ?thesis using assms(8) g by (cases f) (auto simp: Prepare_def seq_def hiding_def)
  next
    case (Inr cp)
    then have cl: "claims cp = m" and lat: "\<exists>cp0. cp = ToLatestVersion cp0"
      using G assms(2) contents_claims [of cp b m] by auto
    have "validateNoOverlappingPreparedDevices cp claim \<noteq> Inr ()"
      using validated_disjoint [of cp claim _ False] lat cl assms(5-7) admissible_free [of claim m x v] by auto
    then obtain f where "validateNoOverlappingPreparedDevices cp claim = Inl f"
      by (cases "validateNoOverlappingPreparedDevices cp claim") auto
    then obtain f' where "before_start s claim cp w1 = (Inl f', w1)"
      using assms(3) by (cases f) (simp_all add: before_start_def seq_def wrapping_def lift_res_def)
    with assms(4,8) g Inr cl show ?thesis
      by (auto simp: Prepare_def is_completed_def seq_def hiding_def split: option.splits if_splits)
  qed
  with G assms(2) show ?thesis by auto
qed

lemma sample_uses:
  assumes "checkpoint_of sample_state (\<lambda>c. c) prepared_world = Some (b, m)"
  shows "uses_device m ''u1'' ''gpu-0'' \<and> m ''u2'' = None"
proof -
  obtain b0 where b: "checkpoint_of sample_state (\<lambda>c. c) gpu_world = Some (b0, Map.empty)" using sample_contents by blast
  from Prepare_meets_spec [OF sample_legal this sample_prepared] assms
  have "prepare_spec (ds_Enabled sample_state HAMiCoreSupport) (sample_claim ''u1'') Map.empty (Inr (sample_devices_of ''u1'')) m"
    by auto
  then show ?thesis
    by (cases rule: prepare_spec.cases)
      (auto simp: uses_device_def claim_names_def nonadmin_names_def sample_claim_def sample_result_def is_admin_def)
qed

theorem overlap_refused_witness:
  "isl (fst (Prepare sample_state (sample_claim ''u2'') prepared_world))"
proof -
  obtain b where b: "checkpoint_of sample_state (\<lambda>c. c) gpu_world = Some (b, Map.empty)" using sample_contents by blast
  from Prepare_meets_spec [OF sample_legal this sample_prepared] obtain m where
    m: "checkpoint_of sample_state (\<lambda>c. c) prepared_world = Some (b, m)" by blast
  note uses = sample_uses [OF m]
  have uid: "rc_UID (sample_claim ''u2'') = ''u2''" and names: "''gpu-0'' \<in> claim_names (rc_Status (sample_claim ''u2''))"
    by (simp_all add: sample_claim_def claim_names_def nonadmin_names_def sample_result_def is_admin_def)
  have "\<not> ds_Enabled sample_state HAMiCoreSupport" by (simp add: ref_state_def no_gates_def)
  moreover have "\<not> is_completed m (rc_UID (sample_claim ''u2''))" using uses uid by (simp add: is_completed_def)
  moreover obtain r w' where p: "Prepare sample_state (sample_claim ''u2'') prepared_world = (r, w')" by fastforce
  ultimately have "isl r"
    using overlap_refused [OF sample_legal m _ _ conjunct1 [OF uses] _ names p] uid by simp
  with p show ?thesis by simp
qed

section \<open>All requests\<close>

text \<open>C2: Every history of the plugin refines the abstract machine with one phase per claim: from the first
  start on, through all requests and their answers, failed and successful, restarts, reboots, crashes
  between the two checkpoint updates and changes from outside, the phases of the claims in the
  checkpoint follow steps of the machine. In particular the file can be read at every moment.\<close>

theorem history_refines_phases:
  assumes "history blob (s0, w0) es (s, w)"
  shows "\<exists>b m. checkpoint_of s blob w = Some (b, m) \<and> run phase_step (\<lambda>_. Absent) es (phases m)"
  by (rule history_phases [OF assms])

lemma sample_run:
  "history (\<lambda>c. c) (sample_state, ref_world None []) [Internal, Prepared ''u1'' (Inr (sample_devices_of ''u1''))]
     (sample_state, prepared_world)"
proof -
  have "plugin_step (sample_state, gpu_world) (Prepared (rc_UID (sample_claim ''u1'')) (Inr (sample_devices_of ''u1'')))
      (sample_state, prepared_world)" by (rule plugin_step.prepare [OF sample_prepared])
  then have "run plugin_step (sample_state, gpu_world) [Prepared ''u1'' (Inr (sample_devices_of ''u1''))]
      (sample_state, prepared_world)" by (simp add: run_Cons sample_claim_def)
  then show ?thesis by (rule sample_history)
qed

theorem history_refines_phases_witness:
  "\<exists>b m. checkpoint_of sample_state (\<lambda>c. c) prepared_world = Some (b, m) \<and>
     run phase_step (\<lambda>_. Absent) [Internal, Prepared ''u1'' (Inr (sample_devices_of ''u1''))] (phases m)"
  by (rule history_refines_phases [OF sample_run])

text \<open>C16: Answers are stable: between two successful answers for the same claim, with any requests for other
  claims, failures, crashes and health changes in between but no successful Unprepare of it and no
  restart of the plugin, the kubelet is told the same devices.\<close>

theorem answers_stable:
  assumes "history blob (s0, w0) (es @ [Prepared u (Inr ds)] @ es' @ [Prepared u (Inr ds')]) (s, w)"
    and "Unprepared u (Inr ()) \<notin> set es'" and "Restarted \<notin> set es'"
  shows "ds' = ds"
proof -
  from history_phases [OF assms(1)] obtain m where
    "run phase_step (\<lambda>_. Absent) (es @ [Prepared u (Inr ds)] @ es' @ [Prepared u (Inr ds')]) (phases m)" by blast
  then obtain \<sigma>1 \<sigma>2 \<sigma>3 \<sigma>4 where first: "phase_step \<sigma>1 (Prepared u (Inr ds)) \<sigma>2"
    and between: "run phase_step \<sigma>2 es' \<sigma>3" and second: "phase_step \<sigma>3 (Prepared u (Inr ds')) \<sigma>4"
    by (auto simp: run_split run_Cons)
  have "\<sigma>2 u = Ready ds" using first by (auto simp: phase_step_prepared)
  from ready_stays [OF between this assms(2,3)] second show ?thesis
    by (auto simp: phase_step_prepared is_ready_def)
qed

lemma sample_again:
  "\<exists>w2. Prepare sample_state (sample_claim ''u1'') prepared_world = (Inr (sample_devices_of ''u1''), w2)"
proof -
  obtain b where b: "checkpoint_of sample_state (\<lambda>c. c) gpu_world = Some (b, Map.empty)" using sample_contents by blast
  from Prepare_meets_spec [OF sample_legal this sample_prepared] obtain m where
    m: "checkpoint_of sample_state (\<lambda>c. c) prepared_world = Some (b, m)"
    and "prepare_spec (ds_Enabled sample_state HAMiCoreSupport) (sample_claim ''u1'') Map.empty (Inr (sample_devices_of ''u1'')) m"
    by blast
  from this(2) obtain pc where pc: "m (rc_UID (sample_claim ''u1'')) = Some pc" "c_CheckpointState pc = Completed"
    "GetDevices (c_PreparedDevices pc) = Inr (sample_devices_of ''u1'')"
    by (cases rule: prepare_spec.cases) auto
  obtain r w2 where p: "Prepare sample_state (sample_claim ''u1'') prepared_world = (r, w2)" by fastforce
  with prepare_ready [OF sample_legal m pc p] sample_readable [OF m] show ?thesis by auto
qed

theorem answers_stable_witness:
  "\<exists>es w2. history (\<lambda>c. c) (sample_state, ref_world None [])
     (es @ [Prepared ''u1'' (Inr (sample_devices_of ''u1''))] @ [] @ [Prepared ''u1'' (Inr (sample_devices_of ''u1''))])
     (sample_state, w2) \<and>
   (\<forall>ds. history (\<lambda>c. c) (sample_state, ref_world None [])
     (es @ [Prepared ''u1'' (Inr (sample_devices_of ''u1''))] @ [] @ [Prepared ''u1'' (Inr ds)]) (sample_state, w2) \<longrightarrow>
     ds = sample_devices_of ''u1'')"
proof -
  obtain w2 where again: "Prepare sample_state (sample_claim ''u1'') prepared_world = (Inr (sample_devices_of ''u1''), w2)"
    using sample_again by blast
  have uid: "rc_UID (sample_claim ''u1'') = ''u1''" by (simp add: sample_claim_def)
  have "run plugin_step (sample_state, gpu_world)
      [Prepared ''u1'' (Inr (sample_devices_of ''u1'')), Prepared ''u1'' (Inr (sample_devices_of ''u1''))] (sample_state, w2)"
    using plugin_step.prepare [OF sample_prepared] plugin_step.prepare [OF again] uid by (auto simp: run_Cons)
  from sample_history [OF this] have "history (\<lambda>c. c) (sample_state, ref_world None [])
     ([Internal] @ [Prepared ''u1'' (Inr (sample_devices_of ''u1''))] @ [] @ [Prepared ''u1'' (Inr (sample_devices_of ''u1''))])
     (sample_state, w2)" by simp
  moreover have "ds = sample_devices_of ''u1''" if "history (\<lambda>c. c) (sample_state, ref_world None [])
     ([Internal] @ [Prepared ''u1'' (Inr (sample_devices_of ''u1''))] @ [] @ [Prepared ''u1'' (Inr ds)]) (sample_state, w2)" for ds
    using answers_stable [OF that] by simp
  ultimately show ?thesis by blast
qed

text \<open>C1: In every history without HAMi-Core, a device is used by at most one completed claim, admin access
  apart, even after failed attempts, crashes and restarts.\<close>

theorem device_used_once:
  assumes "history blob (s0, w0) es (s, w)" and "\<not> ds_Enabled s0 HAMiCoreSupport"
  shows "\<exists>b m. checkpoint_of s blob w = Some (b, m) \<and>
    (\<forall>u v p q x. m u = Some p \<and> c_CheckpointState p = Completed \<and> x \<in> claim_names (c_Status p) \<and>
       m v = Some q \<and> c_CheckpointState q = Completed \<and> x \<in> claim_names (c_Status q) \<longrightarrow> u = v)"
proof -
  from history_claims [OF assms(1)] assms(2) obtain m where m: "stores blob False (s, w) m"
    and "run (claim_step False) Map.empty es m" by auto
  from apart.along_run [OF this(2)] empty_claims_ok(2) have "exclusive_use m" by blast
  moreover obtain b where "checkpoint_of s blob w = Some (b, m)" using m by (auto simp: stores_def)
  ultimately show ?thesis unfolding exclusive_use_def uses_device_def by blast
qed

theorem device_used_once_witness:
  "\<exists>b m. checkpoint_of sample_state (\<lambda>c. c) prepared_world = Some (b, m) \<and>
     (\<forall>v q. m v = Some q \<and> c_CheckpointState q = Completed \<and> ''gpu-0'' \<in> claim_names (c_Status q) \<longrightarrow> v = ''u1'')"
proof -
  have "\<not> ds_Enabled sample_state HAMiCoreSupport" by (simp add: ref_state_def no_gates_def)
  from device_used_once [OF sample_run this] obtain b m where
    m: "checkpoint_of sample_state (\<lambda>c. c) prepared_world = Some (b, m)"
    and once: "\<forall>u v p q x. m u = Some p \<and> c_CheckpointState p = Completed \<and> x \<in> claim_names (c_Status p) \<and>
       m v = Some q \<and> c_CheckpointState q = Completed \<and> x \<in> claim_names (c_Status q) \<longrightarrow> u = v" by blast
  with sample_uses [OF m] show ?thesis unfolding uses_device_def by blast
qed

text \<open>C17: The claims in the checkpoint are well typed in every history: each is started or completed, so
  Unprepare never meets an unsupported state; a completed one has its allocation, and its devices can be
  listed without a nil dereference, so Prepare and Unprepare never panic on it; without HAMi-Core every
  claim has its allocation, so the check for overlaps never panics on a stored claim.\<close>

theorem stored_claims_typed:
  assumes "history blob (s0, w0) es (s, w)"
  shows "\<exists>b m. checkpoint_of s blob w = Some (b, m) \<and>
    (\<forall>u pc. m u = Some pc \<longrightarrow>
       (c_CheckpointState pc = Started \<or> c_CheckpointState pc = Completed) \<and>
       (c_CheckpointState pc = Completed \<longrightarrow> (\<exists>ds. GetDevices (c_PreparedDevices pc) = Inr ds)) \<and>
       (c_CheckpointState pc = Completed \<or> \<not> ds_Enabled s0 HAMiCoreSupport \<longrightarrow>
          (\<exists>al. st_Allocation (c_Status pc) = Some al)))"
proof -
  from history_claims [OF assms] obtain m where m: "stores blob (ds_Enabled s0 HAMiCoreSupport) (s, w) m"
    and steps: "run (claim_step (ds_Enabled s0 HAMiCoreSupport)) Map.empty es m" by blast
  note ok = claims_okD [OF shaped.along_run [OF steps empty_claims_ok(1)]]
  obtain b where "checkpoint_of s blob w = Some (b, m)" using m by (auto simp: stores_def)
  with ok show ?thesis by blast
qed

theorem stored_claims_typed_witness:
  "\<exists>b m pc. checkpoint_of sample_state (\<lambda>c. c) prepared_world = Some (b, m) \<and> m ''u1'' = Some pc \<and>
     (\<exists>ds. GetDevices (c_PreparedDevices pc) = Inr ds) \<and> (\<exists>al. st_Allocation (c_Status pc) = Some al)"
proof -
  from stored_claims_typed [OF sample_run] obtain b m where
    m: "checkpoint_of sample_state (\<lambda>c. c) prepared_world = Some (b, m)"
    and typed: "\<forall>u pc. m u = Some pc \<longrightarrow>
       (c_CheckpointState pc = Completed \<longrightarrow> (\<exists>ds. GetDevices (c_PreparedDevices pc) = Inr ds)) \<and>
       (c_CheckpointState pc = Completed \<or> \<not> ds_Enabled sample_state HAMiCoreSupport \<longrightarrow>
          (\<exists>al. st_Allocation (c_Status pc) = Some al))" by blast
  with sample_uses [OF m] show ?thesis unfolding uses_device_def by blast
qed

end
