(* ===== verification/CdiHandler.thy ===== *)
theory CdiHandler
  imports Cdi
begin

text \<open>
  Making the CDI handler (\<open>NewCDIHandler\<close> in \<open>cdi.go\<close>, the options of \<open>cdioptions.go\<close>): an option is an
  update of the handler record. The loggers and the libraries nvml, nvlib and nvcdi are parameters; a
  pointer or interface is an option type.
\<close>

section \<open>The handler and its options\<close>

record ('log, 'nv, 'dev, 'lib) CDIHandler =
  h_logger :: "'log option"
  h_nvml :: "'nv option"
  h_nvdevice :: "'dev option"
  h_nvcdiClaim :: "'lib option"
  h_driverRoot :: string
  h_devRoot :: string
  h_targetDriverRoot :: string
  h_nvidiaCDIHookPath :: string
  h_specCache :: "(string \<times> cache_value \<times> nat) list option"
  h_cdiRoot :: string

type_synonym ('log, 'nv, 'dev, 'lib) cdiOption =
  "('log, 'nv, 'dev, 'lib) CDIHandler \<Rightarrow> ('log, 'nv, 'dev, 'lib) CDIHandler"

definition WithDriverRoot :: "string \<Rightarrow> ('log, 'nv, 'dev, 'lib) cdiOption" where
  "WithDriverRoot root c = c\<lparr>h_driverRoot := root\<rparr>"

definition WithDevRoot :: "string \<Rightarrow> ('log, 'nv, 'dev, 'lib) cdiOption" where
  "WithDevRoot root c = c\<lparr>h_devRoot := root\<rparr>"

definition WithTargetDriverRoot :: "string \<Rightarrow> ('log, 'nv, 'dev, 'lib) cdiOption" where
  "WithTargetDriverRoot root c = c\<lparr>h_targetDriverRoot := root\<rparr>"

definition WithCDIRoot :: "string \<Rightarrow> ('log, 'nv, 'dev, 'lib) cdiOption" where
  "WithCDIRoot root c = c\<lparr>h_cdiRoot := root\<rparr>"

definition WithNVIDIACDIHookPath :: "string \<Rightarrow> ('log, 'nv, 'dev, 'lib) cdiOption" where
  "WithNVIDIACDIHookPath path c = c\<lparr>h_nvidiaCDIHookPath := path\<rparr>"

definition WithNvml :: "'nv option \<Rightarrow> ('log, 'nv, 'dev, 'lib) cdiOption" where
  "WithNvml nvml c = c\<lparr>h_nvml := nvml\<rparr>"

definition WithDeviceLib :: "'dev option \<Rightarrow> ('log, 'nv, 'dev, 'lib) cdiOption" where
  "WithDeviceLib nvdevice c = c\<lparr>h_nvdevice := nvdevice\<rparr>"

definition WithLogger :: "'log option \<Rightarrow> ('log, 'nv, 'dev, 'lib) cdiOption" where
  "WithLogger logger c = c\<lparr>h_logger := logger\<rparr>"

lemmas cdi_options = WithDriverRoot_def WithDevRoot_def WithTargetDriverRoot_def WithCDIRoot_def
  WithNVIDIACDIHookPath_def WithNvml_def WithDeviceLib_def WithLogger_def

section \<open>The constructor\<close>

text \<open>What \<open>nvcdi.New\<close> is given.\<close>

record ('log, 'nv, 'dev) nvcdi_options =
  no_DeviceLib :: 'dev
  no_DriverRoot :: string
  no_DevRoot :: string
  no_Logger :: 'log
  no_NvmlLib :: 'nv
  no_Mode :: string
  no_Vendor :: string
  no_Class :: string
  no_NVIDIACDIHookPath :: string
  no_DisableNvsandboxUtils :: bool

record ('log, 'nv, 'dev, 'lib) cdi_libs =
  logrus_New :: 'log
  log_Discard :: "'log \<Rightarrow> 'log"
  nvml_New :: 'nv
  nvdevice_New :: "'nv \<Rightarrow> 'dev"
  nvcdi_New :: "('log, 'nv, 'dev) nvcdi_options \<Rightarrow> err + 'lib"

definition defaultCDIRoot :: string where
  "defaultCDIRoot = ''/var/run/cdi''"

definition or_else :: "'a option \<Rightarrow> 'a \<Rightarrow> 'a" where
  "or_else x d = (case x of Some v \<Rightarrow> v | None \<Rightarrow> d)"

definition NewCDIHandler ::
    "('log, 'nv, 'dev, 'lib) cdi_libs \<Rightarrow> ('log, 'nv, 'dev, 'lib) cdiOption list \<Rightarrow> ('log, 'nv, 'dev, 'lib) CDIHandler res" where
  "NewCDIHandler L opts =
     (let h = fold (\<lambda>opt h. opt h) opts
           \<lparr>h_logger = None, h_nvml = None, h_nvdevice = None, h_nvcdiClaim = None, h_driverRoot = '''', h_devRoot = '''',
            h_targetDriverRoot = '''', h_nvidiaCDIHookPath = '''', h_specCache = None, h_cdiRoot = ''''\<rparr>;
          logger = or_else (h_logger h) (log_Discard L (logrus_New L));
          nvml = or_else (h_nvml h) (nvml_New L);
          nvdevice = or_else (h_nvdevice h) (nvdevice_New L nvml);
          h = h\<lparr>h_logger := Some logger, h_nvml := Some nvml, h_nvdevice := Some nvdevice,
                h_cdiRoot := (if h_cdiRoot h = '''' then defaultCDIRoot else h_cdiRoot h)\<rparr>
      in res_seq
           (case h_nvcdiClaim h of
              Some lib \<Rightarrow> Inr lib
            | None \<Rightarrow>
                (case nvcdi_New L
                   \<lparr>no_DeviceLib = nvdevice, no_DriverRoot = h_driverRoot h, no_DevRoot = h_devRoot h,
                    no_Logger = logger, no_NvmlLib = nvml, no_Mode = ''nvml'', no_Vendor = cdiVendor,
                    no_Class = cdiClaimClass, no_NVIDIACDIHookPath = h_nvidiaCDIHookPath h, no_DisableNvsandboxUtils = True\<rparr> of
                   Inl e \<Rightarrow> Inl (Failed (Wrap ''unable to create CDI library for claims'' e))
                 | Inr lib \<Rightarrow> Inr lib))
           (\<lambda>lib. Inr (h\<lparr>h_nvcdiClaim := Some lib, h_specCache := Some []\<rparr>)))"

text \<open>The options the device state passes.\<close>

definition state_options ::
    "('log, 'nv, 'dev, 'lib) cdi_libs \<Rightarrow> int \<Rightarrow> 'nv \<Rightarrow> 'dev \<Rightarrow> string \<Rightarrow> string \<Rightarrow> string \<Rightarrow> string \<Rightarrow> string \<Rightarrow>
     ('log, 'nv, 'dev, 'lib) cdiOption list" where
  "state_options L klogVerbosity nvmllib nvdevlib containerDriverRoot devRoot hostDriverRoot cdiHook root =
     [WithNvml (Some nvmllib), WithDeviceLib (Some nvdevlib), WithDriverRoot containerDriverRoot, WithDevRoot devRoot,
      WithTargetDriverRoot hostDriverRoot, WithNVIDIACDIHookPath cdiHook, WithCDIRoot root,
      WithLogger (Some (if klogVerbosity < 7 then log_Discard L (logrus_New L) else logrus_New L))]"

text \<open>What the operations of \<open>Cdi\<close> read of a handler: \<open>run\<close> gives the methods of the nvcdi library and
  \<open>transform\<close> the rewriting of paths from one root to another.\<close>

definition handler_sys ::
    "('lib \<Rightarrow> ('n, container_edits) act \<times> (string \<Rightarrow> ('n, cdi_device list) act)) \<Rightarrow>
     (string \<Rightarrow> string \<Rightarrow> string \<Rightarrow> cdi_spec \<Rightarrow> err + cdi_spec) \<Rightarrow>
     ('log, 'nv, 'dev, 'lib) CDIHandler \<Rightarrow> 'n cdi_sys \<Rightarrow> 'n cdi_sys" where
  "handler_sys run transform h C =
     (case h_nvcdiClaim h of
        None \<Rightarrow> C
      | Some lib \<Rightarrow> C\<lparr>nvcdi_GetCommonEdits := fst (run lib), nvcdi_GetDeviceSpecsByID := snd (run lib),
          spec_Transform := transform (h_driverRoot h) (h_targetDriverRoot h) ''host'', cdiRoot := join_path [] [h_cdiRoot h]\<rparr>)"

text \<open>The handler of the device state writes below the directory of the flag, its paths are those below the
  container's driver root as seen below the host's, and the nvcdi library it uses is made for these roots.\<close>

lemma state_handler:
  assumes "NewCDIHandler L (state_options L v nvml dev croot devRoot hroot hook root) = Inr h" and "root \<noteq> ''''"
  shows "h_cdiRoot h = root \<and> h_driverRoot h = croot \<and> h_targetDriverRoot h = hroot \<and> h_specCache h = Some [] \<and>
     (\<exists>lib opts. h_nvcdiClaim h = Some lib \<and> nvcdi_New L opts = Inr lib \<and> no_DriverRoot opts = croot \<and>
        no_DevRoot opts = devRoot \<and> no_NvmlLib opts = nvml \<and> no_DeviceLib opts = dev \<and>
        no_Vendor opts = cdiVendor \<and> no_Class opts = cdiClaimClass)"
  using assms
  by (force simp: NewCDIHandler_def state_options_def cdi_options or_else_def Let_def res_seq_def split: sum.splits)

text \<open>Whatever the options, a handler has everything its operations dereference.\<close>

lemma handler_complete:
  assumes "NewCDIHandler L opts = Inr h"
  shows "h_logger h \<noteq> None \<and> h_nvml h \<noteq> None \<and> h_nvdevice h \<noteq> None \<and> h_nvcdiClaim h \<noteq> None \<and>
     h_specCache h \<noteq> None \<and> h_cdiRoot h \<noteq> ''''"
  using assms
  by (auto simp: NewCDIHandler_def Let_def res_seq_def defaultCDIRoot_def split: sum.splits if_splits)

end
