(* ===== verification/Discovery.thy ===== *)
theory Discovery
  imports NvEnum
begin

text \<open>
  What \<open>enumerateAllPossibleDevices\<close> finds: one device per name, each filed under its own name, grouped by GPU,
  and only of the types the feature gates ask for. Each part of the discovery is followed by what it
  guarantees of the maps it returns.
\<close>

section \<open>Going through a list\<close>

lemma fold_act_invariant:
  assumes "fold_act f xs b w = (Inr b', w')" and "I b"
    and "\<And>x b w b' w'. x \<in> set xs \<Longrightarrow> I b \<Longrightarrow> f x b w = (Inr b', w') \<Longrightarrow> I b'"
  shows "I b'"
  using assms
proof (induction xs arbitrary: b w)
  case (Cons x xs)
  from Cons.prems(1) obtain b1 w1 where step: "f x b w = (Inr b1, w1)" "fold_act f xs b1 w1 = (Inr b', w')"
    by (auto simp: seq_Inr)
  then have "I b1" using Cons.prems(3) [of x b w b1 w1] Cons.prems(2) by simp
  with step(2) show ?case
    by (rule Cons.IH) (use Cons.prems(3) in \<open>meson list.set_intros(2)\<close>)
qed (simp add: ret_def)

lemma VisitDevices_invariant:
  assumes "VisitDevices V f b l = (Inr b', l')" and "I b"
    and "\<And>i d b l b' l'. I b \<Longrightarrow> f i d b l = (Inr b', l') \<Longrightarrow> I b'"
  shows "I b'"
proof -
  from assms(1) obtain ds l1 where "fold_act (\<lambda>e b. seq (entry_act e) (\<lambda>(i, d). f i d b)) ds b l1 = (Inr b', l')"
    by (auto simp: VisitDevices_def seq_Inr)
  then show ?thesis
    by (rule fold_act_invariant [where I = I, OF _ assms(2)])
       (use assms(3) in \<open>fastforce simp: seq_Inr split: prod.splits\<close>)
qed

lemma ensureNVML_Inr:
  assumes "ensureNVML V Enabled (\<lambda>_. throw e) body l = (Inr x, l')"
  obtains l1 l2 where "body l1 = (Inr x, l2)"
proof (cases "Enabled DynamicMIG")
  case False
  with assms obtain r :: "nvml_return + unit" and l1 where "(case r of Inl _ \<Rightarrow> throw e | Inr _ \<Rightarrow> deferring (alwaysShutdown V) body) l1 = (Inr x, l')"
    by (auto simp: ensureNVML_def seq_Inr)
  then show thesis by (cases r) (auto simp: throw_def deferring_result intro: that)
qed (use assms that in \<open>simp add: ensureNVML_def\<close>)

section \<open>Well-formed maps\<close>

text \<open>The minor number of the GPU a device is or belongs to.\<close>

definition device_minor :: "AllocatableDevice \<Rightarrow> int option" where
  "device_minor d =
     (case Type d of
        HAMiGpuDeviceType \<Rightarrow> map_option (\<lambda>h. g_minor (h_GpuInfo h)) (ad_HAMiGpu d)
      | GpuDeviceType \<Rightarrow> map_option g_minor (ad_Gpu d)
      | MigStaticDeviceType \<Rightarrow> map_option md_ParentMinor (ad_MigStatic d)
      | MigDynamicDeviceType \<Rightarrow> map_option (\<lambda>s. g_minor (sp_Parent s)) (ad_MigDynamic d)
      | _ \<Rightarrow> None)"

text \<open>A map of devices of some kind, one per name, each under its name, and the groups of such maps.\<close>

definition device_map :: "(AllocatableDevice \<Rightarrow> bool) \<Rightarrow> AllocatableDevices \<Rightarrow> bool" where
  "device_map P ds \<longleftrightarrow> wf_allocatable ds \<and> (\<forall>(k, d) \<in> set ds. P d)"

definition of_gpu :: "DeviceType set \<Rightarrow> int \<Rightarrow> AllocatableDevice \<Rightarrow> bool" where
  "of_gpu T minor d \<longleftrightarrow> Type d \<in> T \<and> device_minor d = Some minor"

definition gpu_maps :: "DeviceType set \<Rightarrow> PerGPUMinorAllocatableDevices \<Rightarrow> bool" where
  "gpu_maps T m \<longleftrightarrow> distinct (map fst m) \<and> (\<forall>(minor, ds) \<in> set m. device_map (of_gpu T minor) ds)"

lemma device_map_Nil [simp]: "device_map P []"
  by (simp add: device_map_def wf_allocatable_def)

lemma gpu_maps_Nil [simp]: "gpu_maps T []"
  by (simp add: gpu_maps_def)

lemma device_map_mono: "device_map P ds \<Longrightarrow> (\<And>d. P d \<Longrightarrow> Q d) \<Longrightarrow> device_map Q ds"
  by (auto simp: device_map_def)

lemma device_map_update:
  "device_map P ds \<Longrightarrow> CanonicalName d = Inr k \<Longrightarrow> P d \<Longrightarrow> device_map P (AList.update k d ds)"
  using set_alist_update [of k d ds] by (fastforce simp: device_map_def wf_update)

lemma gpu_maps_update:
  "gpu_maps T m \<Longrightarrow> device_map (of_gpu T minor) ds \<Longrightarrow> gpu_maps T (AList.update minor ds m)"
  using set_alist_update [of minor ds m] by (fastforce simp: gpu_maps_def AList.distinct_update)

lemma device_map_updates:
  "device_map P m \<Longrightarrow> device_map P ds \<Longrightarrow> device_map P (AList.updates (map fst ds) (map snd ds) m)"
proof (induction ds arbitrary: m)
  case (Cons e ds)
  obtain k d where e: "e = (k, d)" by (cases e)
  have "device_map P ds" and "CanonicalName d = Inr k" and "P d"
    using Cons.prems(2) by (auto simp: e device_map_def wf_allocatable_def)
  with device_map_update [OF Cons.prems(1)] show ?case by (simp add: e Cons.IH)
qed simp

text \<open>The one map of all GPUs that the code flattens the groups into.\<close>

definition flatten :: "PerGPUMinorAllocatableDevices \<Rightarrow> AllocatableDevices" where
  "flatten m = fold (\<lambda>(_, devices) m. AList.updates (map fst devices) (map snd devices) m) m []"

lemma fold_flatten_map:
  assumes "\<forall>(minor, ds) \<in> set m. device_map P ds" and "device_map P acc"
  shows "device_map P (fold (\<lambda>(_, devices) m. AList.updates (map fst devices) (map snd devices) m) m acc)"
  using assms by (induction m arbitrary: acc) (auto simp: device_map_updates)

lemma flatten_map: "gpu_maps T m \<Longrightarrow> device_map (\<lambda>d. Type d \<in> T) (flatten m)"
proof -
  assume m: "gpu_maps T m"
  have "device_map (\<lambda>d. Type d \<in> T) ds" if "(minor, ds) \<in> set m" for minor ds
  proof -
    from m that have "device_map (of_gpu T minor) ds" by (auto simp: gpu_maps_def)
    then show ?thesis by (rule device_map_mono) (simp add: of_gpu_def)
  qed
  then have "\<forall>(minor, ds) \<in> set m. device_map (\<lambda>d. Type d \<in> T) ds" by blast
  from fold_flatten_map [OF this device_map_Nil] show "device_map (\<lambda>d. Type d \<in> T) (flatten m)"
    by (simp only: flatten_def)
qed

lemma updates_keys: "fst ` set (AList.updates (map fst ds) (map snd ds) acc) = fst ` set acc \<union> fst ` set ds"
proof (induction ds arbitrary: acc)
  case (Cons e ds)
  have "fst ` set (AList.update k v acc) = insert k (fst ` set acc)" for k v
    by (simp only: dom_map_of_conv_image_fst [symmetric] AList.update_conv') auto
  with Cons show ?case by auto
qed simp

lemma fold_flatten_keys:
  "fst ` set (fold (\<lambda>(_, devices) m. AList.updates (map fst devices) (map snd devices) m) m acc) =
     fst ` set acc \<union> (\<Union>(minor, ds) \<in> set m. fst ` set ds)"
proof (induction m arbitrary: acc)
  case (Cons e m)
  then show ?case by (cases e) (simp only: fold_simps(2) o_apply prod.case updates_keys list.set UN_insert Un_assoc)
qed simp

lemma flatten_keys: "fst ` set (flatten m) = (\<Union>(minor, ds) \<in> set m. fst ` set ds)"
  by (simp add: flatten_def fold_flatten_keys)

lemma fold_flatten_sub:
  "set (fold (\<lambda>(_, devices) m. AList.updates (map fst devices) (map snd devices) m) m acc) \<subseteq>
     set acc \<union> (\<Union>(minor, ds) \<in> set m. set ds)"
proof (induction m arbitrary: acc)
  case (Cons e m)
  have "set (AList.updates (map fst ds) (map snd ds) acc) \<subseteq> set acc \<union> set ds" for ds acc
  proof (induction ds arbitrary: acc)
    case (Cons d ds)
    with set_alist_update [of "fst d" "snd d" acc] show ?case by fastforce
  qed simp
  with Cons.IH show ?case by (cases e) (simp, blast)
qed simp

lemma flatten_sub: "set (flatten m) \<subseteq> (\<Union>(minor, ds) \<in> set m. set ds)"
  using fold_flatten_sub [of m "[]"] by (simp add: flatten_def)

section \<open>What the discovery finds\<close>

lemma named_Inr: "named d w = (Inr nd, w') \<longleftrightarrow> (\<exists>n. CanonicalName d = Inr n \<and> nd = (n, d)) \<and> w' = w"
  by (auto simp: named_def seq_Inr lift_res_Inr ret_def)

lemma insert_named_map:
  assumes "insert_named ds w = (Inr m, w')" and "list_all P ds"
  shows "device_map P m"
  using assms(1) unfolding insert_named_def
  by (rule fold_act_invariant [where I = "device_map P"])
     (use assms(2) in \<open>auto simp: seq_Inr named_Inr ret_def list_all_iff intro: device_map_update\<close>)

text \<open>The types the gates ask for.\<close>

definition discovered_types :: "gates \<Rightarrow> DeviceType set" where
  "discovered_types Enabled =
     (if Enabled HAMiCoreSupport then {HAMiGpuDeviceType}
      else if Enabled DynamicMIG then {GpuDeviceType, MigDynamicDeviceType}
      else {GpuDeviceType, MigStaticDeviceType})"

lemma Type_of_new [simp]:
  "Type (no_device\<lparr>ad_Gpu := Some g\<rparr>) = GpuDeviceType"
  "Type (no_device\<lparr>ad_MigStatic := Some m\<rparr>) = MigStaticDeviceType"
  "Type (no_device\<lparr>ad_MigDynamic := Some s\<rparr>) = MigDynamicDeviceType"
  by (simp_all add: Type_def no_device_def)

lemma device_minor_of_new [simp]:
  "device_minor (no_device\<lparr>ad_Gpu := Some g\<rparr>) = Some (g_minor g)"
  "device_minor (no_device\<lparr>ad_MigStatic := Some m\<rparr>) = Some (md_ParentMinor m)"
  "device_minor (no_device\<lparr>ad_MigDynamic := Some s\<rparr>) = Some (g_minor (sp_Parent s))"
  by (simp_all add: device_minor_def)

lemma mig_device_minor:
  "mig_device_info V g d m l = (Inr i, l') \<Longrightarrow> md_ParentMinor i = g_minor g"
  by (auto simp: mig_device_info_def seq_Inr ret_def throw_def split: option.splits)

lemma getMigDevices_minor:
  assumes "getMigDevices V Enabled g l = (Inr migs, l')"
  shows "\<forall>(u, i) \<in> set migs. md_ParentMinor i = g_minor g" (is "?I migs")
proof (cases "g_migEnabled g")
  case True
  from assms True obtain d l1 l2 where walk: "walkMigDevices V d (\<lambda>i migDevice infos.
      seq (mig_device_info V g d migDevice) (\<lambda>info. ret (AList.update (md_UUID info) info infos))) [] l1 = (Inr migs, l2)"
    by (auto simp: getMigDevices_def seq_Inr wrapping_Inr elim!: ensureNVML_Inr)
  then obtain count l3 where "fold_act (\<lambda>i b. seq (nv (nv_GetMigDeviceHandleByIndex V d i)) (\<lambda>r. case r of
      Inl e \<Rightarrow> if e = ERROR_NOT_FOUND \<or> e = ERROR_INVALID_ARGUMENT then ret b
              else throw (Err ''error getting MIG device handle at index'')
    | Inr device \<Rightarrow> seq (mig_device_info V g d device) (\<lambda>info. ret (AList.update (md_UUID info) info b))))
      [0..<count] [] l3 = (Inr migs, l2)"
    by (auto simp: walkMigDevices_def seq_Inr)
  then show ?thesis
  proof (rule fold_act_invariant [where I = ?I])
    fix i b w b' w'
    assume "?I b" and step: "seq (nv (nv_GetMigDeviceHandleByIndex V d i)) (\<lambda>r. case r of
      Inl e \<Rightarrow> if e = ERROR_NOT_FOUND \<or> e = ERROR_INVALID_ARGUMENT then ret b
              else throw (Err ''error getting MIG device handle at index'')
    | Inr device \<Rightarrow> seq (mig_device_info V g d device) (\<lambda>info. ret (AList.update (md_UUID info) info b))) w = (Inr b', w')"
    from step obtain r w1 where r: "(case r of
      Inl e \<Rightarrow> if e = ERROR_NOT_FOUND \<or> e = ERROR_INVALID_ARGUMENT then ret b
              else throw (Err ''error getting MIG device handle at index'')
    | Inr device \<Rightarrow> seq (mig_device_info V g d device) (\<lambda>info. ret (AList.update (md_UUID info) info b))) w1 = (Inr b', w')"
      unfolding seq_Inr by blast
    show "?I b'"
    proof (cases r)
      case (Inl e)
      with r \<open>?I b\<close> show ?thesis by (auto simp: ret_def throw_def split: if_splits)
    next
      case (Inr device)
      with r obtain info w2 where "mig_device_info V g d device w1 = (Inr info, w2)" "b' = AList.update (md_UUID info) info b"
        by (auto simp: seq_Inr ret_def)
      with \<open>?I b\<close> mig_device_minor set_alist_update [of "md_UUID info" info b] show ?thesis by fastforce
    qed
  qed simp
qed (use assms in \<open>simp add: getMigDevices_def ret_def\<close>)

lemma discoverMigDevices_of_gpu:
  "discoverMigDevicesByGPU V Enabled g l = (Inr ds, l') \<Longrightarrow> list_all (of_gpu {GpuDeviceType, MigStaticDeviceType} (g_minor g)) ds"
  by (fastforce simp: discoverMigDevicesByGPU_def seq_Inr ret_def of_gpu_def list_all_iff wrapping_Inr dest!: getMigDevices_minor)

lemma inspected_of_gpu:
  "inspectMigProfilesAndPlacements V g d l = (Inr (specs, gpu), l') \<Longrightarrow>
   g_minor gpu = g_minor g \<and> (\<forall>s \<in> set specs. sp_Parent s = gpu)"
  by (auto simp: inspectMigProfilesAndPlacements_def seq_Inr ret_def Let_def walked_gpu_def AddDetailAfterWalkingMigProfiles_def)

lemma filed_map:
  assumes "seq (insert_named ds) (\<lambda>m. ret (AList.update minor m acc)) w = (Inr acc', w')"
    and "list_all (of_gpu T minor) ds" and "gpu_maps T acc"
  shows "gpu_maps T acc'"
  using assms by (auto simp: seq_Inr ret_def intro: gpu_maps_update insert_named_map)

lemma gpu_devices_map:
  assumes "gpu_devices V Enabled i d acc l = (Inr acc', l')" and acc: "gpu_maps (discovered_types Enabled) acc"
  shows "gpu_maps (discovered_types Enabled) acc'"
proof -
  note branches = assms(1) [unfolded gpu_devices_def Let_def]
  note steps = seq_Inr [where m = "wrapping m a" for m a] seq_Inr [where m = "remember_gpu g" for g] wrapping_Inr
  consider (hami) "Enabled HAMiCoreSupport" | (dynamic) "\<not> Enabled HAMiCoreSupport" "Enabled DynamicMIG"
    | (static) "\<not> Enabled HAMiCoreSupport" "\<not> Enabled DynamicMIG" by blast
  then show ?thesis
  proof cases
    case hami
    with branches obtain g w where filed: "seq (insert_named [no_device\<lparr>ad_HAMiGpu := Some (HAMiGpuInfo
          (g\<lparr>g_vfioEnabled := False, g_maxCapacities := [], g_memSliceCount := 0\<rparr>)), ad_Gpu := None\<rparr>])
        (\<lambda>m. ret (AList.update (g_minor g) m acc)) w = (Inr acc', l')"
      by (auto simp: steps seq_Inr [where m = "lift_res r" for r] lift_res_Inr wrapHAMiCoreGpu_def res_seq_Inr)
    with filed_map [OF filed _ acc] hami show ?thesis
      by (simp add: discovered_types_def of_gpu_def device_minor_def Type_def no_device_def)
  next
    case dynamic
    with branches obtain g specs gpu w1 w where insp: "inspectMigProfilesAndPlacements V g d w1 = (Inr (specs, gpu), w)"
      and filed: "seq (insert_named (no_device\<lparr>ad_Gpu := Some gpu\<rparr> # map (\<lambda>s. no_device\<lparr>ad_MigDynamic := Some s\<rparr>) specs))
          (\<lambda>m. ret (AList.update (g_minor g) m acc)) w = (Inr acc', l')"
      by (auto simp: steps seq_Inr [where m = "DeviceGetHandleByUUID V Enabled u" for u])
    from inspected_of_gpu [OF insp] filed_map [OF filed _ acc] dynamic show ?thesis
      by (simp add: discovered_types_def of_gpu_def list_all_iff)
  next
    case static
    with branches obtain g migs w1 w where found: "discoverMigDevicesByGPU V Enabled g w1 = (Inr migs, w)"
      and filed: "(let gpu = if Enabled PassthroughSupport then g\<lparr>g_vfioEnabled := migs = []\<rparr> else g in
        if \<not> g_migEnabled g then seq (insert_named [no_device\<lparr>ad_Gpu := Some gpu\<rparr>]) (\<lambda>m. ret (AList.update (g_minor g) m acc))
        else seq (insert_named migs) (\<lambda>m. ret (AList.update (g_minor g) m acc))) w = (Inr acc', l')"
      unfolding Let_def by (auto simp: steps simp del: if_split)
    have T: "discovered_types Enabled = {GpuDeviceType, MigStaticDeviceType}" using static by (simp add: discovered_types_def)
    show ?thesis
    proof (cases "g_migEnabled g")
      case True
      with filed_map [OF _ discoverMigDevices_of_gpu [OF found] acc [unfolded T]] filed show ?thesis
        by (simp add: T Let_def)
    next
      case False
      with filed have "seq (insert_named [no_device\<lparr>ad_Gpu := Some (if Enabled PassthroughSupport
          then g\<lparr>g_vfioEnabled := migs = []\<rparr> else g)\<rparr>]) (\<lambda>m. ret (AList.update (g_minor g) m acc)) w = (Inr acc', l')"
        by (simp add: Let_def)
      from filed_map [OF this _ acc] show ?thesis by (simp add: T of_gpu_def)
    qed
  qed
qed

lemma GetPerGpuAllocatableDevices_maps:
  assumes "GetPerGpuAllocatableDevices V Enabled indices l = (Inr m, l')"
  shows "gpu_maps (discovered_types Enabled) m"
proof -
  from assms obtain l1 l2 where "VisitDevices V (\<lambda>i d acc.
      if (case indices of None \<Rightarrow> False | Some is \<Rightarrow> i \<notin> set is) then ret acc else gpu_devices V Enabled i d acc) [] l1 = (Inr m, l2)"
    unfolding GetPerGpuAllocatableDevices_def by (rule ensureNVML_Inr) (auto simp: wrapping_Inr)
  then show ?thesis
    by (rule VisitDevices_invariant) (auto simp: ret_def split: if_splits intro: gpu_devices_map)
qed

text \<open>No PCI device is matched with a GPU, because the map of GPUs looked through is empty.\<close>

lemma no_passthrough_found:
  assumes "enumerateGpuPciDevices V devs l = (Inr m, l')"
  shows "m = []"
  using assms
  by (auto simp: enumerateGpuPciDevices_def Let_def seq_Inr ret_def
      elim!: fold_act_invariant [where I = "\<lambda>m. m = []"])

section \<open>Names tell the GPU\<close>

lemma starts_with_digit: "0 \<le> i \<Longrightarrow> \<exists>c cs. int_str i = c # cs \<and> is_digit c"
  using int_str_digits [of i] by (cases "int_str i") (auto simp: all_digits_def)

text \<open>A number and what follows it, which is nothing or starts with a hyphen.\<close>

lemma int_str_split:
  assumes "int_str i @ r = int_str j @ s" and "r = [] \<or> hd r = CHR ''-''" and "s = [] \<or> hd s = CHR ''-''"
  shows "i = j"
proof -
  have read: "takeWhile is_digit (int_str k @ t) = int_str k" if "0 \<le> k" "t = [] \<or> hd t = CHR ''-''" for k t
    using int_str_digits [OF that(1)] that(2)
    by (cases t) (auto simp: all_digits_def list_all_iff takeWhile_append2 is_digit_def)
  have neg: "int_str k = CHR ''-'' # int_str (- k)" if "k < 0" for k using that by (simp add: int_str_def)
  have dash: "\<not> is_digit (CHR ''-'')" by code_simp
  consider "0 \<le> i" "0 \<le> j" | "i < 0" "j < 0" | "i < 0" "0 \<le> j" | "0 \<le> i" "j < 0" by linarith
  then show ?thesis
  proof cases
    case 1
    with assms read show ?thesis by (metis int_str_inject)
  next
    case 2
    with assms read [of "- i" r] read [of "- j" s] have "int_str (- i) = int_str (- j)" by (simp add: neg)
    then show ?thesis by simp
  next
    case 3
    with starts_with_digit obtain c cs where "int_str j = c # cs" "is_digit c" by blast
    with assms(1) neg [OF 3(1)] dash show ?thesis by simp
  next
    case 4
    with starts_with_digit obtain c cs where "int_str i = c # cs" "is_digit c" by blast
    with assms(1) neg [OF 4(2)] dash show ?thesis by simp
  qed
qed

lemma gpu_name_shape:
  assumes "CanonicalName d = Inr n" and "Type d \<in> {GpuDeviceType, MigStaticDeviceType, MigDynamicDeviceType}"
  shows "\<exists>minor r. device_minor d = Some minor \<and> n = ''gpu-'' @ int_str minor @ r \<and> (r = [] \<or> hd r = CHR ''-'')"
  using assms
  by (auto simp: CanonicalName_def device_minor_def deref_def res_seq_Inr Gpu_CanonicalName_def MigDevice_CanonicalName_def
      MigSpec_CanonicalName_def ToCanonicalName_def Let_def SpecTuple_def MigSpec_Tuple_def
      split: DeviceType.splits option.splits)

lemma same_name_same_gpu:
  assumes "CanonicalName d = Inr n" and "CanonicalName e = Inr n"
    and "of_gpu (discovered_types Enabled) i d" and "of_gpu (discovered_types Enabled) j e"
  shows "i = j"
proof (cases "Enabled HAMiCoreSupport")
  case True
  with assms show ?thesis
    by (auto simp: of_gpu_def discovered_types_def CanonicalName_def device_minor_def deref_def res_seq_Inr
        HAMiGpu_CanonicalName_def split: option.splits)
next
  case False
  with assms(3,4) have "Type d \<in> {GpuDeviceType, MigStaticDeviceType, MigDynamicDeviceType}"
    "Type e \<in> {GpuDeviceType, MigStaticDeviceType, MigDynamicDeviceType}" and minors: "device_minor d = Some i" "device_minor e = Some j"
    by (auto simp: of_gpu_def discovered_types_def split: if_splits)
  with gpu_name_shape [OF assms(1)] gpu_name_shape [OF assms(2)] show ?thesis
    by (auto dest: int_str_split)
qed

lemma flatten_exact:
  assumes "gpu_maps (discovered_types Enabled) m"
  shows "map_of (flatten m) k = Some d \<longleftrightarrow> (\<exists>(minor, ds) \<in> set m. map_of ds k = Some d)"
proof -
  let ?T = "discovered_types Enabled"
  have group: "distinct (map fst ds)" "(k, d) \<in> set ds \<Longrightarrow> CanonicalName d = Inr k \<and> of_gpu ?T minor d"
    if "(minor, ds) \<in> set m" for minor ds k d
    using assms that by (auto simp: gpu_maps_def device_map_def wf_allocatable_def list_all_iff)
  have one: "distinct (map fst (flatten m))"
    using flatten_map [OF assms] by (simp add: device_map_def wf_allocatable_def)
  show ?thesis
  proof
    assume "map_of (flatten m) k = Some d"
    with flatten_sub [of m] obtain minor ds where ds: "(minor, ds) \<in> set m" "(k, d) \<in> set ds"
      by (blast dest: map_of_SomeD)
    with group(1) have "map_of ds k = Some d" by (meson map_of_is_SomeI)
    with ds(1) show "\<exists>(minor, ds) \<in> set m. map_of ds k = Some d" by blast
  next
    assume "\<exists>(minor, ds) \<in> set m. map_of ds k = Some d"
    then obtain minor ds where ds: "(minor, ds) \<in> set m" "(k, d) \<in> set ds" by (auto dest: map_of_SomeD)
    then have "k \<in> fst ` set (flatten m)" unfolding flatten_keys by force
    then obtain e where e: "(k, e) \<in> set (flatten m)" by auto
    with flatten_sub obtain j es where es: "(j, es) \<in> set m" "(k, e) \<in> set es" by blast
    with group(2) ds have "minor = j" by (meson same_name_same_gpu)
    with ds es assms have "ds = es" by (auto simp: gpu_maps_def dest: eq_key_imp_eq_value)
    with ds es group(1) have "e = d" by (meson eq_key_imp_eq_value)
    with e one show "map_of (flatten m) k = Some d" by simp
  qed
qed

section \<open>Properties\<close>

text \<open>C38: Discovery yields what the rest of the driver relies on. When it succeeds, the map of all devices has
  one entry per name, under the device's own name; the devices are grouped under the minor numbers of their
  GPUs, one group per GPU; the map of all devices is exactly the union of the groups, so what is announced
  from the groups is what Prepare looks up; and the types are those of the feature gates. In
  particular no passthrough device is ever found at startup.\<close>

theorem discovered_devices:
  assumes "enumerateAllPossibleDevices V Enabled l = (Inr (allDevices, perGPU), l')"
  shows "wf_allocatable allDevices \<and> distinct (map fst perGPU) \<and>
     (\<forall>(minor, ds) \<in> set perGPU. wf_allocatable ds \<and> (\<forall>(k, d) \<in> set ds. device_minor d = Some minor)) \<and>
     (\<forall>k d. map_of allDevices k = Some d \<longleftrightarrow> (\<exists>(minor, ds) \<in> set perGPU. map_of ds k = Some d)) \<and>
     (\<forall>(k, d) \<in> set allDevices. Type d \<in> discovered_types Enabled)"
proof -
  from assms obtain m l1 l2 where m: "GetPerGpuAllocatableDevices V Enabled None l = (Inr m, l1)"
    and rest: "(if Enabled PassthroughSupport then
            seq (wrapping ''error enumerating GPU PCI devices'' (enumerateGpuPciDevices V m)) (\<lambda>passthrough.
            fold_act (\<lambda>(minor, ptdevs) acc.
              case map_of acc minor of
                None \<Rightarrow> if ptdevs = [] then ret acc else panic ''assignment to entry in nil map''
              | Some m \<Rightarrow> ret (AList.update minor (AList.updates (map fst ptdevs) (map snd ptdevs) m) acc))
              passthrough m)
          else ret m) l1 = (Inr perGPU, l2)" and all: "allDevices = flatten perGPU"
    unfolding enumerateAllPossibleDevices_def by (auto simp: seq_Inr wrapping_Inr ret_def flatten_def)
  have "perGPU = m"
    using rest by (auto simp: seq_Inr wrapping_Inr ret_def dest!: no_passthrough_found split: if_splits)
  with GetPerGpuAllocatableDevices_maps [OF m] have maps: "gpu_maps (discovered_types Enabled) perGPU" by simp
  from flatten_map [OF maps] have "wf_allocatable allDevices" "\<forall>(k, d) \<in> set allDevices. Type d \<in> discovered_types Enabled"
    by (auto simp: all device_map_def)
  moreover from maps have "distinct (map fst perGPU)"
    "\<forall>(minor, ds) \<in> set perGPU. wf_allocatable ds \<and> (\<forall>(k, d) \<in> set ds. device_minor d = Some minor)"
    by (auto simp: gpu_maps_def device_map_def of_gpu_def)
  ultimately show ?thesis using flatten_exact [OF maps] unfolding all by blast
qed

text \<open>An NVML with two GPUs.\<close>

definition two_gpus_nvml :: "unit nvml" where
  "two_gpus_nvml = ref_nvml\<lparr>nv_VisitDevices := (\<lambda>n. ([Inr (0, 0), Inr (1, 1)], n)),
     nv_GetMinorNumber := (\<lambda>h n. (Inr (int h), n)),
     nv_GetUUID := (\<lambda>h n. (Inr (''GPU-'' @ int_str (int h)), n)),
     nv_GetMemoryTotal := (\<lambda>h n. (Inr 1024, n)), nv_GetName := (\<lambda>h n. (Inr ''A100'', n)),
     nv_SystemGetDriverVersion := (\<lambda>n. (Inr ''550.0'', n)), nv_SystemGetCudaDriverVersion := (\<lambda>n. (Inr 12040, n))\<rparr>"

theorem discovered_devices_witness:
  "\<exists>al l'. enumerateAllPossibleDevices two_gpus_nvml defaultFeatureGates
       \<lparr>lb_hw = (), lb_gpuInfosByUUID = [], lb_gpuUUIDbyMinor = [], lb_devhandleByUUID = []\<rparr> = (Inr al, l') \<and>
     map fst (snd al) = [0, 1] \<and> map fst (fst al) = [''hami-gpu-'' @ int_str 0, ''hami-gpu-'' @ int_str 1] \<and> wf_allocatable (fst al)"
proof -
  let ?l = "\<lparr>lb_hw = (), lb_gpuInfosByUUID = [], lb_gpuUUIDbyMinor = [], lb_devhandleByUUID = []\<rparr>"
  obtain r l' where run: "enumerateAllPossibleDevices two_gpus_nvml defaultFeatureGates ?l = (r, l')" by fastforce
  then obtain a p where r: "r = Inr (a, p)" and names: "map fst p = [0, 1]" "map fst a = [''hami-gpu-'' @ int_str 0, ''hami-gpu-'' @ int_str 1]"
    by (auto simp: enumerateAllPossibleDevices_def GetPerGpuAllocatableDevices_def ensureNVML_def deferring_def
      VisitDevices_def gpu_devices_def getGpuInfo_def need_def nv_def act_defs on_def entry_act_def remember_gpu_def
      wrapHAMiCoreGpu_def insert_named_def named_def CanonicalName_def Type_def deref_def res_seq_def
      HAMiGpu_CanonicalName_def no_device_def alwaysShutdown_def two_gpus_nvml_def ref_nvml_def nv_yes_def nv_no_def Let_def)
  from discovered_devices [OF run [unfolded r]] run names show ?thesis by (auto simp: r)
qed

end
