(* ===== verification/CdiIds.thy ===== *)
theory CdiIds
  imports SamplePlugin CdiHandler Discovery
begin

text \<open>
  The CDI device IDs Prepare hands to the kubelet and the spec file it writes for the claim: an ID names
  a device of that file. This crosses preparing the devices, the names of the device maps and the CDI handler.
\<close>

section \<open>Names of the prepared devices\<close>

text \<open>A prepared device whose canonical name is the name the kubelet knows it by, and whose IDs are that of
  this name.\<close>

definition well_named :: "'n cdi_sys \<Rightarrow> string \<Rightarrow> PreparedDevice \<Rightarrow> bool" where
  "well_named C u d \<longleftrightarrow> (\<exists>k kd. PreparedDevice_CanonicalName d = Inr k \<and> plugin_device_of d = Inr (Some kd) \<and>
     kd_DeviceName kd = k \<and> set (kd_CDIDeviceIDs kd) \<subseteq> {cdi_QualifiedName C cdiVendor cdiClaimClass (u @ ''-'' @ k)})"

lemma prepared_name_simps [simp]:
  "PreparedDevice_CanonicalName (no_prepared\<lparr>pd_HAMiGpu := Some \<lparr>phg_Info = Some h, phg_Device = dev\<rparr>\<rparr>) = Inr (HAMiGpu_CanonicalName h)"
  "PreparedDevice_CanonicalName (no_prepared\<lparr>pd_Gpu := Some \<lparr>pg_Info = Some g, pg_Device = dev\<rparr>\<rparr>) = Inr (Gpu_CanonicalName g)"
  "PreparedDevice_CanonicalName (no_prepared\<lparr>pd_Mig := Some \<lparr>pm_Concrete = c, pm_Device = Some kd\<rparr>\<rparr>) = Inr (kd_DeviceName kd)"
  "PreparedDevice_CanonicalName (no_prepared\<lparr>pd_Vfio := Some \<lparr>pv_Info = Some v, pv_Device = dev\<rparr>\<rparr>) = Inr (Vfio_CanonicalName v)"
  by (simp_all add: PreparedDevice_CanonicalName_def PreparedDevice_Type_def no_prepared_def res_seq_def)

lemma prepare_device_well_named:
  assumes "prepare_device s claim x w = (Inr d, w')" and "wf_allocatable (w_allocatable w)"
  shows "well_named (ds_cdi s) (rc_UID claim) d"
proof -
  from prepare_device_ok [OF assms(1)] obtain adev name where a: "map_of (w_allocatable w) (ar_Device x) = Some adev"
    and n: "GetClaimDeviceName (ds_cdi s) (rc_UID claim) adev = Inr name"
    and kd: "plugin_device_of d = Inr (Some (expected_device s claim x name))" by blast
  from wf_allocatable_name [OF assms(2) map_of_SomeD [OF a]] have c: "CanonicalName adev = Inr (ar_Device x)" .
  then have name: "name = cdi_QualifiedName (ds_cdi s) cdiVendor cdiClaimClass (rc_UID claim @ ''-'' @ ar_Device x)"
    using n by (simp add: GetClaimDeviceName_def)
  have "PreparedDevice_CanonicalName d = Inr (ar_Device x)"
    using assms(1) a n c
    by (cases "Type adev")
      (auto simp: prepare_device_def seq_gets seq_basic run_basic seq_Inr lift_res_Inr ret_def Let_def CanonicalName_def
        res_seq_Inr deref_def unexpected_type_def split: option.splits)
  with kd name show ?thesis by (simp add: well_named_def expected_device_def)
qed

lemma entry_act_Inr: "entry_act e w = (Inr x, w') \<longleftrightarrow> e = Inr x \<and> w' = w"
  by (cases e) (auto simp: entry_act_def ret_def throw_def)

lemma collect_kept:
  assumes "collect f xs w = (Inr ys, w')" and "P w" and "\<And>x. keeps P (f x)"
  shows "list_all2 (\<lambda>x y. \<exists>w1 w2. P w1 \<and> f x w1 = (Inr y, w2)) xs ys \<and> P w'"
  using assms(1,2)
proof (induction xs arbitrary: ys w)
  case (Cons x xs)
  from Cons.prems(1) obtain y w1 zs where step: "f x w = (Inr y, w1)" "collect f xs w1 = (Inr zs, w')" "ys = y # zs"
    by (auto simp: seq_Inr ret_def)
  have "P w1" using keepsD [OF assms(3), of w x] Cons.prems(2) step(1) by simp
  with Cons.IH [OF step(2)] step Cons.prems(2) show ?case by auto
qed (simp add: ret_def)

lemma prepare_device_allocatable [keeps_intros]: "keeps (\<lambda>w. w_allocatable w = al) (prepare_device s claim x)"
  unfolding prepare_device_def Let_def
  by (auto intro!: keeps_intros split: DeviceType.split)

lemma prepare_group_well_named:
  assumes "prepare_group s claim cs rs w = (Inr g, w')" and "wf_allocatable (w_allocatable w)"
  shows "list_all (well_named (ds_cdi s) (rc_UID claim)) (grp_Devices g)"
proof -
  from assms(1) obtain w1 where "collect (prepare_device s claim) rs w = (Inr (grp_Devices g), w1)"
    by (auto simp: prepare_group_def seq_Inr lift_res_Inr ret_def)
  from collect_kept [OF this _ prepare_device_allocatable, of "w_allocatable w"]
  have "list_all2 (\<lambda>x y. \<exists>w1 w2. w_allocatable w1 = w_allocatable w \<and> prepare_device s claim x w1 = (Inr y, w2)) rs (grp_Devices g)"
    by simp
  with assms(2) prepare_device_well_named show ?thesis
    by (fastforce simp: list_all2_iff list_all_iff set_zip in_set_conv_nth)
qed

abbreviation al_same :: "AllocatableDevices \<Rightarrow> ('c, 'n, 'k) world \<Rightarrow> bool" where
  "al_same al \<equiv> \<lambda>w. w_allocatable w = al"

lemma al_frame_configure: "keeps (al_same al) (configure_group s claim co results)"
proof -
  have share: "keeps (al_same al) (applySharingConfig s sh claim results)" for sh
    unfolding applySharingConfig_def apply_hami_def apply_time_slicing_def apply_mps_def Mps_Start_def
    by (auto intro!: keeps_intros split: option.split sum.splits)
  have vfio: "keeps (al_same al) (applyVfioDeviceConfig s results)"
    unfolding applyVfioDeviceConfig_def by (auto intro!: keeps_intros)
  have "keeps (al_same al) (applyConfig s co' claim results)" for co'
    by (cases co') (simp_all add: share vfio)
  then show ?thesis unfolding configure_group_def by (cases co) (auto intro!: keeps_intros split: option.split)
qed

lemma al_frame_group: "keeps (al_same al) (prepare_group s claim cs rs)"
  unfolding prepare_group_def by (auto intro!: keeps_intros prepare_device_allocatable)

lemma prepareDevices_steps:
  assumes "prepareDevices s claim w = (Inr devs, w')"
  shows "\<exists>(configs :: OpaqueDeviceConfig list) m states w2.
    collect (\<lambda>i. seq (configure_group s claim (oc_Config (configs ! i)) (results_of m i)) (\<lambda>cs. ret (i, cs)))
      (ds_order1 s (map fst m)) w = (Inr states, w2) \<and>
    collect (\<lambda>i. prepare_group s claim (Option.bind (map_of states i) id) (results_of m i)) (ds_order2 s (map fst m)) w2 =
      (Inr devs, w')"
  using assms
  by (auto simp: prepareDevices_def Let_def seq_Inr hiding_Inr run_basic entry_act_Inr throw_def split: option.splits)

lemma prepareDevices_well_named:
  assumes "prepareDevices s claim w = (Inr devs, w')" and "wf_allocatable (w_allocatable w)"
  shows "\<forall>g \<in> set devs. list_all (well_named (ds_cdi s) (rc_UID claim)) (grp_Devices g)"
proof -
  from prepareDevices_steps [OF assms(1)] obtain configs :: "OpaqueDeviceConfig list" and m states w2 where
    configure: "collect (\<lambda>i. seq (configure_group s claim (oc_Config (configs ! i)) (results_of m i)) (\<lambda>cs. ret (i, cs)))
      (ds_order1 s (map fst m)) w = (Inr states, w2)"
    and prep: "collect (\<lambda>i. prepare_group s claim (Option.bind (map_of states i) id) (results_of m i)) (ds_order2 s (map fst m)) w2 =
      (Inr devs, w')" by blast
  have "keeps (al_same (w_allocatable w)) (collect (\<lambda>i. seq (configure_group s claim (oc_Config (configs ! i)) (results_of m i))
      (\<lambda>cs. ret (i, cs))) (ds_order1 s (map fst m)))"
    by (auto intro!: keeps_intros al_frame_configure)
  from keepsD [OF this, of w] configure have w2: "w_allocatable w2 = w_allocatable w" by simp
  from collect_kept [OF prep w2 al_frame_group] assms(2) prepare_group_well_named show ?thesis
    by (fastforce simp: list_all2_iff set_zip in_set_conv_nth)
qed

section \<open>Names in the spec file\<close>

lemma device_spec_name:
  assumes "device_spec C u cs dev e w = (Inr (d, e'), w')"
  shows "\<exists>k. PreparedDevice_CanonicalName dev = Inr k \<and> cd_Name d = u @ ''-'' @ k"
  using assms by (auto simp: device_spec_def seq_Inr lift_res_Inr ret_def Let_def split: option.splits prod.splits)

lemma claim_specs_names:
  assumes "claim_specs C u ps e w = (Inr (specs, e'), w')"
  shows "\<forall>g \<in> set ps. \<forall>dev \<in> set (grp_Devices g). \<exists>d \<in> set specs. \<exists>k.
     PreparedDevice_CanonicalName dev = Inr k \<and> cd_Name d = u @ ''-'' @ k"
proof -
  let ?step = "\<lambda>(cs, dev) (specs, common). seq (device_spec C u cs dev common) (\<lambda>(d, common'). ret (specs @ [d], common'))"
  let ?named = "\<lambda>specs dev. \<exists>d \<in> set specs. \<exists>k. PreparedDevice_CanonicalName dev = Inr k \<and> cd_Name d = u @ ''-'' @ k"
  have "fold_act ?step xs (specs0, e0) w = (Inr (specs, e'), w') \<Longrightarrow>
      set specs0 \<subseteq> set specs \<and> (\<forall>x \<in> set xs. ?named specs (snd x))" for xs specs0 e0 w
  proof (induction xs arbitrary: specs0 e0 w)
    case (Cons x xs)
    obtain cs dev where x: "x = (cs, dev)" by (cases x)
    from Cons.prems x obtain d e1 w1 where d: "device_spec C u cs dev e0 w = (Inr (d, e1), w1)"
      and rest: "fold_act ?step xs (specs0 @ [d], e1) w1 = (Inr (specs, e'), w')"
      by (auto simp: seq_Inr ret_def)
    from Cons.IH [OF rest] device_spec_name [OF d] x show ?case by auto
  qed (simp add: ret_def)
  from this [OF assms [unfolded claim_specs_def]] show ?thesis by fastforce
qed

text \<open>What a successful \<open>CreateClaimSpecFile\<close> has done.\<close>

lemma CreateClaimSpecFile_saved:
  fixes w w' :: "('c, 'n, 'k) world"
  assumes "CreateClaimSpecFile C u ps w = (Inr (), w')"
  obtains specs common spec spec' fs where "spec_New C cdiVendor cdiClaimClass specs common = Inr spec"
    "spec_Transform C spec = Inr spec'" "spec_Save C (spec_path C u) spec' fs = (Inr (), w_fs w')"
    "\<forall>g \<in> set ps. \<forall>dev \<in> set (grp_Devices g). \<exists>d \<in> set specs. \<exists>k.
       PreparedDevice_CanonicalName dev = Inr k \<and> cd_Name d = u @ ''-'' @ k"
proof -
  from assms obtain e0 e specs spec and w1 w2 w3 :: "('c, 'n, 'k) world" where specs: "claim_specs C u ps e0 w1 = (Inr (specs, e), w2)"
    and spec: "spec_New C cdiVendor cdiClaimClass specs e = Inr spec"
    and save: "in_fs (writeSpec C spec (GenerateTransientSpecName C cdiVendor cdiClaimClass u)) w3 = (Inr (), w')"
    by (auto simp: CreateClaimSpecFile_def seq_Inr wrapping_Inr entry_act_Inr)
  from save obtain spec' where "spec_Transform C spec = Inr spec'"
    "spec_Save C (spec_path C u) spec' (w_fs w3) = (Inr (), w_fs w')"
    by (auto simp: writeSpec_def on_Inr seq_Inr wrapping_Inr entry_act_Inr spec_path_def)
  with that spec claim_specs_names [OF specs] show thesis by blast
qed

section \<open>From Prepare to the file\<close>

lemma Prepare_started_run:
  assumes "legal_store (ds_env s blob)" and "checkpoint_of s blob w = Some (b, m)"
    and "\<not> is_completed m (rc_UID claim)" and "Prepare s claim w = (Inr ds, w')"
  obtains w1 where "w_allocatable w1 = w_allocatable w" and "prepare_started s claim w1 = (Inr ds, w')"
proof -
  from assms(4) obtain cp w0 where get: "get_checkpoint s w = (Inr cp, w0)"
    and rest: "(case claims cp (rc_UID claim) of
       Some pc \<Rightarrow>
         (if c_CheckpointState pc = Completed then lift_res (GetDevices (c_PreparedDevices pc))
          else seq (before_start s claim cp) (\<lambda>_.
               seq (wrapping ''unable to update checkpoint'' (update_checkpoint s (set_claim (rc_UID claim) (started_claim claim)))) (\<lambda>_.
               prepare_started s claim)))
     | None \<Rightarrow>
         seq (before_start s claim cp) (\<lambda>_.
         seq (wrapping ''unable to update checkpoint'' (update_checkpoint s (set_claim (rc_UID claim) (started_claim claim)))) (\<lambda>_.
         prepare_started s claim))) w0 = (Inr ds, w')"
    by (auto simp: Prepare_def seq_Inr hiding_Inr)
  note G = get_checkpoint_result [OF assms(1) get]
  have "claims cp = m" using G assms(2) contents_claims [of cp b m] by simp
  with rest assms(3) obtain w2 w3 where "before_start s claim cp w0 = (Inr (), w2)"
    and up: "update_checkpoint s (set_claim (rc_UID claim) (started_claim claim)) w2 = (Inr (), w3)"
    and run: "prepare_started s claim w3 = (Inr ds, w')"
    by (auto simp: is_completed_def seq_Inr wrapping_Inr split: option.splits if_splits)
  moreover from up have "w_allocatable w3 = w_allocatable w2"
    by (auto simp: update_checkpoint_def on_def split: prod.splits)
  ultimately have "w_allocatable w3 = w_allocatable w" using before_start_allocatable G by fastforce
  with run that show thesis by blast
qed

lemma GetDevices_members:
  assumes "GetDevices devs = Inr ds" and "d \<in> set ds"
  shows "\<exists>g \<in> set devs. \<exists>dev \<in> set (grp_Devices g). plugin_device_of dev = Inr (Some d)"
proof -
  have all: "res_all f xs = Inr ys \<Longrightarrow> y \<in> set ys \<Longrightarrow> \<exists>x \<in> set xs. f x = Inr y" for f :: "'x \<Rightarrow> 'y res" and xs ys y
    by (induction xs arbitrary: ys) (auto simp: res_seq_Inr)
  from assms obtain g gds where "g \<in> set devs" "Group_GetDevices g = Inr gds" "d \<in> set gds"
    by (fastforce simp: GetDevices_def res_seq_Inr dest: all)
  then show ?thesis by (fastforce simp: Group_GetDevices_def res_seq_Inr List.map_filter_def dest: all)
qed

text \<open>C4: The kubelet's device IDs resolve. When Prepare makes a claim ready, the last thing it did to the files
  was to save a CDI spec for the claim, made for the vendor and class of the driver, at the path where
  unpreparing removes it; and every CDI device ID of the devices it returns is the qualified name of a device of this
  spec, which is named after the claim and the device. The device map need only be well formed, as discovery
  makes it.\<close>

theorem cdi_ids_resolve:
  assumes "legal_store (ds_env s blob)" and "checkpoint_of s blob w = Some (b, m)"
    and "\<not> is_completed m (rc_UID claim)" and "wf_allocatable (w_allocatable w)"
    and "Prepare s claim w = (Inr ds, w')"
  shows "\<exists>specs common spec spec' fs. let C = ds_cdi s; u = rc_UID claim in
     spec_New C cdiVendor cdiClaimClass specs common = Inr spec \<and> spec_Transform C spec = Inr spec' \<and>
     spec_Save C (spec_path C u) spec' fs = (Inr (), w_fs w') \<and>
     (\<forall>d \<in> set ds. \<forall>i \<in> set (kd_CDIDeviceIDs d). \<exists>c \<in> set specs.
        cd_Name c = u @ ''-'' @ kd_DeviceName d \<and> i = cdi_QualifiedName C cdiVendor cdiClaimClass (cd_Name c))"
proof -
  let ?C = "ds_cdi s" and ?u = "rc_UID claim"
  from Prepare_started_run [OF assms(1-3,5)] obtain w1 where al: "w_allocatable w1 = w_allocatable w"
    and run: "prepare_started s claim w1 = (Inr ds, w')" .
  then obtain devs w2 w3 w4 where prep: "prepareDevices s claim w1 = (Inr devs, w2)"
    and save: "CreateClaimSpecFile ?C ?u devs w3 = (Inr (), w4)"
    and up: "update_checkpoint s (set_claim ?u (completed_claim claim devs)) w4 = (Inr (), w')"
    and ds: "GetDevices devs = Inr ds"
    by (auto simp: prepare_started_def seq_Inr wrapping_Inr lift_res_Inr)
  have fs: "w_fs w' = w_fs w4" using up by (auto simp: update_checkpoint_def on_def split: prod.splits)
  from CreateClaimSpecFile_saved [OF save] obtain specs common spec spec' fs
    where saved: "spec_New ?C cdiVendor cdiClaimClass specs common = Inr spec" "spec_Transform ?C spec = Inr spec'"
      "spec_Save ?C (spec_path ?C ?u) spec' fs = (Inr (), w_fs w')"
      and names: "\<forall>g \<in> set devs. \<forall>dev \<in> set (grp_Devices g). \<exists>c \<in> set specs. \<exists>k.
       PreparedDevice_CanonicalName dev = Inr k \<and> cd_Name c = ?u @ ''-'' @ k"
    unfolding fs by metis
  have "\<exists>c \<in> set specs. cd_Name c = ?u @ ''-'' @ kd_DeviceName d \<and> i = cdi_QualifiedName ?C cdiVendor cdiClaimClass (cd_Name c)"
    if d: "d \<in> set ds" "i \<in> set (kd_CDIDeviceIDs d)" for d i
  proof -
    from GetDevices_members [OF ds d(1)] obtain g dev where g: "g \<in> set devs" "dev \<in> set (grp_Devices g)"
      and kd: "plugin_device_of dev = Inr (Some d)" by blast
    with prepareDevices_well_named [OF prep] al assms(4) have "well_named ?C ?u dev" by (simp add: list_all_iff)
    with kd d(2) have "PreparedDevice_CanonicalName dev = Inr (kd_DeviceName d)"
      "i = cdi_QualifiedName ?C cdiVendor cdiClaimClass (?u @ ''-'' @ kd_DeviceName d)" by (auto simp: well_named_def)
    with names g show ?thesis by fastforce
  qed
  with saved show ?thesis unfolding Let_def by blast
qed

theorem cdi_ids_resolve_witness:
  "\<exists>specs common spec spec' fs. spec_New (ds_cdi sample_state) cdiVendor cdiClaimClass specs common = Inr spec \<and>
     spec_Save (ds_cdi sample_state) (spec_path (ds_cdi sample_state) ''u1'') spec' fs = (Inr (), w_fs prepared_world) \<and>
     (\<exists>c \<in> set specs. cd_Name c = ''u1-gpu-0'')"
proof -
  obtain b where b: "checkpoint_of sample_state (\<lambda>c. c) gpu_world = Some (b, Map.empty)" using sample_contents by blast
  have "\<not> is_completed Map.empty (rc_UID (sample_claim ''u1''))" by (simp add: is_completed_def)
  moreover have "wf_allocatable (w_allocatable gpu_world)" unfolding gpu_world_def one_gpu_def by (simp, code_simp)
  ultimately show ?thesis
    using cdi_ids_resolve [OF sample_legal b _ _ sample_prepared]
    by (auto simp: Let_def sample_devices_of_def sample_claim_def)
qed

end
