(* ===== verification/Triples.thy ===== *)
theory Triples
  imports NvLib
begin

text \<open>
  Triples for computations: \<open>yields P m Q E\<close> says that \<open>m\<close>, started in a world with \<open>P\<close>, ends with a value and a world
  that satisfy \<open>Q\<close>, or fails in a world that satisfies \<open>E\<close>. The rules follow the statements of the
  handlers, the calls of the device library among them, so that a triple is proved by going through the code.
\<close>

named_theorems yields_intros \<open>rules for triples\<close>

section \<open>Triples and their rules\<close>

definition yields :: "('w \<Rightarrow> bool) \<Rightarrow> ('w, 'a) act \<Rightarrow> ('a \<Rightarrow> 'w \<Rightarrow> bool) \<Rightarrow> ('w \<Rightarrow> bool) \<Rightarrow> bool" where
  "yields P m Q E \<longleftrightarrow> (\<forall>w. P w \<longrightarrow> (case m w of (Inr x, w') \<Rightarrow> Q x w' | (Inl _, w') \<Rightarrow> E w'))"

lemma yieldsI:
  "(\<And>w x w'. P w \<Longrightarrow> m w = (Inr x, w') \<Longrightarrow> Q x w') \<Longrightarrow> (\<And>w f w'. P w \<Longrightarrow> m w = (Inl f, w') \<Longrightarrow> E w') \<Longrightarrow> yields P m Q E"
  by (auto simp: yields_def split: prod.splits sum.splits)

lemma yields_Inr: "yields P m Q E \<Longrightarrow> P w \<Longrightarrow> m w = (Inr x, w') \<Longrightarrow> Q x w'"
  by (auto simp: yields_def split: prod.splits sum.splits)

lemma yields_Inl: "yields P m Q E \<Longrightarrow> P w \<Longrightarrow> m w = (Inl f, w') \<Longrightarrow> E w'"
  by (fastforce simp: yields_def split: prod.splits sum.splits)

lemma yields_end:
  assumes "yields P m Q E" and "P w" and "m w = (r, w')" and "\<And>x. Q x w' \<Longrightarrow> R" and "E w' \<Longrightarrow> R"
  shows R
  using assms by (cases r) (auto dest: yields_Inr yields_Inl)

lemma yields_conseq:
  assumes "yields P m Q E" and "\<And>w. P' w \<Longrightarrow> P w" and "\<And>x w. Q x w \<Longrightarrow> Q' x w" and "\<And>w. E w \<Longrightarrow> E' w"
  shows "yields P' m Q' E'"
  using assms by (intro yieldsI) (blast dest: yields_Inr yields_Inl)+

lemma yields_post: "yields P m Q E \<Longrightarrow> (\<And>x w. Q x w \<Longrightarrow> Q' x w) \<Longrightarrow> yields P m Q' E"
  by (rule yields_conseq)

lemma yields_ret [yields_intros]: "(\<And>w. P w \<Longrightarrow> Q x w) \<Longrightarrow> yields P (ret x) Q E"
  by (simp add: yields_def ret_def)

lemma yields_throw [yields_intros]: "(\<And>w. P w \<Longrightarrow> E w) \<Longrightarrow> yields P (throw e) Q E"
  by (simp add: yields_def throw_def)

lemma yields_seq:
  assumes "yields P m R E" and "\<And>x. yields (R x) (k x) Q E"
  shows "yields P (seq m k) Q E"
  using assms by (fastforce simp: yields_def seq_def split: prod.splits sum.splits)

lemma yields_wrapping [yields_intros]: "yields P a Q E \<Longrightarrow> yields P (wrapping m a) Q E"
proof (rule yieldsI)
  fix w f w' assume "yields P a Q E" "P w" "wrapping m a w = (Inl f, w')"
  then show "E w'" by (cases "a w"; cases "fst (a w)") (auto simp: wrapping_def dest: yields_Inl)
qed (auto simp: act_simps dest: yields_Inr)

lemma yields_hiding [yields_intros]: "yields P a Q E \<Longrightarrow> yields P (hiding m a) Q E"
proof (rule yieldsI)
  fix w f w' assume "yields P a Q E" "P w" "hiding m a w = (Inl f, w')"
  then show "E w'" by (cases "a w"; cases "fst (a w)") (auto simp: hiding_def dest: yields_Inl)
qed (auto simp: act_simps dest: yields_Inr)

lemma yields_gets [yields_intros]: "(\<And>w. P w \<Longrightarrow> Q (f w) w) \<Longrightarrow> yields P (gets f) Q E"
  by (simp add: yields_def gets_def)

lemma yields_modify [yields_intros]: "(\<And>w. P w \<Longrightarrow> Q () (f w)) \<Longrightarrow> yields P (modify f) Q E"
  by (simp add: yields_def modify_def)

lemma yields_if [yields_intros]:
  "(b \<Longrightarrow> yields P m Q E) \<Longrightarrow> (\<not> b \<Longrightarrow> yields P n Q E) \<Longrightarrow> yields P (if b then m else n) Q E"
  by simp

text \<open>A fact that does not depend on the world, taken out of the assertion.\<close>

lemma yields_pull: "(C \<Longrightarrow> yields P m Q E) \<Longrightarrow> yields (\<lambda>w. P w \<and> C) m Q E"
  by (auto simp: yields_def)

lemma yields_exI: "(\<And>y. yields (P y) m Q E) \<Longrightarrow> yields (\<lambda>w. \<exists>y. P y w) m Q E"
  by (rule yieldsI) (auto dest: yields_Inr yields_Inl)

section \<open>Loops\<close>

lemma yields_fold:
  assumes "\<And>ys x zs b. xs = ys @ x # zs \<Longrightarrow> yields (I ys b) (f x b) (I (ys @ [x])) E"
  shows "yields (I [] b) (fold_act f xs b) (I xs) E"
proof -
  have "yields (I ys b) (fold_act f zs b) (I (ys @ zs)) E" if "xs = ys @ zs" for ys zs b
    using that
  proof (induction zs arbitrary: ys b)
    case Nil then show ?case by (auto intro: yields_ret)
  next
    case (Cons z zs)
    from Cons.prems have "yields (I ys b) (f z b) (I (ys @ [z])) E" by (rule assms)
    moreover have "yields (I (ys @ [z]) b') (fold_act f zs b') (I (ys @ z # zs)) E" for b'
      using Cons.IH [of "ys @ [z]" b'] Cons.prems by simp
    ultimately show ?case by (auto intro: yields_seq)
  qed
  from this [of "[]" xs b] show ?thesis by simp
qed

lemma yields_each:
  assumes "\<And>ys x zs. xs = ys @ x # zs \<Longrightarrow> yields (I ys) (f x) (\<lambda>_. I (ys @ [x])) E"
  shows "yields (I []) (each f xs) (\<lambda>_. I xs) E"
proof -
  have "each f zs = fold_act (\<lambda>x (_::unit). f x) zs ()" for zs by (induction zs) simp_all
  then show ?thesis using yields_fold [where I = "\<lambda>ys _. I ys" and f = "\<lambda>x _. f x"] assms by simp
qed

lemma yields_collect_all:
  assumes "\<And>x. x \<in> set xs \<Longrightarrow> yields P (f x) (\<lambda>y w. P w \<and> R y) P"
  shows "yields P (collect f xs) (\<lambda>ys w. P w \<and> (\<forall>y \<in> set ys. R y)) P"
  using assms
proof (induction xs)
  case Nil then show ?case by (auto intro!: yields_intros)
next
  case (Cons x xs)
  show ?case unfolding collect.simps
  proof (rule yields_seq [OF Cons.prems yields_pull])
    fix y assume "R y"
    with Cons show "yields P (seq (collect f xs) (\<lambda>ys. ret (y # ys))) (\<lambda>ys w. P w \<and> (\<forall>y \<in> set ys. R y)) P"
      by (intro yields_seq [where R = "\<lambda>ys w. P w \<and> (\<forall>y \<in> set ys. R y)"] yields_ret) auto
  qed simp
qed

section \<open>Calls of the device library\<close>

lemma yields_nv:
  assumes "\<And>l r n. P l \<Longrightarrow> c (lb_hw l) = (r, n) \<Longrightarrow> Q r (l\<lparr>lb_hw := n\<rparr>)"
  shows "yields P (nv c) Q E"
  using assms by (auto simp: yields_def nv_def split: prod.splits)

lemma yields_need:
  assumes "\<And>l x n. P l \<Longrightarrow> c (lb_hw l) = (Inr x, n) \<Longrightarrow> Q x (l\<lparr>lb_hw := n\<rparr>)"
    and "\<And>l e n. P l \<Longrightarrow> c (lb_hw l) = (Inl e, n) \<Longrightarrow> E (l\<lparr>lb_hw := n\<rparr>)"
  shows "yields P (need msg c) Q E"
  using assms by (auto simp: yields_def need_def nv_def act_defs split: prod.splits sum.splits)

lemma yields_in_hw:
  assumes "\<And>l x n. P l \<Longrightarrow> c (lb_hw l) = (Inr x, n) \<Longrightarrow> Q x (l\<lparr>lb_hw := n\<rparr>)"
    and "\<And>l e n. P l \<Longrightarrow> c (lb_hw l) = (Inl e, n) \<Longrightarrow> E (l\<lparr>lb_hw := n\<rparr>)"
  shows "yields P (in_hw c) Q E"
  using assms by (auto simp: yields_def on_def split: prod.splits sum.splits)

end
