(* ===== verification/MigHardware.thy ===== *)
theory MigHardware
  imports Triples SamplePlugin
begin

text \<open>
  Dynamic MIG devices on the hardware. NVML is a parameter, so this theory states what NVML documents of its calls
  (\<open>nvml_laws\<close>), over a view of the hardware: the slots of a GPU, each empty or holding one MIG device, and what its
  handles stand for. A law never says that a call succeeds: any of them may fail at any time. From the laws follows what
  \<open>getGpuInfo\<close> and \<open>getMigDevices\<close> report: the names of all MIG devices of a GPU, and no others.
\<close>

section \<open>A view of the hardware\<close>

text \<open>A MIG device on a GPU is known by the IDs of its GPU instance and its compute instance. Of a handle the view
  says what it stands for, of a GPU instance its info and the name of its profile.\<close>

type_synonym mig_id = "int \<times> int"

record hw_view =
  hv_slot :: "handle \<Rightarrow> nat \<Rightarrow> mig_id option"
  hv_gpu :: "handle \<Rightarrow> bool"
  hv_uuid :: "handle \<Rightarrow> string"
  hv_minor :: "handle \<Rightarrow> int"
  hv_gi :: "handle \<Rightarrow> handle \<times> int"
  hv_ci :: "handle \<Rightarrow> handle \<times> mig_id"
  hv_mig :: "handle \<Rightarrow> handle \<times> mig_id"
  hv_info :: "handle \<Rightarrow> int \<Rightarrow> gi_info"
  hv_profile :: "handle \<Rightarrow> int \<Rightarrow> string"

text \<open>The name the driver knows a MIG device by.\<close>

definition mig_name :: "hw_view \<Rightarrow> handle \<Rightarrow> mig_id \<Rightarrow> DeviceName" where
  "mig_name v d x = ToCanonicalName
     \<lparr>ms_ParentMinor = hv_minor v d, ms_ProfileID = uint (gi_ProfileId (hv_info v d (fst x))),
      ms_PlacementStart = uint (gp_Start (gi_Placement (hv_info v d (fst x))))\<rparr> (hv_profile v d (fst x))"

definition empty_gpu :: "hw_view \<Rightarrow> handle \<Rightarrow> bool" where
  "empty_gpu v d \<longleftrightarrow> (\<forall>k. hv_slot v d k = None)"

text \<open>Emptying the slots of a GPU that satisfy a condition.\<close>

definition drop_migs :: "handle \<Rightarrow> (mig_id \<Rightarrow> bool) \<Rightarrow> hw_view \<Rightarrow> hw_view" where
  "drop_migs d P v = v\<lparr>hv_slot := (hv_slot v)(d := \<lambda>k. case hv_slot v d k of
     None \<Rightarrow> None | Some x \<Rightarrow> if P x then None else Some x)\<rparr>"

lemma drop_migs_slot [simp]:
  "hv_slot (drop_migs d P v) d' k = (case hv_slot v d' k of
     None \<Rightarrow> None | Some x \<Rightarrow> if d' = d \<and> P x then None else Some x)"
  by (auto simp: drop_migs_def split: option.split)

lemma drop_migs_rest [simp]:
  "hv_gpu (drop_migs d P v) = hv_gpu v" "hv_uuid (drop_migs d P v) = hv_uuid v"
  "hv_minor (drop_migs d P v) = hv_minor v" "hv_gi (drop_migs d P v) = hv_gi v" "hv_ci (drop_migs d P v) = hv_ci v"
  "hv_mig (drop_migs d P v) = hv_mig v" "hv_info (drop_migs d P v) = hv_info v"
  "hv_profile (drop_migs d P v) = hv_profile v" "mig_name (drop_migs d P v) = mig_name v"
  by (simp_all add: drop_migs_def mig_name_def fun_eq_iff)

lemma drop_migs_absent:
  assumes "\<forall>k x. hv_slot v d k = Some x \<longrightarrow> \<not> P x"
  shows "drop_migs d P v = v"
proof -
  have "(hv_slot v)(d := \<lambda>k. case hv_slot v d k of None \<Rightarrow> None | Some x \<Rightarrow> if P x then None else Some x) = hv_slot v"
    using assms by (auto simp: fun_eq_iff split: option.split)
  then show ?thesis by (simp add: drop_migs_def)
qed

lemma drop_migs_empty: "empty_gpu v d \<Longrightarrow> drop_migs d P v = v"
  by (rule drop_migs_absent) (simp add: empty_gpu_def)

text \<open>The view without one MIG device.\<close>

definition not_mig :: "hw_view \<Rightarrow> handle \<Rightarrow> mig_id \<Rightarrow> hw_view" where
  "not_mig v d x = drop_migs d (\<lambda>y. y = x) v"

section \<open>What NVML documents\<close>

text \<open>A call that only looks: it leaves the hardware alone, and what it answers satisfies a condition on the view.\<close>

definition looks :: "('n \<Rightarrow> hw_view) \<Rightarrow> (hw_view \<Rightarrow> 'r \<Rightarrow> bool) \<Rightarrow> ('n \<Rightarrow> 'r \<times> 'n) \<Rightarrow> bool" where
  "looks view Q c \<longleftrightarrow> (\<forall>n r n'. c n = (r, n') \<longrightarrow> view n' = view n \<and> Q (view n) r)"

definition answers :: "('v \<Rightarrow> 'a \<Rightarrow> bool) \<Rightarrow> 'v \<Rightarrow> 'e + 'a \<Rightarrow> bool" where
  "answers Q v r \<longleftrightarrow> (case r of Inl _ \<Rightarrow> True | Inr x \<Rightarrow> Q v x)"

abbreviation "anything \<equiv> \<lambda>_ _. True"

text \<open>What a call may answer in a view; a profile built for a GPU from such answers, and one that fits a MIG device.\<close>

definition told :: "('n \<Rightarrow> hw_view) \<Rightarrow> hw_view \<Rightarrow> ('n \<Rightarrow> ('e + 'a) \<times> 'n) \<Rightarrow> 'a \<Rightarrow> bool" where
  "told view v c x \<longleftrightarrow> (\<exists>n. view n = v \<and> fst (c n) = Inr x)"

definition built_for :: "'n nvml \<Rightarrow> ('n \<Rightarrow> hw_view) \<Rightarrow> hw_view \<Rightarrow> handle \<Rightarrow> mig_profile \<Rightarrow> bool" where
  "built_for V view v d p \<longleftrightarrow> (\<exists>i j k gip mem.
     told view v (nv_GetMemoryTotal V d) mem \<and> told view v (nv_GetGpuInstanceProfileInfo V d i) gip \<and>
     told view v (nv_NewMigProfile V i j k (gip_MemorySizeMB gip) mem) p)"

definition fits_device ::
    "'n nvml \<Rightarrow> ('n \<Rightarrow> hw_view) \<Rightarrow> hw_view \<Rightarrow> handle \<Rightarrow> handle \<Rightarrow> gi_info \<Rightarrow> ci_info \<Rightarrow> mig_profile \<Rightarrow> bool" where
  "fits_device V view v d gi giInfo ciInfo p \<longleftrightarrow> (\<exists>gip cip.
     told view v (nv_GetGpuInstanceProfileInfo V d (pi_GIProfileID (mp_Info p))) gip \<and> gi_ProfileId giInfo = gip_Id gip \<and>
     told view v (nv_GI_GetComputeInstanceProfileInfo V gi (pi_CIProfileID (mp_Info p)) (pi_CIEngProfileID (mp_Info p))) cip \<and>
     ci_ProfileId ciInfo = cip_Id cip)"

text \<open>The calls on GPUs: a UUID belongs to one GPU, and a GPU that is not in MIG mode has no MIG device.\<close>

definition gpu_laws :: "'n nvml \<Rightarrow> ('n \<Rightarrow> hw_view) \<Rightarrow> bool" where
  "gpu_laws V view \<longleftrightarrow>
     looks view (\<lambda>v ds. \<forall>i d. Inr (i, d) \<in> set ds \<longrightarrow> hv_gpu v d) (nv_VisitDevices V) \<and>
     (\<forall>n d d'. hv_gpu (view n) d \<and> hv_uuid (view n) d' = hv_uuid (view n) d \<longrightarrow> d' = d) \<and>
     (\<forall>d. looks view (answers (\<lambda>v u. u = hv_uuid v d)) (nv_GetUUID V d)) \<and>
     (\<forall>u. looks view (answers (\<lambda>v d. hv_uuid v d = u)) (nv_DeviceGetHandleByUUID V u)) \<and>
     (\<forall>d. looks view (answers (\<lambda>v i. i = hv_minor v d)) (nv_GetMinorNumber V d)) \<and>
     (\<forall>d. looks view (answers (\<lambda>v on. on \<or> empty_gpu v d)) (nv_IsMigEnabled V d)) \<and>
     (\<forall>d. looks view anything (nv_GetMemoryTotal V d)) \<and> (\<forall>d. looks view anything (nv_GetName V d)) \<and>
     (\<forall>d. looks view anything (nv_GetArchitectureAsString V d)) \<and> (\<forall>d. looks view anything (nv_GetBrandAsString V d)) \<and>
     (\<forall>d. looks view anything (nv_GetCudaComputeCapabilityAsString V d)) \<and>
     looks view anything (nv_SystemGetDriverVersion V) \<and> looks view anything (nv_SystemGetCudaDriverVersion V) \<and>
     (\<forall>d. looks view anything (nv_GetPCIBusID V d)) \<and> (\<forall>d. looks view anything (nv_GetAddressingModeAsString V d)) \<and>
     (\<forall>b. looks view anything (nv_GetPCIeRootAttributeByPCIBusID V b)) \<and>
     (\<forall>d i. looks view anything (nv_GetGpuInstanceProfileInfo V d i)) \<and>
     (\<forall>d p. looks view anything (nv_GetGpuInstancePossiblePlacements V d p)) \<and>
     (\<forall>i j k a b. looks view anything (nv_NewMigProfile V i j k a b))"

text \<open>The calls on MIG devices and their instances. Only these codes say that something is not there.\<close>

definition mig_laws :: "'n nvml \<Rightarrow> ('n \<Rightarrow> hw_view) \<Rightarrow> bool" where
  "mig_laws V view \<longleftrightarrow>
     (\<forall>d. looks view (answers (\<lambda>v c. \<forall>k. hv_slot v d k \<noteq> None \<longrightarrow> k < c)) (nv_GetMaxMigDeviceCount V d)) \<and>
     (\<forall>d k. looks view (\<lambda>v r. case r of
         Inl e \<Rightarrow> e \<in> {ERROR_NOT_FOUND, ERROR_INVALID_ARGUMENT} \<longrightarrow> hv_slot v d k = None
       | Inr m \<Rightarrow> \<exists>x. hv_slot v d k = Some x \<and> hv_mig v m = (d, x) \<and> \<not> hv_gpu v m) (nv_GetMigDeviceHandleByIndex V d k)) \<and>
     (\<forall>n m m'. \<not> hv_gpu (view n) m \<and> \<not> hv_gpu (view n) m' \<and> hv_uuid (view n) m = hv_uuid (view n) m' \<longrightarrow>
        hv_mig (view n) m = hv_mig (view n) m') \<and>
     (\<forall>m. looks view (answers (\<lambda>v i. i = fst (snd (hv_mig v m)))) (nv_GetGpuInstanceId V m)) \<and>
     (\<forall>m. looks view (answers (\<lambda>v j. j = snd (snd (hv_mig v m)))) (nv_GetComputeInstanceId V m)) \<and>
     (\<forall>d i. looks view (\<lambda>v r. case r of
         Inl e \<Rightarrow> e \<in> {ERROR_NOT_FOUND, ERROR_NOT_SUPPORTED} \<longrightarrow> (\<forall>k j. hv_slot v d k \<noteq> Some (i, j))
       | Inr gi \<Rightarrow> hv_gi v gi = (d, i)) (nv_GetGpuInstanceById V d i)) \<and>
     (\<forall>gi. looks view (answers (\<lambda>v info. info = hv_info v (fst (hv_gi v gi)) (snd (hv_gi v gi)) \<and>
         uint (gi_Id info) = snd (hv_gi v gi))) (nv_GI_GetInfo V gi)) \<and>
     (\<forall>gi j. looks view (\<lambda>v r. case r of
         Inl e \<Rightarrow> e = ERROR_NOT_FOUND \<longrightarrow> (\<forall>k. hv_slot v (fst (hv_gi v gi)) k \<noteq> Some (snd (hv_gi v gi), j))
       | Inr ci \<Rightarrow> hv_ci v ci = (fst (hv_gi v gi), snd (hv_gi v gi), j)) (nv_GI_GetComputeInstanceById V gi j)) \<and>
     (\<forall>ci. looks view (answers (\<lambda>v (info, _). uint (ci_Id info) = snd (snd (hv_ci v ci)))) (nv_CI_GetInfo V ci)) \<and>
     (\<forall>gi i j. looks view anything (nv_GI_GetComputeInstanceProfileInfo V gi i j)) \<and>
     (\<forall>v d i j gi ci ciInfo h p. hv_gi v gi = (d, i) \<and> hv_ci v ci = (d, i, j) \<and> told view v (nv_CI_GetInfo V ci) (ciInfo, h) \<and>
        built_for V view v d p \<and> fits_device V view v d gi (hv_info v d i) ciInfo p \<longrightarrow> mp_String p = hv_profile v d i)"

text \<open>The calls that destroy. A GPU instance is only destroyed when no compute instance is left in it;
  leaving MIG mode takes every MIG device of the GPU along, or has no effect.\<close>

definition destroy_laws :: "'n nvml \<Rightarrow> ('n \<Rightarrow> hw_view) \<Rightarrow> bool" where
  "destroy_laws V view \<longleftrightarrow>
     (\<forall>ci n r n'. nv_CI_Destroy V ci n = (r, n') \<longrightarrow> view n' = (case r of
         Inl _ \<Rightarrow> view n
       | Inr _ \<Rightarrow> not_mig (view n) (fst (hv_ci (view n) ci)) (snd (hv_ci (view n) ci)))) \<and>
     (\<forall>gi. looks view anything (nv_GI_Destroy V gi)) \<and>
     (\<forall>d n r n'. nv_SetMigMode V d False n = (r, n') \<longrightarrow> view n' \<in> {view n, drop_migs d (\<lambda>_. True) (view n)})"

definition nvml_laws :: "'n nvml \<Rightarrow> ('n \<Rightarrow> hw_view) \<Rightarrow> bool" where
  "nvml_laws V view \<longleftrightarrow> gpu_laws V view \<and> mig_laws V view \<and> destroy_laws V view"

section \<open>Looking at the hardware\<close>

text \<open>The caches of the device library agree with the view: handles by UUID, and the GPU descriptions of the
  discovery, of which only those of GPUs without MIG devices may say that MIG mode is off.\<close>

definition known :: "hw_view \<Rightarrow> 'n lib \<Rightarrow> bool" where
  "known v l \<longleftrightarrow> (\<forall>(u, d) \<in> set (lb_devhandleByUUID l). hv_uuid v d = u) \<and>
     (\<forall>(u, g) \<in> set (lb_gpuInfosByUUID l). g_UUID g = u \<and>
        (\<not> g_migEnabled g \<longrightarrow> (\<forall>d. hv_uuid v d = u \<longrightarrow> empty_gpu v d)))"

definition sees :: "('n \<Rightarrow> hw_view) \<Rightarrow> hw_view \<Rightarrow> 'n lib \<Rightarrow> bool" where
  "sees view v l \<longleftrightarrow> view (lb_hw l) = v \<and> known v l"

lemma known_hw [simp]: "known v (l\<lparr>lb_hw := n\<rparr>) = known v l"
  by (simp add: known_def)

lemma known_drop: "known v l \<Longrightarrow> known (drop_migs d P v) l"
  by (fastforce simp: known_def empty_gpu_def split: option.split)

lemma yields_bind:
  assumes "yields P m (\<lambda>x w. P w \<and> C x) E" and "\<And>x. C x \<Longrightarrow> yields P (k x) Q E"
  shows "yields P (seq m k) Q E"
  using assms(1) by (rule yields_seq) (rule yields_pull [OF assms(2)])

lemma look_need:
  assumes "looks view (answers Q) c"
  shows "yields (sees view v) (need m c) (\<lambda>x l. sees view v l \<and> Q v x \<and> told view v c x) (sees view v)"
  using assms by (intro yields_need) (fastforce simp: looks_def sees_def told_def answers_def)+

lemma look_nv:
  assumes "looks view Q c"
  shows "yields (sees view v) (nv c) (\<lambda>r l. sees view v l \<and> Q v r \<and> (\<forall>x. r = Inr x \<longrightarrow> told view v c x)) E"
  using assms by (intro yields_nv) (fastforce simp: looks_def sees_def told_def)

lemma look_hw:
  assumes "looks view (answers Q) c"
  shows "yields (sees view v) (in_hw c) (\<lambda>x l. sees view v l \<and> Q v x \<and> told view v c x) (sees view v)"
  using assms by (intro yields_in_hw) (fastforce simp: looks_def sees_def told_def answers_def)+

lemma looks_anything: "looks view anything c \<Longrightarrow> looks view (answers (\<lambda>_ _. True)) c"
  by (simp add: looks_def answers_def split: sum.split)

lemmas look_intros = yields_bind [OF yields_wrapping [OF look_hw]] yields_bind [OF look_need]
  yields_bind [OF yields_wrapping [OF look_hw [OF looks_anything]]] yields_bind [OF look_need [OF looks_anything]]

text \<open>An attempt never fails with an error.\<close>

lemma look_attempt:
  assumes "looks view anything c"
  shows "yields (sees view v) (attempt (in_hw c)) (\<lambda>r l. sees view v l) (sees view v)"
  using assms
  by (intro yieldsI) (auto simp: attempt_def on_def looks_def sees_def split: prod.splits)

lemma handle_of_sees:
  assumes "gpu_laws V view" and "Enabled DynamicMIG"
  shows "yields (sees view v) (handle_of V Enabled m u) (\<lambda>d l. sees view v l \<and> hv_uuid v d = u) (sees view v)"
proof -
  have law: "looks view (answers (\<lambda>v d. hv_uuid v d = u)) (nv_DeviceGetHandleByUUID V u)"
    using assms(1) by (simp add: gpu_laws_def)
  have cached: "sees view v l \<Longrightarrow> map_of (lb_devhandleByUUID l) u = Some d \<Longrightarrow> hv_uuid v d = u" for l :: "'a lib" and d
    by (auto simp: sees_def known_def dest: map_of_SomeD)
  have remember: "sees view v l \<Longrightarrow> hv_uuid v d = u \<Longrightarrow> sees view v (lb_devhandleByUUID_update (AList.update u d) l)" for l :: "'a lib" and d
    using set_alist_update [of u d "lb_devhandleByUUID l"] by (fastforce simp: sees_def known_def)
  have "yields (sees view v) (DeviceGetHandleByUUID V Enabled u)
      (\<lambda>r l. sees view v l \<and> (\<forall>d. r = Inr d \<longrightarrow> hv_uuid v d = u)) (sees view v)"
    unfolding DeviceGetHandleByUUID_def ensureNVML_def using assms(2) cached
    by (auto intro!: yields_seq [OF yields_gets [where Q = "\<lambda>c l. sees view v l \<and> (\<forall>d. c = Some d \<longrightarrow> hv_uuid v d = u)"]]
        yields_bind [OF look_nv [OF law]] yields_seq [OF yields_modify [where Q = "\<lambda>_ l. sees view v l"]] yields_pull yields_ret
        simp: answers_def remember split: option.split sum.split)
  then show ?thesis unfolding handle_of_def
    by (rule yields_bind) (auto intro!: yields_intros split: sum.split)
qed

section \<open>The description of a GPU\<close>

text \<open>What \<open>getGpuInfo\<close> says of a GPU: its own number and UUID, no MIG mode only if it has no MIG device, and
  profiles built for it.\<close>

definition describes :: "'n nvml \<Rightarrow> ('n \<Rightarrow> hw_view) \<Rightarrow> hw_view \<Rightarrow> handle \<Rightarrow> GpuInfo \<Rightarrow> bool" where
  "describes V view v d g \<longleftrightarrow> g_minor g = hv_minor v d \<and>
     (\<forall>mp \<in> set (g_migProfiles g). built_for V view v d (mpi_profile mp))"

lemma built_forI:
  "told view v (nv_GetGpuInstanceProfileInfo V d i) gip \<Longrightarrow> told view v (nv_GetMemoryTotal V d) mem \<Longrightarrow>
   told view v (nv_NewMigProfile V i j k (gip_MemorySizeMB gip) mem) p \<Longrightarrow> built_for V view v d p"
  unfolding built_for_def by blast

lemma gi_profiles_built:
  assumes "gpu_laws V view" and "told view v (nv_GetMemoryTotal V d) mem"
  shows "yields (sees view v) (gi_profiles_at V d mem i)
     (\<lambda>ps l. sees view v l \<and> (\<forall>mp \<in> set ps. built_for V view v d (mpi_profile mp))) (sees view v)"
proof -
  have laws: "looks view anything (nv_GetGpuInstanceProfileInfo V d i)" "looks view anything (nv_GetGpuInstancePossiblePlacements V d p)"
    "looks view anything (nv_NewMigProfile V i j k a b)" for i j k a b p
    using assms(1) by (simp_all add: gpu_laws_def)
  have built: "yields (sees view v) (collect (\<lambda>(j, k). hiding m (in_hw (nv_NewMigProfile V i (int j) (int k) (gip_MemorySizeMB gip) mem))) xs)
      (\<lambda>ps l. sees view v l \<and> (\<forall>p \<in> set ps. built_for V view v d p)) (sees view v)"
    if "told view v (nv_GetGpuInstanceProfileInfo V d i) gip" for i m gip xs
    using that assms(2)
    by (intro yields_collect_all) (auto intro!: yields_hiding yields_post [OF look_hw [OF looks_anything [OF laws(3)]]]
        intro: built_forI split: prod.split)
  show ?thesis unfolding gi_profiles_at_def
    by (auto intro!: yields_bind [OF look_nv [OF laws(1)]] yields_bind [OF look_nv [OF laws(2)]] yields_bind [OF built] yields_intros
        split: sum.split)
qed

lemma getGpuInfo_describes:
  assumes "gpu_laws V view"
  shows "yields (sees view v) (getGpuInfo V i d)
     (\<lambda>g l. sees view v l \<and> describes V view v d g \<and> g_UUID g = hv_uuid v d \<and> (g_migEnabled g \<or> empty_gpu v d)) (sees view v)"
proof -
  have told: "looks view (answers (\<lambda>v i. i = hv_minor v d)) (nv_GetMinorNumber V d)"
    "looks view (answers (\<lambda>v u. u = hv_uuid v d)) (nv_GetUUID V d)"
    "looks view (answers (\<lambda>v on. on \<or> empty_gpu v d)) (nv_IsMigEnabled V d)"
    using assms by (simp_all add: gpu_laws_def)
  have any: "looks view anything (nv_GetMemoryTotal V d)" "looks view anything (nv_GetName V d)"
    "looks view anything (nv_GetArchitectureAsString V d)" "looks view anything (nv_GetBrandAsString V d)"
    "looks view anything (nv_GetCudaComputeCapabilityAsString V d)" "looks view anything (nv_SystemGetDriverVersion V)"
    "looks view anything (nv_SystemGetCudaDriverVersion V)" "looks view anything (nv_GetPCIBusID V d)"
    using assms by (simp_all add: gpu_laws_def)
  have tried: "looks view anything (nv_GetAddressingModeAsString V d)" "looks view anything (nv_GetPCIeRootAttributeByPCIBusID V b)" for b
    using assms by (simp_all add: gpu_laws_def)
  note read = look_need [THEN yields_bind, OF told(1)] look_need [THEN yields_bind, OF told(2)]
    look_hw [THEN yields_wrapping, THEN yields_bind, OF told(3)]
  show ?thesis unfolding getGpuInfo_def
    apply (rule read | rule yields_bind [OF look_need [OF looks_anything]], rule any
        | rule yields_bind [OF yields_wrapping [OF look_hw [OF looks_anything]]], rule any)+
    apply (rule yields_seq [where R = "\<lambda>_. sees view v"])
     apply (auto intro!: yields_if yields_seq [OF look_attempt [OF tried(1)]] yields_ret) []
    apply (rule yields_seq [OF look_attempt [OF tried(2)]])
    apply (rule yields_seq [OF yields_collect_all [OF gi_profiles_built [OF assms]]])
     apply blast
    apply (rule yields_ret)
    apply (auto simp: describes_def)
    done
qed

section \<open>The MIG devices of a GPU\<close>

text \<open>What the driver says of a MIG device: its IDs, its GPU and, when the GPU was described correctly, its name.\<close>

definition represents :: "'n nvml \<Rightarrow> ('n \<Rightarrow> hw_view) \<Rightarrow> hw_view \<Rightarrow> handle \<Rightarrow> GpuInfo \<Rightarrow> mig_id \<Rightarrow> MigDeviceInfo \<Rightarrow> bool" where
  "represents V view v d g x i \<longleftrightarrow> (md_GIID i, md_CIID i) = x \<and> md_ParentUUID i = g_UUID g \<and>
     (describes V view v d g \<longrightarrow> MigDevice_CanonicalName i = mig_name v d x)"

lemma mig_lawsD:
  assumes "mig_laws V view"
  shows "looks view (answers (\<lambda>v c. \<forall>k. hv_slot v d k \<noteq> None \<longrightarrow> k < c)) (nv_GetMaxMigDeviceCount V d)"
    and "looks view (\<lambda>v r. case r of
         Inl e \<Rightarrow> e \<in> {ERROR_NOT_FOUND, ERROR_INVALID_ARGUMENT} \<longrightarrow> hv_slot v d k = None
       | Inr m \<Rightarrow> \<exists>x. hv_slot v d k = Some x \<and> hv_mig v m = (d, x) \<and> \<not> hv_gpu v m) (nv_GetMigDeviceHandleByIndex V d k)"
    and "looks view (answers (\<lambda>v i. i = fst (snd (hv_mig v m)))) (nv_GetGpuInstanceId V m)"
    and "looks view (answers (\<lambda>v j. j = snd (snd (hv_mig v m)))) (nv_GetComputeInstanceId V m)"
    and "looks view (\<lambda>v r. case r of
         Inl e \<Rightarrow> e \<in> {ERROR_NOT_FOUND, ERROR_NOT_SUPPORTED} \<longrightarrow> (\<forall>k j. hv_slot v d k \<noteq> Some (i, j))
       | Inr gi \<Rightarrow> hv_gi v gi = (d, i)) (nv_GetGpuInstanceById V d i)"
    and "looks view (answers (\<lambda>v info. info = hv_info v (fst (hv_gi v gi)) (snd (hv_gi v gi)) \<and>
         uint (gi_Id info) = snd (hv_gi v gi))) (nv_GI_GetInfo V gi)"
    and "looks view (\<lambda>v r. case r of
         Inl e \<Rightarrow> e = ERROR_NOT_FOUND \<longrightarrow> (\<forall>k. hv_slot v (fst (hv_gi v gi)) k \<noteq> Some (snd (hv_gi v gi), j))
       | Inr ci \<Rightarrow> hv_ci v ci = (fst (hv_gi v gi), snd (hv_gi v gi), j)) (nv_GI_GetComputeInstanceById V gi j)"
    and "looks view (answers (\<lambda>v (info, _). uint (ci_Id info) = snd (snd (hv_ci v ci)))) (nv_CI_GetInfo V ci)"
    and "looks view anything (nv_GI_GetComputeInstanceProfileInfo V gi a b)"
  using assms by (simp_all add: mig_laws_def)

lemma mig_law_handle:
  assumes "mig_laws V view"
  shows "looks view (answers (\<lambda>v gi. hv_gi v gi = (d, i))) (nv_GetGpuInstanceById V d i)"
    and "looks view (answers (\<lambda>v ci. hv_ci v ci = (fst (hv_gi v gi), snd (hv_gi v gi), j))) (nv_GI_GetComputeInstanceById V gi j)"
  using mig_lawsD(5) [OF assms, of d i] mig_lawsD(7) [OF assms, of gi j]
  by (auto simp: looks_def answers_def split: sum.splits)

lemma mig_law_profile:
  assumes "mig_laws V view" and "hv_gi v gi = (d, fst x)" and "hv_ci v ci = (d, x)" and "told view v (nv_CI_GetInfo V ci) (ciInfo, h)"
    and "built_for V view v d p" and "fits_device V view v d gi (hv_info v d (fst x)) ciInfo p"
  shows "mp_String p = hv_profile v d (fst x)"
  using assms unfolding mig_laws_def by (cases x) auto

lemma fits_deviceI:
  "told view v (nv_GetGpuInstanceProfileInfo V d (pi_GIProfileID (mp_Info p))) gip \<Longrightarrow> gi_ProfileId giInfo = gip_Id gip \<Longrightarrow>
   told view v (nv_GI_GetComputeInstanceProfileInfo V gi (pi_CIProfileID (mp_Info p)) (pi_CIEngProfileID (mp_Info p))) cip \<Longrightarrow>
   ci_ProfileId ciInfo = cip_Id cip \<Longrightarrow> fits_device V view v d gi giInfo ciInfo p"
  unfolding fits_device_def by blast

lemma matching_profile_fits:
  assumes "gpu_laws V view" and "mig_laws V view"
  shows "yields (sees view v) (matching_profile V d gi giInfo ciInfo profiles)
     (\<lambda>m l. sees view v l \<and> (\<forall>mp gip cip. m = Some (mp, gip, cip) \<longrightarrow> mp \<in> set profiles \<and> gi_ProfileId giInfo = gip_Id gip \<and>
        fits_device V view v d gi giInfo ciInfo (mpi_profile mp))) (sees view v)" (is "yields _ _ ?Q _")
proof -
  have law: "looks view anything (nv_GetGpuInstanceProfileInfo V d i)" for i using assms(1) by (simp add: gpu_laws_def)
  show ?thesis unfolding matching_profile_def Let_def
  proof (rule yields_conseq [OF yields_fold [where I = "\<lambda>_. ?Q"]])
    fix mp found
    show "yields (?Q found) (seq (nv (nv_GetGpuInstanceProfileInfo V d (pi_GIProfileID (mp_Info (mpi_profile mp))))) (\<lambda>r.
          case r of
            Inl _ \<Rightarrow> ret found
          | Inr gip \<Rightarrow>
              if gi_ProfileId giInfo \<noteq> gip_Id gip then ret found
              else seq (nv (nv_GI_GetComputeInstanceProfileInfo V gi (pi_CIProfileID (mp_Info (mpi_profile mp)))
                     (pi_CIEngProfileID (mp_Info (mpi_profile mp))))) (\<lambda>r.
                   case r of
                     Inl _ \<Rightarrow> ret found
                   | Inr cip \<Rightarrow>
                       if ci_ProfileId ciInfo \<noteq> cip_Id cip then ret found
                       else ret (Some (mp, gip, cip))))) ?Q (sees view v)"
      if "profiles = ys @ mp # zs" for ys zs
      using that
      by (intro yields_pull)
        (auto intro!: yields_bind [OF look_nv [OF law]] yields_bind [OF look_nv [OF mig_lawsD(9) [OF assms(2)]]] yields_ret
          split: sum.split, rule fits_deviceI)
  qed auto
qed

lemma mig_device_info_represents:
  assumes laws: "gpu_laws V view" "mig_laws V view" and m: "hv_mig v m = (d, x)"
  shows "yields (sees view v) (mig_device_info V g d m)
     (\<lambda>i l. sees view v l \<and> md_UUID i = hv_uuid v m \<and> represents V view v d g x i) (sees view v)"
proof -
  have uuid: "looks view (answers (\<lambda>v u. u = hv_uuid v m)) (nv_GetUUID V m)" using laws(1) by (simp add: gpu_laws_def)
  note read = look_need [THEN yields_bind, OF mig_lawsD(3) [OF laws(2)]] look_need [THEN yields_bind, OF mig_law_handle(1) [OF laws(2)]]
    look_need [THEN yields_bind, OF mig_lawsD(6) [OF laws(2)]] look_need [THEN yields_bind, OF mig_lawsD(4) [OF laws(2)]]
    look_need [THEN yields_bind, OF mig_law_handle(2) [OF laws(2)]] look_need [THEN yields_bind, OF mig_lawsD(8) [OF laws(2)]]
    look_need [THEN yields_bind, OF uuid]
  show ?thesis unfolding mig_device_info_def case_prod_beta'
    apply (rule read)+
    apply (rule yields_bind [OF matching_profile_fits [OF laws]])
    apply (auto intro!: yields_intros split: option.split simp: represents_def m MigDevice_CanonicalName_def mig_name_def SpecTuple_def
        describes_def)
    apply (rule arg_cong, rule mig_law_profile [OF laws(2)])
    apply auto
    done
qed

text \<open>Walking the slots: the infos collected so far are of devices on the GPU, each under its UUID, and every device in
  a slot already visited is among them.\<close>

definition listed :: "(mig_id \<Rightarrow> MigDeviceInfo \<Rightarrow> bool) \<Rightarrow> hw_view \<Rightarrow> handle \<Rightarrow> nat list \<Rightarrow> (string \<times> MigDeviceInfo) list \<Rightarrow> bool" where
  "listed R v d ks infos \<longleftrightarrow>
     (\<forall>(u, i) \<in> set infos. \<exists>k x m. hv_slot v d k = Some x \<and> hv_mig v m = (d, x) \<and> \<not> hv_gpu v m \<and> u = hv_uuid v m \<and> R x i) \<and>
     (\<forall>k \<in> set ks. \<forall>x. hv_slot v d k = Some x \<longrightarrow> (\<exists>(u, i) \<in> set infos. R x i))"

lemma alist_update_keeps: "(a, b) \<in> set m \<Longrightarrow> a \<noteq> k \<Longrightarrow> (a, b) \<in> set (AList.update k v m)"
  by (induction m) auto

lemma alist_update_sets: "(k, v) \<in> set (AList.update k v m)"
  by (induction m) auto

lemma listed_Nil [simp]: "listed R v d [] []"
  by (simp add: listed_def)

lemma listed_skip: "listed R v d ks infos \<Longrightarrow> hv_slot v d k = None \<Longrightarrow> listed R v d (ks @ [k]) infos"
  by (auto simp: listed_def)

lemma listed_update:
  assumes "listed R v d ks infos" and x: "hv_slot v d k = Some x" and m: "hv_mig v m = (d, x)" "\<not> hv_gpu v m" and "R x i"
    and same: "\<And>m m'. \<not> hv_gpu v m \<Longrightarrow> \<not> hv_gpu v m' \<Longrightarrow> hv_uuid v m = hv_uuid v m' \<Longrightarrow> hv_mig v m = hv_mig v m'"
    and det: "\<And>x x' i. R x i \<Longrightarrow> R x' i \<Longrightarrow> x = x'"
  shows "listed R v d (ks @ [k]) (AList.update (hv_uuid v m) i infos)"
proof -
  let ?new = "AList.update (hv_uuid v m) i infos"
  have kept: "\<exists>(u, i) \<in> set ?new. R x' i" if "(u', i') \<in> set infos" "R x' i'" for u' i' x'
  proof (cases "u' = hv_uuid v m")
    case True
    with that assms(1) obtain m' x'' where "hv_mig v m' = (d, x'')" "\<not> hv_gpu v m'" "u' = hv_uuid v m'" "R x'' i'"
      by (force simp: listed_def)
    with True that(2) m same [of m' m] det [of x' i' x''] have "x' = x" by auto
    with \<open>R x i\<close> alist_update_sets [of "hv_uuid v m" i infos] show ?thesis by blast
  next
    case False
    with alist_update_keeps [OF that(1), of "hv_uuid v m" i] that(2) show ?thesis by blast
  qed
  have "\<exists>(u, i) \<in> set ?new. R x' i" if "k' \<in> set ks" "hv_slot v d k' = Some x'" for k' x'
  proof -
    from assms(1) that obtain u' i' where "(u', i') \<in> set infos" "R x' i'" unfolding listed_def by blast
    then show ?thesis by (rule kept)
  qed
  moreover have "\<exists>(u, i) \<in> set ?new. R x i" using \<open>R x i\<close> alist_update_sets [of "hv_uuid v m" i infos] by blast
  moreover have "\<exists>k x m. hv_slot v d k = Some x \<and> hv_mig v m = (d, x) \<and> \<not> hv_gpu v m \<and> u = hv_uuid v m \<and> R x i'"
    if "(u, i') \<in> set ?new" for u i'
  proof (cases "(u, i') \<in> set infos")
    case True with assms(1) show ?thesis unfolding listed_def by blast
  next
    case False
    with that set_alist_update [of "hv_uuid v m" i infos] have "u = hv_uuid v m" "i' = i" by auto
    with x m \<open>R x i\<close> show ?thesis by blast
  qed
  ultimately show ?thesis using x unfolding listed_def by auto
qed

lemma handle_of_gpu:
  assumes "gpu_laws V view" and "Enabled DynamicMIG" and "hv_gpu v d"
  shows "yields (sees view v) (handle_of V Enabled m (hv_uuid v d)) (\<lambda>d' l. sees view v l \<and> d' = d) (sees view v)"
proof (rule yields_post [OF handle_of_sees [where Enabled = Enabled, OF assms(1,2)]])
  fix d' l assume "sees view v l \<and> hv_uuid v d' = hv_uuid v d"
  moreover have "\<forall>n d d'. hv_gpu (view n) d \<and> hv_uuid (view n) d' = hv_uuid (view n) d \<longrightarrow> d' = d"
    using assms(1) by (simp add: gpu_laws_def)
  ultimately show "sees view v l \<and> d' = d" using assms(3) by (auto simp: sees_def)
qed

definition all_listed :: "(mig_id \<Rightarrow> MigDeviceInfo \<Rightarrow> bool) \<Rightarrow> hw_view \<Rightarrow> handle \<Rightarrow> (string \<times> MigDeviceInfo) list \<Rightarrow> bool" where
  "all_listed R v d infos \<longleftrightarrow> (\<forall>(u, i) \<in> set infos. \<exists>k x. hv_slot v d k = Some x \<and> R x i) \<and>
     (\<forall>k x. hv_slot v d k = Some x \<longrightarrow> (\<exists>(u, i) \<in> set infos. R x i))"

lemma listed_all: "listed R v d [0..<c] infos \<Longrightarrow> \<forall>k. hv_slot v d k \<noteq> None \<longrightarrow> k < c \<Longrightarrow> all_listed R v d infos"
  unfolding listed_def all_listed_def by fastforce

lemma all_listed_empty: "all_listed R v d [] \<longleftrightarrow> empty_gpu v d"
proof -
  have "(\<forall>x. hv_slot v d k \<noteq> Some x) \<longleftrightarrow> hv_slot v d k = None" for k by (cases "hv_slot v d k") auto
  then show ?thesis by (simp add: all_listed_def empty_gpu_def del: split_paired_All)
qed

lemma same_uuid_same_mig:
  assumes "mig_laws V view" and "told view v c y" and "\<not> hv_gpu v m" and "\<not> hv_gpu v m'" and "hv_uuid v m = hv_uuid v m'"
  shows "hv_mig v m = hv_mig v m'"
proof -
  from assms(1) have "\<forall>n m m'. \<not> hv_gpu (view n) m \<and> \<not> hv_gpu (view n) m' \<and> hv_uuid (view n) m = hv_uuid (view n) m' \<longrightarrow>
      hv_mig (view n) m = hv_mig (view n) m'" by (simp add: mig_laws_def)
  with assms(2-5) show ?thesis by (auto simp: told_def)
qed

lemma getMigDevices_listed:
  assumes laws: "gpu_laws V view" "mig_laws V view" and dyn: "Enabled DynamicMIG"
    and d: "hv_gpu v d" "g_UUID g = hv_uuid v d" "g_migEnabled g \<or> empty_gpu v d"
  shows "yields (sees view v) (getMigDevices V Enabled g)
     (\<lambda>migs l. sees view v l \<and> all_listed (represents V view v d g) v d migs) (sees view v)"
proof (cases "g_migEnabled g")
  case False
  with d(3) show ?thesis by (auto simp: getMigDevices_def all_listed_empty intro!: yields_ret)
next
  case True
  let ?R = "represents V view v d g"
  let ?I = "\<lambda>ks infos l. sees view v l \<and> listed ?R v d ks infos"
  have det: "?R x i \<Longrightarrow> ?R x' i \<Longrightarrow> x = x'" for x x' i by (auto simp: represents_def)
  have slot: "yields (?I ks infos) (seq (nv (nv_GetMigDeviceHandleByIndex V d k)) (\<lambda>r. case r of
         Inl e \<Rightarrow> if e = ERROR_NOT_FOUND \<or> e = ERROR_INVALID_ARGUMENT then ret infos
                 else throw (Err ''error getting MIG device handle at index'')
       | Inr m \<Rightarrow> seq (mig_device_info V g d m) (\<lambda>info. ret (AList.update (md_UUID info) info infos)))) (?I (ks @ [k])) (sees view v)"
    for ks infos k
  proof (intro yields_pull yields_bind [OF look_nv [OF mig_lawsD(2) [OF laws(2)]]])
    fix r assume ks: "listed ?R v d ks infos" and r: "(case r of
         Inl e \<Rightarrow> e \<in> {ERROR_NOT_FOUND, ERROR_INVALID_ARGUMENT} \<longrightarrow> hv_slot v d k = None
       | Inr m \<Rightarrow> \<exists>x. hv_slot v d k = Some x \<and> hv_mig v m = (d, x) \<and> \<not> hv_gpu v m) \<and>
       (\<forall>x. r = Inr x \<longrightarrow> told view v (nv_GetMigDeviceHandleByIndex V d k) x)"
    show "yields (sees view v) (case r of
         Inl e \<Rightarrow> if e = ERROR_NOT_FOUND \<or> e = ERROR_INVALID_ARGUMENT then ret infos
                 else throw (Err ''error getting MIG device handle at index'')
       | Inr m \<Rightarrow> seq (mig_device_info V g d m) (\<lambda>info. ret (AList.update (md_UUID info) info infos))) (?I (ks @ [k])) (sees view v)"
    proof (cases r)
      case (Inl e)
      with r ks show ?thesis by (auto intro!: yields_intros simp: listed_skip)
    next
      case (Inr m)
      with r obtain x where m: "hv_slot v d k = Some x" "hv_mig v m = (d, x)" "\<not> hv_gpu v m"
        and told: "told view v (nv_GetMigDeviceHandleByIndex V d k) m" by auto
      show ?thesis unfolding Inr sum.case
      proof (intro yields_bind [OF mig_device_info_represents [OF laws m(2)]] yields_ret conjI)
        fix i w assume "md_UUID i = hv_uuid v m \<and> ?R x i"
        then have i: "md_UUID i = hv_uuid v m" "?R x i" by blast+
        show "listed ?R v d (ks @ [k]) (AList.update (md_UUID i) i infos)" unfolding i(1)
          by (rule listed_update [where R = ?R, OF ks m i(2) same_uuid_same_mig [OF laws(2) told] det])
      qed
    qed
  qed
  have walk: "yields (sees view v) (walkMigDevices V d (\<lambda>i m infos. seq (mig_device_info V g d m)
      (\<lambda>info. ret (AList.update (md_UUID info) info infos))) []) (\<lambda>migs l. sees view v l \<and> all_listed ?R v d migs) (sees view v)"
    unfolding walkMigDevices_def
  proof (rule yields_bind [OF look_need [OF mig_lawsD(1) [OF laws(2)]]])
    fix c assume c: "(\<forall>k. hv_slot v d k \<noteq> None \<longrightarrow> k < c) \<and> told view v (nv_GetMaxMigDeviceCount V d) c"
    show "yields (sees view v) (fold_act (\<lambda>k infos. seq (nv (nv_GetMigDeviceHandleByIndex V d k)) (\<lambda>r. case r of
         Inl e \<Rightarrow> if e = ERROR_NOT_FOUND \<or> e = ERROR_INVALID_ARGUMENT then ret infos
                 else throw (Err ''error getting MIG device handle at index'')
       | Inr m \<Rightarrow> seq (mig_device_info V g d m) (\<lambda>info. ret (AList.update (md_UUID info) info infos)))) [0..<c] [])
      (\<lambda>migs l. sees view v l \<and> all_listed ?R v d migs) (sees view v)"
    proof (rule yields_conseq)
      show "yields (?I [] []) (fold_act (\<lambda>k infos. seq (nv (nv_GetMigDeviceHandleByIndex V d k)) (\<lambda>r. case r of
         Inl e \<Rightarrow> if e = ERROR_NOT_FOUND \<or> e = ERROR_INVALID_ARGUMENT then ret infos
                 else throw (Err ''error getting MIG device handle at index'')
       | Inr m \<Rightarrow> seq (mig_device_info V g d m) (\<lambda>info. ret (AList.update (md_UUID info) info infos)))) [0..<c] [])
        (?I [0..<c]) (sees view v)" by (rule yields_fold) (rule slot)
      show "?I [0..<c] migs l \<Longrightarrow> sees view v l \<and> all_listed ?R v d migs" for migs l
        using c listed_all [of ?R v d c migs] by blast
    qed (simp_all only: listed_Nil simp_thms)
  qed
  show ?thesis using True dyn unfolding getMigDevices_def ensureNVML_def d(2)
    by (auto intro!: yields_bind [OF handle_of_gpu [where Enabled = Enabled, OF laws(1) dyn d(1)]] yields_wrapping walk)
qed

end
