(* ===== verification/MigTeardown.thy ===== *)
theory MigTeardown
  imports MigHardware
begin

text \<open>
  Destroying MIG devices (\<open>deleteMigDevice\<close>, \<open>maybeDisableMigMode\<close>, \<open>obliterateStaleMIGDevices\<close> in \<open>nvlib.go\<close>, and
  \<open>DestroyUnknownMIGDevices\<close> in \<open>device_state.go\<close>, which runs them at startup): which MIG devices are left, on every
  outcome of every call.
\<close>

section \<open>Destroying MIG devices\<close>

text \<open>MIG mode is left only when no MIG device is found, so no MIG device is lost by it.\<close>

lemma maybeDisable_sees:
  assumes laws: "nvml_laws V view" and dyn: "Enabled DynamicMIG" and d: "hv_gpu v d"
  shows "yields (sees view v) (maybeDisableMigMode V Enabled (hv_uuid v d) d) (\<lambda>_. sees view v) (sees view v)"
proof -
  note parts = laws [unfolded nvml_laws_def, THEN conjunct1] laws [unfolded nvml_laws_def, THEN conjunct2, THEN conjunct1]
  have off: "\<forall>d n r n'. nv_SetMigMode V d False n = (r, n') \<longrightarrow> view n' \<in> {view n, drop_migs d (\<lambda>_. True) (view n)}"
    using laws by (simp add: nvml_laws_def destroy_laws_def)
  have disable: "yields (sees view v) (need m (nv_SetMigMode V d False)) (\<lambda>_. sees view v) (sees view v)" if "empty_gpu v d" for m
    using off drop_migs_empty [OF that] by (intro yields_need) (fastforce simp: sees_def)+
  let ?C = "\<lambda>g :: GpuInfo option. \<forall>gpu. g = Some gpu \<longrightarrow> g_UUID gpu = hv_uuid v d \<and> (g_migEnabled gpu \<or> empty_gpu v d)"
  have cached: "sees view v l \<Longrightarrow> ?C (map_of (lb_gpuInfosByUUID l) (hv_uuid v d))" for l :: "'a lib"
    by (auto simp: sees_def known_def dest!: map_of_SomeD)
  show ?thesis unfolding maybeDisableMigMode_def
  proof (rule yields_bind [where C = ?C])
    fix g assume g: "?C g"
    show "yields (sees view v) (case g of None \<Rightarrow> throw (Err ''uuid not in gpuInfosByUUID'')
     | Some gpu \<Rightarrow> seq (wrapping ''error getting MIG devices'' (getMigDevices V Enabled gpu)) (\<lambda>migs.
         if migs \<noteq> [] then ret () else need ''error disabling MIG mode'' (nv_SetMigMode V d False)))
      (\<lambda>_. sees view v) (sees view v)"
    proof (cases g)
      case (Some gpu)
      with g have gpu: "g_UUID gpu = hv_uuid v d" "g_migEnabled gpu \<or> empty_gpu v d" by auto
      show ?thesis unfolding Some option.case
        by (rule yields_bind [OF yields_wrapping [OF getMigDevices_listed [where Enabled = Enabled, OF parts dyn d gpu]]])
          (auto simp: all_listed_empty intro!: yields_if yields_ret disable)
    qed (auto intro: yields_throw)
  qed (rule yields_gets, simp add: cached)
qed

text \<open>A MIG device is deleted or not, whatever happens; it is when no error is reported. Nothing else changes.\<close>

lemma not_mig_absent: "\<forall>k. hv_slot v d k \<noteq> Some x \<Longrightarrow> not_mig v d x = v"
  unfolding not_mig_def by (rule drop_migs_absent) auto

lemma deleteMigDevice_drops:
  assumes laws: "nvml_laws V view" and dyn: "Enabled DynamicMIG" and d: "hv_gpu v d"
    and t: "ml_ParentUUID t = hv_uuid v d" "(ml_GIID t, ml_CIID t) = x"
  shows "yields (sees view v) (deleteMigDevice V Enabled t) (\<lambda>_. sees view (not_mig v d x))
     (\<lambda>l. sees view v l \<or> sees view (not_mig v d x) l)" (is "yields _ _ _ ?E")
proof -
  note parts = laws [unfolded nvml_laws_def, THEN conjunct1] laws [unfolded nvml_laws_def, THEN conjunct2, THEN conjunct1]
    laws [unfolded nvml_laws_def, THEN conjunct2, THEN conjunct2]
  have ci: "\<forall>ci n r n'. nv_CI_Destroy V ci n = (r, n') \<longrightarrow> view n' = (case r of
         Inl _ \<Rightarrow> view n | Inr _ \<Rightarrow> not_mig (view n) (fst (hv_ci (view n) ci)) (snd (hv_ci (view n) ci)))"
    and gi: "looks view anything (nv_GI_Destroy V gi)" for gi
    using parts(3) by (simp_all add: destroy_laws_def)
  let ?v' = "not_mig v d x"
  have v': "hv_gpu ?v' d" "hv_uuid ?v' = hv_uuid v" using d by (simp_all add: not_mig_def)
  have finish: "yields (sees view ?v') (wrapping m (maybeDisableMigMode V Enabled (hv_uuid v d) d)) (\<lambda>_. sees view ?v') ?E" for m
    by (rule yields_wrapping, rule yields_conseq [OF maybeDisable_sees [where Enabled = Enabled, OF laws dyn v'(1), unfolded v'(2)]]) auto
  have compute: "yields (sees view v) (need m (nv_CI_Destroy V c)) (\<lambda>_. sees view ?v') ?E" if "hv_ci v c = (d, x)" for m c
    using ci that by (intro yields_need) (fastforce simp: sees_def not_mig_def known_drop)+
  have rest: "yields (sees view ?v') (seq (need m (nv_GI_Destroy V g)) (\<lambda>_.
      wrapping m' (maybeDisableMigMode V Enabled (hv_uuid v d) d))) (\<lambda>_. sees view ?v') ?E" for m m' g
    by (rule yields_seq [OF yields_conseq [OF look_need [OF looks_anything [OF gi]]] finish]) auto
  show ?thesis unfolding deleteMigDevice_def Let_def t(1)
  proof (intro yields_bind [OF yields_conseq [OF handle_of_gpu [where Enabled = Enabled, OF parts(1) dyn d]]]
      yields_bind [OF look_nv [OF mig_lawsD(5) [OF parts(2)]]])
    fix p r assume "p = d" and r: "(case r of
         Inl e \<Rightarrow> e \<in> {ERROR_NOT_FOUND, ERROR_NOT_SUPPORTED} \<longrightarrow> (\<forall>k j. hv_slot v p k \<noteq> Some (ml_GIID t, j))
       | Inr gi \<Rightarrow> hv_gi v gi = (p, ml_GIID t)) \<and> (\<forall>y. r = Inr y \<longrightarrow> told view v (nv_GetGpuInstanceById V p (ml_GIID t)) y)"
    show "yields (sees view v) (case r of
       Inl e \<Rightarrow>
         if e = ERROR_NOT_SUPPORTED then ret ()
         else if e \<noteq> ERROR_NOT_FOUND then throw (Err ''error getting GPU instance handle for MIG device'')
         else wrapping ''failed maybeDisableMigMode'' (maybeDisableMigMode V Enabled (hv_uuid v d) p)
     | Inr gi \<Rightarrow>
         seq (nv (nv_GI_GetComputeInstanceById V gi (ml_CIID t))) (\<lambda>cires.
         seq (case cires of
                Inl e \<Rightarrow> if e \<noteq> ERROR_NOT_FOUND then throw (Err ''error getting Compute instance handle for MIG device'')
                         else ret ()
              | Inr ci \<Rightarrow> need ''error destroying Compute instance'' (nv_CI_Destroy V ci)) (\<lambda>_.
         seq (need ''error destroying GPU Instance'' (nv_GI_Destroy V gi)) (\<lambda>_.
         wrapping ''failed maybeDisableMigMode'' (maybeDisableMigMode V Enabled (hv_uuid v d) p)))))
      (\<lambda>_. sees view ?v') ?E"
    proof (cases r)
      case (Inl e)
      have "?v' = v" if "e \<in> {ERROR_NOT_FOUND, ERROR_NOT_SUPPORTED}"
        using r that t(2) \<open>p = d\<close> by (auto simp: Inl intro!: not_mig_absent)
      with finish show ?thesis by (auto simp: Inl \<open>p = d\<close> intro!: yields_if yields_ret yields_throw)
    next
      case (Inr g)
      with r \<open>p = d\<close> have g: "hv_gi v g = (d, ml_GIID t)" by simp
      show ?thesis unfolding Inr sum.case \<open>p = d\<close>
      proof (intro yields_bind [OF look_nv [OF mig_lawsD(7) [OF parts(2)]]])
        fix c assume c: "(case c of
            Inl e \<Rightarrow> e = ERROR_NOT_FOUND \<longrightarrow> (\<forall>k. hv_slot v (fst (hv_gi v g)) k \<noteq> Some (snd (hv_gi v g), ml_CIID t))
          | Inr ci \<Rightarrow> hv_ci v ci = (fst (hv_gi v g), snd (hv_gi v g), ml_CIID t)) \<and>
          (\<forall>y. c = Inr y \<longrightarrow> told view v (nv_GI_GetComputeInstanceById V g (ml_CIID t)) y)"
        have "yields (sees view v) (case c of
            Inl e \<Rightarrow> if e \<noteq> ERROR_NOT_FOUND then throw (Err ''error getting Compute instance handle for MIG device'') else ret ()
          | Inr ci \<Rightarrow> need ''error destroying Compute instance'' (nv_CI_Destroy V ci)) (\<lambda>_. sees view ?v') ?E"
        proof (cases c)
          case (Inl e)
          have "?v' = v" if "e = ERROR_NOT_FOUND" using c that t(2) by (auto simp: Inl g intro!: not_mig_absent)
          then show ?thesis by (auto simp: Inl intro!: yields_if yields_ret yields_throw)
        next
          case (Inr b)
          with c t(2) g have "hv_ci v b = (d, x)" by auto
          with Inr show ?thesis by (simp add: compute)
        qed
        then show "yields (sees view v) (seq (case c of
            Inl e \<Rightarrow> if e \<noteq> ERROR_NOT_FOUND then throw (Err ''error getting Compute instance handle for MIG device'') else ret ()
          | Inr ci \<Rightarrow> need ''error destroying Compute instance'' (nv_CI_Destroy V ci)) (\<lambda>_.
         seq (need ''error destroying GPU Instance'' (nv_GI_Destroy V g)) (\<lambda>_.
         wrapping ''failed maybeDisableMigMode'' (maybeDisableMigMode V Enabled (hv_uuid v d) d))))
          (\<lambda>_. sees view ?v') ?E" by (rule yields_seq) (rule rest)
      qed
    qed
  qed auto
qed

section \<open>The teardown\<close>

text \<open>A view that came about from another by taking MIG devices away whose names are not expected, and a GPU that is
  left with expected ones only.\<close>

definition pruned :: "DeviceName set \<Rightarrow> hw_view \<Rightarrow> hw_view \<Rightarrow> bool" where
  "pruned E v0 v \<longleftrightarrow> v\<lparr>hv_slot := hv_slot v0\<rparr> = v0 \<and>
     (\<forall>d k. hv_slot v d k = hv_slot v0 d k \<or>
        (hv_slot v d k = None \<and> (\<exists>x. hv_slot v0 d k = Some x \<and> mig_name v0 d x \<notin> E)))"

definition tidy :: "DeviceName set \<Rightarrow> hw_view \<Rightarrow> handle \<Rightarrow> bool" where
  "tidy E v d \<longleftrightarrow> (\<forall>k x. hv_slot v d k = Some x \<longrightarrow> mig_name v d x \<in> E)"

lemma pruned_refl [simp]: "pruned E v v"
  by (simp add: pruned_def)

lemma pruned_rest:
  assumes "pruned E v0 v"
  shows "hv_gpu v = hv_gpu v0" and "mig_name v = mig_name v0" and "hv_uuid v = hv_uuid v0"
proof -
  from assms have v0: "v0 = v\<lparr>hv_slot := hv_slot v0\<rparr>" by (simp add: pruned_def)
  show "hv_gpu v = hv_gpu v0" "hv_uuid v = hv_uuid v0" by (subst v0, simp)+
  show "mig_name v = mig_name v0" by (subst v0) (simp add: mig_name_def fun_eq_iff)
qed

lemma pruned_slot: "pruned E v0 v \<Longrightarrow> hv_slot v d k = Some x \<Longrightarrow> hv_slot v0 d k = Some x"
  unfolding pruned_def by (metis option.distinct(1))

lemma pruned_trans:
  assumes "pruned E v0 v" and "pruned E v v'"
  shows "pruned E v0 v'"
proof -
  from assms have "v'\<lparr>hv_slot := hv_slot v\<rparr> = v" "v\<lparr>hv_slot := hv_slot v0\<rparr> = v0" by (simp_all add: pruned_def)
  then have "v'\<lparr>hv_slot := hv_slot v0\<rparr> = v0" by (metis hw_view.update_convs(1) hw_view.cases)
  moreover have "hv_slot v' d k = hv_slot v0 d k \<or>
      (hv_slot v' d k = None \<and> (\<exists>x. hv_slot v0 d k = Some x \<and> mig_name v0 d x \<notin> E))" for d k
    using assms pruned_rest(2) [OF assms(1)] unfolding pruned_def by metis
  ultimately show ?thesis by (simp add: pruned_def)
qed

lemma pruned_not_mig: "mig_name v d x \<notin> E \<Longrightarrow> pruned E v (not_mig v d x)"
  by (auto simp: pruned_def not_mig_def drop_migs_def split: option.split)

lemma tidy_pruned: "pruned E v v' \<Longrightarrow> tidy E v d \<Longrightarrow> tidy E v' d"
  unfolding tidy_def using pruned_slot pruned_rest(2) by metis

text \<open>One GPU after another.\<close>

definition after_teardown :: "('n \<Rightarrow> hw_view) \<Rightarrow> DeviceName set \<Rightarrow> hw_view \<Rightarrow> handle set \<Rightarrow> 'n lib \<Rightarrow> bool" where
  "after_teardown view E v0 D l \<longleftrightarrow> (\<exists>v. (pruned E v0 v \<and> (\<forall>d \<in> D. tidy E v d)) \<and> sees view v l)"

lemma deletes_unexpected:
  assumes laws: "nvml_laws V view" and dyn: "Enabled DynamicMIG" and d: "hv_gpu v d" "g_UUID g = hv_uuid v d"
    and g: "describes V view v d g" and all: "all_listed (represents V view v d g) v d migs"
  shows "yields (sees view v) (each (\<lambda>(_, mdi).
       if MigDevice_CanonicalName mdi \<in> E then ret ()
       else wrapping m (deleteMigDevice V Enabled (LiveTuple mdi))) migs)
     (\<lambda>_. after_teardown view E v {d}) (after_teardown view E v {})"
proof -
  let ?I = "\<lambda>(ys :: (string \<times> MigDeviceInfo) list) l. \<exists>v'. (pruned E v v' \<and> (\<forall>(u, i) \<in> set ys. MigDevice_CanonicalName i \<notin> E \<longrightarrow>
      (\<forall>k. hv_slot v' d k \<noteq> Some (md_GIID i, md_CIID i)))) \<and> sees view v' l"
  have step: "yields (?I ys) (case ui of (_, mdi) \<Rightarrow>
       if MigDevice_CanonicalName mdi \<in> E then ret ()
       else wrapping m (deleteMigDevice V Enabled (LiveTuple mdi))) (\<lambda>_. ?I (ys @ [ui])) (after_teardown view E v {})"
    if split: "migs = ys @ ui # zs" for ys ui zs
  proof (rule yields_exI, subst conj_commute, rule yields_pull)
    fix v' assume v': "pruned E v v' \<and> (\<forall>(u, i) \<in> set ys. MigDevice_CanonicalName i \<notin> E \<longrightarrow>
      (\<forall>k. hv_slot v' d k \<noteq> Some (md_GIID i, md_CIID i)))"
    then have pv: "pruned E v v'" by blast
    obtain u i where ui: "ui = (u, i)" by (cases ui)
    from all split ui obtain x where x: "(md_GIID i, md_CIID i) = x" "md_ParentUUID i = hv_uuid v' d" "MigDevice_CanonicalName i = mig_name v' d x"
      using d(2) g pruned_rest [OF pv] by (fastforce simp: all_listed_def represents_def)
    have gpu: "hv_gpu v' d" using d(1) pruned_rest(1) [OF pv] by simp
    show "yields (sees view v') (case ui of (_, mdi) \<Rightarrow>
       if MigDevice_CanonicalName mdi \<in> E then ret ()
       else wrapping m (deleteMigDevice V Enabled (LiveTuple mdi))) (\<lambda>_. ?I (ys @ [ui])) (after_teardown view E v {})"
    proof (cases "MigDevice_CanonicalName i \<in> E")
      case True
      with v' ui show ?thesis by (auto intro!: yields_ret)
    next
      case False
      then have pr: "pruned E v (not_mig v' d x)" using v' x(3) by (auto intro: pruned_trans pruned_not_mig)
      have "?I (ys @ [ui]) l" if "sees view (not_mig v' d x) l" for l
        using that pr v' x(1) ui by (intro exI [of _ "not_mig v' d x"]) (auto simp: not_mig_def split: option.splits)
      moreover have "after_teardown view E v {} l" if "sees view v' l \<or> sees view (not_mig v' d x) l" for l
        using that pr v' by (auto simp: after_teardown_def)
      ultimately show ?thesis using False ui
        by (auto intro!: yields_wrapping yields_conseq [OF deleteMigDevice_drops [where Enabled = Enabled, OF laws dyn gpu]]
            simp: LiveTuple_def x(1,2))
    qed
  qed
  have "yields (?I []) (each (\<lambda>(_, mdi).
       if MigDevice_CanonicalName mdi \<in> E then ret ()
       else wrapping m (deleteMigDevice V Enabled (LiveTuple mdi))) migs) (\<lambda>_. ?I migs) (after_teardown view E v {})"
    by (rule yields_each [where I = ?I]) (rule step)
  then show ?thesis
  proof (rule yields_conseq)
    fix l assume "?I migs l"
    then obtain v' where v': "pruned E v v'" "sees view v' l" and gone: "\<forall>(u, i) \<in> set migs. MigDevice_CanonicalName i \<notin> E \<longrightarrow>
      (\<forall>k. hv_slot v' d k \<noteq> Some (md_GIID i, md_CIID i))" by blast
    have "mig_name v' d x \<in> E" if x: "hv_slot v' d k = Some x" for k x
    proof -
      from pruned_slot [OF v'(1) x] all obtain u i where "(u, i) \<in> set migs" "represents V view v d g x i"
        unfolding all_listed_def by blast
      with gone x g pruned_rest(2) [OF v'(1)] show ?thesis by (fastforce simp: represents_def)
    qed
    with v' show "after_teardown view E v {d} l" by (auto simp: after_teardown_def tidy_def)
  qed (auto intro: exI [of _ v])
qed

lemma after_pruned:
  assumes "pruned E v0 v" and "\<forall>d \<in> D. tidy E v d" and "after_teardown view E v D' l"
  shows "after_teardown view E v0 (D \<union> D') l"
  using assms unfolding after_teardown_def by (blast intro: pruned_trans tidy_pruned)

lemma teardown_of_gpu:
  assumes laws: "nvml_laws V view" and dyn: "Enabled DynamicMIG" and d: "hv_gpu v0 d"
  shows "yields (after_teardown view (set expected) v0 D)
     (seq (wrapping m1 (getGpuInfo V i d)) (\<lambda>ginfo.
      seq (wrapping m2 (getMigDevices V Enabled ginfo)) (\<lambda>migs.
      seq (each (\<lambda>(_, mdi).
             if MigDevice_CanonicalName mdi \<in> set expected then ret ()
             else wrapping m3 (deleteMigDevice V Enabled (LiveTuple mdi))) migs) (\<lambda>_.
      wrapping m4 (maybeDisableMigMode V Enabled (g_UUID ginfo) d)))))
     (\<lambda>_. after_teardown view (set expected) v0 (insert d D)) (after_teardown view (set expected) v0 {})"
    (is "yields _ ?m _ ?E")
proof -
  let ?A = "after_teardown view (set expected)"
  note parts = laws [unfolded nvml_laws_def, THEN conjunct1] laws [unfolded nvml_laws_def, THEN conjunct2, THEN conjunct1]
  have run: "yields (sees view v) ?m (\<lambda>_. ?A v {d}) (?A v {})" if v: "hv_gpu v d" for v
  proof (intro yields_bind [OF yields_conseq [OF yields_wrapping [OF getGpuInfo_describes [OF parts(1)]]]])
    fix g assume g: "describes V view v d g \<and> g_UUID g = hv_uuid v d \<and> (g_migEnabled g \<or> empty_gpu v d)"
    then have uuid: "g_UUID g = hv_uuid v d" "g_migEnabled g \<or> empty_gpu v d" by blast+
    show "yields (sees view v) (seq (wrapping m2 (getMigDevices V Enabled g)) (\<lambda>migs.
      seq (each (\<lambda>(_, mdi).
             if MigDevice_CanonicalName mdi \<in> set expected then ret ()
             else wrapping m3 (deleteMigDevice V Enabled (LiveTuple mdi))) migs) (\<lambda>_.
      wrapping m4 (maybeDisableMigMode V Enabled (g_UUID g) d)))) (\<lambda>_. ?A v {d}) (?A v {})"
    proof (intro yields_bind [OF yields_conseq [OF yields_wrapping
          [OF getMigDevices_listed [where Enabled = Enabled, OF parts dyn v uuid]]]])
      fix migs assume "all_listed (represents V view v d g) v d migs"
      then have deletes: "yields (sees view v) (each (\<lambda>(_, mdi).
             if MigDevice_CanonicalName mdi \<in> set expected then ret ()
             else wrapping m3 (deleteMigDevice V Enabled (LiveTuple mdi))) migs) (\<lambda>_. ?A v {d}) (?A v {})"
        using g by (intro deletes_unexpected [where Enabled = Enabled, OF laws dyn v uuid(1)]) blast+
      have off: "yields (?A v {d}) (wrapping m4 (maybeDisableMigMode V Enabled (hv_uuid v d) d)) (\<lambda>_. ?A v {d}) (?A v {})"
        unfolding after_teardown_def
      proof (rule yields_exI, subst conj_commute, rule yields_pull)
        fix v' assume v': "pruned (set expected) v v' \<and> (\<forall>d \<in> {d}. tidy (set expected) v' d)"
        then have "hv_gpu v' d" "hv_uuid v' = hv_uuid v" using v pruned_rest by metis+
        then have off: "yields (sees view v') (maybeDisableMigMode V Enabled (hv_uuid v d) d) (\<lambda>_. sees view v') (sees view v')"
          using maybeDisable_sees [where Enabled = Enabled, OF laws dyn, of v' d] by simp
        show "yields (sees view v') (wrapping m4 (maybeDisableMigMode V Enabled (hv_uuid v d) d))
          (\<lambda>_ l. \<exists>va. (pruned (set expected) v va \<and> (\<forall>d \<in> {d}. tidy (set expected) va d)) \<and> sees view va l)
          (\<lambda>l. \<exists>va. (pruned (set expected) v va \<and> (\<forall>d \<in> {}. tidy (set expected) va d)) \<and> sees view va l)"
          by (rule yields_wrapping, rule yields_conseq [OF off]) (use v' in auto)
      qed
      show "yields (sees view v) (seq (each (\<lambda>(_, mdi).
             if MigDevice_CanonicalName mdi \<in> set expected then ret ()
             else wrapping m3 (deleteMigDevice V Enabled (LiveTuple mdi))) migs) (\<lambda>_.
        wrapping m4 (maybeDisableMigMode V Enabled (g_UUID g) d))) (\<lambda>_. ?A v {d}) (?A v {})"
        unfolding uuid(1) by (rule yields_seq [OF deletes off])
    qed (auto simp: after_teardown_def intro: exI [of _ v])
  qed (auto simp: after_teardown_def intro: exI [of _ v])
  show ?thesis unfolding after_teardown_def [of view "set expected" v0 D]
  proof (rule yields_exI, subst conj_commute, rule yields_pull)
    fix v assume v: "pruned (set expected) v0 v \<and> (\<forall>d \<in> D. tidy (set expected) v d)"
    then have gpu: "hv_gpu v d" using d pruned_rest(1) by metis
    show "yields (sees view v) ?m (\<lambda>_. ?A v0 (insert d D)) (?A v0 {})"
    proof (rule yields_conseq [OF run [OF gpu]])
      show "?A v {d} l \<Longrightarrow> ?A v0 (insert d D) l" for l using after_pruned [of _ v0 v D view "{d}" l] v by simp
      show "?A v {} l \<Longrightarrow> ?A v0 {} l" for l using after_pruned [of _ v0 v "{}" view "{}" l] v by simp
    qed
  qed
qed

text \<open>The GPUs NVML lists at a state.\<close>

definition listed_gpus :: "'n nvml \<Rightarrow> 'n \<Rightarrow> handle set" where
  "listed_gpus V n = {d. \<exists>i. Inr (i, d) \<in> set (fst (nv_VisitDevices V n))}"

lemma teardown_prunes:
  assumes laws: "nvml_laws V view" and dyn: "Enabled DynamicMIG" and l0: "sees view v0 l0"
  shows "yields (\<lambda>l. l = l0) (obliterateStaleMIGDevices V Enabled expected)
     (\<lambda>_. after_teardown view (set expected) v0 (listed_gpus V (lb_hw l0))) (after_teardown view (set expected) v0 {})"
proof -
  let ?A = "after_teardown view (set expected) v0"
  let ?f = "\<lambda>e (_::unit). seq (entry_act e) (\<lambda>(i, d). seq (wrapping ''error getting info for GPU'' (getGpuInfo V i d)) (\<lambda>ginfo.
          seq (wrapping ''error getting MIG devices for GPU'' (getMigDevices V Enabled ginfo)) (\<lambda>migs.
          seq (each (\<lambda>(_, mdi).
                 if MigDevice_CanonicalName mdi \<in> set expected then ret ()
                 else wrapping ''could not delete unexpected MIG device'' (deleteMigDevice V Enabled (LiveTuple mdi)))
               migs) (\<lambda>_.
          wrapping ''maybeDisableMigMode failed'' (maybeDisableMigMode V Enabled (g_UUID ginfo) d)))))"
  let ?D = "\<lambda>ys. {d. \<exists>i. Inr (i, d) \<in> set ys}"
  have law: "looks view (\<lambda>v ds. \<forall>i d. Inr (i, d) \<in> set ds \<longrightarrow> hv_gpu v d) (nv_VisitDevices V)"
    using laws by (simp add: nvml_laws_def gpu_laws_def)
  let ?ds = "fst (nv_VisitDevices V (lb_hw l0))"
  have gpus: "hv_gpu v0 d" if "Inr (i, d) \<in> set ?ds" for i d
    using law l0 that by (cases "nv_VisitDevices V (lb_hw l0)") (auto simp: looks_def sees_def)
  have start: "yields (\<lambda>l. l = l0) (in_hw (\<lambda>n. case nv_VisitDevices V n of (ds, n') \<Rightarrow> (Inr ds, n')))
      (\<lambda>ds l. ?A {} l \<and> ds = ?ds) (?A {})"
    using law l0 by (intro yields_in_hw) (fastforce simp: looks_def sees_def after_teardown_def split: prod.splits)+
  have step: "yields (?A (?D ys)) (?f e b) (\<lambda>_. ?A (?D (ys @ [e]))) (?A {})" if "?ds = ys @ e # zs" for ys e zs b
  proof (cases e)
    case (Inl x)
    have "?A (?D ys) l \<Longrightarrow> ?A {} l" for l by (auto simp: after_teardown_def)
    with Inl show ?thesis by (simp add: entry_act_def seq_basic yields_throw)
  next
    case (Inr p)
    obtain i d where p: "p = (i, d)" by (cases p)
    have "?D (ys @ [e]) = insert d (?D ys)" by (auto simp: Inr p)
    moreover have "hv_gpu v0 d" using that by (intro gpus [of i]) (simp add: Inr p)
    ultimately show ?thesis using teardown_of_gpu [where Enabled = Enabled, OF laws dyn]
      by (simp add: entry_act_def seq_basic Inr p)
  qed
  have visit: "yields (?A {}) (fold_act ?f ?ds ()) (\<lambda>_. ?A (?D ?ds)) (?A {})"
    using yields_fold [where I = "\<lambda>ys _. ?A (?D ys)", OF step] by simp
  show ?thesis unfolding obliterateStaleMIGDevices_def VisitDevices_def listed_gpus_def
    by (rule yields_wrapping, rule yields_seq [OF start], rule yields_pull) (simp add: visit)
qed

section \<open>Properties\<close>

lemma teardown_result:
  assumes laws: "nvml_laws V view" and dyn: "Enabled DynamicMIG" and known: "known (view (lb_hw l)) l"
    and run: "obliterateStaleMIGDevices V Enabled expected l = (r, l')"
  shows "\<exists>v. pruned (set expected) (view (lb_hw l)) v \<and> view (lb_hw l') = v \<and>
     (r = Inr () \<longrightarrow> (\<forall>d \<in> listed_gpus V (lb_hw l). tidy (set expected) v d))"
proof -
  have sees: "sees view (view (lb_hw l)) l" using known by (simp add: sees_def)
  note t = teardown_prunes [where Enabled = Enabled, OF laws dyn sees]
  show ?thesis
  proof (cases r)
    case (Inl f)
    with yields_Inl [OF t refl] run show ?thesis by (auto simp: after_teardown_def sees_def)
  next
    case (Inr u)
    with yields_Inr [OF t refl] run show ?thesis by (fastforce simp: after_teardown_def sees_def)
  qed
qed

text \<open>C11: The teardown at startup destroys exactly the unexpected MIG devices. Whatever NVML answers and whichever
  call fails, a MIG device whose name is among the expected ones stays in its slot, no device appears, and no device is
  lost by leaving MIG mode; when the teardown reports success, the GPUs NVML lists hold expected devices only.\<close>

theorem teardown_exact:
  assumes "nvml_laws V view" and "Enabled DynamicMIG" and "known (view (lb_hw l)) l"
    and "obliterateStaleMIGDevices V Enabled expected l = (r, l')"
  shows "let v = view (lb_hw l); v' = view (lb_hw l') in
     \<forall>d k. case hv_slot v d k of
         None \<Rightarrow> hv_slot v' d k = None
       | Some x \<Rightarrow>
           if mig_name v d x \<in> set expected then hv_slot v' d k = Some x
           else if r = Inr () \<and> d \<in> listed_gpus V (lb_hw l) then hv_slot v' d k = None
           else hv_slot v' d k \<in> {None, Some x}"
proof -
  from teardown_result [where Enabled = Enabled, OF assms] obtain v' where v': "view (lb_hw l') = v'"
    "pruned (set expected) (view (lb_hw l)) v'" "r = Inr () \<longrightarrow> (\<forall>d \<in> listed_gpus V (lb_hw l). tidy (set expected) v' d)" by blast
  show ?thesis unfolding Let_def
  proof (intro allI)
    fix d k
    from v'(2) have slot: "hv_slot v' d k = hv_slot (view (lb_hw l)) d k \<or> (hv_slot v' d k = None \<and>
        (\<exists>x. hv_slot (view (lb_hw l)) d k = Some x \<and> mig_name (view (lb_hw l)) d x \<notin> set expected))" by (simp add: pruned_def)
    have "mig_name (view (lb_hw l)) d x \<in> set expected"
      if "hv_slot v' d k = Some x" "r = Inr ()" "d \<in> listed_gpus V (lb_hw l)" for x
      using that v'(3) pruned_rest(2) [OF v'(2)] by (metis tidy_def)
    with slot v'(1) show "case hv_slot (view (lb_hw l)) d k of
         None \<Rightarrow> hv_slot (view (lb_hw l')) d k = None
       | Some x \<Rightarrow>
           if mig_name (view (lb_hw l)) d x \<in> set expected then hv_slot (view (lb_hw l')) d k = Some x
           else if r = Inr () \<and> d \<in> listed_gpus V (lb_hw l) then hv_slot (view (lb_hw l')) d k = None
           else hv_slot (view (lb_hw l')) d k \<in> {None, Some x}"
      by (auto split: option.split)
  qed
qed

text \<open>C10: The devices of ready claims survive a restart. When the plugin starts and destroys the MIG devices it does not
  know, a MIG device named in the allocation of a claim that the checkpoint file records as completed is still in its slot
  afterwards, whatever NVML answers and whichever call fails on the way.\<close>

theorem ready_migs_survive:
  assumes "nvml_laws (ds_nvml s) view" and "ds_Enabled s DynamicMIG" and "known (view (lb_hw (w_lib w))) (w_lib w)"
    and "legal_store (ds_env s blob)" and "checkpoint_of s blob w = Some (b, m)"
    and "m u = Some pc" and "c_CheckpointState pc = Completed" and "st_Allocation (c_Status pc) = Some al"
    and "res \<in> set (al_Results al)" and "ar_Device res = mig_name (view (lb_hw (w_lib w))) d x"
    and "hv_slot (view (lb_hw (w_lib w))) d k = Some x"
    and "DestroyUnknownMIGDevices s w = (r, w')"
  shows "hv_slot (view (lb_hw (w_lib w'))) d k = Some x"
proof -
  obtain y w1 where g: "get_checkpoint s w = (y, w1)" by fastforce
  note G = get_checkpoint_result [OF assms(4) g]
  from G have lib: "w_lib w1 = w_lib w" by auto
  consider (stop) "w_lib w' = w_lib w"
    | (run) cp es names q l where "y = Inr cp" "claim_entries cp = Inr es" "res_all (\<lambda>(uid, c). res_seq (deref (st_Allocation (c_Status c)))
        (\<lambda>al. Inr (map ar_Device (al_Results al)))) (completed_claims es) = Inr names"
      "obliterateStaleMIGDevices (ds_nvml s) (ds_Enabled s) (concat names) (w_lib w1) = (q, l)" "w_lib w' = l"
  proof (cases y)
    case (Inl f)
    with g assms(12) lib show ?thesis
      by (intro that(1)) (cases f; auto simp: DestroyUnknownMIGDevices_def attempt_def seq_def ret_def)
  next
    case (Inr cp)
    with g assms(12) lib show ?thesis
      by (auto simp: DestroyUnknownMIGDevices_def attempt_def seq_def ret_def lift_res_def on_def intro: that
          split: sum.splits prod.splits)
  qed
  then show ?thesis
  proof cases
    case run
    from G run(1) obtain cp0 where cp: "Some (contents_of cp) = Some (b, m)" "cp = ToLatestVersion cp0" using assms(5) by auto
    with latest_entries [OF cp(2)] run(2) contents_claims [of cp b m] have m: "m = map_of es" by auto
    with assms(6,7) have "(u, pc) \<in> set (completed_claims es)" by (auto simp: completed_claims_def dest: map_of_SomeD)
    with run(3) assms(8) have "map ar_Device (al_Results al) \<in> set names"
      by (force simp: res_all_Inr list_all2_conv_all_nth in_set_conv_nth res_seq_Inr)
    with assms(9) have "ar_Device res \<in> set (concat names)" by (auto intro!: bexI [of _ "map ar_Device (al_Results al)"])
    then have "mig_name (view (lb_hw (w_lib w))) d x \<in> set (concat names)" unfolding assms(10) .
    moreover from teardown_result [where Enabled = "ds_Enabled s", OF assms(1,2) _ run(4)] assms(3) lib
    obtain v where "pruned (set (concat names)) (view (lb_hw (w_lib w))) v" "view (lb_hw l) = v" by auto
    ultimately show ?thesis using assms(11) run(5) unfolding pruned_def by (metis option.inject)
  qed (use assms(11) in simp)
qed

section \<open>A GPU with MIG devices\<close>

text \<open>One GPU with handle 0. The state has a slot per MIG device, with the ID of its GPU instance, whose only compute
  instance is number 0; handles of instances are IDs, the handle of a MIG device is the ID plus one.\<close>

type_synonym mig_state = "nat option list"

definition mig_gi_info :: "nat \<Rightarrow> gi_info" where
  "mig_gi_info g = \<lparr>gi_Id = word_of_nat g, gi_ProfileId = 19, gi_Placement = \<lparr>gp_Start = word_of_nat g, gp_Size = 1\<rparr>\<rparr>"

definition one_slice :: mig_profile where
  "one_slice = \<lparr>mp_String = ''1g.5gb'', mp_Info = \<lparr>pi_C = 1, pi_G = 1, pi_GIProfileID = 0, pi_CIProfileID = 0, pi_CIEngProfileID = 0\<rparr>\<rparr>"

definition one_slice_info :: gi_profile_info where
  "one_slice_info = \<lparr>gip_Id = 19, gip_MultiprocessorCount = 14, gip_CopyEngineCount = 1, gip_DecoderCount = 0,
     gip_EncoderCount = 0, gip_JpegCount = 0, gip_OfaCount = 0, gip_MemorySizeMB = 4864\<rparr>"

definition mig_nvml :: "mig_state nvml" where
  "mig_nvml = \<lparr>nv_Init = nv_yes, nv_Shutdown = nv_yes,
     nv_VisitDevices = (\<lambda>n. ([Inr (0, 0)], n)), nv_GetMinorNumber = (\<lambda>_ n. (Inr 0, n)),
     nv_GetUUID = (\<lambda>d n. (Inr (nat_str d), n)), nv_IsMigEnabled = (\<lambda>d n. (Inr True, n)),
     nv_GetMemoryTotal = (\<lambda>_ n. (Inr 40960, n)), nv_GetName = (\<lambda>_ n. (Inr ''A100'', n)),
     nv_GetArchitectureAsString = (\<lambda>_. ret ''''), nv_GetBrandAsString = (\<lambda>_. ret ''''),
     nv_GetCudaComputeCapabilityAsString = (\<lambda>_. ret ''''),
     nv_SystemGetDriverVersion = (\<lambda>n. (Inr ''570'', n)), nv_SystemGetCudaDriverVersion = (\<lambda>n. (Inr 12080, n)),
     nv_GetPCIBusID = (\<lambda>_. ret ''''), nv_addressingModeAvailable = False, nv_GetAddressingModeAsString = (\<lambda>_. ret ''''),
     nv_GetPCIeRootAttributeByPCIBusID = (\<lambda>_. throw NotFound),
     nv_GPU_INSTANCE_PROFILE_COUNT = 1, nv_COMPUTE_INSTANCE_PROFILE_COUNT = 1, nv_COMPUTE_INSTANCE_ENGINE_PROFILE_COUNT = 1,
     nv_COMPUTE_INSTANCE_PROFILE_1_SLICE_REV1 = 7,
     nv_GetGpuInstanceProfileInfo = (\<lambda>_ _ n. (Inr one_slice_info, n)),
     nv_GetGpuInstancePossiblePlacements = (\<lambda>_ _ n. (Inr [], n)), nv_NewMigProfile = (\<lambda>_ _ _ _ _. ret one_slice),
     nv_VisitMigProfiles = (\<lambda>_ n. ([], n)),
     nv_DeviceGetHandleByUUID = (\<lambda>u n. (if u = nat_str 0 then Inr 0 else Inl ERROR_NOT_FOUND, n)),
     nv_NewDevice = ret, nv_SetMigMode = (\<lambda>d b n. (Inr (), if d = 0 \<and> \<not> b then map (\<lambda>_. None) n else n)),
     nv_CreateGpuInstanceWithPlacement = (\<lambda>_ _ _. nv_no),
     nv_GetGpuInstanceById = (\<lambda>d i n. (if d = 0 \<and> 0 \<le> i then Inr (nat i) else Inl ERROR_NOT_FOUND, n)),
     nv_GI_GetInfo = (\<lambda>g n. (if g < 100 then Inr (mig_gi_info g) else Inl ERROR_INVALID_ARGUMENT, n)),
     nv_GI_Destroy = (\<lambda>_. nv_yes),
     nv_GI_GetComputeInstanceProfileInfo = (\<lambda>_ _ _ n. (Inr \<lparr>cip_Id = 0\<rparr>, n)),
     nv_GI_CreateComputeInstance = (\<lambda>_ _. nv_no),
     nv_GI_GetComputeInstanceById = (\<lambda>g j n. (if j = 0 then Inr g else Inl ERROR_NOT_FOUND, n)),
     nv_CI_GetInfo = (\<lambda>c n. (Inr (\<lparr>ci_Id = 0, ci_ProfileId = 0\<rparr>, Suc c), n)),
     nv_CI_Destroy = (\<lambda>c n. (Inr (), map (\<lambda>s. if s = Some c then None else s) n)),
     nv_GetMaxMigDeviceCount = (\<lambda>_ n. (Inr (length n), n)),
     nv_GetMigDeviceHandleByIndex = (\<lambda>d k n. (if d = 0 \<and> k < length n then (case n ! k of None \<Rightarrow> Inl ERROR_NOT_FOUND
        | Some g \<Rightarrow> Inr (Suc g)) else Inl ERROR_NOT_FOUND, n)),
     nv_GetGpuInstanceId = (\<lambda>m n. (Inr (int m - 1), n)), nv_GetComputeInstanceId = (\<lambda>_ n. (Inr 0, n)),
     nv_exec = (\<lambda>_ _ _. ret ()), pci_GetGPUs = ret [], uuid_NewSHA1 = id\<rparr>"

definition mig_view :: "mig_state \<Rightarrow> hw_view" where
  "mig_view n = \<lparr>hv_slot = (\<lambda>d k. if d = 0 \<and> k < length n then map_option (\<lambda>g. (int g, 0)) (n ! k) else None),
     hv_gpu = (\<lambda>d. d = 0), hv_uuid = nat_str, hv_minor = (\<lambda>_. 0), hv_gi = (\<lambda>g. (0, int g)), hv_ci = (\<lambda>c. (0, int c, 0)),
     hv_mig = (\<lambda>m. (0, int m - 1, 0)), hv_info = (\<lambda>_ i. mig_gi_info (nat i)), hv_profile = (\<lambda>_ _. ''1g.5gb'')\<rparr>"

lemma mig_nvml_laws: "nvml_laws mig_nvml mig_view"
proof -
  have small: "uint (word_of_nat g :: 32 word) = int g" if "g < 100" for g using that by (simp add: uint_nat unat_of_nat)
  have off: "mig_view (map (\<lambda>_. None) n) = drop_migs 0 (\<lambda>_. True) (mig_view n)" for n
    by (auto simp: mig_view_def drop_migs_def fun_eq_iff split: option.split)
  have gone: "mig_view (map (\<lambda>s. if s = Some c then None else s) n) = not_mig (mig_view n) 0 (int c, 0)" for c n
    by (auto simp: mig_view_def drop_migs_def not_mig_def fun_eq_iff split: option.split)
  have "gpu_laws mig_nvml mig_view"
    by (auto simp: gpu_laws_def mig_nvml_def mig_view_def looks_def answers_def act_defs nat_str_inject split: if_splits)
  moreover have "mig_laws mig_nvml mig_view"
    by (auto simp: mig_laws_def mig_nvml_def mig_view_def looks_def answers_def mig_gi_info_def small built_for_def told_def
        one_slice_def nat_str_inject ret_def split: if_splits option.splits)
  moreover have "destroy_laws mig_nvml mig_view"
    using off gone by (auto simp: destroy_laws_def mig_nvml_def looks_def nv_yes_def mig_view_def split: sum.splits)
  ultimately show ?thesis by (simp add: nvml_laws_def)
qed

text \<open>The GPU with two MIG devices, one of them expected.\<close>

definition mig_lib :: "mig_state lib" where
  "mig_lib = \<lparr>lb_hw = [Some 1, None, Some 2], lb_gpuInfosByUUID = [(''0'', zero_gpu\<lparr>g_UUID := ''0'', g_migEnabled := True,
       g_migProfiles := [\<lparr>mpi_profile = one_slice, mpi_placements = []\<rparr>]\<rparr>)],
     lb_gpuUUIDbyMinor = [(0, ''0'')], lb_devhandleByUUID = []\<rparr>"

definition mig_gates :: gates where
  "mig_gates = (\<lambda>f. f = DynamicMIG)"

lemma mig_known: "known (mig_view (lb_hw mig_lib)) mig_lib"
  by (simp add: known_def mig_lib_def)

lemma mig_names:
  "mig_name (mig_view n) 0 (1, 0) = ''gpu-0-mig-1g5gb-19-1''" "mig_name (mig_view n) 0 (2, 0) = ''gpu-0-mig-1g5gb-19-2''"
  unfolding mig_name_def mig_view_def by code_simp+

theorem teardown_exact_witness:
  "\<exists>l'. obliterateStaleMIGDevices mig_nvml mig_gates [''gpu-0-mig-1g5gb-19-1''] mig_lib = (Inr (), l') \<and>
     hv_slot (mig_view (lb_hw l')) 0 0 = Some (1, 0) \<and> hv_slot (mig_view (lb_hw l')) 0 2 = None"
proof -
  obtain r l' where run: "obliterateStaleMIGDevices mig_nvml mig_gates [''gpu-0-mig-1g5gb-19-1''] mig_lib = (r, l')" by fastforce
  have "fst (obliterateStaleMIGDevices mig_nvml mig_gates [''gpu-0-mig-1g5gb-19-1''] mig_lib) = Inr ()" by code_simp
  with run have r: "r = Inr ()" by simp
  have "mig_gates DynamicMIG" by (simp add: mig_gates_def)
  note T = teardown_exact [OF mig_nvml_laws this mig_known run, unfolded Let_def, rule_format]
  have slots: "hv_slot (mig_view (lb_hw mig_lib)) 0 0 = Some (1, 0)" "hv_slot (mig_view (lb_hw mig_lib)) 0 2 = Some (2, 0)"
    "0 \<in> listed_gpus mig_nvml (lb_hw mig_lib)"
    by (simp_all add: mig_view_def mig_lib_def listed_gpus_def mig_nvml_def)
  from T [of 0 0] T [of 0 2] run r slots show ?thesis by (simp add: mig_names)
qed

text \<open>A plugin on this hardware whose file records a claim for the first device as completed.\<close>

definition mig_claim :: resource_claim where
  "mig_claim = (sample_claim ''u1'')\<lparr>rc_Status := (rc_Status (sample_claim ''u1''))\<lparr>st_Allocation :=
     Some \<lparr>al_Results = [sample_result ''r'' ''gpu-0-mig-1g5gb-19-1''], al_Config = []\<rparr>\<rparr>\<rparr>"

definition mig_plugin :: "(json option, mig_state, unit) device_state" where
  "mig_plugin = \<lparr>ds_Enabled = mig_gates, ds_checkpointManager = ref_manager, ds_codec = ref_codec,
     ds_nvml = mig_nvml, ds_nvdevlib = \<lparr>dl_driverLibraryPath = '''', dl_nvidiaSMIPath = '''', dl_environ = [], dl_LD_PRELOAD = ''''\<rparr>,
     ds_cdi = ref_cdi, ds_hamiCoreManager = None, ds_mps_sys = ref_mps, ds_mpsManager = None,
     ds_vfio_sys = \<lparr>vf_exec = (\<lambda>_ _. throw NotFound), vf_Readlink = (\<lambda>_. throw NotExist), vf_StatIsDir = (\<lambda>_. ret False),
       vf_HasEntry = (\<lambda>_. ret False), vf_NumVFs = (\<lambda>_. ret 0), vf_TicksBeforeTimeout = ret 0\<rparr>,
     ds_vfioPciManager = None, ds_api = ref_api,
     ds_order1 = id, ds_order2 = id, ds_order_devices = id\<rparr>"

definition mig_fresh :: "(json option, mig_state, unit) world" where
  "mig_fresh = \<lparr>w_cp = sample_file ''boot-1'', w_lib = mig_lib,
     w_kube = (), w_fs = ref_fs, w_now = 0, w_cache = [], w_allocatable = []\<rparr>"

definition mig_world :: "(json option, mig_state, unit) world" where
  "mig_world = snd (update_checkpoint mig_plugin (set_claim ''u1'' (completed_claim mig_claim [])) mig_fresh)"

lemma mig_legal: "legal_store (ds_env mig_plugin (\<lambda>c. c))"
  by (simp add: ds_env_def mig_plugin_def ref_legal)

lemma mig_contents: "\<exists>b m. checkpoint_of mig_plugin (\<lambda>c. c) mig_world = Some (b, m) \<and>
    m ''u1'' = Some (stored_ClaimV2 (completed_claim mig_claim []))"
proof -
  have "load_checkpoint ref_codec (enc_Checkpoint ref_codec (sealed ref_codec (sample_checkpoint ''boot-1''))) =
      Inr (stored_Checkpoint (sealed ref_codec (sample_checkpoint ''boot-1'')))"
    by (rule load_marshalled [OF ref_codec_ok])
  then obtain b m where c: "checkpoint_of mig_plugin (\<lambda>c. c) mig_fresh = Some (b, m)"
    by (cases "contents_of (stored_Checkpoint (sealed ref_codec (sample_checkpoint ''boot-1'')))")
      (simp add: checkpoint_of_def file_contents_def ds_env_def mig_plugin_def mig_fresh_def sample_file_def)
  obtain r w' where up: "update_checkpoint mig_plugin (set_claim ''u1'' (completed_claim mig_claim [])) mig_fresh = (r, w')" by fastforce
  have "\<not> isl (fst (update_checkpoint mig_plugin (set_claim ''u1'' (completed_claim mig_claim [])) mig_fresh))" by code_simp
  with update_claim_result [OF mig_legal up c] up show ?thesis by (auto simp: mig_world_def)
qed

theorem ready_migs_survive_witness:
  "hv_slot (mig_view (lb_hw (w_lib (snd (DestroyUnknownMIGDevices mig_plugin mig_world))))) 0 0 = Some (1, 0)"
proof -
  obtain b m where c: "checkpoint_of mig_plugin (\<lambda>c. c) mig_world = Some (b, m)"
    "m ''u1'' = Some (stored_ClaimV2 (completed_claim mig_claim []))" using mig_contents by blast
  have lib: "w_lib mig_world = mig_lib"
    by (auto simp: mig_world_def mig_fresh_def update_checkpoint_def on_def split: prod.splits)
  obtain r w' where run: "DestroyUnknownMIGDevices mig_plugin mig_world = (r, w')" by fastforce
  let ?res = "sample_result ''r'' ''gpu-0-mig-1g5gb-19-1''"
  have "hv_slot (mig_view (lb_hw (w_lib w'))) 0 0 = Some (1, 0)"
  proof (rule ready_migs_survive [where d = 0 and res = ?res, OF _ _ _ mig_legal c _ _ _ _ _ run])
    show "nvml_laws (ds_nvml mig_plugin) mig_view" "ds_Enabled mig_plugin DynamicMIG"
      by (simp_all add: mig_plugin_def mig_nvml_laws mig_gates_def)
    show "known (mig_view (lb_hw (w_lib mig_world))) (w_lib mig_world)" by (simp add: lib mig_known)
    show "c_CheckpointState (stored_ClaimV2 (completed_claim mig_claim [])) = Completed"
      by (simp add: stored_claim_simps completed_claim_def)
    show "st_Allocation (c_Status (stored_ClaimV2 (completed_claim mig_claim []))) = Some \<lparr>al_Results = [?res], al_Config = []\<rparr>"
      by (simp add: stored_claim_simps completed_claim_def mig_claim_def)
    show "ar_Device ?res = mig_name (mig_view (lb_hw (w_lib mig_world))) 0 (1, 0)" by (simp add: mig_names sample_result_def)
    show "hv_slot (mig_view (lb_hw (w_lib mig_world))) 0 0 = Some (1, 0)" by (simp add: lib mig_lib_def mig_view_def)
  qed simp
  with run show ?thesis by simp
qed

end
