(* ===== verification/DeviceHealth.thy ===== *)
theory DeviceHealth
  imports Sharing Runs
begin

unbundle bit_operations_syntax

text \<open>
  The NVML health monitor (\<open>cmd/hami-kubelet-plugin/device_health.go\<close>): where each device sits, which
  XIDs are ignored, registering for events, what one event leads to, and the channel of unhealthy devices
  between the monitor and the driver. A device is its name in the map of allocatable devices (the code
  has the pointer). The event calls of NVML and its event type bits are fields of a record.
\<close>

section \<open>XIDs to ignore\<close>

definition ParseUint64 :: "string \<Rightarrow> 64 word option" where
  "ParseUint64 s = (if all_digits s \<and> digits_val s < 2 ^ 64 then Some (of_nat (digits_val s)) else None)"

definition getAdditionalXids :: "string \<Rightarrow> 64 word list" where
  "getAdditionalXids input =
     (if input = '''' then []
      else List.map_filter (\<lambda>additionalXid.
             let trimmed = trim_space additionalXid
             in if trimmed = '''' then None else ParseUint64 trimmed)
           (split_at_char (CHR '','') input))"

definition ignoredXids :: "64 word list" where
  "ignoredXids = [13, 31, 43, 45, 68, 109]"

definition xidsToSkip :: "string \<Rightarrow> 64 word list" where
  "xidsToSkip additionalXids = ignoredXids @ getAdditionalXids additionalXids"

section \<open>Where the devices sit\<close>

definition FullGPUInstanceID :: "32 word" where
  "FullGPUInstanceID = 0xFFFFFFFF"

type_synonym gi_map = "(32 word \<times> (32 word \<times> DeviceName) list) list"
type_synonym devicePlacementMap = "(string \<times> gi_map) list"

definition sub_map :: "'k \<Rightarrow> ('k \<times> ('l \<times> 'v) list) list \<Rightarrow> ('l \<times> 'v) list" where
  "sub_map k m = (case map_of m k of None \<Rightarrow> [] | Some x \<Rightarrow> x)"

definition addDevice ::
    "devicePlacementMap \<Rightarrow> string \<Rightarrow> 32 word \<Rightarrow> 32 word \<Rightarrow> DeviceName \<Rightarrow> devicePlacementMap" where
  "addDevice p parentUUID giID ciID d =
     (let giMap = sub_map parentUUID p; ciMap = sub_map giID giMap
      in AList.update parentUUID (AList.update giID (AList.update ciID d ciMap) giMap) p)"

definition placement_get :: "devicePlacementMap \<Rightarrow> string \<Rightarrow> 32 word \<Rightarrow> 32 word \<Rightarrow> DeviceName option" where
  "placement_get p uuid gi ci =
     (case map_of p uuid of None \<Rightarrow> None
      | Some giMap \<Rightarrow> (case map_of giMap gi of None \<Rightarrow> None | Some ciMap \<Rightarrow> map_of ciMap ci))"

text \<open>The compute instance of a MIG device is filed under the GPU instance's ID, as in the code.\<close>

definition device_placement :: "AllocatableDevice \<Rightarrow> (string \<times> 32 word \<times> 32 word) option res" where
  "device_placement d =
     (case Type d of
        GpuDeviceType \<Rightarrow>
          res_seq (UUID d) (\<lambda>parentUUID.
          Inr (if parentUUID = '''' then None else Some (parentUUID, FullGPUInstanceID, FullGPUInstanceID)))
      | MigStaticDeviceType \<Rightarrow>
          res_seq (deref (ad_MigStatic d)) (\<lambda>m.
          res_seq (deref (md_parent m)) (\<lambda>parent.
          if g_UUID parent = '''' then Inr None
          else res_seq (deref (md_gIInfo m)) (\<lambda>gi. Inr (Some (g_UUID parent, gi_Id gi, gi_Id gi)))))
      | _ \<Rightarrow> Inr None)"

fun place_devices :: "AllocatableDevices \<Rightarrow> devicePlacementMap \<Rightarrow> devicePlacementMap res" where
  "place_devices [] m = Inr m"
| "place_devices ((name, d) # ds) m =
     res_seq (device_placement d) (\<lambda>place.
     case place of None \<Rightarrow> place_devices ds m
     | Some (parentUUID, giID, ciID) \<Rightarrow> place_devices ds (addDevice m parentUUID giID ciID name))"

definition getDevicePlacementMap :: "AllocatableDevices \<Rightarrow> devicePlacementMap res" where
  "getDevicePlacementMap allocatable = place_devices allocatable []"

section \<open>The monitor\<close>

record 'n nvml_events =
  ne_EventSetCreate :: "('n, handle) nvcall"
  ne_EventSetFree :: "handle \<Rightarrow> ('n, unit) nvcall"
  ne_GetSupportedEventTypes :: "handle \<Rightarrow> ('n, 64 word) nvcall"
  ne_RegisterEvents :: "handle \<Rightarrow> 64 word \<Rightarrow> handle \<Rightarrow> ('n, unit) nvcall"
  ne_EventTypeXidCriticalError :: "64 word"
  ne_EventTypeDoubleBitEccError :: "64 word"
  ne_EventTypeSingleBitEccError :: "64 word"

record nvmlDeviceHealthMonitor =
  hm_eventSet :: handle
  hm_capacity :: nat
  hm_deviceByPlacement :: devicePlacementMap
  hm_skippedXids :: "64 word list"

text \<open>The library and the channel \<open>unhealthy\<close>.\<close>

record 'n monitor_world =
  mw_lib :: "'n lib"
  mw_unhealthy :: "DeviceName list"

abbreviation in_monitor_lib :: "('n lib, 'a) act \<Rightarrow> ('n monitor_world, 'a) act" where
  "in_monitor_lib \<equiv> on mw_lib (\<lambda>l. mw_lib_update (\<lambda>_. l))"

definition newNvmlDeviceHealthMonitor ::
    "'n nvml \<Rightarrow> AllocatableDevices \<Rightarrow> string \<Rightarrow> ('n lib, nvmlDeviceHealthMonitor) act" where
  "newNvmlDeviceHealthMonitor V allocatable additionalXidsToIgnore =
     seq (need ''failed to initialize NVML'' (nv_Init V)) (\<lambda>_.
     deferring (alwaysShutdown V)
       (seq (lift_res (getDevicePlacementMap allocatable)) (\<lambda>placement.
        ret \<lparr>hm_eventSet = 0, hm_capacity = length allocatable, hm_deviceByPlacement = placement,
             hm_skippedXids = xidsToSkip additionalXidsToIgnore\<rparr>)))"

definition try_send :: "nat \<Rightarrow> DeviceName \<Rightarrow> DeviceName list \<Rightarrow> DeviceName list" where
  "try_send cap d q = (if length q < cap then q @ [d] else q)"

definition mig_devices :: "gi_map \<Rightarrow> DeviceName list" where
  "mig_devices giMap = concat (map (\<lambda>(gi, ciMap). map snd ciMap) giMap)"

definition all_devices :: "devicePlacementMap \<Rightarrow> DeviceName list" where
  "all_devices p = concat (map (\<lambda>(uuid, giMap). mig_devices giMap) p)"

definition markAllMigDevicesUnhealthy :: "nvmlDeviceHealthMonitor \<Rightarrow> gi_map \<Rightarrow> DeviceName list \<Rightarrow> DeviceName list" where
  "markAllMigDevicesUnhealthy m giMap q = fold (try_send (hm_capacity m)) (mig_devices giMap) q"

definition markAllDevicesUnhealthy :: "nvmlDeviceHealthMonitor \<Rightarrow> DeviceName list \<Rightarrow> DeviceName list" where
  "markAllDevicesUnhealthy m q = fold (\<lambda>(uuid, giMap). markAllMigDevicesUnhealthy m giMap) (hm_deviceByPlacement m) q"

text \<open>Registering one parent: every failure marks what sits on it.\<close>

definition register_parent ::
    "'n nvml \<Rightarrow> 'n nvml_events \<Rightarrow> nvmlDeviceHealthMonitor \<Rightarrow> string \<times> gi_map \<Rightarrow> ('n monitor_world, unit) act" where
  "register_parent V E m = (\<lambda>(parentUUID, giMap).
     let eventMask = (ne_EventTypeXidCriticalError E OR ne_EventTypeDoubleBitEccError E OR ne_EventTypeSingleBitEccError E);
         mark = modify (mw_unhealthy_update (markAllMigDevicesUnhealthy m giMap))
     in seq (in_monitor_lib (nv (nv_DeviceGetHandleByUUID V parentUUID))) (\<lambda>r.
        case r of
          Inl _ \<Rightarrow> mark
        | Inr gpu \<Rightarrow>
            seq (in_monitor_lib (nv (ne_GetSupportedEventTypes E gpu))) (\<lambda>r.
            case r of
              Inl _ \<Rightarrow> mark
            | Inr supportedEvents \<Rightarrow>
                seq (in_monitor_lib (nv (ne_RegisterEvents E gpu (eventMask AND supportedEvents) (hm_eventSet m)))) (\<lambda>r.
                case r of Inl _ \<Rightarrow> mark | Inr _ \<Rightarrow> ret ()))))"

definition registerEventsForDevices ::
    "'n nvml \<Rightarrow> 'n nvml_events \<Rightarrow> nvmlDeviceHealthMonitor \<Rightarrow> ('n monitor_world, unit) act" where
  "registerEventsForDevices V E m = each (register_parent V E m) (hm_deviceByPlacement m)"

text \<open>\<open>Start\<close>; NVML is shut down again only if it fails. It returns the monitor with its event set.\<close>

definition Monitor_Start ::
    "'n nvml \<Rightarrow> 'n nvml_events \<Rightarrow> nvmlDeviceHealthMonitor \<Rightarrow> ('n monitor_world, nvmlDeviceHealthMonitor) act" where
  "Monitor_Start V E m =
     seq (in_monitor_lib (need ''failed to initialize NVML'' (nv_Init V))) (\<lambda>_.
     seq (in_monitor_lib (nv (ne_EventSetCreate E))) (\<lambda>r.
     case r of
       Inl _ \<Rightarrow> seq (in_monitor_lib (modify (alwaysShutdown V))) (\<lambda>_. throw (Err ''failed to create event set''))
     | Inr eventSet \<Rightarrow>
         let m' = m\<lparr>hm_eventSet := eventSet\<rparr>
         in seq (registerEventsForDevices V E m') (\<lambda>_. ret m')))"

definition Monitor_Stop :: "'n nvml \<Rightarrow> 'n nvml_events \<Rightarrow> nvmlDeviceHealthMonitor \<Rightarrow> ('n monitor_world, unit) act" where
  "Monitor_Stop V E m =
     seq (in_monitor_lib (nv (ne_EventSetFree E (hm_eventSet m)))) (\<lambda>_.
     in_monitor_lib (modify (alwaysShutdown V)))"

section \<open>One event\<close>

record nvml_event =
  ev_EventType :: "64 word"
  ev_EventData :: "64 word"
  ev_GpuInstanceId :: "32 word"
  ev_ComputeInstanceId :: "32 word"
  ev_DeviceUUID :: "nvml_return + string"

datatype notification = Quiet | AllDevices | OneDevice DeviceName

text \<open>What \<open>Wait\<close> returned, and what the loop body does about it.\<close>

definition process_event :: "'n nvml_events \<Rightarrow> nvmlDeviceHealthMonitor \<Rightarrow> nvml_return + nvml_event \<Rightarrow> notification" where
  "process_event E m outcome =
     (case outcome of
        Inl r \<Rightarrow> if r = ERROR_GPU_IS_LOST then AllDevices else Quiet
      | Inr event \<Rightarrow>
          if ev_EventType event \<noteq> ne_EventTypeXidCriticalError E then Quiet
          else if ev_EventData event \<in> set (hm_skippedXids m) then Quiet
          else (case ev_DeviceUUID event of
                  Inl _ \<Rightarrow> AllDevices
                | Inr eventUUID \<Rightarrow>
                    (case placement_get (hm_deviceByPlacement m) eventUUID (ev_GpuInstanceId event) (ev_ComputeInstanceId event) of
                       None \<Rightarrow> Quiet
                     | Some affectedDevice \<Rightarrow> OneDevice affectedDevice)))"

text \<open>The loop and its consumer share the channel: a single device is sent when there is room, all devices
  without waiting, and the driver receives from the front.\<close>

datatype channel_event = Waited "nvml_return + nvml_event" | Received DeviceName

inductive channel_step ::
    "'n nvml_events \<Rightarrow> nvmlDeviceHealthMonitor \<Rightarrow> DeviceName list \<Rightarrow> channel_event \<Rightarrow> DeviceName list \<Rightarrow> bool"
  for E m where
  quiet: "process_event E m x = Quiet \<Longrightarrow> channel_step E m q (Waited x) q"
| all: "process_event E m x = AllDevices \<Longrightarrow> channel_step E m q (Waited x) (markAllDevicesUnhealthy m q)"
| one: "process_event E m x = OneDevice d \<Longrightarrow> length q < hm_capacity m \<Longrightarrow> channel_step E m q (Waited x) (q @ [d])"
| receive: "channel_step E m (d # q) (Received d) q"

section \<open>Looking up a placement\<close>

lemma sub_map_lookup: "(case map_of m k of None \<Rightarrow> None | Some x \<Rightarrow> map_of x l) = map_of (sub_map k m) l"
  by (simp add: sub_map_def split: option.split)

lemma placement_get_sub: "placement_get p u g c = map_of (sub_map g (sub_map u p)) c"
  by (auto simp: placement_get_def sub_map_def split: option.split)

lemma sub_map_update: "sub_map k (AList.update k' v m) = (if k = k' then v else sub_map k m)"
  by (simp add: sub_map_def AList.update_conv')

lemma placement_get_add:
  "placement_get (addDevice p u g c d) u' g' c' = (if (u', g', c') = (u, g, c) then Some d else placement_get p u' g' c')"
  by (simp add: placement_get_sub addDevice_def Let_def sub_map_update AList.update_conv')

text \<open>The devices that sit at a place, the last in the map first.\<close>

definition devices_at :: "AllocatableDevices \<Rightarrow> string \<times> 32 word \<times> 32 word \<Rightarrow> DeviceName list" where
  "devices_at ds place = map fst (filter (\<lambda>(n, d). device_placement d = Inr (Some place)) (rev ds))"

lemma place_devices_get:
  "place_devices ds m = Inr p \<Longrightarrow>
   placement_get p u g c = (case devices_at ds (u, g, c) of [] \<Rightarrow> placement_get m u g c | n # _ \<Rightarrow> Some n)"
proof (induction ds arbitrary: m)
  case (Cons e ds)
  obtain n d where e: "e = (n, d)" by fastforce
  from Cons.prems e obtain place where place: "device_placement d = Inr place"
    and rest: "place_devices ds (case place of None \<Rightarrow> m | Some (u, g, c) \<Rightarrow> addDevice m u g c n) = Inr p"
    by (auto simp: res_seq_Inr split: option.splits prod.splits)
  show ?case
  proof (cases place)
    case None
    with Cons.IH [of m] rest place e show ?thesis by (simp add: devices_at_def)
  next
    case (Some t)
    obtain u' g' c' where t: "t = (u', g', c')" by (cases t)
    with Cons.IH [of "addDevice m u' g' c' n"] rest place e Some show ?thesis
      by (auto simp: devices_at_def placement_get_add split: list.split)
  qed
qed (simp add: devices_at_def)

lemma placement_lookup:
  "getDevicePlacementMap ds = Inr p \<Longrightarrow>
   placement_get p u g c = (case devices_at ds (u, g, c) of [] \<Rightarrow> None | n # _ \<Rightarrow> Some n)"
  using place_devices_get [of ds "[]" p u g c]
  by (simp add: getDevicePlacementMap_def placement_get_def split: list.split)

lemma same_instance: "device_placement d = Inr (Some (u, g, c)) \<Longrightarrow> c = g"
  by (auto simp: device_placement_def res_seq_Inr split: DeviceType.splits if_splits)

lemma devices_at_same: "g \<noteq> c \<Longrightarrow> devices_at ds (u, g, c) = []"
  by (auto simp: devices_at_def filter_empty_conv dest: same_instance)

lemma devices_at_mem: "devices_at ds place = n # ns \<Longrightarrow> \<exists>d. (n, d) \<in> set ds \<and> device_placement d = Inr (Some place)"
proof -
  assume "devices_at ds place = n # ns"
  then have "n \<in> set (devices_at ds place)" by simp
  then show ?thesis by (auto simp: devices_at_def)
qed

lemma in_map_filter: "y \<in> set (List.map_filter f xs) \<longleftrightarrow> (\<exists>x \<in> set xs. f x = Some y)"
  by (induction xs) (auto simp: List.map_filter_def)

section \<open>Properties\<close>

text \<open>C27: Where a critical error ends up. An event for an XID that is not ignored, on a GPU whose UUID can be
  read, is reported for a device that sits at exactly the place the event names, whenever there is one,
  and ignored otherwise. As the code files a MIG device under its GPU instance ID twice, an event whose
  compute instance ID differs from its GPU instance ID is always ignored, even when the MIG device with
  these two IDs is allocatable.\<close>

theorem event_reaches_device:
  assumes "getDevicePlacementMap ds = Inr (hm_deviceByPlacement m)"
    and "ev_EventType ev = ne_EventTypeXidCriticalError E" and "ev_EventData ev \<notin> set (hm_skippedXids m)"
    and "ev_DeviceUUID ev = Inr u"
  shows "(\<forall>n. process_event E m (Inr ev) = OneDevice n \<longrightarrow>
      (\<exists>d. (n, d) \<in> set ds \<and> device_placement d = Inr (Some (u, ev_GpuInstanceId ev, ev_ComputeInstanceId ev)))) \<and>
    (process_event E m (Inr ev) = Quiet \<longleftrightarrow>
      (\<forall>(n, d) \<in> set ds. device_placement d \<noteq> Inr (Some (u, ev_GpuInstanceId ev, ev_ComputeInstanceId ev)))) \<and>
    (ev_GpuInstanceId ev \<noteq> ev_ComputeInstanceId ev \<longrightarrow> process_event E m (Inr ev) = Quiet)"
proof -
  let ?at = "devices_at ds (u, ev_GpuInstanceId ev, ev_ComputeInstanceId ev)"
  have run: "process_event E m (Inr ev) = (case ?at of [] \<Rightarrow> Quiet | n # _ \<Rightarrow> OneDevice n)"
    using assms placement_lookup [OF assms(1)]
    by (simp add: process_event_def split: list.split)
  have "?at = [] \<longleftrightarrow>
      (\<forall>(n, d) \<in> set ds. device_placement d \<noteq> Inr (Some (u, ev_GpuInstanceId ev, ev_ComputeInstanceId ev)))"
    by (auto simp: devices_at_def filter_empty_conv)
  with run devices_at_mem [of ds] devices_at_same show ?thesis
    by (cases ?at) auto
qed

text \<open>One full GPU, an event for it and NVML event calls that succeed.\<close>

definition monitored :: AllocatableDevices where
  "monitored = [(''gpu-0'', no_device\<lparr>ad_Gpu := Some (sample_gpu ''GPU-a'' 0)\<rparr>)]"

definition ref_events :: "'n nvml_events" where
  "ref_events = \<lparr>ne_EventSetCreate = (\<lambda>n. (Inr 7, n)), ne_EventSetFree = (\<lambda>_ n. (Inr (), n)),
     ne_GetSupportedEventTypes = (\<lambda>_ n. (Inr 0xF, n)), ne_RegisterEvents = (\<lambda>_ _ _ n. (Inr (), n)),
     ne_EventTypeXidCriticalError = 8, ne_EventTypeDoubleBitEccError = 2, ne_EventTypeSingleBitEccError = 1\<rparr>"

definition sample_event :: "64 word \<Rightarrow> nvml_event" where
  "sample_event xid = \<lparr>ev_EventType = 8, ev_EventData = xid, ev_GpuInstanceId = FullGPUInstanceID,
     ev_ComputeInstanceId = FullGPUInstanceID, ev_DeviceUUID = Inr ''GPU-a''\<rparr>"

definition sample_monitor :: nvmlDeviceHealthMonitor where
  "sample_monitor = \<lparr>hm_eventSet = 7, hm_capacity = 1,
     hm_deviceByPlacement = [(''GPU-a'', [(FullGPUInstanceID, [(FullGPUInstanceID, ''gpu-0'')])])],
     hm_skippedXids = xidsToSkip ''61, 62''\<rparr>"

lemma sample_pieces:
  "split_at_char (CHR '','') ''61, 62'' = [''61'', '' 62'']" "trim_space ''61'' = ''61''" "trim_space '' 62'' = ''62''"
  "all_digits ''61''" "all_digits ''62''" "digits_val ''61'' = 61" "digits_val ''62'' = 62"
  by code_simp+

lemma sample_skipped [simp]: "xidsToSkip ''61, 62'' = [13, 31, 43, 45, 68, 109, 61, 62]"
  by (simp add: xidsToSkip_def ignoredXids_def getAdditionalXids_def ParseUint64_def sample_pieces List.map_filter_def)

lemma monitored_placement:
  "device_placement (no_device\<lparr>ad_Gpu := Some (sample_gpu ''GPU-a'' 0)\<rparr>) = Inr (Some (''GPU-a'', FullGPUInstanceID, FullGPUInstanceID))"
  by (simp add: device_placement_def Type_def UUID_def no_device_def sample_gpu_def)

lemma monitored_map: "getDevicePlacementMap monitored = Inr (hm_deviceByPlacement sample_monitor)"
  by (simp add: getDevicePlacementMap_def monitored_def monitored_placement addDevice_def sub_map_def sample_monitor_def)

theorem event_reaches_device_witness:
  "process_event (ref_events :: unit nvml_events) sample_monitor (Inr (sample_event 79)) \<noteq> Quiet \<and>
   process_event (ref_events :: unit nvml_events) sample_monitor (Inr (sample_event 79)) \<noteq> OneDevice ''gpu-1''"
proof -
  have "ev_EventData (sample_event 79) \<notin> set (hm_skippedXids sample_monitor)"
    by (simp add: sample_event_def sample_monitor_def)
  from event_reaches_device [OF monitored_map _ this, of "ref_events :: unit nvml_events" "''GPU-a''"] monitored_placement
  show ?thesis by (auto simp: sample_event_def ref_events_def monitored_def)
qed

text \<open>The list of ignored XIDs is read as documented: an XID is ignored if and only if it is one of the six
  application errors or the value of a piece of the comma-separated input, with white space around it
  removed, that is a decimal number below $2^{64}$; malformed pieces are left out.\<close>

theorem xids_read_as_documented:
  "xid \<in> set (xidsToSkip input) \<longleftrightarrow>
     xid \<in> {13, 31, 43, 45, 68, 109} \<or>
     (input \<noteq> '''' \<and> (\<exists>piece \<in> set (split_at_char (CHR '','') input).
        all_digits (trim_space piece) \<and> digits_val (trim_space piece) = unat xid))"
proof -
  have parse: "ParseUint64 s = Some xid \<longleftrightarrow> all_digits s \<and> digits_val s = unat xid" for s
  proof -
    have "unat xid < 2 ^ 64" using unsigned_less [of xid] by simp
    moreover have "of_nat n = xid \<longleftrightarrow> n = unat xid" if "n < 2 ^ 64" for n
      using that by (auto simp: unsigned_of_nat take_bit_nat_eq_self)
    ultimately show ?thesis by (auto simp: ParseUint64_def)
  qed
  have "all_digits s \<Longrightarrow> s \<noteq> ''''" for s by (simp add: all_digits_def)
  then have "(if trim_space piece = '''' then None else ParseUint64 (trim_space piece)) = Some xid \<longleftrightarrow>
      all_digits (trim_space piece) \<and> digits_val (trim_space piece) = unat xid" for piece
    using parse by auto
  then show ?thesis
    by (auto simp: xidsToSkip_def ignoredXids_def getAdditionalXids_def Let_def in_map_filter)
qed

theorem xids_read_as_documented_witness:
  "(62 :: 64 word) \<in> set (xidsToSkip ''61, 62'')"
  unfolding xids_read_as_documented by (simp add: sample_pieces)

section \<open>The channel\<close>

lemma fold_try_send:
  "length q \<le> cap \<Longrightarrow> length (fold (try_send cap) ds q) \<le> cap \<and> set (fold (try_send cap) ds q) \<subseteq> set q \<union> set ds"
  by (induction ds arbitrary: q) (force simp: try_send_def)+

definition channel_ok :: "nvmlDeviceHealthMonitor \<Rightarrow> DeviceName list \<Rightarrow> bool" where
  "channel_ok m q \<longleftrightarrow> length q \<le> hm_capacity m \<and> set q \<subseteq> set (all_devices (hm_deviceByPlacement m))"

lemma mark_parent_ok:
  "channel_ok m q \<Longrightarrow> (u, giMap) \<in> set (hm_deviceByPlacement m) \<Longrightarrow> channel_ok m (markAllMigDevicesUnhealthy m giMap q)"
  using fold_try_send [of q "hm_capacity m" "mig_devices giMap"]
  by (fastforce simp: channel_ok_def markAllMigDevicesUnhealthy_def all_devices_def)

lemma mark_all_ok: "channel_ok m q \<Longrightarrow> channel_ok m (markAllDevicesUnhealthy m q)"
proof -
  have "channel_ok m q \<Longrightarrow> set ps \<subseteq> set (hm_deviceByPlacement m) \<Longrightarrow>
      channel_ok m (fold (\<lambda>(uuid, giMap). markAllMigDevicesUnhealthy m giMap) ps q)" for ps
    by (induction ps arbitrary: q) (auto intro: mark_parent_ok)
  then show "channel_ok m q \<Longrightarrow> channel_ok m (markAllDevicesUnhealthy m q)"
    by (simp add: markAllDevicesUnhealthy_def)
qed

lemma process_one_monitored:
  "process_event E m x = OneDevice d \<Longrightarrow> d \<in> set (all_devices (hm_deviceByPlacement m))"
proof -
  assume "process_event E m x = OneDevice d"
  then obtain u g c where "placement_get (hm_deviceByPlacement m) u g c = Some d"
    by (auto simp: process_event_def split: sum.splits if_splits option.splits)
  then obtain giMap ciMap where "map_of (hm_deviceByPlacement m) u = Some giMap" "map_of giMap g = Some ciMap"
    "map_of ciMap c = Some d" by (auto simp: placement_get_def split: option.splits)
  from this [THEN map_of_SomeD] show ?thesis by (force simp: all_devices_def mig_devices_def)
qed

interpretation channel: step_invariant "channel_step E m" "channel_ok m" for E m
proof
  fix q e q'
  assume ok: "channel_ok m q" and "channel_step E m q e q'"
  from this(2) show "channel_ok m q'"
  proof (cases rule: channel_step.cases)
    case (one x d)
    with ok process_one_monitored [OF one(3)] show ?thesis by (auto simp: channel_ok_def)
  qed (use ok mark_all_ok in \<open>auto simp: channel_ok_def\<close>)
qed

lemma received_monitored:
  "run (channel_step E m) q es q' \<Longrightarrow> channel_ok m q \<Longrightarrow> Received d \<in> set es \<Longrightarrow>
   d \<in> set (all_devices (hm_deviceByPlacement m))"
proof (induction rule: run.induct)
  case (more es q1 e q2)
  show ?case
  proof (cases "e = Received d")
    case True
    with more.hyps(2) have "d \<in> set q1" by (auto elim: channel_step.cases)
    with channel.along_run [OF more.hyps(1) more.prems(1)] show ?thesis by (auto simp: channel_ok_def)
  next
    case False
    with more show ?thesis by simp
  qed
qed simp

lemma register_channel_ok:
  assumes "registerEventsForDevices V E m w = (r, w')" and "channel_ok m (mw_unhealthy w)"
  shows "channel_ok m (mw_unhealthy w')"
proof -
  have step: "keeps (\<lambda>w. channel_ok m (mw_unhealthy w)) (register_parent V E m p)"
    if "p \<in> set (hm_deviceByPlacement m)" for p
  proof -
    obtain u giMap where p: "p = (u, giMap)" by fastforce
    have mark: "keeps (\<lambda>w. channel_ok m (mw_unhealthy w)) (modify (mw_unhealthy_update (markAllMigDevicesUnhealthy m giMap)))"
      using mark_parent_ok that p by (intro keeps_modify) simp
    show ?thesis unfolding register_parent_def p prod.case Let_def
      by (intro keeps_seq keeps_sum keeps_on_frame mark keeps_pure) simp_all
  qed
  have "keeps (\<lambda>w. channel_ok m (mw_unhealthy w)) (each (register_parent V E m) ps)"
    if "set ps \<subseteq> set (hm_deviceByPlacement m)" for ps
    using that by (induction ps) (auto intro!: keeps_intros step)
  from keeps_result [OF this [OF subset_refl]] assms show ?thesis by (simp add: registerEventsForDevices_def)
qed

text \<open>The started monitor: what a channel that was empty before holds, and what the capacity is.\<close>

lemma started_channel:
  assumes "Monitor_Start V E m0 w = (Inr m, w')" and "mw_unhealthy w = []"
  shows "channel_ok m (mw_unhealthy w') \<and> (\<exists>h. m = m0\<lparr>hm_eventSet := h\<rparr>)"
proof -
  let ?rest = "\<lambda>r. case r of
       Inl _ \<Rightarrow> seq (in_monitor_lib (modify (alwaysShutdown V))) (\<lambda>_. throw (Err ''failed to create event set''))
     | Inr eventSet \<Rightarrow>
         let m' = m0\<lparr>hm_eventSet := eventSet\<rparr>
         in seq (registerEventsForDevices V E m') (\<lambda>_. ret m')"
  from assms(1) [unfolded Monitor_Start_def seq_Inr] obtain x0 w0 r w1 where
    init: "in_monitor_lib (need ''failed to initialize NVML'' (nv_Init V)) w = (Inr x0, w0)"
    and create: "in_monitor_lib (nv (ne_EventSetCreate E)) w0 = (Inr r, w1)" and rest: "?rest r w1 = (Inr m, w')"
    by blast
  have q: "mw_unhealthy w1 = mw_unhealthy w" using init create by (auto simp: on_Inr)
  from rest obtain h where reg: "registerEventsForDevices V E (m0\<lparr>hm_eventSet := h\<rparr>) w1 = (Inr (), w')"
    and m: "m = m0\<lparr>hm_eventSet := h\<rparr>"
    by (cases r) (auto simp: seq_Inr Let_def ret_def throw_def)
  have "channel_ok (m0\<lparr>hm_eventSet := h\<rparr>) (mw_unhealthy w1)" using q assms(2) by (simp add: channel_ok_def)
  from register_channel_ok [OF reg this] m show ?thesis by blast
qed

lemma new_monitor:
  assumes "newNvmlDeviceHealthMonitor V ds input l = (Inr m, l')"
  shows "hm_capacity m = length ds" "getDevicePlacementMap ds = Inr (hm_deviceByPlacement m)"
  using assms by (auto simp: newNvmlDeviceHealthMonitor_def seq_Inr deferring_result lift_res_Inr ret_def)

text \<open>C28: The monitor and the driver cannot deadlock, and report only what is monitored. In every run of the
  monitor after its start the channel holds at most as many devices as there are allocatable ones, the driver
  only ever receives devices that are monitored, and whatever NVML reports next, the monitor's loop can
  go on at once or after the driver has received pending devices; starting never waits for the driver.\<close>

theorem monitor_never_stuck:
  assumes "newNvmlDeviceHealthMonitor V ds input l = (Inr m0, l')"
    and "Monitor_Start V E m0 w = (Inr m, w')" and "mw_unhealthy w = []"
    and "run (channel_step E m) (mw_unhealthy w') es q"
  shows "length q \<le> length ds \<and> (\<forall>d. Received d \<in> set es \<longrightarrow> d \<in> set (all_devices (hm_deviceByPlacement m))) \<and>
    (\<exists>k q'. run (channel_step E m) q (map Received (take k q)) (drop k q) \<and> channel_step E m (drop k q) (Waited x) q')"
proof -
  note M = new_monitor [OF assms(1)]
  note start = started_channel [OF assms(2,3)]
  then have cap: "hm_capacity m = length ds" and place: "getDevicePlacementMap ds = Inr (hm_deviceByPlacement m)"
    using M by auto
  have ok: "channel_ok m q" using channel.along_run [OF assms(4)] start by blast
  have drain: "run (channel_step E m) q (map Received q) []" for q
    by (induction q) (auto simp: run_Cons intro: channel_step.receive)
  have "\<exists>k q'. run (channel_step E m) q (map Received (take k q)) (drop k q) \<and> channel_step E m (drop k q) (Waited x) q'"
  proof (cases "process_event E m x")
    case Quiet
    then have "channel_step E m (drop 0 q) (Waited x) q" by (simp add: channel_step.quiet)
    then show ?thesis by (intro exI [of _ 0] exI [of _ q]) simp
  next
    case AllDevices
    then have "channel_step E m (drop 0 q) (Waited x) (markAllDevicesUnhealthy m q)" by (simp add: channel_step.all)
    then show ?thesis by (intro exI [of _ 0] exI [of _ "markAllDevicesUnhealthy m q"]) simp
  next
    case (OneDevice d)
    then obtain u g c where "placement_get (hm_deviceByPlacement m) u g c = Some d"
      by (auto simp: process_event_def split: sum.splits if_splits option.splits)
    with placement_lookup [OF place, of u g c] devices_at_mem [of ds "(u, g, c)"] have "0 < length ds"
      by (auto split: list.splits)
    with cap OneDevice have "channel_step E m (drop (length q) q) (Waited x) [d]"
      using channel_step.one [of E m x d "[]"] by simp
    with drain show ?thesis by (intro exI [of _ "length q"] exI [of _ "[d]"]) simp
  qed
  with ok cap received_monitored [OF assms(4) conjunct1 [OF start]] show ?thesis by (auto simp: channel_ok_def)
qed

text \<open>A run at concrete inputs: NVML calls that find no device, so the only device is marked on start.\<close>

definition no_lib :: "unit lib" where
  "no_lib = \<lparr>lb_hw = (), lb_gpuInfosByUUID = [], lb_gpuUUIDbyMinor = [], lb_devhandleByUUID = []\<rparr>"

lemma sample_new_monitor:
  "newNvmlDeviceHealthMonitor ref_nvml monitored ''61, 62'' no_lib = (Inr (sample_monitor\<lparr>hm_eventSet := 0\<rparr>), no_lib)"
  by (simp add: newNvmlDeviceHealthMonitor_def need_def nv_def ref_nvml_def nv_yes_def on_def seq_def ret_def
      deferring_def alwaysShutdown_def lift_res_def monitored_map sample_monitor_def no_lib_def)
     (simp add: monitored_def)

lemma sample_Start:
  "Monitor_Start ref_nvml ref_events (sample_monitor\<lparr>hm_eventSet := 0\<rparr>) \<lparr>mw_lib = no_lib, mw_unhealthy = []\<rparr> =
     (Inr sample_monitor, \<lparr>mw_lib = no_lib, mw_unhealthy = [''gpu-0'']\<rparr>)"
  by (simp add: Monitor_Start_def need_def nv_def ref_nvml_def ref_events_def nv_yes_def nv_no_def on_def seq_def ret_def
      registerEventsForDevices_def register_parent_def sample_monitor_def no_lib_def modify_def
      markAllMigDevicesUnhealthy_def mig_devices_def try_send_def Let_def)

theorem monitor_never_stuck_witness:
  "\<exists>k q'. run (channel_step (ref_events :: unit nvml_events) sample_monitor) [''gpu-0''] (map Received (take k [''gpu-0''])) (drop k [''gpu-0'']) \<and>
     channel_step (ref_events :: unit nvml_events) sample_monitor (drop k [''gpu-0'']) (Waited (Inr (sample_event 79))) q'"
  using monitor_never_stuck [OF sample_new_monitor sample_Start, of "[]" "[''gpu-0'']" "Inr (sample_event 79)"] by simp

end
