(* ===== verification/Driver.thy ===== *)
theory Driver
  imports DeviceOps DeviceHealth
begin

text \<open>
  The DRA driver the kubelet talks to (\<open>cmd/hami-kubelet-plugin/driver.go\<close>): starting and stopping,
  the requests for several claims, the resource slices it publishes, and the handling of unhealthy
  devices. The kubelet plugin helper, the prepare/unprepare file lock, the version endpoint of the API
  server and the semver library are fields of the driver; they act on the part of the world outside the
  node, \<open>w_kube\<close>.
\<close>

section \<open>The driver\<close>

type_synonym driver_resources = "(string \<times> slice list) list"

record ('c, 'n, 'k) driver =
  dr_state :: "('c, 'n, 'k) device_state"
  dr_perGPUAllocatable :: PerGPUMinorAllocatableDevices
  dr_semver :: "string \<Rightarrow> string option"
  dr_PublishResources :: "driver_resources \<Rightarrow> ('k, unit) act"
  dr_pulock_acquire :: "('k, unit) act"
  dr_pulock_release :: "'k \<Rightarrow> 'k"
  dr_nodeName :: string
  dr_useSplitResourceSlices :: bool

abbreviation dr_Enabled :: "('c, 'n, 'k) driver \<Rightarrow> gates" where
  "dr_Enabled d \<equiv> ds_Enabled (dr_state d)"

section \<open>Resource slices\<close>

text \<open>\<open>slices.Sorted(maps.Keys(m))\<close> and the values in that order.\<close>

definition in_key_order :: "('k :: linorder \<times> 'v) list \<Rightarrow> ('k \<times> 'v) list" where
  "in_key_order m = map (\<lambda>k. (k, the (map_of m k))) (sort (map fst m))"

text \<open>The loop over the devices of one GPU: counter sets are appended to \<open>countersets\<close>, devices to
  \<open>devices\<close>.\<close>

fun announce_gpu :: "(string \<Rightarrow> string option) \<Rightarrow> (DeviceName \<times> AllocatableDevice) list \<Rightarrow>
    counter_set list \<Rightarrow> api_device list \<Rightarrow> (counter_set list \<times> api_device list) res" where
  "announce_gpu semver [] countersets devices = Inr (countersets, devices)"
| "announce_gpu semver ((devname, device) # ds) countersets devices =
     (let countersets' = (case ad_Gpu device of None \<Rightarrow> countersets
                          | Some g \<Rightarrow> countersets @ PartSharedCounterSets g)
      in res_seq (PartGetDevice semver device) (\<lambda>p. announce_gpu semver ds countersets' (devices @ [p])))"

fun split_slices :: "(string \<Rightarrow> string option) \<Rightarrow> PerGPUMinorAllocatableDevices \<Rightarrow>
    counter_set list \<Rightarrow> slice list \<Rightarrow> (counter_set list \<times> slice list) res" where
  "split_slices semver [] allCounterSets gpuslices = Inr (allCounterSets, gpuslices)"
| "split_slices semver ((minor, allocatable) # gs) allCounterSets gpuslices =
     res_seq (announce_gpu semver (in_key_order allocatable) allCounterSets []) (\<lambda>(allCounterSets', devices).
     split_slices semver gs allCounterSets' (gpuslices @ [\<lparr>s_SharedCounters = [], s_Devices = devices\<rparr>]))"

definition generateSplitResourceSlices :: "('c, 'n, 'k) driver \<Rightarrow> string \<Rightarrow> driver_resources res" where
  "generateSplitResourceSlices d node =
     res_seq (split_slices (dr_semver d) (in_key_order (dr_perGPUAllocatable d)) [] []) (\<lambda>(allCounterSets, gpuslices).
     Inr [(node, [\<lparr>s_SharedCounters = allCounterSets, s_Devices = []\<rparr>] @ gpuslices)])"

fun combined_slices :: "(string \<Rightarrow> string option) \<Rightarrow> PerGPUMinorAllocatableDevices \<Rightarrow> slice list \<Rightarrow> slice list res" where
  "combined_slices semver [] gpuslices = Inr gpuslices"
| "combined_slices semver ((minor, allocatable) # gs) gpuslices =
     res_seq (announce_gpu semver (in_key_order allocatable) [] []) (\<lambda>(countersets, devices).
     combined_slices semver gs (gpuslices @ [\<lparr>s_SharedCounters = countersets, s_Devices = devices\<rparr>]))"

definition generateCombinedResourceSlices :: "('c, 'n, 'k) driver \<Rightarrow> string \<Rightarrow> driver_resources res" where
  "generateCombinedResourceSlices d node =
     res_seq (combined_slices (dr_semver d) (in_key_order (dr_perGPUAllocatable d)) []) (\<lambda>gpuslices.
     Inr [(node, gpuslices)])"

definition GenerateDriverResources :: "('c, 'n, 'k) driver \<Rightarrow> string \<Rightarrow> driver_resources res" where
  "GenerateDriverResources d node =
     (if dr_useSplitResourceSlices d then generateSplitResourceSlices d node
      else generateCombinedResourceSlices d node)"

definition publishResources :: "('c, 'n, 'k) driver \<Rightarrow> (('c, 'n, 'k) world, unit) act" where
  "publishResources d =
     (if dr_Enabled d DynamicMIG then
        seq (lift_res (GenerateDriverResources d (dr_nodeName d))) (\<lambda>resources.
        in_kube (dr_PublishResources d resources))
      else
        seq (gets w_allocatable) (\<lambda>allocatable.
        seq (lift_res (res_all (GetDevice (dr_semver d)) (map snd allocatable))) (\<lambda>devices.
        in_kube (dr_PublishResources d [(dr_nodeName d, [\<lparr>s_SharedCounters = [], s_Devices = devices\<rparr>])]))))"

section \<open>Requests\<close>

text \<open>The lock around one request, released when it returns.\<close>

definition with_pulock :: "('c, 'n, 'k) driver \<Rightarrow> (('c, 'n, 'k) world, 'a) act \<Rightarrow> (('c, 'n, 'k) world, 'a) act" where
  "with_pulock d body =
     seq (wrapping ''error acquiring prep/unprep lock'' (in_kube (dr_pulock_acquire d))) (\<lambda>_.
     deferring (\<lambda>w. w\<lparr>w_kube := dr_pulock_release d (w_kube w)\<rparr>) body)"

text \<open>\<open>PrepareResult\<close> has an error or the devices.\<close>

type_synonym prepare_result = "err + plugin_device list"

definition nodePrepareResource ::
    "('c, 'n, 'k) driver \<Rightarrow> resource_claim \<Rightarrow> (('c, 'n, 'k) world, prepare_result) act" where
  "nodePrepareResource d claim = attempt (with_pulock d
     (seq (wrapping ''error preparing devices for claim'' (Prepare (dr_state d) claim)) (\<lambda>devs.
      seq (if dr_Enabled d PassthroughSupport
           then wrapping ''error preparing devices for claim'' (publishResources d) else ret ()) (\<lambda>_.
      ret devs))))"

definition nodeUnprepareResource ::
    "('c, 'n, 'k) driver \<Rightarrow> namespaced_object \<Rightarrow> (('c, 'n, 'k) world, unit) act" where
  "nodeUnprepareResource d claimRef = with_pulock d
     (seq (wrapping ''error unpreparing devices for claim'' (Unprepare (dr_state d) claimRef)) (\<lambda>_.
      if dr_Enabled d PassthroughSupport then wrapping ''error publishing resources'' (publishResources d) else ret ()))"

definition PrepareResourceClaims ::
    "('c, 'n, 'k) driver \<Rightarrow> resource_claim list \<Rightarrow> (('c, 'n, 'k) world, (string \<times> prepare_result) list) act" where
  "PrepareResourceClaims d rcs =
     fold_act (\<lambda>claim results. seq (nodePrepareResource d claim) (\<lambda>r. ret (AList.update (rc_UID claim) r results))) rcs []"

definition UnprepareResourceClaims ::
    "('c, 'n, 'k) driver \<Rightarrow> namespaced_object list \<Rightarrow> (('c, 'n, 'k) world, (string \<times> (err + unit)) list) act" where
  "UnprepareResourceClaims d claimRefs =
     fold_act (\<lambda>ref results. seq (attempt (nodeUnprepareResource d ref)) (\<lambda>r. ret (AList.update (no_UID ref) r results))) claimRefs []"

text \<open>\<open>HandleError\<close> only hands the error to the logging of apimachinery.\<close>

definition HandleError :: "err \<Rightarrow> string \<Rightarrow> (('c, 'n, 'k) world, unit) act" where
  "HandleError e msg = ret ()"

section \<open>Unhealthy devices\<close>

text \<open>One device received from the monitor, by its name in the map. Without passthrough support the map
  keeps the objects it was created with, so the name stands for the object the monitor holds.\<close>

definition healthy_devices :: "(string \<Rightarrow> string option) \<Rightarrow> AllocatableDevices \<Rightarrow> api_device list res" where
  "healthy_devices semver allocatable =
     res_seq (res_all (\<lambda>(name, dev).
         res_seq (UUID dev) (\<lambda>_.
         res_seq (IsHealthy dev) (\<lambda>healthy.
         if healthy then res_seq (GetDevice semver dev) (\<lambda>x. Inr [x]) else Inr []))) allocatable)
       (\<lambda>ds. Inr (concat ds))"

definition handle_unhealthy :: "('c, 'n, 'k) driver \<Rightarrow> DeviceName \<Rightarrow> (('c, 'n, 'k) world, unit) act" where
  "handle_unhealthy d name =
     seq (lookup_device name) (\<lambda>found.
     case found of
       None \<Rightarrow> ret ()
     | Some device \<Rightarrow>
         seq (lift_res (UUID device)) (\<lambda>_.
         seq (lift_res (IsHealthy device)) (\<lambda>healthy.
         if \<not> healthy then ret ()
         else
           seq (UpdateDeviceHealthStatus name Unhealthy) (\<lambda>_.
           seq (gets w_allocatable) (\<lambda>allocatable.
           seq (lift_res (healthy_devices (dr_semver d) allocatable)) (\<lambda>devices.
           seq (attempt (in_kube (dr_PublishResources d
                  [(dr_nodeName d, [\<lparr>s_SharedCounters = [], s_Devices = devices\<rparr>])]))) (\<lambda>_. ret ())))))))"

text \<open>The loop over the channel until it is closed or the context ends.\<close>

definition deviceHealthEvents :: "('c, 'n, 'k) driver \<Rightarrow> DeviceName list \<Rightarrow> (('c, 'n, 'k) world, unit) act" where
  "deviceHealthEvents d events = each (handle_unhealthy d) events"

section \<open>The version of the API server\<close>

text \<open>\<open>'v\<close> is the version type of the semver library.\<close>

definition getAPIServerVersion :: "('k, string) act \<Rightarrow> (string \<Rightarrow> err + 'v) \<Rightarrow> ('k, 'v) act" where
  "getAPIServerVersion serverVersion NewVersion =
     seq (wrapping ''failed to get server version'' serverVersion) (\<lambda>gitVersion.
     wrapping ''failed to parse version'' (entry_act (NewVersion gitVersion)))"

definition shouldUseSplitResourceSlices ::
    "('k, string) act \<Rightarrow> (string \<Rightarrow> err + 'v) \<Rightarrow> ('v \<Rightarrow> 'v \<Rightarrow> bool) \<Rightarrow> ('k, bool) act" where
  "shouldUseSplitResourceSlices serverVersion NewVersion LessThan =
     seq (wrapping ''API server version detection failed'' (getAPIServerVersion serverVersion NewVersion)) (\<lambda>v.
     case NewVersion ''1.35.0'' of
       Inl e \<Rightarrow> panic ''semver: MustParse''
     | Inr bound \<Rightarrow> ret (\<not> LessThan v bound))"

section \<open>Claims in messages\<close>

text \<open>How a claim is named in log lines and errors (\<open>types.go\<close>); the \<open>String\<close> method of a claim reference is the
  kubelet plugin helper's.\<close>

definition ResourceClaimToString :: "resource_claim \<Rightarrow> string" where
  "ResourceClaimToString rc = rc_Namespace rc @ ''/'' @ rc_Name rc @ '':'' @ rc_UID rc"

definition PreparedClaimToString :: "PreparedClaim \<Rightarrow> string \<Rightarrow> string" where
  "PreparedClaimToString pc uid = c_Namespace pc @ ''/'' @ c_Name pc @ '':'' @ uid"

definition ClaimsToStrings :: "resource_claim list \<Rightarrow> string list" where
  "ClaimsToStrings rcs = map ResourceClaimToString rcs"

definition ClaimRefsToStrings :: "(namespaced_object \<Rightarrow> string) \<Rightarrow> namespaced_object list \<Rightarrow> string list" where
  "ClaimRefsToStrings str claimRefs = map str claimRefs"

text \<open>A started claim of the checkpoint is named like its API object, a completed one only by its UID.\<close>

lemma claim_strings:
  "PreparedClaimToString (started_claim rc) (rc_UID rc) = ResourceClaimToString rc"
  "PreparedClaimToString (completed_claim rc devices) uid = ''/:'' @ uid"
  by (simp_all add: PreparedClaimToString_def ResourceClaimToString_def started_claim_def completed_claim_def)

end
