(* ===== verification/DriverOps.thy ===== *)
theory DriverOps
  imports Driver SamplePlugin
begin

text \<open>
  How the driver's requests run the operations of the device state: the lock and the publishing around
  one request leave the checkpoint alone.
\<close>

section \<open>The lock and the publishing\<close>

lemma in_kube_cp: "in_kube a w = (r, w') \<Longrightarrow> w_cp w' = w_cp w"
  by (auto simp: on_def split: prod.splits)

lemma publish_cp: "keeps (cp_same c) (publishResources d)"
  unfolding publishResources_def by (auto intro!: keeps_intros cp_frame)

lemma attempt_total: "attempt a w = (r, w') \<Longrightarrow> (\<exists>x. r = Inr x) \<or> (\<exists>msg. r = Inl (Panicked msg))"
proof -
  have "(\<exists>x. attempt_res y = Inr x) \<or> (\<exists>msg. attempt_res y = Inl (Panicked msg))" for y :: "'a res"
    by (cases y rule: attempt_res.cases) auto
  then show "attempt a w = (r, w') \<Longrightarrow> ?thesis" by (auto simp: attempt_def apfst_def map_prod_def split: prod.splits)
qed

text \<open>One request of the kubelet runs the operation of the device state at most once; the lock and the
  publishing around it leave the checkpoint alone.\<close>

lemma with_pulock_cases:
  assumes "with_pulock d body w = (r, w')"
  obtains (unlocked) f where "r = Inl f" "w_cp w' = w_cp w"
  | (locked) w0 w1 where "w_cp w0 = w_cp w" "body w0 = (r, w1)" "w_cp w' = w_cp w1"
proof -
  have frame: "keeps (cp_same c) (wrapping ''error acquiring prep/unprep lock'' (in_kube (dr_pulock_acquire d)))" for c
    by (intro keeps_intros cp_frame)
  from assms [unfolded with_pulock_def] frame show thesis
    by (cases rule: frameE) (use that in \<open>auto simp: deferring_result\<close>)
qed

lemma request_cases:
  assumes "with_pulock d (seq (wrapping m1 a) (\<lambda>x. seq (if b then wrapping m2 (publishResources d) else ret ()) (\<lambda>_. ret x))) w = (r, w')"
  obtains (unlocked) f where "r = Inl f" "w_cp w' = w_cp w"
  | (asked) w0 x w1 where "w_cp w0 = w_cp w" "a w0 = (x, w1)" "w_cp w' = w_cp w1" "isl r \<or> r = x"
  using assms
proof (cases rule: with_pulock_cases)
  case (locked w0 w1)
  obtain x w2 where a: "a w0 = (x, w2)" by fastforce
  have frame: "keeps (cp_same c) (if b then wrapping m2 (publishResources d) else ret ())" for c
    by (auto intro!: keeps_intros publish_cp)
  from locked(2) have "w_cp w1 = w_cp w2 \<and> (isl r \<or> r = x)"
  proof (cases rule: seqE)
    case (stop f)
    then show ?thesis using a by (cases x) (auto simp: wrapping_def)
  next
    case (step y w3)
    then have y: "x = Inr y" "w3 = w2" using a wrapping_step by fastforce+
    from step(2) frame show ?thesis by (cases rule: frameE) (use y in \<open>auto simp: ret_def\<close>)
  qed
  with locked a asked show thesis by metis
qed (use that in auto)

lemma nodePrepareResource_cases:
  assumes "nodePrepareResource d claim w = (r, w')"
  obtains (unlocked) "\<And>ds. r \<noteq> Inr (Inr ds)" "w_cp w' = w_cp w"
  | (asked) w0 x w1 where "w_cp w0 = w_cp w" "Prepare (dr_state d) claim w0 = (x, w1)" "w_cp w' = w_cp w1"
      "\<And>ds. r = Inr (Inr ds) \<Longrightarrow> x = Inr ds"
proof -
  let ?body = "with_pulock d
     (seq (wrapping ''error preparing devices for claim'' (Prepare (dr_state d) claim)) (\<lambda>devs.
      seq (if dr_Enabled d PassthroughSupport
           then wrapping ''error preparing devices for claim'' (publishResources d) else ret ()) (\<lambda>_. ret devs)))"
  obtain y where y: "?body w = (y, w')" and r: "r = attempt_res y"
    using assms by (cases "?body w") (auto simp: nodePrepareResource_def attempt_def)
  have ok: "y = Inr ds" if "r = Inr (Inr ds)" for ds
    using that r by (cases y rule: attempt_res.cases) auto
  from y show thesis
  proof (cases rule: request_cases)
    case (unlocked f)
    with ok show thesis using that(1) by blast
  next
    case (asked w0 x w1)
    with ok show thesis using that(2) [of w0 x w1] by fastforce
  qed
qed

lemma seq_ret: "seq m ret = m"
  by (rule ext) (simp add: seq_def ret_def split: prod.split sum.split)

lemma nodeUnprepareResource_cases:
  assumes "nodeUnprepareResource d ref w = (r, w')"
  obtains (unlocked) f where "r = Inl f" "w_cp w' = w_cp w"
  | (asked) w0 x w1 where "w_cp w0 = w_cp w" "Unprepare (dr_state d) ref w0 = (x, w1)" "w_cp w' = w_cp w1" "isl r \<or> r = x"
proof -
  have "with_pulock d (seq (wrapping ''error unpreparing devices for claim'' (Unprepare (dr_state d) ref)) (\<lambda>x.
      seq (if dr_Enabled d PassthroughSupport then wrapping ''error publishing resources'' (publishResources d) else ret ()) (\<lambda>_. ret x))) w = (r, w')"
    using assms by (simp add: nodeUnprepareResource_def seq_ret cong: if_cong)
  then show thesis by (cases rule: request_cases) (use that in auto)
qed

text \<open>What \<open>nodeUnprepareResource\<close> leaves of the claims; when it succeeds the claim is gone.\<close>

lemma node_unprepare_claims:
  assumes "legal_store (ds_env (dr_state d) blob)" and "checkpoint_of (dr_state d) blob w = Some (b, m)"
    and "nodeUnprepareResource d ref w = (r, w')"
  shows "(isl r \<and> checkpoint_of (dr_state d) blob w' = Some (b, m)) \<or>
    checkpoint_of (dr_state d) blob w' = Some (b, m(no_UID ref := None))"
  using assms(3)
proof (cases rule: nodeUnprepareResource_cases)
  case unlocked
  then show ?thesis using assms(2) by (simp add: checkpoint_of_def)
next
  case (asked w0 x w1)
  have "checkpoint_of (dr_state d) blob w0 = Some (b, m)" using assms(2) asked(1) by (simp add: checkpoint_of_def)
  from Unprepare_meets_spec [OF assms(1) this asked(2)] asked(3,4) show ?thesis
    by (auto simp: unprepare_spec_simps checkpoint_of_def)
qed

section \<open>A driver for the witnesses\<close>

definition sample_driver :: "(json option, string \<Rightarrow> string, 'k) driver" where
  "sample_driver = \<lparr>dr_state = ref_state no_gates, dr_perGPUAllocatable = [], dr_semver = Some,
     dr_PublishResources = (\<lambda>_. ret ()), dr_pulock_acquire = ret (), dr_pulock_release = id,
     dr_nodeName = ''node-a'', dr_useSplitResourceSlices = False\<rparr>"

end
