(* ===== verification/Announcements.thy ===== *)
theory Announcements
  imports DriverOps
begin

text \<open>
  The properties of the driver: what the kubelet is told about each claim of a request, what the two
  resource slice layouts announce, and what an unhealthy device changes.
\<close>

section \<open>Requests for several claims\<close>

text \<open>The answers given so far hold of the claims in the checkpoint.\<close>

definition answered_by :: "(string \<times> prepare_result) list \<Rightarrow> claim_map \<Rightarrow> bool" where
  "answered_by results m \<longleftrightarrow> (\<forall>u ds. map_of results u = Some (Inr ds) \<longrightarrow>
     (\<exists>pc. m u = Some pc \<and> c_CheckpointState pc = Completed \<and> GetDevices (c_PreparedDevices pc) = Inr ds))"

lemma node_prepare_answer:
  assumes "legal_store (ds_env (dr_state d) blob)" and "checkpoint_of (dr_state d) blob w = Some (b, m)"
    and "nodePrepareResource d claim w = (r, w')"
  shows "(case r of Inl f \<Rightarrow> \<exists>msg. f = Panicked msg | Inr _ \<Rightarrow> True) \<and>
    (\<exists>m'. checkpoint_of (dr_state d) blob w' = Some (b, m') \<and> (\<forall>u. u \<noteq> rc_UID claim \<longrightarrow> m' u = m u) \<and>
      (\<forall>x results. r = Inr x \<and> answered_by results m \<longrightarrow> answered_by (AList.update (rc_UID claim) x results) m'))"
proof
  from attempt_total assms(3) show "case r of Inl f \<Rightarrow> \<exists>msg. f = Panicked msg | Inr _ \<Rightarrow> True"
    unfolding nodePrepareResource_def by (fastforce split: sum.split)
  from assms(3) show "\<exists>m'. checkpoint_of (dr_state d) blob w' = Some (b, m') \<and> (\<forall>u. u \<noteq> rc_UID claim \<longrightarrow> m' u = m u) \<and>
      (\<forall>x results. r = Inr x \<and> answered_by results m \<longrightarrow> answered_by (AList.update (rc_UID claim) x results) m')"
  proof (cases rule: nodePrepareResource_cases)
    case unlocked
    then have "checkpoint_of (dr_state d) blob w' = Some (b, m)" using assms(2) by (simp add: checkpoint_of_def)
    with unlocked(1) show ?thesis by (auto simp: answered_by_def AList.update_conv' intro!: exI [of _ m])
  next
    case (asked w0 x w1)
    have c0: "checkpoint_of (dr_state d) blob w0 = Some (b, m)" using assms(2) asked(1) by (simp add: checkpoint_of_def)
    have c1: "checkpoint_of (dr_state d) blob w' = checkpoint_of (dr_state d) blob w1"
      using asked(3) by (simp add: checkpoint_of_def)
    from Prepare_meets_spec [OF assms(1) c0 asked(2)] obtain m' where
      m': "checkpoint_of (dr_state d) blob w1 = Some (b, m')"
      and "prepare_spec (dr_Enabled d HAMiCoreSupport) claim m x m'" by blast
    from this(2) have "(\<forall>u. u \<noteq> rc_UID claim \<longrightarrow> m' u = m u) \<and>
        (\<forall>ds. x = Inr ds \<longrightarrow> (\<exists>pc. m' (rc_UID claim) = Some pc \<and> c_CheckpointState pc = Completed \<and>
           GetDevices (c_PreparedDevices pc) = Inr ds))"
      by (cases rule: prepare_spec.cases) auto
    with m' c1 asked(4) show ?thesis by (auto simp: answered_by_def AList.update_conv' intro!: exI [of _ m'])
  qed
qed

lemma fold_claims_answered:
  assumes "legal_store (ds_env (dr_state d) blob)"
    and "fold_act (\<lambda>claim results. seq (nodePrepareResource d claim) (\<lambda>r. ret (AList.update (rc_UID claim) r results)))
      rcs results w = (r, w')"
    and "checkpoint_of (dr_state d) blob w = Some (b, m)" and "answered_by results m"
  shows "\<exists>m'. checkpoint_of (dr_state d) blob w' = Some (b, m') \<and> (\<forall>u. u \<notin> rc_UID ` set rcs \<longrightarrow> m' u = m u) \<and>
    (case r of Inl f \<Rightarrow> \<exists>msg. f = Panicked msg
     | Inr results' \<Rightarrow> fst ` set results' = fst ` set results \<union> rc_UID ` set rcs \<and>
         (distinct (map fst results) \<longrightarrow> distinct (map fst results')) \<and> answered_by results' m')"
  using assms(2-4)
proof (induction rcs arbitrary: w m results)
  case Nil
  then show ?case by (auto simp: ret_def)
next
  case (Cons claim rcs)
  obtain x w1 where n: "nodePrepareResource d claim w = (x, w1)" by fastforce
  from node_prepare_answer [OF assms(1) Cons.prems(2) n] obtain m1 where
    panics: "case x of Inl f \<Rightarrow> \<exists>msg. f = Panicked msg | Inr _ \<Rightarrow> True"
    and m1: "checkpoint_of (dr_state d) blob w1 = Some (b, m1)" "\<And>u. u \<noteq> rc_UID claim \<Longrightarrow> m1 u = m u"
    and answered: "\<And>y results. x = Inr y \<Longrightarrow> answered_by results m \<Longrightarrow>
      answered_by (AList.update (rc_UID claim) y results) m1" by blast
  show ?case
  proof (cases x)
    case (Inl f)
    with n Cons.prems(1) have "r = Inl f" "w' = w1" by (auto simp: seq_def)
    with m1 panics Inl show ?thesis by auto
  next
    case (Inr y)
    with n Cons.prems(1) have "fold_act (\<lambda>claim results. seq (nodePrepareResource d claim) (\<lambda>r. ret (AList.update (rc_UID claim) r results)))
      rcs (AList.update (rc_UID claim) y results) w1 = (r, w')" by (auto simp: seq_def ret_def)
    from Cons.IH [OF this m1(1) answered [OF Inr Cons.prems(3)]] obtain m' where
      m': "checkpoint_of (dr_state d) blob w' = Some (b, m')" "\<forall>u. u \<notin> rc_UID ` set rcs \<longrightarrow> m' u = m1 u"
      and res: "case r of Inl f \<Rightarrow> \<exists>msg. f = Panicked msg
        | Inr results' \<Rightarrow> fst ` set results' = fst ` set (AList.update (rc_UID claim) y results) \<union> rc_UID ` set rcs \<and>
            (distinct (map fst (AList.update (rc_UID claim) y results)) \<longrightarrow> distinct (map fst results')) \<and>
            answered_by results' m'" by blast
    moreover have "fst ` set (AList.update (rc_UID claim) y results) = insert (rc_UID claim) (fst ` set results)"
      using AList.dom_update [of "rc_UID claim" y results] by simp
    ultimately show ?thesis using m1(2) AList.distinct_update [of results "rc_UID claim" y]
      by (intro exI [of _ m']) (auto split: sum.splits)
  qed
qed

text \<open>C6: Every claim of a request is answered, and the answers last. A request for several claims never fails as
  a whole: unless the process dies there is exactly one answer per claim UID, an error for one claim does
  not keep the others from being prepared, the claims the kubelet did not name are as before, and every claim
  answered with devices is, after the whole request, recorded as completed with these devices.\<close>

theorem requests_answered:
  assumes "legal_store (ds_env (dr_state d) blob)" and "checkpoint_of (dr_state d) blob w = Some (b, m)"
    and "PrepareResourceClaims d rcs w = (r, w')"
  shows "\<exists>m'. checkpoint_of (dr_state d) blob w' = Some (b, m') \<and> (\<forall>u. u \<notin> rc_UID ` set rcs \<longrightarrow> m' u = m u) \<and>
    (case r of
       Inl f \<Rightarrow> \<exists>msg. f = Panicked msg
     | Inr results \<Rightarrow> fst ` set results = rc_UID ` set rcs \<and> distinct (map fst results) \<and>
         (\<forall>u ds. map_of results u = Some (Inr ds) \<longrightarrow>
            (\<exists>pc. m' u = Some pc \<and> c_CheckpointState pc = Completed \<and> GetDevices (c_PreparedDevices pc) = Inr ds)))"
proof -
  have "answered_by [] m" by (simp add: answered_by_def)
  from fold_claims_answered [OF assms(1) assms(3) [unfolded PrepareResourceClaims_def] assms(2) this] show ?thesis
    by (cases r) (auto simp: answered_by_def)
qed

lemma sample_requests:
  "case fst (PrepareResourceClaims sample_driver [sample_claim ''u1'', sample_claim ''u2''] gpu_world) of
     Inl f \<Rightarrow> False
   | Inr results \<Rightarrow> map_of results ''u1'' = Some (Inr (sample_devices_of ''u1'')) \<and>
       map_option isl (map_of results ''u2'') = Some True"
  unfolding gpu_world_def started_world_def by code_simp

theorem requests_answered_witness:
  "\<exists>results w' b m' pc. PrepareResourceClaims sample_driver [sample_claim ''u1'', sample_claim ''u2''] gpu_world = (Inr results, w') \<and>
     checkpoint_of sample_state (\<lambda>c. c) w' = Some (b, m') \<and> fst ` set results = {''u1'', ''u2''} \<and>
     m' ''u1'' = Some pc \<and> c_CheckpointState pc = Completed"
proof -
  obtain r w' where run: "PrepareResourceClaims sample_driver [sample_claim ''u1'', sample_claim ''u2''] gpu_world = (r, w')"
    by fastforce
  with sample_requests obtain results where r: "r = Inr results" "map_of results ''u1'' = Some (Inr (sample_devices_of ''u1''))"
      "map_option isl (map_of results ''u2'') = Some True"
    by (cases r) auto
  have s: "dr_state sample_driver = sample_state" by (simp add: sample_driver_def)
  obtain b where "checkpoint_of sample_state (\<lambda>c. c) gpu_world = Some (b, Map.empty)" using sample_contents by blast
  from requests_answered [OF _ _ run, unfolded s, OF sample_legal this] r run show ?thesis
    by (fastforce simp: sample_claim_def)
qed

section \<open>Resource slices\<close>

lemma in_key_order_facts:
  "length (in_key_order m) = length m" "map fst (in_key_order m) = sort (map fst m)"
  "set (in_key_order m) \<subseteq> set m"
proof -
  have "(k, the (map_of m k)) \<in> set m" if "k \<in> set (map fst m)" for k
    using that map_of_SomeD [of m k] by (cases "map_of m k") (simp_all add: map_of_eq_None_iff)
  then show "set (in_key_order m) \<subseteq> set m" by (auto simp: in_key_order_def)
qed (simp_all add: in_key_order_def comp_def)

lemma PartGetDevice_name: "PartGetDevice semver dev = Inr p \<Longrightarrow> CanonicalName dev = Inr (d_Name p)"
  by (auto simp: PartGetDevice_def CanonicalName_def unexpected_type_def res_seq_Inr Gpu_PartGetDevice_def
      MigSpec_PartGetDevice_def split: DeviceType.splits)

lemma announce_gpu_from:
  "announce_gpu semver ds countersets devices =
     res_seq (announce_gpu semver ds [] []) (\<lambda>(c, v). Inr (countersets @ c, devices @ v))"
proof (induction ds arbitrary: countersets devices)
  case (Cons e ds)
  obtain n dev where e: "e = (n, dev)" by fastforce
  show ?case
  proof (cases "PartGetDevice semver dev")
    case (Inr p)
    let ?g = "case ad_Gpu dev of None \<Rightarrow> [] | Some g \<Rightarrow> PartSharedCounterSets g"
    have step: "announce_gpu semver (e # ds) cs dv = announce_gpu semver ds (cs @ ?g) (dv @ [p])" for cs dv
      using Inr by (simp add: e Let_def split: option.split)
    show ?thesis unfolding step Cons.IH [of "countersets @ ?g" "devices @ [p]"] Cons.IH [of "[] @ ?g" "[] @ [p]"]
      by (cases "announce_gpu semver ds [] []") (simp_all split: prod.split)
  qed (simp add: e)
qed simp

lemma announce_gpu_names:
  "announce_gpu semver ds [] [] = Inr (cs, devices) \<Longrightarrow> \<forall>(k, dev) \<in> set ds. CanonicalName dev = Inr k \<Longrightarrow>
   map d_Name devices = map fst ds"
proof (induction ds arbitrary: cs devices)
  case (Cons e ds)
  obtain n dev where e: "e = (n, dev)" by fastforce
  from Cons.prems(1) obtain p c v where p: "PartGetDevice semver dev = Inr p"
    and rest: "announce_gpu semver ds [] [] = Inr (c, v)" and "devices = p # v"
    by (auto simp: e res_seq_Inr Let_def announce_gpu_from [where devices = "[_]"])
  with Cons PartGetDevice_name [OF p] show ?case by (simp add: e)
qed simp

text \<open>The two loops side by side.\<close>

lemma split_from_combined:
  "split_slices semver gs cs out =
     res_seq (combined_slices semver gs []) (\<lambda>slices.
       Inr (cs @ concat (map s_SharedCounters slices), out @ map (s_SharedCounters_update (\<lambda>_. [])) slices)) \<and>
   combined_slices semver gs out =
     res_seq (combined_slices semver gs []) (\<lambda>slices. Inr (out @ slices))"
proof (induction gs arbitrary: cs out)
  case (Cons g gs)
  obtain minor al where g: "g = (minor, al)" by fastforce
  show ?case
  proof (cases "announce_gpu semver (in_key_order al) [] []")
    case (Inl f)
    then show ?thesis by (simp add: g announce_gpu_from [where countersets = cs])
  next
    case (Inr x)
    obtain c v where x: "x = (c, v)" by fastforce
    let ?one = "\<lparr>s_SharedCounters = c, s_Devices = v\<rparr>"
    have combined: "combined_slices semver (g # gs) o1 = combined_slices semver gs (o1 @ [?one])" for o1
      using Inr by (simp add: g x)
    have split: "split_slices semver (g # gs) cs out = split_slices semver gs (cs @ c) (out @ [\<lparr>s_SharedCounters = [], s_Devices = v\<rparr>])"
      using Inr by (simp add: g x announce_gpu_from [where countersets = cs])
    have "combined_slices semver gs (o1 @ [?one]) = res_seq (combined_slices semver gs []) (\<lambda>slices. Inr ((o1 @ [?one]) @ slices))" for o1
      using Cons.IH by blast
    note this [of out] this [of "[]"]
    with Cons.IH [THEN conjunct1, of "cs @ c" "out @ [\<lparr>s_SharedCounters = [], s_Devices = v\<rparr>]"]
    show ?thesis unfolding combined split by (cases "combined_slices semver gs []") simp_all
  qed
qed simp

lemma combined_slices_names:
  "combined_slices semver gs [] = Inr slices \<Longrightarrow> \<forall>(minor, al) \<in> set gs. wf_allocatable al \<Longrightarrow>
   map (map d_Name \<circ> s_Devices) slices = map (\<lambda>(minor, al). sort (map fst al)) gs"
proof (induction gs arbitrary: slices)
  case (Cons g gs)
  obtain minor al where g: "g = (minor, al)" by fastforce
  from Cons.prems(1) obtain c v rest where a: "announce_gpu semver (in_key_order al) [] [] = Inr (c, v)"
    and rest: "combined_slices semver gs [] = Inr rest" "slices = \<lparr>s_SharedCounters = c, s_Devices = v\<rparr> # rest"
    using split_from_combined [THEN conjunct2, of semver gs "[_]"] by (auto simp: g res_seq_Inr)
  have "\<forall>(k, dev) \<in> set (in_key_order al). CanonicalName dev = Inr k"
    using Cons.prems(2) in_key_order_facts(3) wf_allocatable_name by (fastforce simp: g)
  from announce_gpu_names [OF a this] Cons.IH [OF rest(1)] Cons.prems(2) rest(2) show ?case
    by (simp add: g in_key_order_facts(2))
qed simp

text \<open>C13: The two layouts of the resource slices announce the same. For $G$ GPUs the layout for Kubernetes 1.34
  has $G$ slices with the counters and the devices of one GPU each; the layout for 1.35 exists for the same
  devices, has $G + 1$ slices, the first with all these counters and no device, the others with the same
  devices in the same order and no counters; both announce exactly the devices of the map under their
  names, by ascending minor number and name.\<close>

theorem split_announces_the_same:
  assumes "\<forall>(minor, al) \<in> set (dr_perGPUAllocatable d). wf_allocatable al"
  shows "(\<forall>f. generateSplitResourceSlices d node = Inl f \<longleftrightarrow> generateCombinedResourceSlices d node = Inl f) \<and>
    (\<forall>combined. generateCombinedResourceSlices d node = Inr combined \<longrightarrow>
      (\<exists>slices. combined = [(node, slices)] \<and>
        generateSplitResourceSlices d node = Inr [(node,
          \<lparr>s_SharedCounters = concat (map s_SharedCounters slices), s_Devices = []\<rparr> #
          map (s_SharedCounters_update (\<lambda>_. [])) slices)] \<and>
        length slices = length (dr_perGPUAllocatable d) \<and>
        map (map d_Name \<circ> s_Devices) slices =
          map (\<lambda>(minor, al). sort (map fst al)) (in_key_order (dr_perGPUAllocatable d))))"
proof (cases "combined_slices (dr_semver d) (in_key_order (dr_perGPUAllocatable d)) []")
  case (Inl f)
  then show ?thesis
    by (simp add: generateSplitResourceSlices_def generateCombinedResourceSlices_def
        split_from_combined [THEN conjunct1, of _ _ "[]" "[]"])
next
  case (Inr slices)
  have "\<forall>(minor, al) \<in> set (in_key_order (dr_perGPUAllocatable d)). wf_allocatable al"
    using assms in_key_order_facts(3) by fastforce
  note names = combined_slices_names [OF Inr this]
  from arg_cong [OF this, of length] have "length slices = length (dr_perGPUAllocatable d)"
    by (simp add: in_key_order_facts(1))
  with Inr names show ?thesis
    by (simp add: generateSplitResourceSlices_def generateCombinedResourceSlices_def
        split_from_combined [THEN conjunct1, of _ _ "[]" "[]"])
qed

definition two_gpus :: PerGPUMinorAllocatableDevices where
  "two_gpus = [(1, [(''gpu-1'', no_device\<lparr>ad_Gpu := Some (sample_gpu ''GPU-b'' 1)\<rparr>)]),
     (0, [(''gpu-0'', no_device\<lparr>ad_Gpu := Some (sample_gpu ''GPU-a'' 0)\<rparr>)])]"

abbreviation two_gpu_driver :: "(json option, string \<Rightarrow> string, unit) driver" where
  "two_gpu_driver \<equiv> sample_driver\<lparr>dr_perGPUAllocatable := two_gpus\<rparr>"

lemma two_gpus_combined:
  "map_sum id (map (map_prod id (map (map d_Name \<circ> s_Devices))))
     (generateCombinedResourceSlices two_gpu_driver ''node-a'') =
   Inr [(''node-a'', [[''gpu-0''], [''gpu-1'']])]"
  by code_simp

lemma two_gpus_ok: "list_all (\<lambda>(minor, al). wf_allocatable al) two_gpus"
  by code_simp

theorem split_announces_the_same_witness:
  "\<exists>counters s0 s1. generateSplitResourceSlices two_gpu_driver ''node-a'' =
     Inr [(''node-a'', [\<lparr>s_SharedCounters = counters, s_Devices = []\<rparr>, s0, s1])] \<and>
     map d_Name (s_Devices s0) = [''gpu-0''] \<and> map d_Name (s_Devices s1) = [''gpu-1'']"
proof -
  have "\<forall>(minor, al) \<in> set (dr_perGPUAllocatable two_gpu_driver). wf_allocatable al"
    using two_gpus_ok by (simp add: list_all_iff)
  note same = split_announces_the_same [OF this, of "''node-a''"]
  from two_gpus_combined obtain combined where c: "generateCombinedResourceSlices two_gpu_driver ''node-a'' = Inr combined"
    and names: "map (map_prod id (map (map d_Name \<circ> s_Devices))) combined = [(''node-a'', [[''gpu-0''], [''gpu-1'']])]"
    by (cases "generateCombinedResourceSlices two_gpu_driver ''node-a''") auto
  from same [THEN conjunct2, rule_format, OF c] obtain slices where slices: "combined = [(''node-a'', slices)]"
    "generateSplitResourceSlices two_gpu_driver ''node-a'' = Inr [(''node-a'',
          \<lparr>s_SharedCounters = concat (map s_SharedCounters slices), s_Devices = []\<rparr> #
          map (s_SharedCounters_update (\<lambda>_. [])) slices)]" by blast
  from names slices(1) obtain s0 s1 where "slices = [s0, s1]" "map d_Name (s_Devices s0) = [''gpu-0'']"
    "map d_Name (s_Devices s1) = [''gpu-1'']" by auto
  with slices(2) show ?thesis by simp
qed

section \<open>Unhealthy devices\<close>

definition with_health :: "HealthStatus \<Rightarrow> AllocatableDevice \<Rightarrow> AllocatableDevice" where
  "with_health hs d = (case Type d of
       GpuDeviceType \<Rightarrow> d\<lparr>ad_Gpu := map_option (g_health_update (\<lambda>_. hs)) (ad_Gpu d)\<rparr>
     | MigStaticDeviceType \<Rightarrow> d\<lparr>ad_MigStatic := map_option (md_health_update (\<lambda>_. hs)) (ad_MigStatic d)\<rparr>
     | _ \<Rightarrow> d)"

lemma set_health_map:
  "map_of (set_health name hs ds) n = (if n = name then map_option (with_health hs) (map_of ds n) else map_of ds n)"
  "map fst (set_health name hs ds) = map fst ds"
  by (induction ds) (auto simp: set_health_def with_health_def split: DeviceType.splits)

lemma Type_with_health [simp]: "Type (with_health hs d) = Type d"
  by (auto simp: with_health_def Type_def split: DeviceType.splits)

lemma with_health_marks:
  assumes "Type d \<in> {GpuDeviceType, MigStaticDeviceType}"
  shows "IsHealthy (with_health hs d) = Inr (hs = Healthy) \<and> (\<exists>u. UUID d = Inr u \<and> UUID (with_health hs d) = Inr u)"
proof (cases "Type d = GpuDeviceType")
  case True
  with Type_Gpu obtain x where "ad_Gpu d = Some x" "ad_HAMiGpu d = None" by blast
  moreover from this have "ad_Gpu (with_health hs d) = Some (x\<lparr>g_health := hs\<rparr>)" "ad_HAMiGpu (with_health hs d) = None"
    by (simp_all add: with_health_def True)
  ultimately show ?thesis by (simp add: IsHealthy_def UUID_def True)
next
  case False
  with assms have m: "Type d = MigStaticDeviceType" by simp
  with Type_MigStatic obtain x where "ad_MigStatic d = Some x" by blast
  moreover from m have "ad_HAMiGpu d = None" "ad_Gpu d = None" by (simp_all add: Type_def split: if_splits)
  moreover from calculation have "ad_MigStatic (with_health hs d) = Some (x\<lparr>md_health := hs\<rparr>)"
    "ad_HAMiGpu (with_health hs d) = None" "ad_Gpu (with_health hs d) = None"
    by (simp_all add: with_health_def m)
  ultimately show ?thesis by (simp add: IsHealthy_def UUID_def m)
qed

lemma concat_all2_Cons:
  "(\<exists>yss. list_all2 P (e # ds) yss \<and> concat yss = out) \<longleftrightarrow>
   (\<exists>y rest. P e y \<and> out = y @ rest \<and> (\<exists>yss. list_all2 P ds yss \<and> concat yss = rest))"
proof
  assume "\<exists>y rest. P e y \<and> out = y @ rest \<and> (\<exists>yss. list_all2 P ds yss \<and> concat yss = rest)"
  then obtain y yss where "P e y" "list_all2 P ds yss" "out = y @ concat yss" by blast
  then show "\<exists>yss. list_all2 P (e # ds) yss \<and> concat yss = out" by (intro exI [of _ "y # yss"]) simp
qed (fastforce simp: list_all2_Cons1)

lemma healthy_devices_Inr:
  "healthy_devices semver ds = Inr out \<longleftrightarrow>
     (\<forall>(n, dev) \<in> set ds. (\<exists>u. UUID dev = Inr u) \<and> (\<exists>h. IsHealthy dev = Inr h)) \<and>
     list_all2 (\<lambda>(n, dev) x. GetDevice semver dev = Inr x) (filter (\<lambda>(n, dev). IsHealthy dev = Inr True) ds) out"
proof -
  let ?f = "\<lambda>(name, dev). res_seq (UUID dev) (\<lambda>_. res_seq (IsHealthy dev) (\<lambda>healthy.
         if healthy then res_seq (GetDevice semver dev) (\<lambda>x. Inr [x]) else Inr []))"
  have "(\<exists>yss. list_all2 (\<lambda>x y. ?f x = Inr y) ds yss \<and> concat yss = out) \<longleftrightarrow>
     (\<forall>(n, dev) \<in> set ds. (\<exists>u. UUID dev = Inr u) \<and> (\<exists>h. IsHealthy dev = Inr h)) \<and>
     list_all2 (\<lambda>(n, dev) x. GetDevice semver dev = Inr x) (filter (\<lambda>(n, dev). IsHealthy dev = Inr True) ds) out"
  proof (induction ds arbitrary: out)
    case (Cons e ds)
    obtain n dev where e: "e = (n, dev)" by fastforce
    show ?case unfolding concat_all2_Cons Cons.IH
      by (cases "IsHealthy dev") (auto simp: e res_seq_Inr list_all2_Cons1)
  qed auto
  then show ?thesis by (simp add: healthy_devices_def res_seq_Inr res_all_Inr)
qed

text \<open>C12: An unhealthy device is withdrawn at once and for good. When the monitor reports a device that is a full
  GPU or a static MIG device and was healthy, the driver marks this device, and only this device, as unhealthy and
  publishes one slice with exactly the devices that are still healthy, in the order of the map, even if the
  publishing itself then fails; a second report of the same device changes and publishes nothing.\<close>

theorem unhealthy_withdrawn:
  assumes "map_of (w_allocatable w) name = Some dev" and "Type dev \<in> {GpuDeviceType, MigStaticDeviceType}"
    and "IsHealthy dev = Inr True" and "handle_unhealthy d name w = (Inr (), w')"
  shows "(\<exists>dev'. map_of (w_allocatable w') name = Some dev' \<and> IsHealthy dev' = Inr False) \<and>
    (\<forall>n. n \<noteq> name \<longrightarrow> map_of (w_allocatable w') n = map_of (w_allocatable w) n) \<and>
    (\<exists>devices. list_all2 (\<lambda>(n, dev) x. GetDevice (dr_semver d) dev = Inr x)
        (filter (\<lambda>(n, dev). IsHealthy dev = Inr True) (w_allocatable w')) devices \<and>
      w_kube w' = snd (dr_PublishResources d [(dr_nodeName d, [\<lparr>s_SharedCounters = [], s_Devices = devices\<rparr>])] (w_kube w))) \<and>
    handle_unhealthy d name w' = (Inr (), w')"
proof -
  let ?ds = "set_health name Unhealthy (w_allocatable w)"
  note M = with_health_marks [OF assms(2), of Unhealthy]
  then obtain u where u: "UUID dev = Inr u" and u': "UUID (with_health Unhealthy dev) = Inr u" by blast
  let ?publish = "\<lambda>devices. in_kube (dr_PublishResources d [(dr_nodeName d, [\<lparr>s_SharedCounters = [], s_Devices = devices\<rparr>])])"
  let ?w = "w\<lparr>w_allocatable := ?ds\<rparr>"
  have "UpdateDeviceHealthStatus name Unhealthy w = (Inr (), ?w)"
    using assms(1,2) u by (auto simp: UpdateDeviceHealthStatus_def seq_gets seq_modify seq_basic run_basic)
  note update = seq_step [where m = "UpdateDeviceHealthStatus name Unhealthy" and w = w, OF this]
  have "handle_unhealthy d name w = seq (lift_res (healthy_devices (dr_semver d) ?ds)) (\<lambda>devices.
      seq (attempt (?publish devices)) (\<lambda>_. ret ())) ?w"
    using assms(1,3) u by (simp add: handle_unhealthy_def seq_gets seq_basic update)
  with assms(4) obtain devices where devices: "healthy_devices (dr_semver d) ?ds = Inr devices"
    and publish: "seq (attempt (?publish devices)) (\<lambda>_. ret ()) ?w = (Inr (), w')"
    by (cases "healthy_devices (dr_semver d) ?ds") (simp_all add: seq_basic run_basic)
  from publish have w': "w' = snd (?publish devices (w\<lparr>w_allocatable := ?ds\<rparr>))"
    using snd_attempt [of "?publish devices" ?w]
    by (cases "attempt (?publish devices) ?w"; cases "fst (attempt (?publish devices) ?w)") (simp_all add: seq_def ret_def)
  then have al: "w_allocatable w' = ?ds"
    and kube: "w_kube w' = snd (dr_PublishResources d [(dr_nodeName d, [\<lparr>s_SharedCounters = [], s_Devices = devices\<rparr>])] (w_kube w))"
    by (simp_all add: on_def split: prod.split)
  have marked: "map_of ?ds name = Some (with_health Unhealthy dev)" "IsHealthy (with_health Unhealthy dev) = Inr False"
    using assms(1) M by (simp_all add: set_health_map)
  have again: "handle_unhealthy d name w' = (Inr (), w')"
    using marked al u' by (simp add: handle_unhealthy_def seq_gets seq_basic ret_def)
  show ?thesis using devices al kube marked again by (auto simp: healthy_devices_Inr set_health_map)
qed

text \<open>An API server that remembers what was published and fails.\<close>

definition logging_driver :: "(json option, string \<Rightarrow> string, driver_resources list) driver" where
  "logging_driver = sample_driver\<lparr>dr_PublishResources := (\<lambda>r log. (Inl (Failed (Err ''unreachable'')), log @ [r]))\<rparr>"

definition two_gpu_world :: "(json option, string \<Rightarrow> string, driver_resources list) world" where
  "two_gpu_world = \<lparr>w_cp = None, w_lib = \<lparr>lb_hw = (\<lambda>_. ''''), lb_gpuInfosByUUID = [], lb_gpuUUIDbyMinor = [], lb_devhandleByUUID = []\<rparr>,
     w_kube = [], w_fs = ref_fs, w_now = 0, w_cache = [], w_allocatable = concat (map snd two_gpus)\<rparr>"

lemma two_gpu_event:
  "fst (handle_unhealthy logging_driver ''gpu-0'' two_gpu_world) = Inr ()"
  "map (map (map_prod id (map (map d_Name \<circ> s_Devices)))) (w_kube (snd (handle_unhealthy logging_driver ''gpu-0'' two_gpu_world))) =
     [[(''node-a'', [[''gpu-1'']])]]"
  by code_simp+

theorem unhealthy_withdrawn_witness:
  "\<exists>w' dev'. handle_unhealthy logging_driver ''gpu-0'' two_gpu_world = (Inr (), w') \<and>
     map_of (w_allocatable w') ''gpu-0'' = Some dev' \<and> IsHealthy dev' = Inr False \<and>
     map (map (map_prod id (map (map d_Name \<circ> s_Devices)))) (w_kube w') = [[(''node-a'', [[''gpu-1'']])]] \<and>
     handle_unhealthy logging_driver ''gpu-0'' w' = (Inr (), w')"
proof -
  let ?dev = "no_device\<lparr>ad_Gpu := Some (sample_gpu ''GPU-a'' 0)\<rparr>"
  obtain w' where run: "handle_unhealthy logging_driver ''gpu-0'' two_gpu_world = (Inr (), w')"
    using two_gpu_event(1) by (cases "handle_unhealthy logging_driver ''gpu-0'' two_gpu_world") simp
  have "map_of (w_allocatable two_gpu_world) ''gpu-0'' = Some ?dev"
    by (simp add: two_gpu_world_def two_gpus_def)
  moreover have "Type ?dev \<in> {GpuDeviceType, MigStaticDeviceType}" "IsHealthy ?dev = Inr True"
    by (simp_all add: Type_def IsHealthy_def no_device_def sample_gpu_def sample_spec_def)
  ultimately show ?thesis using unhealthy_withdrawn [OF _ _ _ run] run two_gpu_event(2) by fastforce
qed

end
