(* ===== verification/Cleanup.thy ===== *)
theory Cleanup
  imports DriverOps
begin

text \<open>
  The cleanup of partially prepared claims (\<open>cmd/hami-kubelet-plugin/cleanup.go\<close>): one run over the
  checkpoint, the question to the API server whether a claim still exists, and the two goroutines that
  start runs periodically. The API call and the unprepare function are parameters; the driver passes
  \<open>nodeUnprepareResource\<close>.
\<close>

section \<open>One cleanup run\<close>

type_synonym 'k claim_getter = "string \<Rightarrow> string \<Rightarrow> ('k, resource_claim) act"
type_synonym ('c, 'n, 'k) unprep_callable = "namespaced_object \<Rightarrow> (('c, 'n, 'k) world, unit) act"

definition getClaimByName :: "'k claim_getter \<Rightarrow> string \<Rightarrow> string \<Rightarrow> (('c, 'n, 'k) world, resource_claim) act" where
  "getClaimByName get name ns = wrapping ''error getting resource claim'' (in_kube (get ns name))"

definition self_unprepare ::
    "('c, 'n, 'k) unprep_callable \<Rightarrow> string \<Rightarrow> PreparedClaim \<Rightarrow> (('c, 'n, 'k) world, unit) act" where
  "self_unprepare unprepfunc uid claim =
     (let claimRef = \<lparr>no_UID = uid, no_Namespace = c_Namespace claim, no_Name = c_Name claim\<rparr>
      in seq (attempt (unprepfunc claimRef)) (\<lambda>_. ret ()))"

definition unprepareIfStale ::
    "'k claim_getter \<Rightarrow> ('c, 'n, 'k) unprep_callable \<Rightarrow> string \<Rightarrow> PreparedClaim \<Rightarrow> (('c, 'n, 'k) world, unit) act" where
  "unprepareIfStale get unprepfunc cpuid cpclaim =
     (if c_Name cpclaim = '''' then ret ()
      else seq (attempt (getClaimByName get (c_Name cpclaim) (c_Namespace cpclaim))) (\<lambda>r.
           case r of
             Inl e \<Rightarrow> if isNotFound e then self_unprepare unprepfunc cpuid cpclaim else ret ()
           | Inr claim \<Rightarrow> if rc_UID claim \<noteq> cpuid then self_unprepare unprepfunc cpuid cpclaim else ret ()))"

text \<open>The started claims; \<open>AList.clearjunk\<close> is the identity on lists that stand for Go maps.\<close>

definition started_claims :: "PreparedClaimsByUID \<Rightarrow> PreparedClaimsByUID" where
  "started_claims m = filter (\<lambda>(uid, claim). c_CheckpointState claim = Started) (AList.clearjunk m)"

definition cleanup ::
    "('c, 'n, 'k) device_state \<Rightarrow> 'k claim_getter \<Rightarrow> ('c, 'n, 'k) unprep_callable \<Rightarrow> (('c, 'n, 'k) world, unit) act" where
  "cleanup s get unprepfunc =
     seq (attempt (get_checkpoint s)) (\<lambda>r.
     case r of
       Inl _ \<Rightarrow> ret ()
     | Inr cp \<Rightarrow>
         seq (lift_res (claim_entries cp)) (\<lambda>m.
         each (\<lambda>(cpuid, cpclaim). unprepareIfStale get unprepfunc cpuid cpclaim) (started_claims m)))"

section \<open>The goroutines\<close>

text \<open>The producer starts with a cleanup of its own, then waits for ticks; the worker waits for the queue.\<close>

datatype goroutine = Cleaning | Selecting | Returned

record cleanup_threads =
  ct_queue :: nat
  ct_producer :: goroutine
  ct_worker :: goroutine
  ct_cancelled :: bool

definition Cleanup_Start :: cleanup_threads where
  "Cleanup_Start = \<lparr>ct_queue = 0, ct_producer = Cleaning, ct_worker = Selecting, ct_cancelled = False\<rparr>"

text \<open>\<open>enqueueCleanup\<close> on the number of elements of the channel of capacity one.\<close>

definition enqueueCleanup :: "nat \<Rightarrow> bool \<times> nat" where
  "enqueueCleanup queued = (if queued < 1 then (True, queued + 1) else (False, queued))"

datatype thread_event = FirstCleanup | Tick | Taken | Cleaned | ProducerReturns | WorkerReturns | Cancel

inductive thread_step :: "cleanup_threads \<Rightarrow> thread_event \<Rightarrow> cleanup_threads \<Rightarrow> bool" where
  first: "ct_producer t = Cleaning \<Longrightarrow> thread_step t FirstCleanup (t\<lparr>ct_producer := Selecting\<rparr>)"
| tick: "ct_producer t = Selecting \<Longrightarrow> thread_step t Tick (t\<lparr>ct_queue := snd (enqueueCleanup (ct_queue t))\<rparr>)"
| producer_returns: "ct_producer t = Selecting \<Longrightarrow> ct_cancelled t \<Longrightarrow>
    thread_step t ProducerReturns (t\<lparr>ct_producer := Returned\<rparr>)"
| taken: "ct_worker t = Selecting \<Longrightarrow> 0 < ct_queue t \<Longrightarrow>
    thread_step t Taken (t\<lparr>ct_queue := ct_queue t - 1, ct_worker := Cleaning\<rparr>)"
| cleaned: "ct_worker t = Cleaning \<Longrightarrow> thread_step t Cleaned (t\<lparr>ct_worker := Selecting\<rparr>)"
| worker_returns: "ct_worker t = Selecting \<Longrightarrow> ct_cancelled t \<Longrightarrow>
    thread_step t WorkerReturns (t\<lparr>ct_worker := Returned\<rparr>)"
| cancel: "thread_step t Cancel (t\<lparr>ct_cancelled := True\<rparr>)"

text \<open>\<open>Stop\<close> cancels and returns when both goroutines have returned.\<close>

definition Stop_returns :: "cleanup_threads \<Rightarrow> bool" where
  "Stop_returns t \<longleftrightarrow> ct_cancelled t \<and> ct_producer t = Returned \<and> ct_worker t = Returned"

section \<open>What a cleanup may remove\<close>

text \<open>What the API server says of a claim of the checkpoint when it is in state \<open>k\<close>.\<close>

definition says_stale :: "'k claim_getter \<Rightarrow> string \<Rightarrow> PreparedClaim \<Rightarrow> 'k \<Rightarrow> bool" where
  "says_stale get uid pc k =
     (case fst (get (c_Namespace pc) (c_Name pc) k) of
        Inl (Failed e) \<Rightarrow> isNotFound e
      | Inl (Panicked _) \<Rightarrow> False
      | Inr claim \<Rightarrow> rc_UID claim \<noteq> uid)"

definition stale_at :: "'k claim_getter \<Rightarrow> string \<Rightarrow> PreparedClaim \<Rightarrow> bool" where
  "stale_at get uid pc \<longleftrightarrow> c_Name pc \<noteq> '''' \<and> (\<exists>k. says_stale get uid pc k)"

text \<open>The contract of the cleanup with its provider: API calls leave the contents of the store alone, reading
  gives the contents, and the unprepare function removes at most the claim it is given.\<close>

locale stale_cleanup =
  fixes s :: "('c, 'n, 'k) device_state"
    and contents :: "('c, 'n, 'k) world \<Rightarrow> contents option"
    and unprep :: "('c, 'n, 'k) unprep_callable"
  assumes apart: "contents (w\<lparr>w_kube := k\<rparr>) = contents w"
    and reads: "contents w = Some x \<Longrightarrow> get_checkpoint s w = (r, w1) \<Longrightarrow>
      contents w1 = Some x \<and> (\<forall>cp. r = Inr cp \<longrightarrow> contents_of cp = x \<and> (\<exists>es. claim_entries cp = Inr es \<and> claims cp = map_of es))"
    and unprepares: "contents w = Some (b, m) \<Longrightarrow> unprep ref w = (y, w1) \<Longrightarrow>
      contents w1 = Some (b, m) \<or> contents w1 = Some (b, m(no_UID ref := None))"
begin

lemma self_unprepare_effect:
  assumes "contents w = Some (b, m)" and "self_unprepare unprep uid pc w = (r, w1)"
  shows "contents w1 = Some (b, m) \<or> contents w1 = Some (b, m(uid := None))"
proof -
  let ?ref = "\<lparr>no_UID = uid, no_Namespace = c_Namespace pc, no_Name = c_Name pc\<rparr>"
  have "w1 = snd (unprep ?ref w)"
    using assms(2) snd_attempt [of "unprep ?ref" w]
    by (cases "attempt (unprep ?ref) w"; cases "fst (attempt (unprep ?ref) w)")
      (auto simp: self_unprepare_def seq_def ret_def)
  with unprepares [OF assms(1), of ?ref] show ?thesis by (cases "unprep ?ref w") simp
qed

lemma one_claim:
  assumes "contents w = Some (b, m)" and "unprepareIfStale get unprep uid pc w = (r, w1)"
  shows "contents w1 = Some (b, m) \<or> (contents w1 = Some (b, m(uid := None)) \<and> stale_at get uid pc)"
proof (cases "c_Name pc = ''''")
  case True
  then show ?thesis using assms by (simp add: unprepareIfStale_def ret_def)
next
  case False
  obtain x k where get: "get (c_Namespace pc) (c_Name pc) (w_kube w) = (x, k)" by fastforce
  let ?w = "w\<lparr>w_kube := k\<rparr>"
  have c: "contents ?w = Some (b, m)" using assms(1) by (simp add: apart)
  have "(r, w1) = (case x of
      Inl (Failed e) \<Rightarrow> if isNotFound e then self_unprepare unprep uid pc ?w else (Inr (), ?w)
    | Inl (Panicked msg) \<Rightarrow> (Inl (Panicked msg), ?w)
    | Inr claim \<Rightarrow> if rc_UID claim \<noteq> uid then self_unprepare unprep uid pc ?w else (Inr (), ?w))"
    using assms(2) get False
    by (cases x rule: attempt_res.cases)
      (simp_all add: unprepareIfStale_def getClaimByName_def attempt_def wrapping_def on_def seq_def ret_def split: if_splits)
  then consider "w1 = ?w" | "says_stale get uid pc (w_kube w)" "self_unprepare unprep uid pc ?w = (r, w1)"
    using get by (cases x rule: attempt_res.cases) (auto simp: says_stale_def split: if_splits)
  then show ?thesis
    by cases (use c self_unprepare_effect [OF c] False in \<open>auto simp: stale_at_def\<close>)
qed

lemma all_claims:
  assumes "contents w = Some (b, m)" and "each (\<lambda>(uid, pc). unprepareIfStale get unprep uid pc) cs w = (r, w1)"
  shows "\<exists>m'. contents w1 = Some (b, m') \<and>
    (\<forall>u. m' u = m u \<or> (m' u = None \<and> (\<exists>pc. (u, pc) \<in> set cs \<and> stale_at get u pc)))"
  using assms
proof (induction cs arbitrary: w m)
  case Nil
  then show ?case by (auto simp: ret_def)
next
  case (Cons e cs)
  obtain uid pc where e: "e = (uid, pc)" by fastforce
  obtain x w2 where first: "unprepareIfStale get unprep uid pc w = (x, w2)" by fastforce
  from one_claim [OF Cons.prems(1) first] obtain m2 where m2: "contents w2 = Some (b, m2)"
    "m2 = m \<or> (m2 = m(uid := None) \<and> stale_at get uid pc)" by blast
  show ?case
  proof (cases x)
    case (Inl f)
    then have "w1 = w2" using first Cons.prems(2) by (simp add: e seq_def)
    with m2 show ?thesis by (intro exI [of _ m2]) (auto simp: e split: if_splits)
  next
    case (Inr y)
    then have "each (\<lambda>(uid, pc). unprepareIfStale get unprep uid pc) cs w2 = (r, w1)"
      using first Cons.prems(2) by (simp add: e seq_def)
    from Cons.IH [OF m2(1) this] obtain m' where m': "contents w1 = Some (b, m')"
      "\<forall>u. m' u = m2 u \<or> (m' u = None \<and> (\<exists>pc. (u, pc) \<in> set cs \<and> stale_at get u pc))" by blast
    from m2(2) m'(2) have "\<forall>u. m' u = m u \<or> (m' u = None \<and> (\<exists>pc. (u, pc) \<in> set (e # cs) \<and> stale_at get u pc))"
      by (auto simp: e) (metis fun_upd_apply)+
    with m'(1) show ?thesis by blast
  qed
qed

lemma cleanup_effect:
  assumes "contents w = Some (b, m)" and "cleanup s get unprep w = (r, w1)"
  shows "\<exists>m'. contents w1 = Some (b, m') \<and> (\<forall>u. m' u = m u \<or>
    (m' u = None \<and> (\<exists>pc. m u = Some pc \<and> c_CheckpointState pc = Started \<and> stale_at get u pc)))"
proof -
  obtain x w2 where g: "get_checkpoint s w = (x, w2)" by fastforce
  note R = reads [OF assms(1) g]
  show ?thesis
  proof (cases x)
    case (Inl f)
    then have "w1 = w2" using g assms(2)
      by (cases f) (auto simp: cleanup_def attempt_def seq_def ret_def)
    with R show ?thesis by auto
  next
    case (Inr cp)
    with R obtain es where cp: "contents_of cp = (b, m)" "claim_entries cp = Inr es" "claims cp = map_of es" by blast
    then have m: "m = map_of es" using contents_claims by metis
    have "each (\<lambda>(uid, pc). unprepareIfStale get unprep uid pc) (started_claims es) w2 = (r, w1)"
      using g Inr cp(2) assms(2) by (simp add: cleanup_def attempt_def seq_def lift_res_def)
    from all_claims [OF R [THEN conjunct1] this] obtain m' where m': "contents w1 = Some (b, m')"
      "\<forall>u. m' u = m u \<or> (m' u = None \<and> (\<exists>pc. (u, pc) \<in> set (started_claims es) \<and> stale_at get u pc))" by blast
    have "m u = Some pc \<and> c_CheckpointState pc = Started" if "(u, pc) \<in> set (started_claims es)" for u pc
    proof -
      from that have "(u, pc) \<in> set (AList.clearjunk es)" "c_CheckpointState pc = Started"
        by (auto simp: started_claims_def)
      with map_of_eq_Some_iff [OF distinct_clearjunk, of es u pc] show ?thesis by (simp add: m map_of_clearjunk)
    qed
    with m' show ?thesis by blast
  qed
qed

end

definition store_contents ::
    "('c, 'n, 'k) device_state \<Rightarrow> ('c \<Rightarrow> json option) \<Rightarrow> ('c, 'n, 'k) world \<Rightarrow> contents option" where
  "store_contents s blob w = (if legal_store (ds_env s blob) then checkpoint_of s blob w else None)"

interpretation driver_cleanup:
  stale_cleanup "dr_state d" "store_contents (dr_state d) blob" "nodeUnprepareResource d" for d blob
proof
  fix w :: "('a, 'b, 'c) world" and k
  show "store_contents (dr_state d) blob (w\<lparr>w_kube := k\<rparr>) = store_contents (dr_state d) blob w"
    by (simp add: store_contents_def checkpoint_of_def)
next
  fix w :: "('a, 'b, 'c) world" and x r w1
  assume "store_contents (dr_state d) blob w = Some x" and g: "get_checkpoint (dr_state d) w = (r, w1)"
  then have L: "legal_store (ds_env (dr_state d) blob)" and c: "checkpoint_of (dr_state d) blob w = Some x"
    by (simp_all add: store_contents_def split: if_splits)
  have "\<exists>es. claim_entries cp = Inr es \<and> claims cp = map_of es" if "r = Inr cp" for cp
    using get_checkpoint_result [OF L g] that latest_entries [of cp] by blast
  with get_checkpoint_result [OF L g] c L
  show "store_contents (dr_state d) blob w1 = Some x \<and>
      (\<forall>cp. r = Inr cp \<longrightarrow> contents_of cp = x \<and> (\<exists>es. claim_entries cp = Inr es \<and> claims cp = map_of es))"
    by (auto simp: store_contents_def)
next
  fix w :: "('a, 'b, 'c) world" and b m ref r w1
  assume "store_contents (dr_state d) blob w = Some (b, m)" and "nodeUnprepareResource d ref w = (r, w1)"
  then show "store_contents (dr_state d) blob w1 = Some (b, m) \<or>
      store_contents (dr_state d) blob w1 = Some (b, m(no_UID ref := None))"
    using node_unprepare_claims [of d blob w b m ref r w1] by (auto simp: store_contents_def split: if_splits)
qed

section \<open>Properties\<close>

definition never_fails :: "('w, 'a) act \<Rightarrow> bool" where
  "never_fails a \<longleftrightarrow> (\<forall>w f. fst (a w) = Inl f \<longrightarrow> (\<exists>msg. f = Panicked msg))"

lemma never_fails_basic:
  "never_fails (ret x)" "never_fails (attempt a)" "never_fails (lift_res (claim_entries cp))"
proof -
  show "never_fails (attempt a)"
    unfolding never_fails_def
  proof (intro allI impI)
    fix w f assume "fst (attempt a w) = Inl f"
    then have "attempt a w = (Inl f, snd (attempt a w))" by (simp add: prod_eq_iff)
    from attempt_total [OF this] show "\<exists>msg. f = Panicked msg" by simp
  qed
  show "never_fails (lift_res (claim_entries cp))"
    by (cases "cp_V2 cp") (simp_all add: never_fails_def lift_res_def claim_entries_def)
qed (simp add: never_fails_def ret_def)

lemma never_fails_seq: "never_fails a \<Longrightarrow> (\<And>x. never_fails (k x)) \<Longrightarrow> never_fails (seq a k)"
  by (auto simp: never_fails_def seq_def split: prod.splits sum.splits) (metis fst_conv)

lemma never_fails_each: "(\<And>x. never_fails (f x)) \<Longrightarrow> never_fails (each f xs)"
  by (induction xs) (auto intro: never_fails_basic never_fails_seq)

lemma cleanup_never_fails: "never_fails (cleanup s get unprep)"
proof -
  have self: "never_fails (self_unprepare unprep uid pc)" for uid pc
    by (simp add: self_unprepare_def never_fails_basic never_fails_seq)
  have one: "never_fails (unprepareIfStale get unprep uid pc)" for uid pc
    unfolding unprepareIfStale_def
    by (auto intro!: never_fails_basic never_fails_seq self split: sum.split)
  show ?thesis unfolding cleanup_def
    by (auto intro!: never_fails_basic never_fails_seq never_fails_each one split: sum.split)
qed


text \<open>How many steps are left at most.\<close>

fun remaining :: "goroutine \<Rightarrow> nat" where
  "remaining Cleaning = 2"
| "remaining Selecting = 1"
| "remaining Returned = 0"

definition weight :: "cleanup_threads \<Rightarrow> nat" where
  "weight t = 2 * ct_queue t + remaining (ct_producer t) + remaining (ct_worker t)"

lemma remaining_bound: "remaining g \<le> 2"
  by (cases g) auto

lemma weight_step:
  "thread_step t e t' \<Longrightarrow> e \<noteq> Tick \<Longrightarrow> weight t' + (if e = Cancel then 0 else 1) \<le> weight t"
  by (cases rule: thread_step.cases) (auto simp: weight_def)

interpretation queued: step_invariant thread_step "\<lambda>t. ct_queue t \<le> 1"
  by unfold_locales (auto elim!: thread_step.cases simp: enqueueCleanup_def)




end
