(* ===== verification/DriverRoot.thy ===== *)
theory DriverRoot
  imports FileSys NvLib
begin

text \<open>
  Finding the files of the GPU driver below its root (\<open>cmd/hami-kubelet-plugin/root.go\<close>) and the device
  library made of them (\<open>newDeviceLib\<close> in \<open>nvlib.go\<close>). The driver root is searched through symbolic
  links, so this file has its own tree with links and the resolution of \<open>path/filepath\<close>, which gives up
  after 255 links.
\<close>

section \<open>Symbolic links\<close>

datatype host_node = HostFile | HostDir | HostLink string

type_synonym host_tree = "(path \<times> host_node) list"

definition host_at :: "host_tree \<Rightarrow> path \<Rightarrow> host_node option" where
  "host_at t p = (if p = [] then Some HostDir else map_of t p)"

text \<open>\<open>filepath.EvalSymlinks\<close>: \<open>dest\<close> is resolved, \<open>rest\<close> is to be walked, \<open>n\<close> links may still be followed.\<close>

function eval_links :: "host_tree \<Rightarrow> nat \<Rightarrow> path \<Rightarrow> string list \<Rightarrow> err + path" where
  "eval_links t n dest [] = Inr dest"
| "eval_links t n dest (s # rest) =
     (if s = '''' \<or> s = ''.'' then eval_links t n dest rest
      else if s = ''..'' then eval_links t n (butlast dest) rest
      else (case host_at t (dest @ [s]) of
              None \<Rightarrow> Inl NotExist
            | Some HostDir \<Rightarrow> eval_links t n (dest @ [s]) rest
            | Some HostFile \<Rightarrow> if rest = [] then Inr (dest @ [s]) else Inl (Err ''not a directory'')
            | Some (HostLink target) \<Rightarrow>
                (case n of 0 \<Rightarrow> Inl (Err ''too many links'')
                 | Suc n' \<Rightarrow> eval_links t n' (if target \<noteq> [] \<and> hd target = CHR ''/'' then [] else dest)
                              (split_at_char (CHR ''/'') target @ rest))))"
  by pat_completeness auto
termination
  by (relation "measures [\<lambda>(t, n, dest, rest). n, \<lambda>(t, n, dest, rest). length rest]") auto

definition EvalSymlinks :: "host_tree \<Rightarrow> path \<Rightarrow> err + path" where
  "EvalSymlinks t p = eval_links t 255 [] p"

section \<open>The driver root\<close>

definition resolveLink :: "host_tree \<Rightarrow> path \<Rightarrow> err + path" where
  "resolveLink t l = (case EvalSymlinks t l of Inl _ \<Rightarrow> Inl (Err ''error resolving link'') | Inr p \<Rightarrow> Inr p)"

fun first_resolved :: "host_tree \<Rightarrow> path \<Rightarrow> string \<Rightarrow> string list \<Rightarrow> err + path" where
  "first_resolved t r name [] = Inl (Err ''error locating'')"
| "first_resolved t r name (d # ds) =
     (case resolveLink t (join_path r [d, name]) of
        Inl _ \<Rightarrow> first_resolved t r name ds
      | Inr candidate \<Rightarrow> Inr candidate)"

definition findFile :: "host_tree \<Rightarrow> path \<Rightarrow> string \<Rightarrow> string list \<Rightarrow> err + path" where
  "findFile t r name searchIn = first_resolved t r name ([''/''] @ searchIn)"

definition getDriverLibraryPath :: "host_tree \<Rightarrow> path \<Rightarrow> err + path" where
  "getDriverLibraryPath t r = findFile t r ''libnvidia-ml.so.1''
     [''/usr/lib64'', ''/usr/lib/x86_64-linux-gnu'', ''/usr/lib/aarch64-linux-gnu'', ''/lib64'',
      ''/lib/x86_64-linux-gnu'', ''/lib/aarch64-linux-gnu'', ''/usr/local/lib'', ''/usr/local/lib64'']"

definition getNvidiaSMIPath :: "host_tree \<Rightarrow> path \<Rightarrow> err + path" where
  "getNvidiaSMIPath t r = findFile t r ''nvidia-smi''
     [''/opt/bin'', ''/usr/bin'', ''/usr/sbin'', ''/bin'', ''/sbin'', ''/usr/local/bin'']"

text \<open>\<open>os.Stat\<close> follows links in the kernel, at most 40 of them.\<close>

definition isDevRoot :: "host_tree \<Rightarrow> path \<Rightarrow> bool" where
  "isDevRoot t r = (case eval_links t 40 [] (join_path r [''dev'']) of
     Inl _ \<Rightarrow> False | Inr p \<Rightarrow> host_at t p = Some HostDir)"

definition getDevRoot :: "host_tree \<Rightarrow> path \<Rightarrow> path" where
  "getDevRoot t r = (if isDevRoot t r then r else [])"

text \<open>\<open>newDeviceLib\<close>, with the environment of the process; it also returns the dev root.\<close>

definition newDeviceLib ::
    "'n nvml \<Rightarrow> gates \<Rightarrow> host_tree \<Rightarrow> string list \<Rightarrow> string \<Rightarrow> path \<Rightarrow> ('n lib, deviceLib \<times> path) act" where
  "newDeviceLib V Enabled t environ ld_preload driverRoot =
     seq (wrapping ''failed to locate driver libraries''
           (case getDriverLibraryPath t driverRoot of Inl e \<Rightarrow> throw e | Inr p \<Rightarrow> ret p)) (\<lambda>driverLibraryPath.
     seq (wrapping ''failed to locate nvidia-smi''
           (case getNvidiaSMIPath t driverRoot of Inl e \<Rightarrow> throw e | Inr p \<Rightarrow> ret p)) (\<lambda>nvidiaSMIPath.
     seq (modify (\<lambda>l. l\<lparr>lb_gpuInfosByUUID := [], lb_gpuUUIDbyMinor := [], lb_devhandleByUUID := []\<rparr>)) (\<lambda>_.
     seq (if Enabled DynamicMIG then wrapping ''failed to initialize NVML'' (lib_Init V) else ret ()) (\<lambda>_.
     ret (\<lparr>dl_driverLibraryPath = path_string driverLibraryPath, dl_nvidiaSMIPath = path_string nvidiaSMIPath,
           dl_environ = environ, dl_LD_PRELOAD = ld_preload\<rparr>, getDevRoot t driverRoot)))))"

section \<open>Properties\<close>

text \<open>A path no link lies on: what is above its end are directories, its end is a directory or a file.\<close>

definition dirs :: "host_tree \<Rightarrow> path \<Rightarrow> bool" where
  "dirs t d \<longleftrightarrow> (\<forall>q s. prefix (q @ [s]) d \<longrightarrow> component s \<and> host_at t (q @ [s]) = Some HostDir)"

definition link_free :: "host_tree \<Rightarrow> path \<Rightarrow> bool" where
  "link_free t p \<longleftrightarrow> p = [] \<or> (dirs t (butlast p) \<and> component (last p) \<and>
     (host_at t p = Some HostDir \<or> host_at t p = Some HostFile))"

lemma dirs_Nil [simp]: "dirs t []"
  by (simp add: dirs_def)

lemma dirs_snoc: "dirs t (d @ [s]) \<longleftrightarrow> dirs t d \<and> component s \<and> host_at t (d @ [s]) = Some HostDir"
  by (auto simp: dirs_def)

lemma dirs_butlast: "dirs t d \<Longrightarrow> dirs t (butlast d)"
  by (cases d rule: rev_cases) (simp_all add: dirs_snoc)

lemma dirs_link_free: "dirs t d \<Longrightarrow> link_free t d"
  by (cases d rule: rev_cases) (simp_all add: dirs_snoc link_free_def)

definition no_slash :: "string list \<Rightarrow> bool" where
  "no_slash ss \<longleftrightarrow> (\<forall>s \<in> set ss. CHR ''/'' \<notin> set s)"

lemma split_pieces: "no_slash (split_at_char (CHR ''/'') s)"
  by (induction s) (auto simp: no_slash_def split: list.splits)

lemma eval_links_final:
  "eval_links t n dest rest = Inr p \<Longrightarrow> dirs t dest \<Longrightarrow> no_slash rest \<Longrightarrow> link_free t p"
proof (induction t n dest rest rule: eval_links.induct)
  case (1 t n dest)
  then show ?case by (simp add: dirs_link_free)
next
  case (2 t n dest s rest)
  have rest: "no_slash rest" and s: "CHR ''/'' \<notin> set s" using 2(7) by (simp_all add: no_slash_def)
  consider "s = '''' \<or> s = ''.''" | "s = ''..''" | "component s" using s by (auto simp: component_def)
  then show ?case
  proof cases
    case 1
    with 2(1) [OF _ _ 2(6) rest] 2(5) show ?thesis by auto
  next
    case step: 2
    with 2(2) [OF _ _ _ dirs_butlast [OF 2(6)] rest] 2(5) show ?thesis by auto
  next
    case c: 3
    then have plain: "\<not> (s = '''' \<or> s = ''.'')" "s \<noteq> ''..''" by (auto simp: component_def)
    show ?thesis
    proof (cases "host_at t (dest @ [s])")
      case None
      with 2(5) plain show ?thesis by simp
    next
      case (Some x)
      show ?thesis
      proof (cases x)
        case HostFile
        with 2(5) plain Some have "p = dest @ [s]" by (auto split: if_splits)
        with 2(6) c Some HostFile show ?thesis by (simp add: link_free_def)
      next
        case HostDir
        then have "dirs t (dest @ [s])" using 2(6) c Some by (simp add: dirs_snoc)
        with 2(3) [OF plain Some HostDir _ _ rest] 2(5) plain Some HostDir show ?thesis by simp
      next
        case (HostLink target)
        with 2(5) plain Some obtain n' where n: "n = Suc n'"
          and run: "eval_links t n' (if target \<noteq> [] \<and> hd target = CHR ''/'' then [] else dest)
            (split_at_char (CHR ''/'') target @ rest) = Inr p" by (auto split: nat.splits)
        have "no_slash (split_at_char (CHR ''/'') target @ rest)"
          using rest split_pieces [of target] by (auto simp: no_slash_def)
        with 2(4) [OF plain Some HostLink n run] 2(6) show ?thesis by simp
      qed
    qed
  qed
qed

lemma eval_links_fixed: "dirs t d \<Longrightarrow> link_free t (d @ r) \<Longrightarrow> eval_links t n d r = Inr (d @ r)"
proof (induction r arbitrary: d)
  case (Cons s r)
  show ?case
  proof (cases r)
    case Nil
    with Cons.prems show ?thesis by (auto simp: link_free_def component_def)
  next
    case (Cons x xs)
    with Cons.prems(2) have "dirs t (butlast (d @ s # r))" "r \<noteq> []" by (auto simp: link_free_def)
    then have "component s" "host_at t (d @ [s]) = Some HostDir"
      unfolding dirs_def by (auto simp: butlast_append dest!: spec [of _ d] spec [of _ s])
    with Cons.IH [of "d @ [s]"] Cons.prems show ?thesis
      by (auto simp: dirs_snoc component_def)
  qed
qed simp

lemma join_no_slash: "no_slash r \<Longrightarrow> no_slash (join_path r ds)"
proof -
  have "no_slash r \<Longrightarrow> no_slash ss \<Longrightarrow> no_slash (fold clean_step ss r)" for ss
  proof (induction ss arbitrary: r)
    case (Cons s ss)
    have "no_slash (clean_step s r)" using Cons.prems by (auto simp: no_slash_def dest: in_set_butlastD)
    with Cons.IH Cons.prems(2) show ?case by (simp add: no_slash_def)
  qed simp
  moreover have "no_slash (concat (map (split_at_char (CHR ''/'')) ds))"
    using split_pieces by (auto simp: no_slash_def)
  ultimately show "no_slash r \<Longrightarrow> no_slash (join_path r ds)" by (simp add: join_path_def)
qed

lemma first_resolved_first:
  "first_resolved t r name ds = Inr p \<Longrightarrow> \<exists>pre d post. ds = pre @ d # post \<and>
      resolveLink t (join_path r [d, name]) = Inr p \<and> (\<forall>e \<in> set pre. isl (resolveLink t (join_path r [e, name])))"
proof (induction ds)
  case (Cons d ds)
  show ?case
  proof (cases "resolveLink t (join_path r [d, name])")
    case (Inl e)
    with Cons obtain pre d' post where "ds = pre @ d' # post" "resolveLink t (join_path r [d', name]) = Inr p"
      "\<forall>e \<in> set pre. isl (resolveLink t (join_path r [e, name]))" by auto
    with Inl show ?thesis by (intro exI [of _ "d # pre"] exI [of _ d'] exI [of _ post]) simp
  next
    case (Inr c)
    with Cons.prems show ?thesis by (intro exI [of _ "[]"] exI [of _ d] exI [of _ ds]) simp
  qed
qed simp

lemma first_resolved_fails:
  "isl (first_resolved t r name ds) \<longleftrightarrow> (\<forall>d \<in> set ds. isl (resolveLink t (join_path r [d, name])))"
  by (induction ds) (auto split: sum.splits)

text \<open>C36: The search for a driver file returns a final path from the first directory that has the file. The root
  itself is searched before the given directories, in their order; the result is what the first candidate
  that resolves leads to, it has no symbolic link on it and resolving it again changes nothing; the
  search fails if and only if no candidate resolves.\<close>

theorem found_file_is_final:
  assumes "no_slash r"
  shows "(findFile t r name searchIn = Inr p \<longrightarrow> link_free t p \<and> EvalSymlinks t p = Inr p \<and>
      (\<exists>pre d post. ''/'' # searchIn = pre @ d # post \<and> resolveLink t (join_path r [d, name]) = Inr p \<and>
        (\<forall>e \<in> set pre. isl (resolveLink t (join_path r [e, name]))))) \<and>
    (isl (findFile t r name searchIn) \<longleftrightarrow> (\<forall>d \<in> set (''/'' # searchIn). isl (resolveLink t (join_path r [d, name]))))"
proof -
  have "link_free t p \<and> EvalSymlinks t p = Inr p" if "resolveLink t (join_path r [d, name]) = Inr p" for d
  proof -
    from that have "eval_links t 255 [] (join_path r [d, name]) = Inr p"
      by (auto simp: resolveLink_def EvalSymlinks_def split: sum.splits)
    from eval_links_final [OF this dirs_Nil join_no_slash [OF assms]] show ?thesis
      using eval_links_fixed [of t "[]" p 255] by (simp add: EvalSymlinks_def)
  qed
  with first_resolved_first [of t r name "''/'' # searchIn" p] first_resolved_fails [of t r name "''/'' # searchIn"]
  show ?thesis unfolding findFile_def by auto
qed

text \<open>A driver root whose library is a link.\<close>

definition sample_root :: host_tree where
  "sample_root = [([''drv''], HostDir), ([''drv'', ''usr''], HostDir), ([''drv'', ''usr'', ''lib64''], HostLink ''lib''),
     ([''drv'', ''usr'', ''lib''], HostDir), ([''drv'', ''usr'', ''lib'', ''libnvidia-ml.so.1''], HostLink ''libnvidia-ml.so.570''),
     ([''drv'', ''usr'', ''lib'', ''libnvidia-ml.so.570''], HostFile)]"

lemma sample_library:
  "getDriverLibraryPath sample_root [''drv''] = Inr [''drv'', ''usr'', ''lib'', ''libnvidia-ml.so.570'']"
  by code_simp

theorem found_file_is_final_witness:
  "EvalSymlinks sample_root [''drv'', ''usr'', ''lib'', ''libnvidia-ml.so.570''] = Inr [''drv'', ''usr'', ''lib'', ''libnvidia-ml.so.570'']"
proof -
  have "no_slash [''drv'']" by (simp add: no_slash_def)
  from found_file_is_final [OF this] sample_library show ?thesis unfolding getDriverLibraryPath_def by blast
qed

end
