(* ===== verification/HealthCheck.thy ===== *)
theory HealthCheck
  imports DriverOps
begin

text \<open>
  The gRPC health check service (\<open>health.go\<close>): where it listens and connects, what a probe answers, and how it
  is stopped. Listening, connecting and the gRPC server are parameters.
\<close>

section \<open>The probe\<close>

datatype serving_status = SERVING | NOT_SERVING

definition Check :: "string \<Rightarrow> ('w, unit) act \<Rightarrow> ('w, 'r) act \<Rightarrow> ('w, serving_status) act" where
  "Check service GetInfo NodePrepareResources =
     (if service \<notin> {'''', ''liveness''} then throw (Err ''unknown service'')
      else
        seq (attempt GetInfo) (\<lambda>info.
        case info of
          Inl _ \<Rightarrow> ret NOT_SERVING
        | Inr _ \<Rightarrow>
            seq (attempt NodePrepareResources) (\<lambda>r.
            case r of Inl _ \<Rightarrow> ret NOT_SERVING | Inr _ \<Rightarrow> ret SERVING)))"

section \<open>The service\<close>

text \<open>\<open>(&url.URL{Scheme: "unix", Path: p}).String()\<close>: every byte a path may not hold is escaped.\<close>

definition upper_hex :: "nat \<Rightarrow> char" where
  "upper_hex n = char_of (if n < 10 then 48 + n else 55 + n)"

definition escape_path_char :: "char \<Rightarrow> string" where
  "escape_path_char c =
     (if is_digit c \<or> is_upper c \<or> is_lower c \<or> c \<in> set ''-_.~$&+,/:;=@'' then [c]
      else [CHR ''%'', upper_hex (of_char c div 16), upper_hex (of_char c mod 16)])"

definition unix_url :: "path \<Rightarrow> string" where
  "unix_url p = ''unix://'' @ concat (map escape_path_char (path_string p))"

text \<open>Listening, connecting to a socket file, and the server; connections and servers are numbers.\<close>

record 'k health_sys =
  hs_Listen :: "string \<Rightarrow> ('k, unit) act"
  hs_NewClient :: "string \<Rightarrow> ('k, nat) act"
  hs_NewServer :: "('k, nat) act"
  hs_GracefulStop :: "nat \<Rightarrow> 'k \<Rightarrow> 'k"

record healthcheck =
  hc_server :: "nat option"
  hc_regClient :: nat
  hc_draClient :: nat

definition startHealthcheck :: "'k health_sys \<Rightarrow> int \<Rightarrow> path \<Rightarrow> path \<Rightarrow> ('k, healthcheck option) act" where
  "startHealthcheck S port registrarDir pluginPath =
     (if port < 0 then ret None
      else
        seq (wrapping ''failed to listen for healthcheck service'' (hs_Listen S ('':'' @ int_str port))) (\<lambda>_.
        seq (wrapping ''connect to registration socket''
              (hs_NewClient S (unix_url (join_path registrarDir [DriverName @ ''-reg.sock''])))) (\<lambda>regConn.
        seq (wrapping ''connect to DRA socket''
              (hs_NewClient S (unix_url (join_path pluginPath [''dra.sock''])))) (\<lambda>draConn.
        seq (hs_NewServer S) (\<lambda>server.
        ret (Some \<lparr>hc_server = Some server, hc_regClient = regConn, hc_draClient = draConn\<rparr>))))))"

text \<open>\<open>Stop\<close> returns once the goroutine in \<open>Serve\<close> has, which the graceful stop makes it do.\<close>

definition healthcheck_Stop :: "'k health_sys \<Rightarrow> healthcheck \<Rightarrow> ('k, unit) act" where
  "healthcheck_Stop S h = (case hc_server h of Some server \<Rightarrow> modify (hs_GracefulStop S server) | None \<Rightarrow> ret ())"

section \<open>Properties\<close>

text \<open>The liveness probe is harmless. For a service it knows, the probe reports SERVING if and only if the
  registration service answers; the empty request it sends through the driver takes no lock, touches
  neither the checkpoint nor any device, and always succeeds. An unknown service gets an error without any call.\<close>

theorem health_probe_harmless:
  "Check service GetInfo (PrepareResourceClaims d []) w =
     (if service = '''' \<or> service = ''liveness'' then
        (case GetInfo w of
           (Inr _, w') \<Rightarrow> (Inr SERVING, w')
         | (Inl (Failed _), w') \<Rightarrow> (Inr NOT_SERVING, w')
         | (Inl (Panicked msg), w') \<Rightarrow> (Inl (Panicked msg), w'))
      else (Inl (Failed (Err ''unknown service'')), w))"
  by (auto simp: Check_def PrepareResourceClaims_def attempt_def seq_def ret_def throw_def
      split: prod.split sum.split fault.split)

end
