(* ===== verification/Startup.thy ===== *)
theory Startup
  imports Cleanup CdiHandler HamiInformer DriverRoot HealthCheck Complex_Main
begin

text \<open>
  Starting and stopping the driver: the settings (\<open>Flags\<close>, \<open>Config\<close> in \<open>main.go\<close>, \<open>pkg/flags\<close>), the
  constructors \<open>NewDeviceState\<close> calls, with what they are given, and \<open>NewDriver\<close> and \<open>Shutdown\<close> in \<open>driver.go\<close>,
  which put the components together. The API server is the state \<open>'k\<close> behind the Pod informer.
\<close>

section \<open>Settings\<close>

record KubeClientConfig =
  KubeConfig :: string
  KubeAPIQPS :: rat
  KubeAPIBurst :: int

record Flags =
  fg_kubeClientConfig :: KubeClientConfig
  fg_nodeName :: string
  fg_namespace :: string
  fg_cdiRoot :: string
  fg_containerDriverRoot :: string
  fg_hostDriverRoot :: string
  fg_hostHookPath :: string
  fg_nvidiaCDIHookPath :: string
  fg_imageName :: string
  fg_kubeletRegistrarDirectoryPath :: string
  fg_kubeletPluginsDirectoryPath :: string
  fg_healthcheckPort :: int
  fg_klogVerbosity :: int
  fg_additionalXidsToIgnore :: string

definition DriverPluginPath :: "Flags \<Rightarrow> path" where
  "DriverPluginPath f = join_path [] [fg_kubeletPluginsDirectoryPath f, DriverName]"

definition bootIDPath :: path where
  "bootIDPath = [''proc'', ''sys'', ''kernel'', ''random'', ''boot_id'']"

section \<open>The libraries of the plugin\<close>

text \<open>\<open>pl_driver\<close> holds the libraries of the driver and its device state; \<open>pl_nvcdi\<close> runs a CDI library,
  \<open>pl_transform\<close> is nvcdi's root transformer. The other fields are the client set, the informer factory, the
  checkpoint manager's constructor, the API server's version, and the kubelet plugin helper.\<close>

record ('c, 'n, 'k, 'log, 'lib, 'v) plugin_libs =
  pl_driver :: "('c, 'n, 'k informer) driver"
  pl_events :: "'n nvml_events"
  pl_tree :: host_tree
  pl_environ :: "string list"
  pl_LD_PRELOAD :: string
  pl_cdi :: "('log, 'n nvml, deviceLib, 'lib) cdi_libs"
  pl_nvcdi :: "'lib \<Rightarrow> ('n, container_edits) act \<times> (string \<Rightarrow> ('n, cdi_device list) act)"
  pl_transform :: "string \<Rightarrow> string \<Rightarrow> string \<Rightarrow> cdi_spec \<Rightarrow> err + cdi_spec"
  pl_clientset :: "'k clientset option"
  pl_getClaim :: "'k claim_getter"
  pl_startInformer :: "string \<Rightarrow> 'k \<Rightarrow> 'k"
  pl_shutdownInformer :: "'k \<Rightarrow> 'k"
  pl_podLister :: "string \<Rightarrow> string \<Rightarrow> ('k, pod) act"
  pl_waitSync :: "('k, bool) act"
  pl_ctxErr :: "('k, err option) act"
  pl_retry :: "('k informer, unit) act \<Rightarrow> ('k informer, unit) act"
  pl_newCheckpointManager :: "'c \<Rightarrow> err option"
  pl_serverVersion :: "('k, string) act"
  pl_NewVersion :: "string \<Rightarrow> err + 'v"
  pl_LessThan :: "'v \<Rightarrow> 'v \<Rightarrow> bool"
  pl_health :: "'k health_sys"
  pl_startHelper :: "string \<Rightarrow> path \<Rightarrow> path \<Rightarrow> ('k, unit) act"
  pl_stopHelper :: "'k \<Rightarrow> 'k"

abbreviation pl_state :: "('c, 'n, 'k, 'log, 'lib, 'v) plugin_libs \<Rightarrow> ('c, 'n, 'k informer) device_state" where
  "pl_state L \<equiv> dr_state (pl_driver L)"

abbreviation in_api :: "('k, 'a) act \<Rightarrow> (('c, 'n, 'k informer) world, 'a) act" where
  "in_api m \<equiv> in_kube (informer_kube m)"

section \<open>The constructors\<close>

definition NewMpsManager :: "Flags \<Rightarrow> string \<Rightarrow> string \<Rightarrow> MpsManager" where
  "NewMpsManager f hostDriverRoot templatePath =
     \<lparr>mm_controlFilesRoot = join_path (DriverPluginPath f) [''mps''], mm_hostDriverRoot = hostDriverRoot,
      mm_templatePath = templatePath, mm_nodeName = fg_nodeName f, mm_namespace = fg_namespace f,
      mm_imageName = fg_imageName f\<rparr>"

definition MpsControlDaemonTemplatePath :: string where
  "MpsControlDaemonTemplatePath = ''/templates/mps-control-daemon.tmpl.yaml''"

definition informer_clientset :: "'k clientset \<Rightarrow> 'k informer clientset" where
  "informer_clientset cs =
     \<lparr>pods_get = (\<lambda>ns n. informer_kube (pods_get cs ns n)), pods_patch = (\<lambda>ns n p. informer_kube (pods_patch cs ns n p))\<rparr>"

definition state_constructors ::
    "('c, 'n, 'k, 'log, 'lib, 'v) plugin_libs \<Rightarrow> Flags \<Rightarrow> ('c, 'n, 'k informer) constructors" where
  "state_constructors L f =
     (let V = ds_nvml (pl_state L); Enabled = ds_Enabled (pl_state L) in
      \<lparr>new_DeviceLib = newDeviceLib V Enabled (pl_tree L) (pl_environ L) (pl_LD_PRELOAD L)
         (join_path [] [fg_containerDriverRoot f]),
       new_CDIHandler = (\<lambda>nvdevlib devRoot.
         res_seq (NewCDIHandler (pl_cdi L) (state_options (pl_cdi L) (fg_klogVerbosity f) V nvdevlib
             (fg_containerDriverRoot f) (path_string devRoot) (fg_hostDriverRoot f) (fg_nvidiaCDIHookPath f) (fg_cdiRoot f)))
           (\<lambda>h. Inr (handler_sys (pl_nvcdi L) (pl_transform L) h (ds_cdi (pl_state L))))),
       new_HAMiCoreManager =
         seq (modify (\<lambda>i. new_informer (pl_clientset L) (pl_startInformer L) (fg_nodeName f) (if_kube i))) (\<lambda>_.
         ret (NewHAMiCoreManager [fg_hostHookPath f] (map_option informer_clientset (pl_clientset L)) (fg_nodeName f)
           (\<lambda>ns n. informer_kube (pl_podLister L ns n)) (pl_retry L))),
       waitForPodCache = waitForPodCacheSyncAtStartup (pl_waitSync L) (pl_ctxErr L) (pl_shutdownInformer L),
       new_MpsManager = (\<lambda>nvdevlib. NewMpsManager f (fg_hostDriverRoot f) MpsControlDaemonTemplatePath),
       new_CheckpointManager = pl_newCheckpointManager L\<rparr>)"

section \<open>The cleanup manager\<close>

text \<open>\<open>cm_threads\<close> are the goroutines and the queue, from \<open>Start\<close> on; before it there is no function to cancel them.\<close>

record ('c, 'n, 'k) CheckpointCleanupManager =
  cm_devicestate :: "('c, 'n, 'k) device_state"
  cm_draclient :: "'k claim_getter"
  cm_unprepfunc :: "('c, 'n, 'k) unprep_callable option"
  cm_threads :: "cleanup_threads option"

definition NewCheckpointCleanupManager ::
    "('c, 'n, 'k) device_state \<Rightarrow> 'k claim_getter \<Rightarrow> ('c, 'n, 'k) CheckpointCleanupManager" where
  "NewCheckpointCleanupManager s client =
     \<lparr>cm_devicestate = s, cm_draclient = client, cm_unprepfunc = None, cm_threads = None\<rparr>"

definition CleanupManager_Start ::
    "('c, 'n, 'k) CheckpointCleanupManager \<Rightarrow> ('c, 'n, 'k) unprep_callable \<Rightarrow> ('c, 'n, 'k) CheckpointCleanupManager" where
  "CleanupManager_Start m unprepfunc = m\<lparr>cm_unprepfunc := Some unprepfunc, cm_threads := Some Cleanup_Start\<rparr>"

text \<open>\<open>Stop\<close> cancels the context; it returns when both goroutines have (\<open>Stop_returns\<close>).\<close>

definition CleanupManager_Stop :: "('c, 'n, 'k) CheckpointCleanupManager \<Rightarrow> ('c, 'n, 'k) CheckpointCleanupManager" where
  "CleanupManager_Stop m = m\<lparr>cm_threads := map_option (\<lambda>t.
     t\<lparr>ct_cancelled := True, ct_producer := Returned, ct_worker := Returned\<rparr>) (cm_threads m)\<rparr>"

section \<open>Starting\<close>

text \<open>The driver with what runs beside it.\<close>

record ('c, 'n, 'k) running =
  rd_driver :: "('c, 'n, 'k) driver"
  rd_healthcheck :: "healthcheck option"
  rd_monitor :: "(nvmlDeviceHealthMonitor \<times> DeviceName list) option"
  rd_cleanup :: "('c, 'n, 'k) CheckpointCleanupManager"

definition start_monitor ::
    "('c, 'n, 'k) device_state \<Rightarrow> 'n nvml_events \<Rightarrow> string \<Rightarrow>
     (('c, 'n, 'k) world, (nvmlDeviceHealthMonitor \<times> DeviceName list) option) act" where
  "start_monitor s E additionalXids =
     (if \<not> ds_Enabled s NVMLDeviceHealthCheck then ret None
      else
        seq (gets w_allocatable) (\<lambda>allocatable.
        seq (wrapping ''failed to create NVML device health monitor''
              (in_lib (newNvmlDeviceHealthMonitor (ds_nvml s) allocatable additionalXids))) (\<lambda>m.
        seq (wrapping ''failed to start device health monitor''
              (on (\<lambda>w. \<lparr>mw_lib = w_lib w, mw_unhealthy = []\<rparr>) (\<lambda>mw w. w\<lparr>w_lib := mw_lib mw\<rparr>)
                 (seq (Monitor_Start (ds_nvml s) E m) (\<lambda>m'. seq (gets mw_unhealthy) (\<lambda>q. ret (m', q)))))) (\<lambda>started.
        ret (Some started)))))"

definition NewDriver ::
    "('c, 'n, 'k, 'log, 'lib, 'v) plugin_libs \<Rightarrow> Flags \<Rightarrow>
     (('c, 'n, 'k informer) world, ('c, 'n, 'k informer) running) act" where
  "NewDriver L f =
     seq (NewDeviceState (pl_state L) (state_constructors L f) (fg_hostDriverRoot f) bootIDPath) (\<lambda>(s, perGPU).
     seq (if ds_Enabled s DynamicMIG then
            seq (DestroyUnknownMIGDevices s) (\<lambda>_.
            wrapping ''failed to determine ResourceSlice model''
              (in_api (shouldUseSplitResourceSlices (pl_serverVersion L) (pl_NewVersion L) (pl_LessThan L))))
          else ret False) (\<lambda>useSplitSlices.
     let d = (pl_driver L)\<lparr>dr_state := s, dr_perGPUAllocatable := perGPU, dr_nodeName := fg_nodeName f,
               dr_useSplitResourceSlices := useSplitSlices\<rparr>;
         registrar = join_path [] [fg_kubeletRegistrarDirectoryPath f] in
     seq (in_api (pl_startHelper L (fg_nodeName f) registrar (DriverPluginPath f))) (\<lambda>_.
     seq (wrapping ''start healthcheck''
           (in_api (startHealthcheck (pl_health L) (fg_healthcheckPort f) registrar (DriverPluginPath f)))) (\<lambda>hc.
     seq (start_monitor s (pl_events L) (fg_additionalXidsToIgnore f)) (\<lambda>monitor.
     let cleanup = CleanupManager_Start
           (NewCheckpointCleanupManager s (\<lambda>ns name. informer_kube (pl_getClaim L ns name))) (nodeUnprepareResource d) in
     seq (publishResources d) (\<lambda>_.
     ret \<lparr>rd_driver = d, rd_healthcheck = hc, rd_monitor = monitor, rd_cleanup = cleanup\<rparr>))))))"

section \<open>Stopping\<close>

text \<open>The driver afterwards. Waiting for the goroutine of the health events has no effect of its own.\<close>

definition Shutdown ::
    "('c, 'n, 'k, 'log, 'lib, 'v) plugin_libs \<Rightarrow> ('c, 'n, 'k informer) running option \<Rightarrow>
     (('c, 'n, 'k informer) world, ('c, 'n, 'k informer) running option) act" where
  "Shutdown L drv =
     (case drv of None \<Rightarrow> ret None
      | Some r \<Rightarrow>
          let s = dr_state (rd_driver r) in
          seq (case rd_healthcheck r of None \<Rightarrow> ret () | Some h \<Rightarrow> in_api (healthcheck_Stop (pl_health L) h)) (\<lambda>_.
          seq (if ds_Enabled s DynamicMIG then in_lib (modify (alwaysShutdown (ds_nvml s))) else ret ()) (\<lambda>_.
          seq (case rd_monitor r of None \<Rightarrow> ret ()
               | Some (m, q) \<Rightarrow> on (\<lambda>w. \<lparr>mw_lib = w_lib w, mw_unhealthy = q\<rparr>) (\<lambda>mw w. w\<lparr>w_lib := mw_lib mw\<rparr>)
                            (Monitor_Stop (ds_nvml s) (pl_events L) m)) (\<lambda>_.
          seq (if ds_hamiCoreManager s \<noteq> None then in_kube (Informer_Stop (pl_shutdownInformer L)) else ret ()) (\<lambda>_.
          seq (in_api (modify (pl_stopHelper L))) (\<lambda>_.
          ret (Some (r\<lparr>rd_cleanup := CleanupManager_Stop (rd_cleanup r)\<rparr>))))))))"

section \<open>What a start and a stop achieve\<close>

lemma keeps_contents:
  "(\<And>c. keeps (cp_same c) m) \<Longrightarrow> keeps (\<lambda>w. checkpoint_of s blob w = x) m"
  by (auto simp: keeps_def checkpoint_of_def)

lemma start_monitor_cp: "keeps (cp_same c) (start_monitor s E xids)"
proof -
  have "keeps (cp_same c) (on (\<lambda>w. \<lparr>mw_lib = w_lib w, mw_unhealthy = []\<rparr>) (\<lambda>mw w. w\<lparr>w_lib := mw_lib mw\<rparr>) m)"
    for m :: "('b monitor_world, 'd) act" by (auto intro: keeps_on)
  then show ?thesis unfolding start_monitor_def by (auto intro!: keeps_intros cp_frame)
qed

text \<open>What \<open>NewDriver\<close> does after the device state exists keeps the contents of the checkpoint.\<close>

lemma NewDriver_state:
  assumes "NewDriver L f w = (Inr d, w')" and "legal_store (ds_env (pl_state L) blob)"
  obtains perGPU w1 where
    "NewDeviceState (pl_state L) (state_constructors L f) (fg_hostDriverRoot f) bootIDPath w =
       (Inr (dr_state (rd_driver d), perGPU), w1)"
    "checkpoint_of (dr_state (rd_driver d)) blob w' = checkpoint_of (dr_state (rd_driver d)) blob w1"
    "dr_nodeName (rd_driver d) = fg_nodeName f"
    "rd_cleanup d = CleanupManager_Start (NewCheckpointCleanupManager (dr_state (rd_driver d))
       (\<lambda>ns name. informer_kube (pl_getClaim L ns name))) (nodeUnprepareResource (rd_driver d))"
  using assms(1) unfolding NewDriver_def
proof (cases rule: seqE)
  case (step x w1)
  obtain s perGPU where x: "x = (s, perGPU)" by fastforce
  from step(1) x have new: "NewDeviceState (pl_state L) (state_constructors L f) (fg_hostDriverRoot f) bootIDPath w =
      (Inr (s, perGPU), w1)" by simp
  then have "same_store (pl_state L) s"
    by (cases rule: NewDeviceState_steps) (auto simp: made_state_store split: sum.splits)
  then have legal: "legal_store (ds_env s blob)" using assms(2) same_store_facts(1) by metis
  let ?P = "\<lambda>v. checkpoint_of s blob v = checkpoint_of s blob w1"
  let ?d = "\<lambda>d. dr_state (rd_driver d) = s \<and> dr_nodeName (rd_driver d) = fg_nodeName f \<and>
    rd_cleanup d = CleanupManager_Start (NewCheckpointCleanupManager s (\<lambda>ns name. informer_kube (pl_getClaim L ns name)))
      (nodeUnprepareResource (rd_driver d))"
  let ?Q = "\<lambda>p :: _ res \<times> _. \<forall>d. fst p = Inr d \<longrightarrow> ?d d \<and> ?P (snd p)"
  have teardown: "keeps ?P (DestroyUnknownMIGDevices s)"
    using DestroyUnknown_contents [OF legal] by (auto simp: keeps_def) (metis prod.collapse)
  note frames = keeps_contents [OF start_monitor_cp] keeps_contents [OF publish_cp] keeps_contents [OF cp_zoom(2)] teardown
  have "?Q (Inr d, w')" unfolding step(2) [symmetric] x prod.case Let_def
    by (rule keeps_then [where P = ?P and Q = ?Q], simp, (auto intro!: keeps_intros frames)[1], simp)+
      (simp add: ret_def)
  with new show thesis by (intro that [of perGPU w1]) auto
qed simp

lemma NewDriver_boot:
  assumes "legal_store (ds_env (pl_state L) blob)" and "NewDriver L f w = (Inr d, w')"
  shows "\<exists>b. fst (GetCurrentBootID bootIDPath (w_fs w)) = Inr b \<and>
    checkpoint_of (dr_state (rd_driver d)) blob w' =
      Some (after_init b (if blob (w_cp w) = None then None else checkpoint_of (pl_state L) blob w))"
  using assms(2,1)
proof (cases rule: NewDriver_state)
  case (1 perGPU w1)
  from 1(1) have "same_store (pl_state L) (dr_state (rd_driver d))"
    by (cases rule: NewDeviceState_steps) (auto simp: made_state_store split: sum.splits)
  with NewDeviceState_boot [OF assms(1) 1(1)] 1(2) show ?thesis by (simp add: same_store_facts(2))
qed

text \<open>A shutdown never fails. It cancels the cleanup, and the informer is stopped, unless it was before.\<close>

lemma Shutdown_stops:
  assumes "stoppable (w_kube w)"
  shows "\<exists>w'. Shutdown L (Some d) w = (Inr (Some (d\<lparr>rd_cleanup := CleanupManager_Stop (rd_cleanup d)\<rparr>)), w') \<and>
    w_cp w' = w_cp w \<and> w_fs w' = w_fs w \<and> w_allocatable w' = w_allocatable w \<and>
    (ds_hamiCoreManager (dr_state (rd_driver d)) \<noteq> None \<longrightarrow> if_stopOnce (w_kube w') \<and>
       (if_stopOnce (w_kube w) \<or> if_stopCh (w_kube w') = Some True))"
proof -
  have hc: "stoppable (i\<lparr>if_kube := k\<rparr>) = stoppable i" for i :: "'c informer" and k by (simp add: stoppable_def)
  have shut: "Informer_Stop g (i\<lparr>if_kube := k\<rparr>) = (Inr (), stopped g (i\<lparr>if_kube := k\<rparr>))"
    if "stoppable i" for i :: "'c informer" and k g using that hc Informer_Stop_stoppable by blast
  show ?thesis
    using assms unfolding Shutdown_def
    by (cases "rd_healthcheck d"; cases "rd_monitor d")
      (auto simp: act_defs on_def Let_def Monitor_Stop_def nv_def healthcheck_Stop_def shut Informer_Stop_stoppable
        stopped_def stoppable_def split: option.split prod.split sum.split)
qed

text \<open>After \<open>Stop\<close> of the cleanup manager both goroutines have returned.\<close>

lemma CleanupManager_Stop_returns:
  "cm_threads (CleanupManager_Stop (CleanupManager_Start m u)) = Some t \<Longrightarrow> Stop_returns t"
  by (auto simp: CleanupManager_Stop_def CleanupManager_Start_def Stop_returns_def)

end
