(* ===== verification/Process.thy ===== *)
theory Process
  imports Startup
begin

text \<open>
  The process around the driver: \<open>RunPlugin\<close> with what it sets up first (\<open>main.go\<close>), and the mutex per GPU
  (\<open>mutex.go\<close>).
\<close>

section \<open>The plugin process\<close>

text \<open>The settings afterwards: \<open>flags.nvidiaCDIHookPath\<close> is set when it was empty.\<close>

definition setNvidiaCDIHookPath :: "Flags \<Rightarrow> (fs, Flags) act" where
  "setNvidiaCDIHookPath f =
     (if fg_nvidiaCDIHookPath f \<noteq> '''' then ret f
      else let targetPath = DriverPluginPath f @ [''nvidia-cdi-hook''] in
        seq (wrapping ''error reading nvidia-cdi-hook'' (os_ReadFile [''usr'', ''bin'', ''nvidia-cdi-hook''])) (\<lambda>input.
        seq (wrapping ''error copying nvidia-cdi-hook'' (os_WriteFile targetPath input)) (\<lambda>_.
        ret (f\<lparr>fg_nvidiaCDIHookPath := path_string targetPath\<rparr>))))"

text \<open>The CDI root: created when missing, refused when it is not a directory. The modelled tree has no symbolic
  links, so \<open>Stat\<close> and \<open>Lstat\<close> agree.\<close>

definition init_cdi_root :: "path \<Rightarrow> (fs, unit) act" where
  "init_cdi_root dir =
     seq (attempt (os_Lstat dir)) (\<lambda>info.
     case info of
       Inl e \<Rightarrow> if isNotExist e then os_MkdirAll dir else throw e
     | Inr n \<Rightarrow> if n \<noteq> Dir then throw (Err ''path for cdi file generation is not a directory'') else ret ())"

text \<open>What \<open>RunPlugin\<close> does before it creates the driver. The debug signal handlers it starts first touch nothing.\<close>

definition prepare_node :: "Flags \<Rightarrow> (('c, 'n, 'k) world, Flags) act" where
  "prepare_node f =
     seq (in_fs (os_MkdirAll (DriverPluginPath f))) (\<lambda>_.
     seq (wrapping ''error setting up nvidia-cdi-hook'' (in_fs (setNvidiaCDIHookPath f))) (\<lambda>f'.
     seq (in_fs (init_cdi_root (join_path [] [fg_cdiRoot f']))) (\<lambda>_. ret f')))"

text \<open>\<open>serve\<close> is everything the started driver does until the signal. An error of \<open>Shutdown\<close> is only logged.\<close>

definition RunPlugin ::
    "('c, 'n, 'k, 'log, 'lib, 'v) plugin_libs \<Rightarrow> (('c, 'n, 'k informer) running \<Rightarrow> (('c, 'n, 'k informer) world, unit) act) \<Rightarrow>
     Flags \<Rightarrow> (('c, 'n, 'k informer) world, unit) act" where
  "RunPlugin L serve f =
     seq (prepare_node f) (\<lambda>f'.
     seq (wrapping ''error creating driver'' (NewDriver L f')) (\<lambda>d.
     seq (serve d) (\<lambda>_.
     seq (attempt (Shutdown L (Some d))) (\<lambda>_.
     ret ()))))"

section \<open>A mutex per GPU\<close>

text \<open>A mutex is the number of mutexes made before it.\<close>

type_synonym PerGPUMutex = "(string \<times> nat) list"

definition Mutex_Get :: "string \<Rightarrow> PerGPUMutex \<Rightarrow> nat \<times> PerGPUMutex" where
  "Mutex_Get gpu submutex =
     (case map_of submutex gpu of
        Some m \<Rightarrow> (m, submutex)
      | None \<Rightarrow> (length submutex, (gpu, length submutex) # submutex))"

section \<open>Properties\<close>

fun Mutex_Gets :: "string list \<Rightarrow> PerGPUMutex \<Rightarrow> nat list" where
  "Mutex_Gets [] submutex = []"
| "Mutex_Gets (gpu # gpus) submutex =
     (case Mutex_Get gpu submutex of (m, submutex') \<Rightarrow> m # Mutex_Gets gpus submutex')"

definition mutexes_ok :: "PerGPUMutex \<Rightarrow> bool" where
  "mutexes_ok s \<longleftrightarrow> (\<forall>g m. map_of s g = Some m \<longrightarrow> m < length s) \<and>
     (\<forall>g h m. map_of s g = Some m \<and> map_of s h = Some m \<longrightarrow> g = h)"

lemma Mutex_Get_ok:
  assumes "mutexes_ok s" and "Mutex_Get gpu s = (m, s')"
  shows "mutexes_ok s' \<and> map_of s' gpu = Some m \<and> map_of s \<subseteq>\<^sub>m map_of s'"
proof (cases "map_of s gpu")
  case None
  then have new: "m = length s" "s' = (gpu, length s) # s" using assms(2) by (auto simp: Mutex_Get_def)
  have below: "k < length s" if "map_of s g = Some k" for g k using assms(1) that by (auto simp: mutexes_ok_def)
  have "g = h" if "map_of s' g = Some k" "map_of s' h = Some k" for g h k
    using that below [of g k] below [of h k] assms(1) by (auto simp: new mutexes_ok_def split: if_splits)
  moreover have "k < length s'" if "map_of s' g = Some k" for g k
    using that below [of g k] by (auto simp: new split: if_splits)
  ultimately have "mutexes_ok s'" unfolding mutexes_ok_def by blast
  moreover have "map_of s' gpu = Some m" "map_of s \<subseteq>\<^sub>m map_of s'" using None by (auto simp: new map_le_def)
  ultimately show ?thesis by blast
next
  case (Some k)
  with assms show ?thesis by (simp add: Mutex_Get_def)
qed

lemma Mutex_Gets_ok:
  "mutexes_ok s \<Longrightarrow> \<exists>s'. mutexes_ok s' \<and> map_of s \<subseteq>\<^sub>m map_of s' \<and>
     length (Mutex_Gets gpus s) = length gpus \<and>
     (\<forall>i < length gpus. map_of s' (gpus ! i) = Some (Mutex_Gets gpus s ! i))"
proof (induction gpus arbitrary: s)
  case (Cons g gpus)
  obtain m s1 where g: "Mutex_Get g s = (m, s1)" by fastforce
  note ok = Mutex_Get_ok [OF Cons.prems g]
  with Cons.IH [of s1] obtain s' where s': "mutexes_ok s'" "map_of s1 \<subseteq>\<^sub>m map_of s'"
    "length (Mutex_Gets gpus s1) = length gpus" "\<forall>i < length gpus. map_of s' (gpus ! i) = Some (Mutex_Gets gpus s1 ! i)"
    by blast
  have "map_of s' g = Some m" using ok s'(2) by (metis domI map_le_def)
  with s' ok g show ?case
    by (intro exI [of _ s']) (auto simp: nth_Cons split: nat.split intro: map_le_trans)
qed auto

text \<open>There is one mutex per GPU. In any sequence of requests to the initially empty collection, two
  requests get the same mutex if and only if they are for the same GPU.\<close>

theorem one_mutex_per_gpu:
  assumes "i < length gpus" and "j < length gpus"
  shows "Mutex_Gets gpus [] ! i = Mutex_Gets gpus [] ! j \<longleftrightarrow> gpus ! i = gpus ! j"
proof -
  have "mutexes_ok []" by (simp add: mutexes_ok_def)
  from Mutex_Gets_ok [OF this, of gpus] assms obtain s' where s': "mutexes_ok s'"
    "map_of s' (gpus ! i) = Some (Mutex_Gets gpus [] ! i)" "map_of s' (gpus ! j) = Some (Mutex_Gets gpus [] ! j)" by blast
  then show ?thesis unfolding mutexes_ok_def by (metis option.inject)
qed

theorem one_mutex_per_gpu_witness:
  "Mutex_Gets [''0000:01:00.0'', ''0000:02:00.0'', ''0000:01:00.0''] [] ! 0 =
   Mutex_Gets [''0000:01:00.0'', ''0000:02:00.0'', ''0000:01:00.0''] [] ! 2"
  using one_mutex_per_gpu [of 0 "[''0000:01:00.0'', ''0000:02:00.0'', ''0000:01:00.0'']" 2] by simp

lemma RunPlugin_cases:
  assumes "RunPlugin L serve f w = (r, w')"
  obtains (failed) e where "r = Inl e" "\<And>serve'. RunPlugin L serve' f w = (r, w')"
  | (served) f' v d w1 z w2 where "prepare_node f w = (Inr f', v)" "w_cp v = w_cp w" "NewDriver L f' v = (Inr d, w1)"
      "serve d w1 = (z, w2)"
      "(r, w') = (case z of Inl e \<Rightarrow> (Inl e, w2) | Inr _ \<Rightarrow> seq (attempt (Shutdown L (Some d))) (\<lambda>_. ret ()) w2)"
proof -
  obtain x v where prep: "prepare_node f w = (x, v)" by fastforce
  have "keeps (cp_same (w_cp w)) (prepare_node f)" unfolding prepare_node_def by (auto intro!: keeps_intros cp_frame)
  then have v: "w_cp v = w_cp w" using keepsD [of "cp_same (w_cp w)" "prepare_node f" w] prep by simp
  show thesis
  proof (cases x)
    case (Inl e)
    with prep assms show thesis by (auto intro!: failed simp: RunPlugin_def seq_def)
  next
    case f': (Inr f')
    obtain y w1 where new: "NewDriver L f' v = (y, w1)" by fastforce
    show thesis
    proof (cases y)
      case (Inl e)
      with prep f' new assms show thesis by (cases e) (auto intro!: failed simp: RunPlugin_def seq_def wrapping_def)
    next
      case (Inr d)
      obtain z w2 where "serve d w1 = (z, w2)" by fastforce
      with prep f' new Inr v assms show thesis
        by (intro served [of f' v d w1 z w2]) (auto simp: RunPlugin_def seq_def wrapping_def split: sum.split)
    qed
  qed
qed

text \<open>C40: The plugin serves only the checkpoint of this boot. Whatever fails before the driver exists ends the run
  with an error, the same one for every way of serving. Otherwise the driver serves in a world whose
  checkpoint carries the boot ID read at the start and the claims of the file only if they were written in
  this boot (or without a boot ID). When serving ends, with the informer's channel as the manager left it, the
  plugin ends without an error whatever the shutdown meets, and with HAMi-Core the Pod informer has been stopped.\<close>

theorem plugin_serves_this_boot:
  assumes "legal_store (ds_env (pl_state L) blob)" and "RunPlugin L serve f w = (r, w')"
  shows "(\<exists>e. r = Inl e \<and> (\<forall>serve'. RunPlugin L serve' f w = (r, w'))) \<or>
    (\<exists>d w1 f' b v. prepare_node f w = (Inr f', v) \<and> NewDriver L f' v = (Inr d, w1) \<and>
       fst (GetCurrentBootID bootIDPath (w_fs v)) = Inr b \<and>
       checkpoint_of (dr_state (rd_driver d)) blob w1 =
         Some (after_init b (if blob (w_cp w) = None then None else checkpoint_of (pl_state L) blob w)) \<and>
       (case serve d w1 of
          (Inl e, w2) \<Rightarrow> r = Inl e \<and> w' = w2
        | (Inr _, w2) \<Rightarrow> stoppable (w_kube w2) \<longrightarrow> r = Inr () \<and> w_cp w' = w_cp w2 \<and>
            (ds_hamiCoreManager (dr_state (rd_driver d)) \<noteq> None \<longrightarrow> if_stopOnce (w_kube w'))))"
  using assms(2)
proof (cases rule: RunPlugin_cases)
  case (served f' v d w1 z w2)
  from NewDriver_boot [OF assms(1) served(3)] served(2) obtain b where
    "fst (GetCurrentBootID bootIDPath (w_fs v)) = Inr b"
    "checkpoint_of (dr_state (rd_driver d)) blob w1 =
       Some (after_init b (if blob (w_cp w) = None then None else checkpoint_of (pl_state L) blob w))"
    by (auto simp: checkpoint_of_def)
  moreover have "case z of Inl e \<Rightarrow> r = Inl e \<and> w' = w2
      | Inr _ \<Rightarrow> stoppable (w_kube w2) \<longrightarrow> r = Inr () \<and> w_cp w' = w_cp w2 \<and>
          (ds_hamiCoreManager (dr_state (rd_driver d)) \<noteq> None \<longrightarrow> if_stopOnce (w_kube w'))"
    using served(5) Shutdown_stops [of w2 L d] by (cases z) (auto simp: seq_def attempt_def ret_def)
  ultimately show ?thesis using served(1,3,4)
    by (intro disjI2 exI [of _ d] exI [of _ w1] exI [of _ f'] exI [of _ b] exI [of _ v]) simp
qed blast

text \<open>A node with HAMi-Core and no GPU yet, whose checkpoint is made by this start.\<close>

definition sample_settings :: Flags where
  "sample_settings =
     \<lparr>fg_kubeClientConfig = \<lparr>KubeConfig = '''', KubeAPIQPS = 5, KubeAPIBurst = 10\<rparr>, fg_nodeName = ''n1'',
      fg_namespace = ''default'', fg_cdiRoot = ''/cdi'', fg_containerDriverRoot = ''/drv'', fg_hostDriverRoot = ''/'',
      fg_hostHookPath = ''/usr/local'', fg_nvidiaCDIHookPath = ''/hook'', fg_imageName = ''image'',
      fg_kubeletRegistrarDirectoryPath = ''/registry'', fg_kubeletPluginsDirectoryPath = ''/plugins'',
      fg_healthcheckPort = -1, fg_klogVerbosity = 4, fg_additionalXidsToIgnore = ''''\<rparr>"

definition sample_libs :: "(json option, string \<Rightarrow> string, unit, unit, unit, nat) plugin_libs" where
  "sample_libs =
     \<lparr>pl_driver = \<lparr>dr_state = ref_state (\<lambda>g. g = HAMiCoreSupport), dr_perGPUAllocatable = [], dr_semver = Some,
        dr_PublishResources = (\<lambda>_. ret ()), dr_pulock_acquire = ret (), dr_pulock_release = id,
        dr_nodeName = '''', dr_useSplitResourceSlices = False\<rparr>,
      pl_events = ref_events,
      pl_tree = [([''drv''], HostDir), ([''drv'', ''libnvidia-ml.so.1''], HostFile), ([''drv'', ''nvidia-smi''], HostFile)],
      pl_environ = [], pl_LD_PRELOAD = '''',
      pl_cdi = \<lparr>logrus_New = (), log_Discard = id, nvml_New = ref_nvml, nvdevice_New = (\<lambda>_. ds_nvdevlib sample_state),
        nvcdi_New = (\<lambda>_. Inr ())\<rparr>,
      pl_nvcdi = (\<lambda>_. (ret no_edits, \<lambda>_. ret [])), pl_transform = (\<lambda>_ _ _. Inr),
      pl_clientset = Some \<lparr>pods_get = (\<lambda>ns n. throw NotFound), pods_patch = (\<lambda>ns n p. ret ())\<rparr>,
      pl_getClaim = (\<lambda>ns n. throw NotFound), pl_startInformer = (\<lambda>sel k. k), pl_shutdownInformer = id,
      pl_podLister = (\<lambda>ns n. throw NotFound), pl_waitSync = ret True, pl_ctxErr = ret None, pl_retry = id,
      pl_newCheckpointManager = (\<lambda>_. None), pl_serverVersion = ret ''v1.35.0'', pl_NewVersion = (\<lambda>_. Inr 0),
      pl_LessThan = (<),
      pl_health = \<lparr>hs_Listen = (\<lambda>_. ret ()), hs_NewClient = (\<lambda>_. ret 0), hs_NewServer = ret 0, hs_GracefulStop = (\<lambda>_ k. k)\<rparr>,
      pl_startHelper = (\<lambda>n r p. ret ()), pl_stopHelper = id\<rparr>"

definition sample_node :: "(json option, string \<Rightarrow> string, unit informer) world" where
  "sample_node = \<lparr>w_cp = None, w_lib = \<lparr>lb_hw = (\<lambda>_. ''''), lb_gpuInfosByUUID = [], lb_gpuUUIDbyMinor = [], lb_devhandleByUUID = []\<rparr>,
     w_kube = \<lparr>if_stopOnce = False, if_stopCh = None, if_factory = False, if_synced = False, if_kube = ()\<rparr>,
     w_fs = \<lparr>fs_nodes = [([''proc''], Dir), ([''proc'', ''sys''], Dir), ([''proc'', ''sys'', ''kernel''], Dir),
        ([''proc'', ''sys'', ''kernel'', ''random''], Dir), (bootIDPath, RegFile ''boot-1 '')], fs_clock = 0, fs_fault = (\<lambda>_. None)\<rparr>,
     w_now = 0, w_cache = [], w_allocatable = []\<rparr>"

definition sample_started_driver ::
    "((json option, string \<Rightarrow> string, unit informer) running) res \<times> (json option, string \<Rightarrow> string, unit informer) world" where
  "sample_started_driver =
     (case prepare_node sample_settings sample_node of
        (Inr f, v) \<Rightarrow> NewDriver sample_libs f v
      | (Inl e, v) \<Rightarrow> (Inl e, v))"

lemma sample_plugin_run:
  "\<not> isl (fst (RunPlugin sample_libs (\<lambda>d. ret ()) sample_settings sample_node))"
  "fst (GetCurrentBootID bootIDPath (w_fs (snd (prepare_node sample_settings sample_node)))) = Inr ''boot-1''"
  "stoppable (w_kube (snd sample_started_driver))"
  "legal_store (ds_env (pl_state sample_libs) (\<lambda>c. c))"
proof -
  show "legal_store (ds_env (pl_state sample_libs) (\<lambda>c. c))"
    by (simp add: ds_env_def sample_libs_def ref_state_def ref_legal)
qed code_simp+

theorem plugin_serves_this_boot_witness:
  "\<exists>(d :: (json option, string \<Rightarrow> string, unit informer) running) w1 w'. RunPlugin sample_libs (\<lambda>d. ret ()) sample_settings sample_node = (Inr (), w') \<and>
     checkpoint_of (dr_state (rd_driver d)) (\<lambda>c. c) w1 = Some (''boot-1'', Map.empty) \<and> w_cp w' = w_cp w1"
proof -
  obtain r w' where run: "RunPlugin sample_libs (\<lambda>d. ret ()) sample_settings sample_node = (r, w')" by fastforce
  with sample_plugin_run(1) have "\<nexists>e. r = Inl e" by auto
  with plugin_serves_this_boot [OF sample_plugin_run(4) run] obtain d w1 f' b v where
    start: "prepare_node sample_settings sample_node = (Inr f', v)" "NewDriver sample_libs f' v = (Inr d, w1)"
    and boot: "fst (GetCurrentBootID bootIDPath (w_fs v)) = Inr b"
    and cp: "checkpoint_of (dr_state (rd_driver d)) (\<lambda>c. c) w1 = Some (after_init b None)"
    and stop: "stoppable (w_kube w1) \<longrightarrow> r = Inr () \<and> w_cp w' = w_cp w1"
    by (auto simp: ret_def sample_node_def)
  have "b = ''boot-1''" using boot start(1) sample_plugin_run(2) by simp
  moreover have "stoppable (w_kube w1)" using sample_plugin_run(3) start by (simp add: sample_started_driver_def)
  ultimately have "checkpoint_of (dr_state (rd_driver d)) (\<lambda>c. c) w1 = Some (''boot-1'', Map.empty)"
    "r = Inr ()" "w_cp w' = w_cp w1" using cp stop by (simp_all add: after_init_def)
  with run show ?thesis by blast
qed

end
