(* ===== verification/CommandLine.thy ===== *)
theory CommandLine
  imports Process
begin

text \<open>
  The command line of the plugin (\<open>newApp\<close> in \<open>main.go\<close>, \<open>pkg/flags\<close>): its flags with their
  defaults, environment variables and destinations, and the clients made from the settings. The command
  line, flag, logging and client libraries are parameters; a pointer a flag writes through is the function that
  updates what it points to.
\<close>

section \<open>Settings\<close>

text \<open>What the flags write to: the plugin's own settings, the feature gates and the logging configuration.\<close>

record ('g, 'l) settings =
  se_flags :: Flags
  se_gates :: 'g
  se_logging :: 'l

section \<open>Flags\<close>

datatype flag_value =
    StringValue (string_of: string)
  | Float64Value (float_of: rat)
  | IntValue (integer_of: int)
  | GenericValue string

record 's cli_flag =
  fl_Category :: string
  fl_Name :: string
  fl_Aliases :: "string list"
  fl_EnvVars :: "string list"
  fl_Required :: bool
  fl_Value :: flag_value
  fl_Destination :: "flag_value \<Rightarrow> 's \<Rightarrow> 's"

definition StringFlag :: "string \<Rightarrow> string list \<Rightarrow> string list \<Rightarrow> string \<Rightarrow> (string \<Rightarrow> 's \<Rightarrow> 's) \<Rightarrow> 's cli_flag" where
  "StringFlag name aliases env v dest =
     \<lparr>fl_Category = '''', fl_Name = name, fl_Aliases = aliases, fl_EnvVars = env, fl_Required = False,
      fl_Value = StringValue v, fl_Destination = \<lambda>x. dest (string_of x)\<rparr>"

definition IntFlag :: "string \<Rightarrow> string list \<Rightarrow> int \<Rightarrow> (int \<Rightarrow> 's \<Rightarrow> 's) \<Rightarrow> 's cli_flag" where
  "IntFlag name env v dest =
     \<lparr>fl_Category = '''', fl_Name = name, fl_Aliases = [], fl_EnvVars = env, fl_Required = False,
      fl_Value = IntValue v, fl_Destination = \<lambda>x. dest (integer_of x)\<rparr>"

definition Float64Flag :: "string \<Rightarrow> string list \<Rightarrow> rat \<Rightarrow> (rat \<Rightarrow> 's \<Rightarrow> 's) \<Rightarrow> 's cli_flag" where
  "Float64Flag name env v dest =
     \<lparr>fl_Category = '''', fl_Name = name, fl_Aliases = [], fl_EnvVars = env, fl_Required = False,
      fl_Value = Float64Value v, fl_Destination = \<lambda>x. dest (float_of x)\<rparr>"

definition required :: "'s cli_flag \<Rightarrow> 's cli_flag" where
  "required f = f\<lparr>fl_Required := True\<rparr>"

text \<open>\<open>k\<close> stands for the pointer to the configuration.\<close>

definition KubeClientConfig_Flags :: "((KubeClientConfig \<Rightarrow> KubeClientConfig) \<Rightarrow> 's \<Rightarrow> 's) \<Rightarrow> 's cli_flag list" where
  "KubeClientConfig_Flags k =
     map (\<lambda>f. f\<lparr>fl_Category := ''Kubernetes client:''\<rparr>)
       [StringFlag ''kubeconfig'' [] [''KUBECONFIG''] '''' (\<lambda>x. k (KubeConfig_update (\<lambda>_. x))),
        Float64Flag ''kube-api-qps'' [''KUBE_API_QPS''] 5 (\<lambda>x. k (KubeAPIQPS_update (\<lambda>_. x))),
        IntFlag ''kube-api-burst'' [''KUBE_API_BURST''] 10 (\<lambda>x. k (KubeAPIBurst_update (\<lambda>_. x)))]"

text \<open>A flag of the library of Kubernetes: its name and the setter of its value.\<close>

record 's pflag =
  pf_Name :: string
  pf_Value :: string
  pf_Set :: "string \<Rightarrow> 's \<Rightarrow> 's"

fun generic_of :: "flag_value \<Rightarrow> string" where
  "generic_of (GenericValue v) = v"
| "generic_of _ = ''''"

definition upper_char :: "char \<Rightarrow> char" where
  "upper_char c = (if is_lower c then char_of ((of_char c :: nat) - 32) else c)"

definition pflagToCLI :: "'s pflag \<Rightarrow> string \<Rightarrow> 's cli_flag" where
  "pflagToCLI flag category =
     \<lparr>fl_Category = category, fl_Name = pf_Name flag, fl_Aliases = [],
      fl_EnvVars = [map upper_char (map (\<lambda>c. if c = CHR ''-'' then CHR ''_'' else c) (pf_Name flag))],
      fl_Required = False, fl_Value = GenericValue (pf_Value flag),
      fl_Destination = \<lambda>x. pf_Set flag (generic_of x)\<rparr>"

text \<open>\<open>gates\<close> is the current setting of the feature gates as text, \<open>setGates\<close> their setter.\<close>

definition FeatureGateConfig_Flags :: "string \<Rightarrow> (string \<Rightarrow> 's \<Rightarrow> 's) \<Rightarrow> 's cli_flag list" where
  "FeatureGateConfig_Flags gates setGates =
     map (\<lambda>f. pflagToCLI f ''Feature Gates:'') [\<lparr>pf_Name = ''feature-gates'', pf_Value = gates, pf_Set = setGates\<rparr>]"

definition LoggingConfig_Flags :: "'s pflag list \<Rightarrow> 's cli_flag list" where
  "LoggingConfig_Flags logFlags = map (\<lambda>f. pflagToCLI f ''Logging:'') logFlags"

section \<open>The application\<close>

text \<open>The flags, in the order of the code. \<open>registryDir\<close> and \<open>pluginsDir\<close> are constants of the kubelet
  plugin helper.\<close>

definition hostHookPathEnvVar :: string where
  "hostHookPathEnvVar = ''HAMI_HOST_HOOK_PATH''"

definition cliFlags :: "string \<Rightarrow> string \<Rightarrow> ((Flags \<Rightarrow> Flags) \<Rightarrow> 's \<Rightarrow> 's) \<Rightarrow> 's cli_flag list" where
  "cliFlags registryDir pluginsDir flags =
     [required (StringFlag ''node-name'' [] [''NODE_NAME''] '''' (\<lambda>x. flags (fg_nodeName_update (\<lambda>_. x)))),
      StringFlag ''namespace'' [] [''NAMESPACE''] ''default'' (\<lambda>x. flags (fg_namespace_update (\<lambda>_. x))),
      StringFlag ''cdi-root'' [] [''CDI_ROOT''] ''/etc/cdi'' (\<lambda>x. flags (fg_cdiRoot_update (\<lambda>_. x))),
      StringFlag ''nvidia-driver-root'' [''host_driver-root''] [''NVIDIA_DRIVER_ROOT'', ''HOST_DRIVER_ROOT''] ''/''
        (\<lambda>x. flags (fg_hostDriverRoot_update (\<lambda>_. x))),
      StringFlag ''container-driver-root'' [] [''DRIVER_ROOT_CTR_PATH''] ''/driver-root''
        (\<lambda>x. flags (fg_containerDriverRoot_update (\<lambda>_. x))),
      StringFlag ''host-hook-path'' [] [hostHookPathEnvVar] ''/usr/local'' (\<lambda>x. flags (fg_hostHookPath_update (\<lambda>_. x))),
      StringFlag ''nvidia-cdi-hook-path'' [] [''NVIDIA_CDI_HOOK_PATH''] ''''
        (\<lambda>x. flags (fg_nvidiaCDIHookPath_update (\<lambda>_. x))),
      required (StringFlag ''image-name'' [] [''IMAGE_NAME''] '''' (\<lambda>x. flags (fg_imageName_update (\<lambda>_. x)))),
      StringFlag ''kubelet-registrar-directory-path'' [] [''KUBELET_REGISTRAR_DIRECTORY_PATH''] registryDir
        (\<lambda>x. flags (fg_kubeletRegistrarDirectoryPath_update (\<lambda>_. x))),
      StringFlag ''kubelet-plugins-directory-path'' [] [''KUBELET_PLUGINS_DIRECTORY_PATH''] pluginsDir
        (\<lambda>x. flags (fg_kubeletPluginsDirectoryPath_update (\<lambda>_. x))),
      IntFlag ''healthcheck-port'' [''HEALTHCHECK_PORT''] (-1) (\<lambda>x. flags (fg_healthcheckPort_update (\<lambda>_. x))),
      StringFlag ''additional-xids-to-ignore'' [] [''ADDITIONAL_XIDS_TO_IGNORE''] ''''
        (\<lambda>x. flags (fg_additionalXidsToIgnore_update (\<lambda>_. x)))] @
     KubeClientConfig_Flags (\<lambda>upd. flags (fg_kubeClientConfig_update upd))"

text \<open>The libraries the application is built on: the feature gate registry and its text form, the flags of
  the logging library, and its validation.\<close>

record ('g, 'l) app_libs =
  al_registry :: "'g gate_registry"
  al_gatesString :: "'g \<Rightarrow> string"
  al_gatesSet :: "string \<Rightarrow> 'g \<Rightarrow> 'g"
  al_logFlags :: "'l pflag list"
  al_ValidateAndApply :: "'g \<Rightarrow> 'l \<Rightarrow> err + 'l"
  al_Verbosity :: "'l \<Rightarrow> int"
  al_registryDir :: string
  al_pluginsDir :: string

definition app_Flags :: "('g, 'l) app_libs \<Rightarrow> 'g \<Rightarrow> ('g, 'l) settings cli_flag list" where
  "app_Flags A gates =
     cliFlags (al_registryDir A) (al_pluginsDir A) se_flags_update @
     FeatureGateConfig_Flags (al_gatesString A gates) (\<lambda>x. se_gates_update (al_gatesSet A x)) @
     LoggingConfig_Flags (map (\<lambda>f. \<lparr>pf_Name = pf_Name f, pf_Value = pf_Value f,
        pf_Set = (\<lambda>x. se_logging_update (pf_Set f x))\<rparr>) (al_logFlags A))"

text \<open>The verbosity is recorded whether or not the logging configuration is accepted.\<close>

definition app_Before :: "('g, 'l) app_libs \<Rightarrow> string list \<Rightarrow> (('g, 'l) settings, unit) act" where
  "app_Before A args =
     (if args \<noteq> [] then throw (Err ''arguments not supported'')
      else
        seq (attempt (\<lambda>s. case al_ValidateAndApply A (se_gates s) (se_logging s) of
                            Inl e \<Rightarrow> (Inl (Failed e), s)
                          | Inr l \<Rightarrow> (Inr (), s\<lparr>se_logging := l\<rparr>))) (\<lambda>err.
        seq (modify (\<lambda>s. s\<lparr>se_flags := (se_flags s)\<lparr>fg_klogVerbosity := al_Verbosity A (se_logging s)\<rparr>\<rparr>)) (\<lambda>_.
        case err of Inl e \<Rightarrow> throw e | Inr _ \<Rightarrow> ret ())))"

section \<open>Clients\<close>

text \<open>A REST configuration with the two limits the plugin sets; the rest of it is \<open>'r\<close>. \<open>ca_float32\<close>
  rounds to the width of the field.\<close>

record 'r rest_config =
  cs_rest :: 'r
  cs_QPS :: rat
  cs_Burst :: int

record ('r, 'core, 'dra, 'nv) client_api =
  ca_InClusterConfig :: "err + 'r rest_config"
  ca_BuildConfigFromFlags :: "string \<Rightarrow> string \<Rightarrow> err + 'r rest_config"
  ca_float32 :: "rat \<Rightarrow> rat"
  ca_NewCore :: "'r rest_config \<Rightarrow> err + 'core"
  ca_NewNvidia :: "'r rest_config \<Rightarrow> err + 'nv"
  ca_NewDra :: "'core \<Rightarrow> 'dra"

record ('core, 'dra, 'nv) ClientSets =
  cl_Resource :: 'dra
  cl_Core :: 'core
  cl_Nvidia :: 'nv

fun of_entry :: "err + 'a \<Rightarrow> 'a res" where
  "of_entry (Inl e) = Inl (Failed e)"
| "of_entry (Inr x) = Inr x"

definition NewClientSetConfig :: "('r, 'core, 'dra, 'nv) client_api \<Rightarrow> KubeClientConfig \<Rightarrow> 'r rest_config res" where
  "NewClientSetConfig C k =
     res_seq
       (if KubeConfig k = '''' then wrap_res ''create in-cluster client configuration'' (of_entry (ca_InClusterConfig C))
        else wrap_res ''create out-of-cluster client configuration'' (of_entry (ca_BuildConfigFromFlags C '''' (KubeConfig k))))
       (\<lambda>csconfig. Inr (csconfig\<lparr>cs_QPS := ca_float32 C (KubeAPIQPS k), cs_Burst := KubeAPIBurst k\<rparr>))"

definition NewClientSets :: "('r, 'core, 'dra, 'nv) client_api \<Rightarrow> KubeClientConfig \<Rightarrow> ('core, 'dra, 'nv) ClientSets res" where
  "NewClientSets C k =
     res_seq (wrap_res ''create client configuration'' (NewClientSetConfig C k)) (\<lambda>csconfig.
     res_seq (wrap_res ''create core client'' (of_entry (ca_NewCore C csconfig))) (\<lambda>coreclient.
     res_seq (wrap_res ''create nvidia client'' (of_entry (ca_NewNvidia C csconfig))) (\<lambda>nvclient.
     Inr \<lparr>cl_Resource = ca_NewDra C coreclient, cl_Core = coreclient, cl_Nvidia = nvclient\<rparr>)))"

section \<open>From the command line to the plugin\<close>

record ('g, 'l, 'w) app_world =
  aw_settings :: "('g, 'l) settings"
  aw_plugin :: 'w

definition app_Action ::
    "('g, 'l) app_libs \<Rightarrow> ('r, 'core, 'dra, 'nv) client_api \<Rightarrow>
     (Flags \<Rightarrow> ('core, 'dra, 'nv) ClientSets \<Rightarrow> ('w, unit) act) \<Rightarrow> (('g, 'l, 'w) app_world, unit) act" where
  "app_Action A C plugin =
     seq (gets aw_settings) (\<lambda>s.
     let Enabled = (\<lambda>f. gr_Enabled (al_registry A) (se_gates s) (feature_name f)) in
     seq (wrapping ''feature gate validation failed''
           (case ValidateFeatureGates Enabled of Some e \<Rightarrow> throw e | None \<Rightarrow> ret ())) (\<lambda>_.
     seq (wrapping ''create client'' (lift_res (NewClientSets C (fg_kubeClientConfig (se_flags s))))) (\<lambda>clientSets.
     on aw_plugin (\<lambda>w. aw_plugin_update (\<lambda>_. w)) (plugin (se_flags s) clientSets))))"

text \<open>The command line library reads the arguments (\<open>parse\<close>), then runs \<open>Before\<close> and \<open>Action\<close>; \<open>After\<close> only
  flushes the log.\<close>

definition app_Run ::
    "('g, 'l) app_libs \<Rightarrow> ('r, 'core, 'dra, 'nv) client_api \<Rightarrow>
     (('g, 'l) settings cli_flag list \<Rightarrow> string list \<Rightarrow> (('g, 'l) settings, string list) act) \<Rightarrow>
     (Flags \<Rightarrow> ('core, 'dra, 'nv) ClientSets \<Rightarrow> ('w, unit) act) \<Rightarrow> string list \<Rightarrow> (('g, 'l, 'w) app_world, unit) act" where
  "app_Run A C parse plugin osArgs =
     seq (on aw_settings (\<lambda>s. aw_settings_update (\<lambda>_. s))
            (seq (gets se_gates) (\<lambda>gates. seq (parse (app_Flags A gates) osArgs) (app_Before A)))) (\<lambda>_.
     app_Action A C plugin)"

text \<open>\<open>main\<close>: the exit status of the process, 1 after any error. The libraries of the plugin are made from the client
  sets.\<close>

definition main_plugin ::
    "('g, 'l) app_libs \<Rightarrow> ('r, 'core, 'dra, 'nv) client_api \<Rightarrow>
     (('g, 'l) settings cli_flag list \<Rightarrow> string list \<Rightarrow> (('g, 'l) settings, string list) act) \<Rightarrow>
     (('core, 'dra, 'nv) ClientSets \<Rightarrow> ('c, 'n, 'k, 'log, 'lib, 'v) plugin_libs) \<Rightarrow>
     (('c, 'n, 'k informer) running \<Rightarrow> (('c, 'n, 'k informer) world, unit) act) \<Rightarrow> string list \<Rightarrow>
     (('g, 'l, ('c, 'n, 'k informer) world) app_world, nat) act" where
  "main_plugin A C parse libs serve osArgs =
     seq (attempt (app_Run A C parse (\<lambda>f clientSets. RunPlugin (libs clientSets) serve f) osArgs)) (\<lambda>r.
     ret (case r of Inl _ \<Rightarrow> 1 | Inr _ \<Rightarrow> 0))"

section \<open>What the settings are\<close>

text \<open>The library gives every flag one value, from the arguments, the environment or the default.\<close>

definition set_flags :: "('s cli_flag \<Rightarrow> flag_value) \<Rightarrow> 's cli_flag list \<Rightarrow> 's \<Rightarrow> 's" where
  "set_flags value fs = fold (\<lambda>f. fl_Destination f (value f)) fs"

text \<open>No two flags share a name, an alias or an environment variable.\<close>

lemma flags_distinct:
  "distinct (concat (map (\<lambda>f. fl_Name f # fl_Aliases f) (cliFlags r p flags)))"
  "distinct (concat (map fl_EnvVars (cliFlags r p flags)))"
  by (simp_all add: cliFlags_def KubeClientConfig_Flags_def StringFlag_def IntFlag_def Float64Flag_def required_def
      hostHookPathEnvVar_def)

text \<open>Every setting but the log verbosity is that of its own flag.\<close>

lemma flags_reach_settings:
  "set_flags (\<lambda>f. value (fl_Name f)) (cliFlags r p id) s =
     \<lparr>fg_kubeClientConfig = \<lparr>KubeConfig = string_of (value ''kubeconfig''),
        KubeAPIQPS = float_of (value ''kube-api-qps''), KubeAPIBurst = integer_of (value ''kube-api-burst'')\<rparr>,
      fg_nodeName = string_of (value ''node-name''), fg_namespace = string_of (value ''namespace''),
      fg_cdiRoot = string_of (value ''cdi-root''),
      fg_containerDriverRoot = string_of (value ''container-driver-root''),
      fg_hostDriverRoot = string_of (value ''nvidia-driver-root''),
      fg_hostHookPath = string_of (value ''host-hook-path''),
      fg_nvidiaCDIHookPath = string_of (value ''nvidia-cdi-hook-path''),
      fg_imageName = string_of (value ''image-name''),
      fg_kubeletRegistrarDirectoryPath = string_of (value ''kubelet-registrar-directory-path''),
      fg_kubeletPluginsDirectoryPath = string_of (value ''kubelet-plugins-directory-path''),
      fg_healthcheckPort = integer_of (value ''healthcheck-port''),
      fg_klogVerbosity = fg_klogVerbosity s,
      fg_additionalXidsToIgnore = string_of (value ''additional-xids-to-ignore'')\<rparr>"
  by (simp add: set_flags_def cliFlags_def KubeClientConfig_Flags_def StringFlag_def IntFlag_def Float64Flag_def
      required_def)

lemma app_Before_ok:
  assumes "app_Before A args s = (Inr u, s')"
  shows "args = [] \<and> se_gates s' = se_gates s"
  using assms by (auto simp: app_Before_def act_defs split: prod.splits sum.splits if_splits)

lemma app_Action_cases:
  assumes "app_Action A C plugin w = (r, w')"
  shows "isl r \<and> aw_plugin w' = aw_plugin w \<or>
     (\<exists>clients. aw_settings w' = aw_settings w \<and>
        ValidateFeatureGates (\<lambda>f. gr_Enabled (al_registry A) (se_gates (aw_settings w)) (feature_name f)) = None \<and>
        NewClientSets C (fg_kubeClientConfig (se_flags (aw_settings w))) = Inr clients \<and>
        plugin (se_flags (aw_settings w)) clients (aw_plugin w) = (r, aw_plugin w'))"
  using assms
  by (cases "NewClientSets C (fg_kubeClientConfig (se_flags (aw_settings w)))")
     (auto simp: app_Action_def act_defs on_def Let_def wrap_res_Inr split: option.splits sum.splits prod.splits
       elim!: wrap_res.elims)


text \<open>A concrete application: the gates are the names of the enabled features, every client can be made, the
  command line gives the node's name, and the plugin records it.\<close>

definition ref_registry :: "string list gate_registry" where
  "ref_registry =
     \<lparr>gr_New = (\<lambda>v. []), gr_AddLogging = Inr,
      gr_AddVersioned = (\<lambda>specs g. Inr (map fst (filter (\<lambda>(f, s). fs_Default s) specs) @ g)),
      gr_SetFromMap = (\<lambda>m g. Inr (map fst (filter snd m) @ g)), gr_Enabled = (\<lambda>g f. f \<in> set g), gr_GetAll = id\<rparr>"

definition ref_app :: "(string list, unit) app_libs" where
  "ref_app =
     \<lparr>al_registry = ref_registry, al_gatesString = (\<lambda>g. ''''), al_gatesSet = (\<lambda>x g. x # g), al_logFlags = [],
      al_ValidateAndApply = (\<lambda>g l. Inr l), al_Verbosity = (\<lambda>l. 4), al_registryDir = ''/registry'', al_pluginsDir = ''/plugins''\<rparr>"

definition ref_clients :: "(unit, unit, unit, unit) client_api" where
  "ref_clients =
     \<lparr>ca_InClusterConfig = Inr \<lparr>cs_rest = (), cs_QPS = 0, cs_Burst = 0\<rparr>,
      ca_BuildConfigFromFlags = (\<lambda>u p. Inl (Err ''no file'')), ca_float32 = id,
      ca_NewCore = (\<lambda>c. Inr ()), ca_NewNvidia = (\<lambda>c. Inr ()), ca_NewDra = id\<rparr>"

definition ref_parse :: "(string list, unit) settings cli_flag list \<Rightarrow> string list \<Rightarrow> ((string list, unit) settings, string list) act" where
  "ref_parse fs osArgs s = (Inr [], set_flags (\<lambda>f. if fl_Required f then StringValue (concat osArgs) else fl_Value f)
     (take 15 fs) s)"

definition ref_settings :: "(string list, unit) settings" where
  "ref_settings =
     \<lparr>se_flags = \<lparr>fg_kubeClientConfig = \<lparr>KubeConfig = '''', KubeAPIQPS = 0, KubeAPIBurst = 0\<rparr>, fg_nodeName = '''',
        fg_namespace = '''', fg_cdiRoot = '''', fg_containerDriverRoot = '''', fg_hostDriverRoot = '''', fg_hostHookPath = '''',
        fg_nvidiaCDIHookPath = '''', fg_imageName = '''', fg_kubeletRegistrarDirectoryPath = '''',
        fg_kubeletPluginsDirectoryPath = '''', fg_healthcheckPort = 0, fg_klogVerbosity = 0, fg_additionalXidsToIgnore = ''''\<rparr>,
      se_gates = [''HAMiCoreSupport'', ''IMEXDaemonsWithDNSNames'', ''CrashOnNVLinkFabricErrors''], se_logging = ()\<rparr>"

definition ref_plugin :: "Flags \<Rightarrow> (unit, unit, unit) ClientSets \<Rightarrow> (string list, unit) act" where
  "ref_plugin f clients = modify (Cons (fg_nodeName f))"

lemmas ref_app_defs = ref_registry_def ref_app_def ref_clients_def ref_parse_def ref_settings_def ref_plugin_def


end
