(* ===== verification/Debugging.thy ===== *)
theory Debugging
  imports FileSys
begin

text \<open>
  The debug signal handler (\<open>StartDebugSignalHandlers\<close> in \<open>pkg/common/util.go\<close>): on each signal it writes the
  goroutine stacks to a file, or to the standard error stream when the file cannot be written. The text of
  the stacks is what \<open>runtime.Stack\<close> would write into a buffer without a bound.
\<close>

section \<open>The dump\<close>

definition dumpPath :: path where
  "dumpPath = [''tmp'', ''goroutine-stacks.dump'']"

definition buffer_size :: nat where
  "buffer_size = 1024 * 1024 * 2"

definition truncation_warning :: string where
  "truncation_warning = [CHR 0x0A, CHR 0x0A] @ ''warning: runtime.Stack() output may be truncated''"

text \<open>\<open>make\<close> fills the buffer with zero bytes, \<open>runtime.Stack\<close> overwrites its start; \<open>append\<close> goes on at the length of
  the buffer, not where the text ends.\<close>

definition dump_text :: "nat \<Rightarrow> string \<Rightarrow> string" where
  "dump_text n stacks =
     (let written = min (length stacks) n;
          buf = take n stacks @ replicate (n - written) (CHR 0x00);
          (buf, written) =
            (if int written > int n - 5000 then (buf @ truncation_warning, written + length truncation_warning)
             else (buf, written))
      in take written buf)"

record dump_world =
  du_fs :: fs
  du_stderr :: string

definition dump_on_signal :: "string \<Rightarrow> (dump_world, unit) act" where
  "dump_on_signal stacks =
     (let text = dump_text buffer_size stacks in
      seq (attempt (on du_fs (\<lambda>s. du_fs_update (\<lambda>_. s)) (os_WriteFile dumpPath text))) (\<lambda>err.
      case err of
        Inr _ \<Rightarrow> ret ()
      | Inl _ \<Rightarrow> modify (du_stderr_update (\<lambda>out. out @ [CHR 0x0A] @ text @ [CHR 0x0A]))))"

text \<open>The handler's loop, given the stacks at each signal.\<close>

definition StartDebugSignalHandlers :: "string list \<Rightarrow> (dump_world, unit) act" where
  "StartDebugSignalHandlers signals = each dump_on_signal signals"

section \<open>What a dump holds\<close>

lemma dump_fits: "length stacks + 5000 \<le> n \<Longrightarrow> dump_text n stacks = stacks"
  by (simp add: dump_text_def Let_def)

lemma dump_truncated: "n \<le> length stacks \<Longrightarrow> dump_text n stacks = take n stacks @ truncation_warning"
  by (simp add: dump_text_def Let_def min_absorb2)

text \<open>The warning is lost when the text ends before the buffer does: in its place there are zero bytes.\<close>

theorem truncation_warning_lost:
  assumes "n < length stacks + 5000" and "length stacks + length truncation_warning \<le> n"
  shows "dump_text n stacks = stacks @ replicate (length truncation_warning) (CHR 0x00)"
proof -
  have "length stacks \<le> n" "length truncation_warning \<le> n - length stacks" using assms(2) by simp_all
  with assms(1) show ?thesis by (simp add: dump_text_def Let_def min_absorb1 min_absorb2)
qed

theorem truncation_warning_lost_witness:
  "CHR ''w'' \<notin> set (dump_text buffer_size (replicate (buffer_size - 100) (CHR ''x'')))"
proof -
  have size: "buffer_size = 2097152" by (simp add: buffer_size_def)
  have "length truncation_warning \<le> 100" by (simp add: truncation_warning_def)
  then have "length (replicate (buffer_size - 100) (CHR ''x'')) + length truncation_warning \<le> buffer_size"
    unfolding size length_replicate by linarith
  moreover have "buffer_size < length (replicate (buffer_size - 100) (CHR ''x'')) + 5000"
    unfolding size length_replicate by simp
  ultimately show ?thesis by (simp add: truncation_warning_lost del: replicate.simps)
qed

text \<open>A signal leaves the dump in the file or on the standard error stream, and the handler goes on.\<close>

lemma WriteFile_no_panic: "fst (os_WriteFile p c w) \<noteq> Inl (Panicked m)"
  by (auto simp: os_WriteFile_def fs_call_def split: option.split prod.split sum.split node.split err.split)

lemma dump_on_signal_ok:
  "\<exists>w'. dump_on_signal stacks w = (Inr (), w') \<and>
     (if isl (fst (os_WriteFile dumpPath (dump_text buffer_size stacks) (du_fs w)))
      then du_stderr w' = du_stderr w @ [CHR 0x0A] @ dump_text buffer_size stacks @ [CHR 0x0A]
      else du_stderr w' = du_stderr w \<and> du_fs w' = snd (os_WriteFile dumpPath (dump_text buffer_size stacks) (du_fs w)))"
proof (cases "os_WriteFile dumpPath (dump_text buffer_size stacks) (du_fs w)")
  case (Pair r s)
  with WriteFile_no_panic [of dumpPath "dump_text buffer_size stacks" "du_fs w"] show ?thesis
    by (cases r rule: attempt_res.cases) (auto simp: dump_on_signal_def Let_def act_defs on_def)
qed

end
