(* ===== verification/Spec2Isabelle.thy ===== *)
theory Spec2Isabelle
  imports HamiPods HamiLimits HamiInformer DeviceEffects Requests CdiIds MigTeardown Announcements Cleanup CommandLine Debugging
begin

text \<open>
  The HAMi DRA driver for Kubernetes, the kubelet plugin of \<open>cmd/hami-kubelet-plugin\<close>.

  \<^bold>\<open>The program.\<close> The plugin discovers the GPUs of a node with NVML (\<open>nvlib.go\<close>) and announces them, their MIG
  partitions or their passthrough form as resource slices (\<open>driver.go\<close>, \<open>partitions.go\<close>). The kubelet asks it to
  prepare and unprepare the claims of Pods (\<open>device_state.go\<close>): the devices are configured (time slices, MPS,
  HAMi-Core, passthrough, MIG devices made on demand), a CDI spec file tells the container runtime what to
  inject (\<open>cdi.go\<close>), and a checkpoint file records which claims are begun and which are ready
  (\<open>checkpoint.go\<close>). A health monitor withdraws devices (\<open>device_health.go\<close>), a cleanup removes
  claims that were begun and whose object is gone (\<open>cleanup.go\<close>).

  \<^bold>\<open>Conventions.\<close> A Go struct is a record, a tagged struct of pointers a record of options, a map an association
  list with distinct keys (the order of the list is the order of iteration, over which the theorems quantify;
  JSON objects and Kubernetes maps likewise), an int an int, a machine integer that is stored or does arithmetic on
  sizes a word. An error is a value that keeps its chain of wraps; a call returns \<open>error + result\<close> and
  the new state, a panic is the error \<open>Panic\<close>, which no wrap hides (\<open>Prelude\<close>). Effects run on the world of
  \<open>World\<close>: the checkpoint file and its lock, the allocatable devices, the file system, NVML, and the Kubernetes
  API. Libraries (NVML and nvlib, nvcdi and the spec cache, the checkpoint manager, the client
  set, the file lock, exec, the flag parser) are records of functions the operations take; what a property
  needs of them is a named hypothesis that restates their documentation, and each such property has a
  theorem at a concrete library.
\<close>

section \<open>Theories and sources\<close>

text \<open>
  File names are those of \<open>cmd/hami-kubelet-plugin\<close> unless a directory is given.

  \<^bold>\<open>Language and libraries.\<close>
  \<^item> \<open>Prelude\<close>: errors, sequenced computations with their rewrite rules (\<open>seq_Inr\<close>, \<open>wrapping_Inr\<close>),
    assertions a computation keeps (\<open>keeps_intros\<close>) and computations on one part of the world; maps.
  \<^item> \<open>GoStrings\<close>: \<open>strings\<close>, \<open>strconv\<close> and \<open>fmt\<close>; decimal numbers and splitting, with their round trips.
  \<^item> \<open>FileSys\<close>: the calls of \<open>os\<close> and \<open>path/filepath\<close> the plugin makes, on a map from link-free paths to
    nodes with injected faults; which paths a call may change; well-formed trees.
  \<^item> \<open>ApiTypes\<close>: the data of the Kubernetes, CDI and NVML libraries. \<open>Json\<close>: what \<open>encoding/json\<close>
    does with struct tags.
  \<^item> \<open>Runs\<close>: the locales of a step relation with an invariant and of a simulation between two of them.

  \<^bold>\<open>Data model.\<close>
  \<^item> \<open>MigNames\<close> (\<open>mig.go\<close>): tuples, canonical names and their parser. \<open>DeviceInfo\<close> (\<open>deviceinfo.go\<close>): the
    description of each kind of device. \<open>Allocatable\<close> (\<open>allocatable.go\<close>): the tagged struct, the map
    of devices and its invariant \<open>wf_allocatable\<close> (every entry under its own name). \<open>Prepared\<close>
    (\<open>prepared.go\<close>). \<open>Partitions\<close> (\<open>partitions.go\<close>): shared counters and what devices consume of them.
  \<^item> \<open>Checkpoint\<close>, \<open>CheckpointStore\<close>, \<open>CheckpointOps\<close> (\<open>checkpoint.go\<close>, \<open>checkpointv.go\<close>, the checkpoint part
    of \<open>device_state.go\<close>): format, checksums, and the operations. \<open>claim_store\<close> is the interface the rest of
    the plugin relies on: fetching after an update gives the updated claims, a failed call changes nothing.
    Its interpretation \<open>checkpoint\<close> proves this of the modelled code.
  \<^item> \<open>FeatureGates\<close> (\<open>pkg/featuregates\<close>).

  \<^bold>\<open>Devices.\<close>
  \<^item> \<open>NvLib\<close>, \<open>NvEnum\<close> (\<open>nvlib.go\<close>): NVML sessions, MIG devices, enumeration, \<open>nvidia-smi\<close>. \<open>Discovery\<close> proves what
    enumeration yields. \<open>Triples\<close> is a
    logic of triples for the computations, \<open>MigHardware\<close> states what NVML documents of MIG devices (\<open>nvml_laws\<close>) and
    \<open>MigTeardown\<close> proves which of them the teardown at startup destroys. \<open>DriverRoot\<close> (\<open>root.go\<close>, \<open>newDeviceLib\<close>). \<open>Vfio\<close> (\<open>vfio-device.go\<close>). \<open>Sharing\<close> (\<open>sharing.go\<close>),
    with the interface \<open>uuid_provider\<close> (Go's \<open>UUIDProvider\<close>) and its two implementations.
  \<^item> \<open>Cdi\<close>, \<open>CdiHandler\<close> (\<open>cdi.go\<close>, \<open>cdioptions.go\<close>, \<open>pkg/common/nvcaps.go\<close>). \<open>CdiIds\<close>: from Prepare to the file.
  \<^item> \<open>HamiCore\<close> (\<open>hami_core.go\<close>): Pods and containers, cache directories, edits. \<open>HamiPods\<close>, \<open>HamiCache\<close> and
    \<open>HamiLimits\<close> prove its parts; \<open>HamiInformer\<close> is the life of its Pod informer.

  \<^bold>\<open>Operations.\<close>
  \<^item> \<open>Configs\<close> (configuration selection), \<open>DeviceState\<close> (\<open>Prepare\<close>, \<open>Unprepare\<close>, rollback, start and
    health in \<open>device_state.go\<close>, \<open>pkg/bootid\<close>). \<open>DeviceOps\<close>: their effect on the checkpoint on every branch.
    \<open>Lifecycle\<close>: the runs of the plugin with restarts, the machine on claims they refine, and the abstract
    machine with a phase per claim. \<open>Requests\<close> and \<open>DeviceEffects\<close> state the properties.
  \<^item> \<open>Driver\<close>, \<open>DriverOps\<close>, \<open>Announcements\<close> (\<open>driver.go\<close>). \<open>DeviceHealth\<close> (\<open>device_health.go\<close>), with the monitor and its channel
    as a step relation. \<open>Cleanup\<close> (\<open>cleanup.go\<close>), with the locale \<open>stale_cleanup\<close> for one run over any unprepare
    callback, and worker and ticker as a step relation.
  \<^item> \<open>HealthCheck\<close> (\<open>health.go\<close>). \<open>Startup\<close> (\<open>NewDriver\<close> and \<open>Shutdown\<close> in \<open>driver.go\<close>): the settings, the
    constructors of the parts as \<open>NewDeviceState\<close> calls them (the record \<open>constructors\<close>, filled by
    \<open>state_constructors\<close> from \<open>DriverRoot\<close>, \<open>CdiHandler\<close>, \<open>HamiInformer\<close> and the settings), and the cleanup manager.
    \<open>Process\<close> (\<open>RunPlugin\<close> in \<open>main.go\<close>, \<open>mutex.go\<close>) runs it, \<open>CommandLine\<close> (\<open>main.go\<close>, \<open>pkg/flags\<close>) is the rest of
    the way from the command line, \<open>Debugging\<close> (\<open>pkg/common/util.go\<close>) the handler of the debug signal.
  \<^item> \<open>Samples\<close>, \<open>SamplePlugin\<close>: concrete libraries and a concrete plugin for theorems at a concrete input.
\<close>

section \<open>What is shown\<close>

text \<open>
  \<^item> Claims over all histories of requests, failures, crashes and restarts (\<open>Requests\<close>): no device in two completed
    claims, stored claims are well typed, answers are stable, and the histories refine a machine with the phases absent,
    begun and ready. These compose the lemmas of \<open>DeviceOps\<close> (one request) with the invariants of \<open>Lifecycle\<close> (rule
    induction over \<open>plugin_step\<close> and \<open>claim_step\<close>).
  \<^item> One request: the outcome of Prepare and Unprepare on every branch, one device per result, the refusal of
    overlaps, rollback that spares devices in use, CDI IDs that resolve, released directories.
  \<^item> Starting: MIG devices of ready claims survive the teardown, unexpected ones are gone when it succeeds, and MIG mode is
    left only on GPUs without MIG devices. The driver serves only with a checkpoint of the current boot
    (\<open>Process\<close>, from \<open>NewDeviceState_boot\<close> in \<open>Lifecycle\<close>), and a shutdown never fails.
  \<^item> Announcements: equal contents of both slice layouts, withdrawal of unhealthy devices, counters that exclude
    overlapping partitions, names and grouping of what is discovered.
  \<^item> Formats: checkpoint, versions, MIG names (round trips and the equivalence of the name parser with
    the regular expression).
  \<^item> Background work: the monitor is never stuck, the cleanup removes only what is stale and stops, the informer is
    stopped once, the plugin starts only with checked gates and clients; the stack dump loses its warning.
\<close>

section \<open>Bounds and fuel\<close>

text \<open>
  \<^item> \<open>EvalSymlinks\<close> follows at most 255 links and then fails, as Go does; \<open>Stat\<close> and the other calls of the kernel
    at most 40 (ELOOP). The fuel is the limit of the program itself, so no result is lost.
  \<^item> Retrying a conflicting label update is bounded by the steps of the backoff (\<open>retries\<close> in \<open>HamiPods\<close>);
    the theorems hold for every bound.
  \<^item> The queue of the cleanup holds one entry, the channel of the monitor as many as there are devices.
  \<^item> All other loops are structural recursion over lists.
\<close>

section \<open>Not modelled\<close>

text \<open>
  \<^item> Log messages and the numbers they print; the two version strings set at link time (\<open>pkg/version\<close>).
  \<^item> Goroutines as such: the lock of the driver makes the requests atomic steps; where an interleaving matters (cleanup,
    monitor) it is a step relation. Waiting for a goroutine to end has no state. Time is an event (the tick) or an
    answer of a parameter (a timeout).
  \<^item> gRPC, sockets and the delivery of signals: calls of the kubelet plugin helper and the health server are parameters,
    and what the driver does between start and signal is an argument of \<open>RunPlugin\<close>; the theorems hold for all of them.
  \<^item> Aliasing of Go slices: a slice is a list. \<open>CreateClaimSpecFile\<close> appends to slices of cached specs, whose spare
    capacity another device of the claim may share; the model appends to a copy.
  \<^item> The vendored configuration API (\<open>api/\<close> of the NVIDIA driver), Kubernetes, NVML, nvcdi: parameters, as above.
\<close>

end
